(* ===== verification/Prelude.thy ===== *)
theory Prelude
  imports Complex_Main "HOL-Library.AList" "HOL-Library.Sublist"
begin

section \<open>Prelude: shared vocabulary and automation\<close>

text \<open>
  Generic facts the components share: the text operations of Python's \<open>str\<close> that the
  source uses (on ASCII text), association lists as Python dictionaries, and the
  collection \<open>store_simps\<close> that drives the proofs about the key-value store.
\<close>

named_theorems store_simps \<open>rewriting a store operation under the abstraction function\<close>
named_theorems field_lookup \<open>look-ups in the literal field lists of the scripts\<close>

subsection \<open>Text\<close>

type_synonym key = string
type_synonym str = string

text \<open>ASCII whitespace as \<open>str.strip()\<close> removes it.\<close>

definition is_space :: "char \<Rightarrow> bool" where
  "is_space c \<longleftrightarrow> (let n = of_char c :: nat in (9 \<le> n \<and> n \<le> 13) \<or> (28 \<le> n \<and> n \<le> 32))"

definition py_strip :: "str \<Rightarrow> str" where
  "py_strip xs = rev (dropWhile is_space (rev (dropWhile is_space xs)))"

definition lower_char :: "char \<Rightarrow> char" where
  "lower_char c = (let n = of_char c :: nat in if 65 \<le> n \<and> n \<le> 90 then char_of (n + 32) else c)"

definition py_lower :: "str \<Rightarrow> str" where
  "py_lower = map lower_char"

definition upper_char :: "char \<Rightarrow> char" where
  "upper_char c = (let n = of_char c :: nat in if 97 \<le> n \<and> n \<le> 122 then char_of (n - 32) else c)"

definition py_upper :: "str \<Rightarrow> str" where
  "py_upper = map upper_char"

text \<open>\<open>needle in text\<close>\<close>

fun py_in :: "str \<Rightarrow> str \<Rightarrow> bool" where
  "py_in p [] \<longleftrightarrow> p = []"
| "py_in p (c # cs) \<longleftrightarrow> prefix p (c # cs) \<or> py_in p cs"

text \<open>\<open>text.partition("|")\<close> for a one-character separator: the part before the first
  separator, whether there is one, and the part after it.\<close>

definition py_partition :: "char \<Rightarrow> str \<Rightarrow> str \<times> bool \<times> str" where
  "py_partition c xs =
     (let a = takeWhile (\<lambda>x. x \<noteq> c) xs; b = dropWhile (\<lambda>x. x \<noteq> c) xs
      in (a, b \<noteq> [], tl b))"

lemma py_partition_entry:
  assumes "c \<notin> set a"
  shows "py_partition c (a @ c # b) = (a, True, b)"
proof -
  have all: "\<And>x. x \<in> set a \<Longrightarrow> x \<noteq> c" using assms by auto
  show ?thesis
    by (simp add: py_partition_def Let_def all)
qed

lemma entry_inject:
  fixes c :: char
  assumes "c \<notin> set a" and "c \<notin> set a'" and "a @ c # b = a' @ c # b'"
  shows "a = a' \<and> b = b'"
proof -
  have "(a, True, b) = (a', True, b')"
    using assms py_partition_entry by metis
  then show ?thesis by simp
qed

subsection \<open>Digits\<close>

fun nat_digits :: "nat \<Rightarrow> str" where
  "nat_digits n =
     (if n < 10 then [char_of (48 + n)] else nat_digits (n div 10) @ [char_of (48 + n mod 10)])"

declare nat_digits.simps [simp del]

definition int_text :: "int \<Rightarrow> str" where
  "int_text i = (if i < 0 then CHR ''-'' # nat_digits (nat (- i)) else nat_digits (nat i))"

definition is_digit :: "char \<Rightarrow> bool" where
  "is_digit c \<longleftrightarrow> (let n = of_char c :: nat in 48 \<le> n \<and> n \<le> 57)"

definition digits_value :: "str \<Rightarrow> nat" where
  "digits_value xs = foldl (\<lambda>a c. 10 * a + (of_char c - 48)) 0 xs"

lemma digits_value_snoc: "digits_value (xs @ [c]) = 10 * digits_value xs + (of_char c - 48)"
  by (simp add: digits_value_def)

lemma of_char_digit: "n < 10 \<Longrightarrow> of_char (char_of (48 + n) :: char) = (48 + n :: nat)"
  by simp

lemma nat_digits_digit: "c \<in> set (nat_digits n) \<Longrightarrow> is_digit c"
proof (induction n rule: nat_digits.induct)
  case (1 n)
  show ?case
  proof (cases "n < 10")
    case True
    with "1.prems" have "c = char_of (48 + n)" by (simp add: nat_digits.simps [of n])
    with True show ?thesis by (simp add: is_digit_def of_char_digit Let_def)
  next
    case False
    have "of_char (char_of (48 + n mod 10) :: char) = (48 + n mod 10 :: nat)"
      by (rule of_char_digit) simp
    with False "1.prems" "1.IH" show ?thesis
      by (auto simp: nat_digits.simps [of n] is_digit_def Let_def)
  qed
qed

lemma digits_value_nat_digits: "digits_value (nat_digits n) = n"
proof (induction n rule: nat_digits.induct)
  case (1 n)
  show ?case
  proof (cases "n < 10")
    case True
    then show ?thesis
      by (simp add: nat_digits.simps [of n] digits_value_def of_char_digit)
  next
    case False
    have m: "of_char (char_of (48 + n mod 10) :: char) = (48 + n mod 10 :: nat)"
      by (rule of_char_digit) simp
    from False show ?thesis
      by (simp add: nat_digits.simps [of n] digits_value_snoc "1.IH" m)
  qed
qed

lemma nat_digits_nonempty: "nat_digits n \<noteq> []"
  by (simp add: nat_digits.simps [of n])

text \<open>\<open>int(text)\<close> for a decimal literal with an optional sign; \<open>None\<close> is \<open>ValueError\<close>.\<close>

definition parse_int :: "str \<Rightarrow> int option" where
  "parse_int raw =
     (let xs = py_strip raw;
          neg = (case xs of c # _ \<Rightarrow> c = CHR ''-'' | [] \<Rightarrow> False);
          ds = (case xs of c # cs \<Rightarrow> if c = CHR ''-'' \<or> c = CHR ''+'' then cs else xs | [] \<Rightarrow> [])
      in if ds \<noteq> [] \<and> list_all is_digit ds
         then Some (if neg then - int (digits_value ds) else int (digits_value ds)) else None)"

subsection \<open>Lists and association lists\<close>

text \<open>\<open>LREM key count value\<close> with a positive count removes the first occurrences from the head.\<close>

fun remove_n :: "nat \<Rightarrow> 'a \<Rightarrow> 'a list \<Rightarrow> 'a list" where
  "remove_n 0 x xs = xs"
| "remove_n (Suc n) x [] = []"
| "remove_n (Suc n) x (y # ys) = (if x = y then remove_n n x ys else y # remove_n (Suc n) x ys)"

lemma remove_n_1 [simp]: "remove_n (Suc 0) x xs = remove1 x xs"
  by (induction xs) auto

lemma mem_remove1_other [simp]: "x \<noteq> y \<Longrightarrow> x \<in> set (remove1 y xs) \<longleftrightarrow> x \<in> set xs"
  by (auto dest: in_set_remove1 [THEN iffD2] notin_set_remove1)

lemma count_list_remove1_other [simp]:
  "x \<noteq> y \<Longrightarrow> count_list (remove1 y xs) x = count_list xs x"
  by (induction xs) auto

lemma count_list_removeAll_other [simp]:
  "x \<noteq> y \<Longrightarrow> count_list (removeAll y xs) x = count_list xs x"
  by (induction xs) auto

lemma count_list_removeAll_same [simp]: "count_list (removeAll x xs) x = 0"
  by (induction xs) auto

lemma count_list_remove1_same [simp]: "count_list (remove1 x xs) x = count_list xs x - 1"
  by (induction xs) (auto simp: count_list_0_iff)

lemma count_list_butlast_le: "count_list (butlast xs) x \<le> count_list xs x"
  by (induction xs) auto

lemma removeAll_not_in [simp]: "x \<notin> set (removeAll x xs)"
  by simp

lemma map_of_eq_empty: "map_of xs = Map.empty \<longleftrightarrow> xs = []"
  by (cases xs) (auto simp: fun_upd_def dest: fun_cong split: if_splits)

lemma map_of_AList_update: "map_of (AList.update k v xs) = (map_of xs)(k \<mapsto> v)"
  by (simp add: update_conv')

end
