(* ===== verification/PyValue.thy ===== *)
theory PyValue
  imports Prelude
begin

section \<open>Python values carried by task payloads\<close>

text \<open>
  Task payloads are dictionaries decoded from JSON. A value is a \<open>json\<close>; a dictionary is an
  association list in insertion order (\<open>AList.update\<close> replaces in place and appends a new key
  at the end, as a Python \<open>dict\<close> does). A float is carried by its \<open>repr\<close> text, which
  determines it.
\<close>

datatype json =
    JNull
  | JBool bool
  | JInt int
  | JFloat str
  | JStr str
  | JList "json list"
  | JObj "(str \<times> json) list"

type_synonym dict = "(str \<times> json) list"

definition dget :: "str \<Rightarrow> dict \<Rightarrow> json" where
  \<comment> \<open>\<open>d.get(k)\<close>: None when absent\<close>
  "dget k d = (case map_of d k of Some v \<Rightarrow> v | None \<Rightarrow> JNull)"

definition dhas :: "str \<Rightarrow> dict \<Rightarrow> bool" where
  "dhas k d \<longleftrightarrow> map_of d k \<noteq> None"

definition dset :: "str \<Rightarrow> json \<Rightarrow> dict \<Rightarrow> dict" where
  "dset k v d = AList.update k v d"

definition dupdate :: "dict \<Rightarrow> dict \<Rightarrow> dict" where
  \<comment> \<open>\<open>d.update(new)\<close>, the first argument being \<open>new\<close>\<close>
  "dupdate new d = fold (\<lambda>(k, v). dset k v) new d"

definition dpop :: "str \<Rightarrow> dict \<Rightarrow> dict" where
  "dpop k d = filter (\<lambda>(k', _). k' \<noteq> k) d"

definition float_zero :: "str \<Rightarrow> bool" where
  "float_zero r \<longleftrightarrow> r = ''0.0'' \<or> r = ''-0.0''"

fun truthy :: "json \<Rightarrow> bool" where
  "truthy JNull = False"
| "truthy (JBool b) = b"
| "truthy (JInt i) = (i \<noteq> 0)"
| "truthy (JFloat r) = (\<not> float_zero r)"
| "truthy (JStr s) = (s \<noteq> [])"
| "truthy (JList xs) = (xs \<noteq> [])"
| "truthy (JObj d) = (d \<noteq> [])"

definition py_or :: "json \<Rightarrow> json \<Rightarrow> json" where
  "py_or a b = (if truthy a then a else b)"

text \<open>\<open>str(v)\<close> on the scalar values the source converts. The text of a list or a dictionary, its
  \<open>repr\<close>, is not modelled and is empty here; the sources ask for it only on values that should
  have been scalars and to cut off values nested deeper than ten levels.\<close>

fun py_str :: "json \<Rightarrow> str" where
  "py_str JNull = ''None''"
| "py_str (JBool b) = (if b then ''True'' else ''False'')"
| "py_str (JInt i) = int_text i"
| "py_str (JFloat r) = r"
| "py_str (JStr s) = s"
| "py_str (JList xs) = ''[]''"
| "py_str (JObj d) = ''{}''"

text \<open>\<open>str(v or "")\<close>\<close>

definition str_or_empty :: "json \<Rightarrow> str" where
  "str_or_empty v = (if truthy v then py_str v else [])"

text \<open>\<open>int(v)\<close>; \<open>None\<close> is the raised exception. A float is truncated towards zero: its
  integer part is the text before the point (the payloads' floats carry no exponent below
  \<open>1e16\<close>).\<close>

fun py_int :: "json \<Rightarrow> int option" where
  "py_int (JInt i) = Some i"
| "py_int (JBool b) = Some (if b then 1 else 0)"
| "py_int (JStr s) = parse_int s"
| "py_int (JFloat r) = parse_int (takeWhile (\<lambda>c. c \<noteq> CHR ''.'') r)"
| "py_int _ = None"

lemma dget_dset [simp]: "dget k (dset k' v d) = (if k = k' then v else dget k d)"
  by (simp add: dget_def dset_def map_of_AList_update)

lemma dhas_dset [simp]: "dhas k (dset k' v d) \<longleftrightarrow> k = k' \<or> dhas k d"
  by (simp add: dhas_def dset_def map_of_AList_update)

lemma dget_dpop [simp]: "dget k (dpop k' d) = (if k = k' then JNull else dget k d)"
proof -
  have "map_of (dpop k' d) = (map_of d)(k' := None)"
    by (induction d) (auto simp: dpop_def fun_eq_iff)
  then show ?thesis by (simp add: dget_def)
qed

lemma dupdate_Nil [simp]: "dupdate [] d = d"
  by (simp add: dupdate_def)

lemma dupdate_Cons [simp]: "dupdate ((k, v) # new) d = dupdate new (dset k v d)"
  by (simp add: dupdate_def)

lemma str_or_empty_simps [simp]:
  "str_or_empty JNull = []"
  "str_or_empty (JStr s) = s"
  by (simp_all add: str_or_empty_def)


end
