(* ===== verification/Redis.thy ===== *)
theory Redis
  imports PyValue
begin

section \<open>The Redis service as an interface\<close>

text \<open>
  Redis and the Lua engine inside it are not part of the repository. The commands the scripts
  and the Python code call are the fields of a record \<open>redis\<close> that every operation of the
  model takes as an argument; the documented behaviour they rely on is the locale
  \<open>redis_store\<close>, stated through an abstraction \<open>view\<close> of the server's state to a keyspace of
  hashes, lists, strings, sets and expiry times. Every key is used at one type, so the four
  components of a key are independent; \<open>EXISTS\<close> and \<open>DEL\<close> look at all of them.
\<close>

record keyspace =
  hashes :: "key \<Rightarrow> str \<Rightarrow> str option"
  lists :: "key \<Rightarrow> str list"
  strs :: "key \<Rightarrow> str option"
  sets :: "key \<Rightarrow> str set"
  ttls :: "key \<Rightarrow> int option" \<comment> \<open>milliseconds\<close>

record 's redis =
  r_hget :: "key \<Rightarrow> str \<Rightarrow> 's \<Rightarrow> str option"
  r_hgetall :: "key \<Rightarrow> 's \<Rightarrow> (str \<times> str) list"
  r_hset :: "key \<Rightarrow> str \<Rightarrow> str \<Rightarrow> 's \<Rightarrow> 's"
  r_get :: "key \<Rightarrow> 's \<Rightarrow> str option"
  r_set :: "key \<Rightarrow> str \<Rightarrow> 's \<Rightarrow> 's"
  r_exists :: "key \<Rightarrow> 's \<Rightarrow> bool"
  r_del :: "key \<Rightarrow> 's \<Rightarrow> 's"
  r_lrange :: "key \<Rightarrow> 's \<Rightarrow> str list" \<comment> \<open>\<open>LRANGE key 0 -1\<close>\<close>
  r_lpush :: "key \<Rightarrow> str \<Rightarrow> 's \<Rightarrow> 's"
  r_rpop :: "key \<Rightarrow> 's \<Rightarrow> str option \<times> 's"
  r_lrem :: "key \<Rightarrow> nat \<Rightarrow> str \<Rightarrow> 's \<Rightarrow> nat \<times> 's" \<comment> \<open>count 0 removes every occurrence\<close>
  r_sadd :: "key \<Rightarrow> str \<Rightarrow> 's \<Rightarrow> 's"
  r_srem :: "key \<Rightarrow> str \<Rightarrow> 's \<Rightarrow> 's"
  r_smembers :: "key \<Rightarrow> 's \<Rightarrow> str list"
  r_pexpire :: "key \<Rightarrow> int \<Rightarrow> 's \<Rightarrow> 's"
  r_time :: "'s \<Rightarrow> rat" \<comment> \<open>\<open>TIME\<close> as the scripts combine it: seconds plus microseconds / 10^6\<close>
  lua_tonumber :: "str \<Rightarrow> rat option"
  lua_tostring :: "rat \<Rightarrow> str"
  cjson_decode :: "str \<Rightarrow> json"
  cjson_encode :: "json \<Rightarrow> str"
  lua_arg :: "json \<Rightarrow> str" \<comment> \<open>a Lua value passed as a command argument\<close>

text \<open>\<open>HSET key f1 v1 f2 v2 ...\<close> and \<open>DEL k1 k2 ...\<close>: the arguments from left to right.\<close>

definition hset_many :: "'s redis \<Rightarrow> key \<Rightarrow> (str \<times> str) list \<Rightarrow> 's \<Rightarrow> 's" where
  "hset_many R k fvs s = fold (\<lambda>(f, x). r_hset R k f x) fvs s"

definition del_many :: "'s redis \<Rightarrow> key list \<Rightarrow> 's \<Rightarrow> 's" where
  "del_many R ks s = fold (r_del R) ks s"

text \<open>A list command whose count the script ignores.\<close>

definition lrem' :: "'s redis \<Rightarrow> key \<Rightarrow> nat \<Rightarrow> str \<Rightarrow> 's \<Rightarrow> 's" where
  "lrem' R k n x s = snd (r_lrem R k n x s)"

text \<open>\<open>HGET key f or ''\<close> and \<open>EXPIRE key ttl\<close> guarded by a positive TTL in seconds.\<close>

definition hget0 :: "'s redis \<Rightarrow> key \<Rightarrow> str \<Rightarrow> 's \<Rightarrow> str" where
  "hget0 R k f s = (case r_hget R k f s of Some x \<Rightarrow> x | None \<Rightarrow> [])"

definition expire_pos :: "'s redis \<Rightarrow> key \<Rightarrow> int \<Rightarrow> 's \<Rightarrow> 's" where
  "expire_pos R k ttl s = (if ttl > 0 then r_pexpire R k (1000 * ttl) s else s)"

text \<open>Decoding a JSON argument: an array of strings, and an object as the field list that
  \<open>HSET\<close> receives.\<close>

definition cjson_strings :: "'s redis \<Rightarrow> str \<Rightarrow> str list" where
  "cjson_strings R x = (case cjson_decode R x of JList js \<Rightarrow> map (lua_arg R) js | _ \<Rightarrow> [])"

definition cjson_fields :: "'s redis \<Rightarrow> str \<Rightarrow> (str \<times> str) list" where
  "cjson_fields R x =
     (case cjson_decode R x of JObj d \<Rightarrow> map (\<lambda>(k, v). (k, lua_arg R v)) d | _ \<Rightarrow> [])"

subsection \<open>The effect of a command on the keyspace\<close>

definition ks_exists :: "key \<Rightarrow> keyspace \<Rightarrow> bool" where
  "ks_exists k v \<longleftrightarrow>
     hashes v k \<noteq> Map.empty \<or> lists v k \<noteq> [] \<or> strs v k \<noteq> None \<or> sets v k \<noteq> {}"

definition ks_hset :: "key \<Rightarrow> str \<Rightarrow> str \<Rightarrow> keyspace \<Rightarrow> keyspace" where
  "ks_hset k f x v = v\<lparr>hashes := (hashes v)(k := (hashes v k)(f \<mapsto> x))\<rparr>"

definition ks_set :: "key \<Rightarrow> str \<Rightarrow> keyspace \<Rightarrow> keyspace" where
  "ks_set k x v = v\<lparr>strs := (strs v)(k \<mapsto> x), ttls := (ttls v)(k := None)\<rparr>"

definition ks_del :: "key \<Rightarrow> keyspace \<Rightarrow> keyspace" where
  "ks_del k v = \<lparr>hashes = (hashes v)(k := Map.empty), lists = (lists v)(k := []),
     strs = (strs v)(k := None), sets = (sets v)(k := {}), ttls = (ttls v)(k := None)\<rparr>"

definition ks_list :: "key \<Rightarrow> str list \<Rightarrow> keyspace \<Rightarrow> keyspace" where
  "ks_list k xs v = v\<lparr>lists := (lists v)(k := xs)\<rparr>"

definition ks_lrem :: "key \<Rightarrow> nat \<Rightarrow> str \<Rightarrow> keyspace \<Rightarrow> keyspace" where
  "ks_lrem k n x v =
     ks_list k (if n = 0 then removeAll x (lists v k) else remove_n n x (lists v k)) v"

definition ks_set_members :: "key \<Rightarrow> str set \<Rightarrow> keyspace \<Rightarrow> keyspace" where
  "ks_set_members k xs v = v\<lparr>sets := (sets v)(k := xs)\<rparr>"

definition ks_pexpire :: "key \<Rightarrow> int \<Rightarrow> keyspace \<Rightarrow> keyspace" where
  "ks_pexpire k ms v = (if ks_exists k v then v\<lparr>ttls := (ttls v)(k \<mapsto> ms)\<rparr> else v)"

lemma ks_list_same: "lists v k = xs \<Longrightarrow> ks_list k xs v = v"
  by (simp add: ks_list_def fun_upd_idem)

lemma hset_many_Nil [simp]: "hset_many R k [] s = s"
  by (simp add: hset_many_def)

subsection \<open>Documented behaviour\<close>

text \<open>The clock a script reads is sampled when the script starts, so a command does not move
  it; between scripts it advances and keys expire (see \<open>Fencing\<close>).\<close>

locale redis_store =
  fixes R :: "'s redis" and view :: "'s \<Rightarrow> keyspace"
  assumes hget: "r_hget R k f s = hashes (view s) k f"
    and hgetall: "map_of (r_hgetall R k s) = hashes (view s) k"
    and hset: "view (r_hset R k f x s) = ks_hset k f x (view s)"
    and get: "r_get R k s = strs (view s) k"
    and set: "view (r_set R k x s) = ks_set k x (view s)"
    and "exists": "r_exists R k s = ks_exists k (view s)"
    and del: "view (r_del R k s) = ks_del k (view s)"
    and lrange: "r_lrange R k s = lists (view s) k"
    and lpush: "view (r_lpush R k x s) = ks_list k (x # lists (view s) k) (view s)"
    and rpop_result: "fst (r_rpop R k s) =
      (if lists (view s) k = [] then None else Some (last (lists (view s) k)))"
    and rpop: "view (snd (r_rpop R k s)) = ks_list k (butlast (lists (view s) k)) (view s)"
    and lrem_result: "fst (r_lrem R k n x s) =
      (if n = 0 then count_list (lists (view s) k) x else min n (count_list (lists (view s) k) x))"
    and lrem: "view (snd (r_lrem R k n x s)) = ks_lrem k n x (view s)"
    and sadd: "view (r_sadd R k x s) = ks_set_members k (insert x (sets (view s) k)) (view s)"
    and srem: "view (r_srem R k x s) = ks_set_members k (sets (view s) k - {x}) (view s)"
    and smembers: "List.set (r_smembers R k s) = sets (view s) k"
    and pexpire: "view (r_pexpire R k ms s) = ks_pexpire k ms (view s)"
    and arg_string: "lua_arg R (JStr x) = x"
    and hset_time: "r_time R (r_hset R k f x s) = r_time R s"
    and set_time: "r_time R (r_set R k x s) = r_time R s"
    and del_time: "r_time R (r_del R k s) = r_time R s"
    and lpush_time: "r_time R (r_lpush R k x s) = r_time R s"
    and rpop_time: "r_time R (snd (r_rpop R k s)) = r_time R s"
    and lrem_time: "r_time R (snd (r_lrem R k n x s)) = r_time R s"
    and sadd_time: "r_time R (r_sadd R k x s) = r_time R s"
    and srem_time: "r_time R (r_srem R k x s) = r_time R s"
    and pexpire_time: "r_time R (r_pexpire R k ms s) = r_time R s"
begin

lemmas command_time =
  hset_time set_time del_time lpush_time rpop_time lrem_time sadd_time srem_time pexpire_time

lemmas [store_simps] =
  hget hgetall hset get set "exists" del lrange lpush rpop_result rpop lrem_result lrem
  sadd srem smembers pexpire arg_string

lemmas [store_simps] =
  ks_hset_def ks_set_def ks_del_def ks_list_def ks_lrem_def ks_set_members_def

lemma view_hset_many [store_simps]:
  "view (hset_many R k fvs s) =
     (view s)\<lparr>hashes := (hashes (view s))(k := hashes (view s) k ++ map_of (rev fvs))\<rparr>"
proof (induction fvs arbitrary: s)
  case Nil
  then show ?case by (simp add: hset_many_def)
next
  case (Cons p fvs)
  obtain f x where "p = (f, x)" by (cases p)
  with Cons [of "r_hset R k f x s"] show ?case
    by (simp add: hset_many_def hset ks_hset_def map_add_def fun_eq_iff
        split: option.split)
qed

lemma view_lrem' [store_simps]: "view (lrem' R k n x s) = ks_lrem k n x (view s)"
  by (simp add: lrem'_def lrem)

lemma hget0_view [store_simps]:
  "hget0 R k f s = (case hashes (view s) k f of Some x \<Rightarrow> x | None \<Rightarrow> [])"
  by (simp add: hget0_def hget)

lemma expire_pos_view [store_simps]:
  "hashes (view (expire_pos R k t s)) = hashes (view s)"
  "lists (view (expire_pos R k t s)) = lists (view s)"
  "strs (view (expire_pos R k t s)) = strs (view s)"
  "sets (view (expire_pos R k t s)) = sets (view s)"
  by (simp_all add: expire_pos_def pexpire ks_pexpire_def)

lemma ttls_expire_other [store_simps]:
  "k' \<noteq> k \<Longrightarrow> ttls (view (expire_pos R k t s)) k' = ttls (view s) k'"
  "k' \<noteq> k \<Longrightarrow> ttls (ks_pexpire k ms v) k' = ttls v k'"
  by (simp_all add: expire_pos_def pexpire ks_pexpire_def)

end

lemma hashes_pexpire [store_simps]: "hashes (ks_pexpire k ms v) = hashes v"
  and lists_pexpire [store_simps]: "lists (ks_pexpire k ms v) = lists v"
  and strs_pexpire [store_simps]: "strs (ks_pexpire k ms v) = strs v"
  and sets_pexpire [store_simps]: "sets (ks_pexpire k ms v) = sets v"
  by (simp_all add: ks_pexpire_def)

end
