(* ===== verification/Codec.thy ===== *)
theory Codec
  imports PyValue
begin

section \<open>JSON text as an interface\<close>

text \<open>
  The source moves payloads through \<open>json.dumps\<close> and \<open>json.loads\<close>. What it relies on is that
  loading a dumped value gives the value back: the locale \<open>json_codec\<close>. The text format itself
  is never inspected by the modelled code. A concrete codec (a length-prefixed text, not
  JSON's own syntax) shows that the contract can be met and lets witnesses compute.
\<close>

record codec =
  json_dumps :: "json \<Rightarrow> str"
  json_loads :: "str \<Rightarrow> json option" \<comment> \<open>None: JSONDecodeError\<close>

locale json_codec =
  fixes C :: codec
  assumes loads_dumps: "json_loads C (json_dumps C j) = Some j"
    and dumps_nonempty: "json_dumps C j \<noteq> []"
begin

lemma dumps_inject: "json_dumps C i = json_dumps C j \<longleftrightarrow> i = j"
  by (metis loads_dumps option.inject)

end

subsection \<open>A concrete codec\<close>

definition enc_nat :: "nat \<Rightarrow> str" where
  "enc_nat n = nat_digits n @ '':''"

definition enc_str :: "str \<Rightarrow> str" where
  "enc_str s = enc_nat (length s) @ s"

fun enc :: "json \<Rightarrow> str" where
  "enc JNull = ''n''"
| "enc (JBool b) = (if b then ''t'' else ''f'')"
| "enc (JInt i) = (if i < 0 then ''m'' @ enc_nat (nat (- i)) else ''p'' @ enc_nat (nat i))"
| "enc (JFloat r) = ''d'' @ enc_str r"
| "enc (JStr s) = ''s'' @ enc_str s"
| "enc (JList xs) = ''l'' @ enc_nat (length xs) @ concat (map enc xs)"
| "enc (JObj d) = ''o'' @ enc_nat (length d) @ concat (map (\<lambda>(k, v). enc_str k @ enc v) d)"

definition dec_nat :: "str \<Rightarrow> nat \<times> str" where
  "dec_nat xs = (digits_value (takeWhile is_digit xs), tl (dropWhile is_digit xs))"

definition dec_str :: "str \<Rightarrow> str \<times> str" where
  "dec_str xs = (let (n, ys) = dec_nat xs in (take n ys, drop n ys))"

fun dec :: "nat \<Rightarrow> str \<Rightarrow> (json \<times> str) option"
  and dec_list :: "nat \<Rightarrow> nat \<Rightarrow> str \<Rightarrow> (json list \<times> str) option"
  and dec_obj :: "nat \<Rightarrow> nat \<Rightarrow> str \<Rightarrow> ((str \<times> json) list \<times> str) option"
where
  "dec 0 xs = None"
| "dec (Suc fuel) [] = None"
| "dec (Suc fuel) (c # cs) =
    (if c = CHR ''n'' then Some (JNull, cs)
     else if c = CHR ''t'' then Some (JBool True, cs)
     else if c = CHR ''f'' then Some (JBool False, cs)
     else if c = CHR ''m'' then (case dec_nat cs of (n, r) \<Rightarrow> Some (JInt (- int n), r))
     else if c = CHR ''p'' then (case dec_nat cs of (n, r) \<Rightarrow> Some (JInt (int n), r))
     else if c = CHR ''d'' then (case dec_str cs of (x, r) \<Rightarrow> Some (JFloat x, r))
     else if c = CHR ''s'' then (case dec_str cs of (x, r) \<Rightarrow> Some (JStr x, r))
     else if c = CHR ''l'' then
       (case dec_nat cs of (n, r) \<Rightarrow>
          map_option (\<lambda>(xs, r'). (JList xs, r')) (dec_list fuel n r))
     else if c = CHR ''o'' then
       (case dec_nat cs of (n, r) \<Rightarrow>
          map_option (\<lambda>(xs, r'). (JObj xs, r')) (dec_obj fuel n r))
     else None)"
| "dec_list fuel 0 xs = Some ([], xs)"
| "dec_list 0 (Suc n) xs = None"
| "dec_list (Suc fuel) (Suc n) xs =
    (case dec fuel xs of None \<Rightarrow> None
     | Some (j, r) \<Rightarrow> map_option (\<lambda>(js, r'). (j # js, r')) (dec_list fuel n r))"
| "dec_obj fuel 0 xs = Some ([], xs)"
| "dec_obj 0 (Suc n) xs = None"
| "dec_obj (Suc fuel) (Suc n) xs =
    (case dec_str xs of (k, ys) \<Rightarrow>
      (case dec fuel ys of None \<Rightarrow> None
       | Some (j, r) \<Rightarrow> map_option (\<lambda>(js, r'). ((k, j) # js, r')) (dec_obj fuel n r)))"

lemma dec_enc_nat [simp]: "dec_nat (enc_nat n @ r) = (n, r)"
proof -
  have d: "\<And>c. c \<in> set (nat_digits n) \<Longrightarrow> is_digit c" by (rule nat_digits_digit)
  have colon: "\<not> is_digit (CHR '':'')" by (simp add: is_digit_def)
  show ?thesis
    using d colon by (simp add: dec_nat_def enc_nat_def digits_value_nat_digits)
qed

lemma dec_enc_str [simp]: "dec_str (enc_str s @ r) = (s, r)"
  by (simp add: dec_str_def enc_str_def)

text \<open>Fuel that is enough: the nesting and the lengths met on the way down.\<close>

fun weight :: "json \<Rightarrow> nat" where
  "weight (JList xs) = Suc (sum_list (map (\<lambda>x. Suc (weight x)) xs))"
| "weight (JObj d) = Suc (sum_list (map (\<lambda>(k, v). Suc (weight v)) d))"
| "weight _ = Suc 0"

lemma dec_list_enc:
  assumes "\<And>x fuel r. x \<in> set xs \<Longrightarrow> weight x \<le> fuel \<Longrightarrow> dec fuel (enc x @ r) = Some (x, r)"
    and "sum_list (map (\<lambda>x. Suc (weight x)) xs) \<le> fuel"
  shows "dec_list fuel (length xs) (concat (map enc xs) @ r) = Some (xs, r)"
  using assms
proof (induction xs arbitrary: fuel)
  case Nil
  then show ?case by simp
next
  case (Cons x xs)
  from Cons.prems(2) obtain fuel' where f: "fuel = Suc fuel'" by (cases fuel) auto
  have x: "dec fuel' (enc x @ r') = Some (x, r')" for r'
    using Cons.prems f by simp
  have rest: "dec_list fuel' (length xs) (concat (map enc xs) @ r) = Some (xs, r)"
    by (rule Cons.IH) (use Cons.prems f in auto)
  show ?case using x [of "concat (map enc xs) @ r"] rest by (simp add: f)
qed

lemma dec_obj_enc:
  assumes "\<And>k x fuel r. (k, x) \<in> set d \<Longrightarrow> weight x \<le> fuel \<Longrightarrow> dec fuel (enc x @ r) = Some (x, r)"
    and "sum_list (map (\<lambda>(k, v). Suc (weight v)) d) \<le> fuel"
  shows "dec_obj fuel (length d) (concat (map (\<lambda>(k, v). enc_str k @ enc v) d) @ r) = Some (d, r)"
  using assms
proof (induction d arbitrary: fuel)
  case Nil
  then show ?case by simp
next
  case (Cons p d)
  obtain k x where p: "p = (k, x)" by (cases p)
  from Cons.prems(2) p obtain fuel' where f: "fuel = Suc fuel'" by (cases fuel) auto
  have x: "dec fuel' (enc x @ r') = Some (x, r')" for r'
    using Cons.prems(2) f p by (intro Cons.prems(1) [of k]) auto
  have rest: "dec_obj fuel' (length d) (concat (map (\<lambda>(k, v). enc_str k @ enc v) d) @ r) = Some (d, r)"
    by (rule Cons.IH) (use Cons.prems f p in auto)
  show ?case using x [of "concat (map (\<lambda>(k, v). enc_str k @ enc v) d) @ r"] rest
    by (simp add: f p)
qed

lemma dec_enc: "weight j \<le> fuel \<Longrightarrow> dec fuel (enc j @ r) = Some (j, r)"
proof (induction j arbitrary: fuel r)
  case (JList xs)
  then obtain fuel' where f: "fuel = Suc fuel'" by (cases fuel) auto
  have "dec_list fuel' (length xs) (concat (map enc xs) @ r) = Some (xs, r)"
    by (rule dec_list_enc) (use JList f in auto)
  then show ?case by (simp add: f)
next
  case (JObj d)
  then obtain fuel' where f: "fuel = Suc fuel'" by (cases fuel) auto
  have "dec_obj fuel' (length d) (concat (map (\<lambda>(k, v). enc_str k @ enc v) d) @ r) = Some (d, r)"
  proof (rule dec_obj_enc)
    fix k x g r'
    assume kx: "(k, x) \<in> set d" and w: "weight x \<le> g"
    show "dec g (enc x @ r') = Some (x, r')"
      by (rule JObj.IH [OF kx _ w]) simp
  qed (use JObj.prems f in auto)
  then show ?case by (simp add: f)
qed (auto simp: Suc_le_eq gr0_conv_Suc)

lemma weight_enc: "Suc (weight j) \<le> 2 * length (enc j)"
proof (induction j)
  case (JList xs)
  have "sum_list (map (\<lambda>x. Suc (weight x)) xs) \<le> 2 * length (concat (map enc xs))"
    using JList by (induction xs) (simp, fastforce)
  then show ?case by simp
next
  case (JObj d)
  have "sum_list (map (\<lambda>(k, v). Suc (weight v)) d)
      \<le> 2 * length (concat (map (\<lambda>(k, v). enc_str k @ enc v) d))"
    using JObj
  proof (induction d)
    case Nil
    then show ?case by simp
  next
    case (Cons p d)
    obtain k v where p: "p = (k, v)" by (cases p)
    have "Suc (weight v) \<le> 2 * length (enc v)" using Cons.prems p by fastforce
    moreover have "sum_list (map (\<lambda>(k, v). Suc (weight v)) d)
        \<le> 2 * length (concat (map (\<lambda>(k, v). enc_str k @ enc v) d))"
      by (rule Cons.IH) (use Cons.prems in fastforce)
    ultimately show ?case by (simp add: p)
  qed
  then show ?case by simp
qed (auto simp: enc_nat_def)

definition sample_codec :: codec where
  "sample_codec = \<lparr>json_dumps = enc,
     json_loads = (\<lambda>xs. case dec (2 * length xs) xs of Some (j, []) \<Rightarrow> Some j | _ \<Rightarrow> None)\<rparr>"

interpretation sample_codec: json_codec sample_codec
proof unfold_locales
  fix j
  have "dec (2 * length (enc j)) (enc j @ []) = Some (j, [])"
    by (rule dec_enc) (use weight_enc [of j] in simp)
  then show "json_loads sample_codec (json_dumps sample_codec j) = Some j"
    by (simp add: sample_codec_def)
  have "enc j \<noteq> []" using weight_enc [of j] by auto
  then show "json_dumps sample_codec j \<noteq> []"
    by (simp add: sample_codec_def)
qed

end
