(* ===== verification/MemRedis.thy ===== *)
theory MemRedis
  imports Redis Codec
begin

section \<open>A concrete in-memory store\<close>

text \<open>
  An executable store that satisfies the contracts of \<open>Redis\<close> and \<open>Codec\<close>: hashes and sets
  are association and duplicate-free lists, keys are looked up in functions. The witnesses of
  the properties run the model's operations on it.
\<close>

locale json_redis = redis_store R view + json_codec C
  for R :: "'s redis" and view :: "'s \<Rightarrow> keyspace" and C :: codec +
  assumes cjson_dumps: "cjson_decode R (json_dumps C j) = j"
begin

lemma cjson_strings_dumps [store_simps]:
  "cjson_strings R (json_dumps C (JList js)) = map (lua_arg R) js"
  by (simp add: cjson_strings_def cjson_dumps)

lemma cjson_fields_dumps [store_simps]:
  "cjson_fields R (json_dumps C (JObj d)) = map (\<lambda>(k, v). (k, lua_arg R v)) d"
  by (simp add: cjson_fields_def cjson_dumps)

end

record mem =
  mem_hashes :: "key \<Rightarrow> (str \<times> str) list"
  mem_lists :: "key \<Rightarrow> str list"
  mem_strs :: "key \<Rightarrow> str option"
  mem_sets :: "key \<Rightarrow> str list"
  mem_ttls :: "key \<Rightarrow> int option"
  mem_now :: rat

definition mem_view :: "mem \<Rightarrow> keyspace" where
  "mem_view m = \<lparr>hashes = (\<lambda>k. map_of (mem_hashes m k)), lists = mem_lists m,
     strs = mem_strs m, sets = (\<lambda>k. set (mem_sets m k)), ttls = mem_ttls m\<rparr>"

definition mem_exists :: "key \<Rightarrow> mem \<Rightarrow> bool" where
  "mem_exists k m \<longleftrightarrow>
     mem_hashes m k \<noteq> [] \<or> mem_lists m k \<noteq> [] \<or> mem_strs m k \<noteq> None \<or> mem_sets m k \<noteq> []"

definition mem_del :: "key \<Rightarrow> mem \<Rightarrow> mem" where
  "mem_del k m = m\<lparr>mem_hashes := (mem_hashes m)(k := []), mem_lists := (mem_lists m)(k := []),
     mem_strs := (mem_strs m)(k := None), mem_sets := (mem_sets m)(k := []),
     mem_ttls := (mem_ttls m)(k := None)\<rparr>"

definition mem_rpop :: "key \<Rightarrow> mem \<Rightarrow> str option \<times> mem" where
  "mem_rpop k m =
     (if mem_lists m k = [] then (None, m)
      else (Some (last (mem_lists m k)),
            m\<lparr>mem_lists := (mem_lists m)(k := butlast (mem_lists m k))\<rparr>))"

definition mem_lrem :: "key \<Rightarrow> nat \<Rightarrow> str \<Rightarrow> mem \<Rightarrow> nat \<times> mem" where
  "mem_lrem k n x m =
     (let xs = mem_lists m k; c = count_list xs x
      in (if n = 0 then c else min n c,
          m\<lparr>mem_lists := (mem_lists m)(k := if n = 0 then removeAll x xs else remove_n n x xs)\<rparr>))"

definition mem_redis :: "mem redis" where
  "mem_redis = \<lparr>
     r_hget = (\<lambda>k f m. map_of (mem_hashes m k) f),
     r_hgetall = (\<lambda>k m. mem_hashes m k),
     r_hset = (\<lambda>k f x m. m\<lparr>mem_hashes := (mem_hashes m)(k := AList.update f x (mem_hashes m k))\<rparr>),
     r_get = (\<lambda>k m. mem_strs m k),
     r_set = (\<lambda>k x m. m\<lparr>mem_strs := (mem_strs m)(k := Some x), mem_ttls := (mem_ttls m)(k := None)\<rparr>),
     r_exists = mem_exists,
     r_del = mem_del,
     r_lrange = (\<lambda>k m. mem_lists m k),
     r_lpush = (\<lambda>k x m. m\<lparr>mem_lists := (mem_lists m)(k := x # mem_lists m k)\<rparr>),
     r_rpop = mem_rpop,
     r_lrem = mem_lrem,
     r_sadd = (\<lambda>k x m. m\<lparr>mem_sets := (mem_sets m)(k := List.insert x (mem_sets m k))\<rparr>),
     r_srem = (\<lambda>k x m. m\<lparr>mem_sets := (mem_sets m)(k := removeAll x (mem_sets m k))\<rparr>),
     r_smembers = (\<lambda>k m. mem_sets m k),
     r_pexpire = (\<lambda>k ms m. if mem_exists k m then m\<lparr>mem_ttls := (mem_ttls m)(k := Some ms)\<rparr> else m),
     r_time = mem_now,
     lua_tonumber = (\<lambda>x. map_option of_int (parse_int x)),
     lua_tostring = (\<lambda>q. int_text \<lfloor>q\<rfloor>),
     cjson_decode = (\<lambda>x. case json_loads sample_codec x of Some j \<Rightarrow> j | None \<Rightarrow> JNull),
     cjson_encode = json_dumps sample_codec,
     lua_arg = py_str\<rparr>"

definition mem_empty :: mem where
  "mem_empty = \<lparr>mem_hashes = (\<lambda>_. []), mem_lists = (\<lambda>_. []), mem_strs = (\<lambda>_. None),
     mem_sets = (\<lambda>_. []), mem_ttls = (\<lambda>_. None), mem_now = 0\<rparr>"

lemma mem_exists_view: "mem_exists k m = ks_exists k (mem_view m)"
  by (simp add: mem_exists_def ks_exists_def mem_view_def map_of_eq_empty)

interpretation mem_redis: json_redis mem_redis mem_view sample_codec
  by unfold_locales
    (auto simp: mem_redis_def mem_view_def mem_del_def mem_rpop_def mem_lrem_def Let_def
      ks_hset_def ks_set_def ks_del_def ks_list_def ks_lrem_def ks_set_members_def ks_pexpire_def
      mem_exists_view ks_exists_def map_of_AList_update fun_eq_iff map_of_eq_empty
      sample_codec.loads_dumps)

text \<open>A store given by its hashes, lists and strings, for concrete runs.\<close>

definition mem_of ::
  "(key \<times> (str \<times> str) list) list \<Rightarrow> (key \<times> str list) list \<Rightarrow> (key \<times> str) list \<Rightarrow> rat \<Rightarrow> mem" where
  "mem_of hs ls ss now = \<lparr>
     mem_hashes = (\<lambda>k. case map_of hs k of Some d \<Rightarrow> d | None \<Rightarrow> []),
     mem_lists = (\<lambda>k. case map_of ls k of Some xs \<Rightarrow> xs | None \<Rightarrow> []),
     mem_strs = map_of ss, mem_sets = (\<lambda>_. []), mem_ttls = (\<lambda>_. None), mem_now = now\<rparr>"

lemma hashes_mem_of [simp]:
  "hashes (mem_view (mem_of hs ls ss now)) k =
     (case map_of hs k of Some d \<Rightarrow> map_of d | None \<Rightarrow> Map.empty)"
  by (simp add: mem_view_def mem_of_def split: option.split)

lemma lists_mem_of [simp]:
  "lists (mem_view (mem_of hs ls ss now)) k = (case map_of ls k of Some xs \<Rightarrow> xs | None \<Rightarrow> [])"
  by (simp add: mem_view_def mem_of_def)

lemma strs_mem_of [simp]: "strs (mem_view (mem_of hs ls ss now)) = map_of ss"
  by (simp add: mem_view_def mem_of_def)

lemma ttls_mem_of [simp]: "ttls (mem_view (mem_of hs ls ss now)) k = None"
  by (simp add: mem_view_def mem_of_def)

lemma sets_mem_of [simp]: "sets (mem_view (mem_of hs ls ss now)) k = {}"
  by (simp add: mem_view_def mem_of_def)

end
