(* ===== verification/Guard.thy ===== *)
theory Guard
  imports MemRedis
begin

section \<open>The workflow admission guard\<close>

text \<open>
  \<open>WORKFLOW_GUARD_LUA\<close> of \<open>kernelgym/server/workflow_lifecycle.py\<close>: the fence every submit
  and dispatch transaction evaluates. A task without a workflow generation is a standalone
  task and passes unless one of its cancellation keys exists.
\<close>

record wf_mapping =
  m_cancellation_keys :: "str option"
  m_generation :: "str option"
  m_parent :: "str option"
  m_lease :: "str option"
  m_deadline :: "str option"

definition lua_number_or_0 :: "'s redis \<Rightarrow> str option \<Rightarrow> rat" where
  "lua_number_or_0 R x =
     (case x of None \<Rightarrow> 0 | Some t \<Rightarrow> (case lua_tonumber R t of Some q \<Rightarrow> q | None \<Rightarrow> 0))"

definition workflow_allowed :: "'s redis \<Rightarrow> wf_mapping \<Rightarrow> 's \<Rightarrow> bool" where
  "workflow_allowed R m s =
    (if list_ex (\<lambda>k. r_exists R k s)
          (cjson_strings R (case m_cancellation_keys m of Some x \<Rightarrow> x | None \<Rightarrow> ''[]'')) then False
     else (case m_generation m of
       None \<Rightarrow> True
     | Some generation \<Rightarrow>
         if generation = [] then True
         else (case (m_parent m, m_lease m) of
           (Some parent, Some lease) \<Rightarrow>
             if (case r_hget R parent ''cancellation_key'' s of
                   Some c \<Rightarrow> r_exists R c s | None \<Rightarrow> False) then False
             else if r_hget R parent ''workflow_generation'' s \<noteq> Some generation then False
             else if r_hget R parent ''status'' s \<notin> {Some ''pending'', Some ''processing''} then False
             else if r_get R lease s \<noteq> Some generation then False
             else (let now = r_time R s;
                       deadline = lua_number_or_0 R (r_hget R parent ''workflow_deadline'' s)
                   in now < deadline \<and> now < lua_number_or_0 R (m_deadline m))
         | _ \<Rightarrow> False)))"

definition task_wf_mapping :: "'s redis \<Rightarrow> key \<Rightarrow> 's \<Rightarrow> wf_mapping" where
  "task_wf_mapping R k s = \<lparr>
     m_cancellation_keys = Some (case r_hget R k ''cancellation_keys'' s of Some x \<Rightarrow> x | None \<Rightarrow> ''[]''),
     m_generation = r_hget R k ''workflow_generation'' s,
     m_parent = r_hget R k ''workflow_parent_key'' s,
     m_lease = r_hget R k ''workflow_lease_key'' s,
     m_deadline = r_hget R k ''workflow_deadline'' s\<rparr>"

definition workflow_task_allowed :: "'s redis \<Rightarrow> key \<Rightarrow> 's \<Rightarrow> bool" where
  "workflow_task_allowed R k s = workflow_allowed R (task_wf_mapping R k s) s"

text \<open>The guard's view of a mapping that arrives as a JSON object.\<close>

definition fields_wf_mapping :: "(str \<times> str) list \<Rightarrow> wf_mapping" where
  "fields_wf_mapping fvs = (let look = map_of (rev fvs) in \<lparr>
     m_cancellation_keys = look ''cancellation_keys'',
     m_generation = look ''workflow_generation'',
     m_parent = look ''workflow_parent_key'',
     m_lease = look ''workflow_lease_key'',
     m_deadline = look ''workflow_deadline''\<rparr>)"

text \<open>\<open>WORKFLOW_TASK_ALIVE_LUA\<close>: a child is judged by its own record, a parent by its lease.\<close>

definition workflow_task_alive :: "'s redis \<Rightarrow> key \<Rightarrow> key \<Rightarrow> 's \<Rightarrow> int" where
  "workflow_task_alive R k1 k2 s =
    (if r_hget R k1 ''workflow_parent_key'' s \<noteq> None
     then (if workflow_task_allowed R k1 s then 1 else 0)
     else (if workflow_allowed R \<lparr>m_cancellation_keys = None,
              m_generation = r_hget R k1 ''workflow_generation'' s,
              m_parent = Some k1, m_lease = Some k2,
              m_deadline = r_hget R k1 ''workflow_deadline'' s\<rparr> s then 1 else 0))"

subsection \<open>What the guard refuses\<close>

text \<open>The guard depends on the store only through the view and the clock.\<close>

definition guard_open :: "'s redis \<Rightarrow> wf_mapping \<Rightarrow> keyspace \<Rightarrow> rat \<Rightarrow> bool" where
  "guard_open R m v now \<longleftrightarrow>
     (\<forall>k \<in> set (cjson_strings R (case m_cancellation_keys m of Some x \<Rightarrow> x | None \<Rightarrow> ''[]'')).
        \<not> ks_exists k v) \<and>
     (\<forall>g. m_generation m = Some g \<and> g \<noteq> [] \<longrightarrow>
        (\<exists>p l. m_parent m = Some p \<and> m_lease m = Some l \<and>
           (\<forall>c. hashes v p ''cancellation_key'' = Some c \<longrightarrow> \<not> ks_exists c v) \<and>
           hashes v p ''workflow_generation'' = Some g \<and>
           (hashes v p ''status'' = Some ''pending'' \<or> hashes v p ''status'' = Some ''processing'') \<and>
           strs v l = Some g \<and>
           now < lua_number_or_0 R (hashes v p ''workflow_deadline'') \<and>
           now < lua_number_or_0 R (m_deadline m)))"

context redis_store
begin

lemma workflow_allowed_iff:
  "workflow_allowed R m s \<longleftrightarrow> guard_open R m (view s) (r_time R s)"
  by (cases "m_generation m"; cases "m_parent m"; cases "m_lease m")
     (auto simp: workflow_allowed_def guard_open_def list_ex_iff store_simps Let_def
       split: option.split)

end

end
