(* ===== verification/ClaimScripts.thy ===== *)
theory ClaimScripts
  imports Guard
begin

section \<open>The claim transactions of the task manager\<close>

text \<open>
  The Lua scripts of \<open>kernelgym/server/task_manager.py\<close>, one definition per script, named after
  the Python constant that holds it. Each is one atomic Redis operation: it takes the keys
  and arguments in the script's order and returns the script's result with the new store.
\<close>

abbreviation terminal_statuses :: "str list" where
  "terminal_statuses \<equiv> [''completed'', ''failed'', ''timeout'']"

definition clear_claim_fields :: "(str \<times> str) list" where
  "clear_claim_fields = [
     (''claim_token'', []), (''claim_worker'', []), (''claim_worker_instance'', []),
     (''claim_source_queue'', []), (''claim_inflight_queue'', []),
     (''claim_recovery_state'', []), (''claim_recovery_reason'', []), (''claim_recovery_at'', [])]"

definition clear_claim :: "'s redis \<Rightarrow> key \<Rightarrow> 's \<Rightarrow> 's" where
  "clear_claim R k s = hset_many R k clear_claim_fields s"

definition claim_entry :: "str \<Rightarrow> str \<Rightarrow> str" where
  "claim_entry token task_id = token @ CHR ''|'' # task_id"

definition claim_fields :: "str \<Rightarrow> str \<Rightarrow> str \<Rightarrow> key \<Rightarrow> key \<Rightarrow> (str \<times> str) list" where
  "claim_fields token worker inst source inflight = [
     (''claim_token'', token), (''claim_worker'', worker), (''claim_worker_instance'', inst),
     (''claim_source_queue'', source), (''claim_inflight_queue'', inflight),
     (''claim_recovery_state'', []), (''claim_recovery_reason'', []), (''claim_recovery_at'', [])]"

text \<open>\<open>current_token and current_token ~= ''\<close>, and its use as a fence.\<close>

definition has_token :: "'s redis \<Rightarrow> key \<Rightarrow> 's \<Rightarrow> bool" where
  "has_token R k s \<longleftrightarrow> hget0 R k ''claim_token'' s \<noteq> []"

definition token_current :: "'s redis \<Rightarrow> key \<Rightarrow> str \<Rightarrow> 's \<Rightarrow> bool" where
  "token_current R k token s \<longleftrightarrow> r_hget R k ''claim_token'' s = Some token"

subsection \<open>Claiming\<close>

definition claimable :: "'s redis \<Rightarrow> key \<Rightarrow> 's \<Rightarrow> bool" where
  "claimable R task_key s \<longleftrightarrow>
     r_exists R task_key s \<and> r_hget R task_key ''status'' s = Some ''pending'' \<and>
     \<not> has_token R task_key s \<and> workflow_task_allowed R task_key s"

fun claim_gpu_task ::
  "'s redis \<Rightarrow> key \<Rightarrow> key \<Rightarrow> str \<Rightarrow> str \<Rightarrow> str \<Rightarrow> str \<Rightarrow> nat \<Rightarrow> 's \<Rightarrow> str option \<times> 's" where
  "claim_gpu_task R source inflight token worker inst task_prefix 0 s = (None, s)"
| "claim_gpu_task R source inflight token worker inst task_prefix (Suc scan_limit) s =
    (case r_rpop R source s of
       (None, s1) \<Rightarrow> (None, s1)
     | (Some task_id, s1) \<Rightarrow>
         let task_key = task_prefix @ task_id in
         if claimable R task_key s1
         then (Some task_id,
               hset_many R task_key (claim_fields token worker inst source inflight)
                 (r_lpush R inflight (claim_entry token task_id) s1))
         else claim_gpu_task R source inflight token worker inst task_prefix scan_limit s1)"

subsection \<open>Submission and refresh\<close>

definition submit_task_if_absent ::
  "'s redis \<Rightarrow> key \<Rightarrow> key \<Rightarrow> str \<Rightarrow> str \<Rightarrow> 's \<Rightarrow> int \<times> 's" where
  "submit_task_if_absent R task_key dest task_id mapping s =
    (let task_mapping = cjson_fields R mapping in
     if \<not> workflow_allowed R (fields_wf_mapping task_mapping) s then (-5, s)
     else if r_exists R task_key s then (0, s)
     else
       let s1 = hset_many R task_key task_mapping s;
           s2 = lrem' R dest 0 task_id s1;
           s3 = r_lpush R dest task_id s2;
           s4 = (case map_of (rev task_mapping) ''workflow_children_key'' of
                   Some ck \<Rightarrow> r_sadd R ck task_id s3 | None \<Rightarrow> s3)
       in (1, s4))"

definition force_refresh_task ::
  "'s redis \<Rightarrow> key \<Rightarrow> key \<Rightarrow> key \<Rightarrow> key list \<Rightarrow> str \<Rightarrow> str \<Rightarrow> str \<Rightarrow> 's \<Rightarrow> int \<times> 's" where
  "force_refresh_task R task_key result_key dest cleanup task_id mapping worker_prefix s =
    (let replacement = cjson_fields R mapping in
     if \<not> workflow_allowed R (fields_wf_mapping replacement) s then (-5, s)
     else
       let task_exists = r_exists R task_key s in
       if task_exists \<and> r_hget R task_key ''claim_recovery_state'' s = Some ''frozen'' then (-2, s)
       else if task_exists \<and> has_token R task_key s then (-1, s)
       else if task_exists \<and> hget0 R task_key ''status'' s \<notin> set terminal_statuses then (-4, s)
       else
         let old_worker = hget0 R task_key ''assigned_worker'' s;
             s1 = (if task_exists \<and> old_worker \<noteq> []
                   then lrem' R (worker_prefix @ old_worker) 0 task_id s else s);
             s2 = fold (\<lambda>q. lrem' R q 0 task_id) (dest # cleanup) s1;
             s3 = del_many R [task_key, result_key] s2;
             s4 = hset_many R task_key replacement s3;
             s5 = r_lpush R dest task_id s4;
             s6 = (case map_of (rev replacement) ''workflow_children_key'' of
                     Some ck \<Rightarrow> r_sadd R ck task_id s5 | None \<Rightarrow> s5)
         in (if task_exists then 2 else 1, s6))"

subsection \<open>Moving a waiting task\<close>

definition requeue_fields ::
  "str \<Rightarrow> str \<Rightarrow> str \<Rightarrow> str \<Rightarrow> str \<Rightarrow> (str \<times> str) list" where
  "requeue_fields data assigned_worker assigned_at reason now =
     [(''data'', data), (''status'', ''pending''), (''assigned_worker'', assigned_worker),
      (''assigned_at'', assigned_at), (''started_at'', [])] @ clear_claim_fields @
     [(''queue_timeout_reason'', reason), (''queue_timeout_at'', now), (''updated_at'', now)]"

definition queue_wait_requeue ::
  "'s redis \<Rightarrow> key \<Rightarrow> key \<Rightarrow> key \<Rightarrow> key \<Rightarrow> key \<Rightarrow> str \<Rightarrow> str \<Rightarrow> str \<Rightarrow> str \<Rightarrow> str \<Rightarrow> str \<Rightarrow> str \<Rightarrow>
   str \<Rightarrow> str \<Rightarrow> str \<Rightarrow> str \<Rightarrow> 's \<Rightarrow> int \<times> 's" where
  "queue_wait_requeue R task_key source dest cancel parent_cancel task_id worker operation
     exp_worker exp_assigned_at exp_submitted_at exp_data new_data reason now move_token s =
    (if hget0 R task_key ''assigned_worker'' s \<noteq> exp_worker then (-3, s)
     else if hget0 R task_key ''assigned_at'' s \<noteq> exp_assigned_at then (-4, s)
     else if hget0 R task_key ''submitted_at'' s \<noteq> exp_submitted_at then (-5, s)
     else if hget0 R task_key ''data'' s \<noteq> exp_data then (-6, s)
     else if operation = ''remove_stale_copy'' then
       (if exp_worker = [] \<or> exp_worker = worker then (-8, s)
        else case r_lrem R source 1 task_id s of (n, s1) \<Rightarrow> if n = 1 then (2, s1) else (-7, s1))
     else if operation \<noteq> ''requeue'' \<or> (exp_worker \<noteq> [] \<and> exp_worker \<noteq> worker) then (-8, s)
     else if r_hget R task_key ''status'' s \<noteq> Some ''pending'' then (0, s)
     else if has_token R task_key s then (-1, s)
     else if \<not> workflow_task_allowed R task_key s \<or> r_exists R cancel s \<or> r_exists R parent_cancel s
       then (-2, s)
     else (case r_lrem R source 1 task_id s of (n, s1) \<Rightarrow>
       if n \<noteq> 1 then (-7, s1)
       else
         let s2 = lrem' R dest 0 task_id s1;
             s3 = hset_many R task_key
                    (requeue_fields new_data [] [] reason now @ [(''queue_move_token'', move_token)]) s2
         in (1, r_lpush R dest task_id s3)))"

definition conditional_requeue ::
  "'s redis \<Rightarrow> key \<Rightarrow> key \<Rightarrow> key \<Rightarrow> key \<Rightarrow> key \<Rightarrow> str \<Rightarrow> str \<Rightarrow> str \<Rightarrow> str \<Rightarrow> str \<Rightarrow> str \<Rightarrow> str \<Rightarrow>
   str \<Rightarrow> str \<Rightarrow> 's \<Rightarrow> int \<times> 's" where
  "conditional_requeue R task_key dest inflight cancel parent_cancel task_id entry token data
     reason now dest_worker dest_assigned_at release s =
    (if \<not> token_current R task_key token s then (-3, lrem' R inflight 1 entry s)
     else
       let recovery = hget0 R task_key ''claim_recovery_state'' s in
       if recovery \<noteq> [] \<and>
          \<not> (recovery = ''execution_fenced'' \<and> (release = ''execution'' \<or> release = ''all'') \<or>
             recovery = ''frozen'' \<and> release = ''all'') then (-4, s)
       else (case r_hget R task_key ''status'' s of
         None \<Rightarrow> (0, clear_claim R task_key (lrem' R inflight 1 entry s))
       | Some status \<Rightarrow>
           if status \<in> set terminal_statuses
           then (-1, clear_claim R task_key (lrem' R inflight 1 entry s))
           else if \<not> workflow_task_allowed R task_key s \<or> r_exists R cancel s \<or> r_exists R parent_cancel s
           then (-2, clear_claim R task_key (lrem' R inflight 1 entry s))
           else
             let s1 = lrem' R inflight 1 entry s;
                 s2 = lrem' R dest 0 task_id s1;
                 s3 = hset_many R task_key (requeue_fields data dest_worker dest_assigned_at reason now) s2
             in (1, r_lpush R dest task_id s3)))"

subsection \<open>Starting an attempt\<close>

definition processing_fields ::
  "str \<Rightarrow> str \<Rightarrow> str \<Rightarrow> key \<Rightarrow> key \<Rightarrow> (str \<times> str) list" where
  "processing_fields now worker inst source inflight =
     [(''status'', ''processing''), (''started_at'', now), (''claim_worker'', worker),
      (''claim_worker_instance'', inst), (''claim_source_queue'', source),
      (''claim_inflight_queue'', inflight), (''claim_recovery_state'', ''execution_fenced''),
      (''claim_recovery_reason'',
        ''GPU execution is in flight; automatic recovery requires proven process containment''),
      (''claim_recovery_at'', now)]"

definition mark_claim_processing ::
  "'s redis \<Rightarrow> key \<Rightarrow> key \<Rightarrow> key \<Rightarrow> key \<Rightarrow> str \<Rightarrow> str \<Rightarrow> str \<Rightarrow> str \<Rightarrow> str \<Rightarrow> str \<Rightarrow> 's \<Rightarrow> int \<times> 's" where
  "mark_claim_processing R task_key inflight cancel parent_cancel entry token now worker inst source s =
    (if \<not> token_current R task_key token s then (-2, lrem' R inflight 1 entry s)
     else if r_hget R task_key ''status'' s \<noteq> Some ''pending''
     then (0, clear_claim R task_key (lrem' R inflight 1 entry s))
     else if \<not> workflow_task_allowed R task_key s \<or> r_exists R cancel s \<or> r_exists R parent_cancel s
     then (-1, clear_claim R task_key (lrem' R inflight 1 entry s))
     else (1, hset_many R task_key (processing_fields now worker inst source inflight) s))"

definition mark_workflow_cpu_processing ::
  "'s redis \<Rightarrow> key \<Rightarrow> key \<Rightarrow> key \<Rightarrow> str \<Rightarrow> 's \<Rightarrow> int \<times> 's" where
  "mark_workflow_cpu_processing R task_key cancel parent_cancel now s =
    (if r_hget R task_key ''status'' s \<noteq> Some ''pending'' then (0, s)
     else if \<not> workflow_task_allowed R task_key s then (0, s)
     else if r_exists R cancel s \<or> r_exists R parent_cancel s then (0, s)
     else (1, hset_many R task_key [(''status'', ''processing''), (''started_at'', now)] s))"

subsection \<open>Ending an attempt\<close>

definition return_claim ::
  "'s redis \<Rightarrow> key \<Rightarrow> key \<Rightarrow> key \<Rightarrow> str \<Rightarrow> str \<Rightarrow> str \<Rightarrow> 's \<Rightarrow> int \<times> 's" where
  "return_claim R source inflight task_key task_id entry token s =
    (if \<not> token_current R task_key token s then (0, lrem' R inflight 1 entry s)
     else
       let s1 = lrem' R inflight 1 entry s;
           s2 = lrem' R source 0 task_id s1;
           s3 = (if workflow_task_allowed R task_key s2 then r_lpush R source task_id s2 else s2)
       in (1, clear_claim R task_key s3))"

definition ack_claim ::
  "'s redis \<Rightarrow> key \<Rightarrow> key \<Rightarrow> str \<Rightarrow> str \<Rightarrow> bool \<Rightarrow> 's \<Rightarrow> int \<times> 's" where
  "ack_claim R task_key inflight entry token release s =
    (if \<not> r_exists R task_key s then (1, lrem' R inflight 1 entry s)
     else if \<not> token_current R task_key token s then (0, lrem' R inflight 1 entry s)
     else if hget0 R task_key ''claim_recovery_state'' s \<noteq> [] \<and> \<not> release then (-2, s)
     else (1, clear_claim R task_key (lrem' R inflight 1 entry s)))"

definition freeze_claim_recovery ::
  "'s redis \<Rightarrow> key \<Rightarrow> str \<Rightarrow> str \<Rightarrow> str \<Rightarrow> 's \<Rightarrow> int \<times> 's" where
  "freeze_claim_recovery R task_key token reason now s =
    (if \<not> token_current R task_key token s then (0, s)
     else (1, hset_many R task_key
       [(''claim_recovery_state'', ''frozen''), (''claim_recovery_reason'', reason),
        (''claim_recovery_at'', now)] s))"

definition finalize_claim ::
  "'s redis \<Rightarrow> key \<Rightarrow> key \<Rightarrow> key \<Rightarrow> str \<Rightarrow> str \<Rightarrow> str \<Rightarrow> str \<Rightarrow> int \<Rightarrow> int \<Rightarrow> bool \<Rightarrow> 's \<Rightarrow> int \<times> 's" where
  "finalize_claim R task_key result_key inflight token entry task_mapping result_mapping
     task_ttl result_ttl allow_frozen s =
    (if \<not> token_current R task_key token s then (0, lrem' R inflight 1 entry s)
     else if r_hget R task_key ''claim_recovery_state'' s = Some ''frozen'' \<and> \<not> allow_frozen then (-2, s)
     else
       let s1 = hset_many R task_key (cjson_fields R task_mapping) s;
           s2 = hset_many R result_key (cjson_fields R result_mapping) s1;
           s3 = lrem' R inflight 1 entry s2
       in (1, expire_pos R result_key result_ttl (expire_pos R task_key task_ttl s3)))"

text \<open>The \<open>MULTI\<close> pipeline of \<open>_finalize_task_records\<close> for a task nobody claimed.\<close>

definition publish_unclaimed ::
  "'s redis \<Rightarrow> key \<Rightarrow> key \<Rightarrow> (str \<times> str) list \<Rightarrow> (str \<times> str) list \<Rightarrow> int \<Rightarrow> int \<Rightarrow> 's \<Rightarrow> 's" where
  "publish_unclaimed R task_key result_key task_mapping result_mapping task_ttl result_ttl s =
     expire_pos R result_key result_ttl (expire_pos R task_key task_ttl
       (hset_many R result_key result_mapping (hset_many R task_key task_mapping s)))"

end
