(* ===== verification/LifecycleScripts.thy ===== *)
theory LifecycleScripts
  imports ClaimScripts
begin

section \<open>The parent workflow transactions\<close>

text \<open>
  The Lua scripts of \<open>kernelgym/server/workflow_lifecycle.py\<close>: acceptance of a parent request
  under a fresh generation, lease renewal, the generation-fenced terminal commit,
  cancellation with its durable tombstone, and the removal of finished records. A Lua table
  that a script builds and encodes is a \<open>JObj\<close>.
\<close>

definition discard_workflow_records :: "'s redis \<Rightarrow> key list \<Rightarrow> str \<Rightarrow> 's \<Rightarrow> nat \<times> 's" where
  "discard_workflow_records R ks generation s =
    (case ks of [] \<Rightarrow> (0, s) | k1 # _ \<Rightarrow>
       if r_hget R k1 ''workflow_generation'' s \<noteq> Some generation then (0, s)
       else if r_hget R k1 ''status'' s \<notin> Some ` set terminal_statuses then (0, s)
       else if has_token R k1 s then (0, s)
       else (length (filter (\<lambda>k. r_exists R k s) ks), del_many R ks s))"

subsection \<open>Acceptance\<close>

definition accept_fields ::
  "'s redis \<Rightarrow> str \<Rightarrow> str \<Rightarrow> str \<Rightarrow> str \<Rightarrow> rat \<Rightarrow> str \<Rightarrow> str \<Rightarrow> key \<Rightarrow> (str \<times> str) list" where
  "accept_fields R task_id generation req_hash name deadline submitted_at children tombstone =
     [(''status'', ''pending''), (''task_id'', task_id), (''workflow_generation'', generation),
      (''request_hash'', req_hash), (''workflow'', name),
      (''workflow_deadline'', lua_tostring R deadline), (''submitted_at'', submitted_at),
      (''children'', children), (''cancellation_key'', tombstone)]"

definition accept_refused :: "'s redis \<Rightarrow> key \<Rightarrow> key \<Rightarrow> str \<Rightarrow> bool \<Rightarrow> 's \<Rightarrow> int option" where
  \<comment> \<open>the checks on an existing parent record; \<open>None\<close> goes on to replace it\<close>
  "accept_refused R task_key result_key req_hash force s =
    (let status = r_hget R task_key ''status'' s;
         same = (r_hget R task_key ''request_hash'' s = Some req_hash)
     in if status = Some ''pending'' \<or> status = Some ''processing'' then
          (if r_hget R task_key ''workflow_generation'' s = None then Some (-1)
           else if \<not> same then Some (-1) else Some 0)
        else if status \<notin> Some ` set terminal_statuses then Some (-1)
        else if has_token R task_key s then Some (-1)
        else if \<not> force then
          (if same \<and> r_exists R result_key s then Some 0 else Some (-1))
        else None)"

definition accept_workflow ::
  "'s redis \<Rightarrow> key \<Rightarrow> key \<Rightarrow> key \<Rightarrow> key \<Rightarrow> key \<Rightarrow> key \<Rightarrow> str \<Rightarrow> str \<Rightarrow> str \<Rightarrow> str \<Rightarrow> rat \<Rightarrow> int \<Rightarrow> bool \<Rightarrow>
   str \<Rightarrow> str \<Rightarrow> 's \<Rightarrow> int \<times> 's" where
  "accept_workflow R task_key result_key lease cancel active tombstone
     task_id generation req_hash name timeout lease_ms force submitted_at children s =
    (if r_exists R tombstone s then (-2, s)
     else if \<not> r_exists R task_key s \<and> r_exists R lease s then (-1, s)
     else (case (if r_exists R task_key s
                 then accept_refused R task_key result_key req_hash force s else None) of
       Some code \<Rightarrow> (code, s)
     | None \<Rightarrow>
         let deadline = r_time R s + timeout;
             s1 = del_many R [task_key, result_key, lease, cancel] s;
             s2 = hset_many R task_key
                    (accept_fields R task_id generation req_hash name deadline submitted_at
                       children tombstone) s1;
             s3 = r_pexpire R lease lease_ms (r_set R lease generation s2)
         in (1, r_sadd R active task_id s3)))"

subsection \<open>Lease renewal\<close>

definition hsetnx :: "'s redis \<Rightarrow> key \<Rightarrow> str \<Rightarrow> str \<Rightarrow> 's \<Rightarrow> 's" where
  "hsetnx R k f x s = (if r_hget R k f s = None then r_hset R k f x s else s)"

definition renew_workflow ::
  "'s redis \<Rightarrow> key \<Rightarrow> key \<Rightarrow> str \<Rightarrow> int \<Rightarrow> str \<Rightarrow> 's \<Rightarrow> int \<times> 's" where
  "renew_workflow R task_key lease generation lease_ms now s =
    (if \<not> workflow_allowed R \<lparr>m_cancellation_keys = None, m_generation = Some generation,
            m_parent = Some task_key, m_lease = Some lease,
            m_deadline = r_hget R task_key ''workflow_deadline'' s\<rparr> s then (0, s)
     else if r_hget R task_key ''workflow_generation'' s \<noteq> Some generation then (0, s)
     else
       let s1 = r_pexpire R lease lease_ms s;
           s2 = hset_many R task_key [(''status'', ''processing''), (''heartbeat_at'', now)] s1
       in (1, hsetnx R task_key ''started_at'' now s2))"

subsection \<open>Cancellation\<close>

definition stage_names :: "str list" where
  "stage_names = [''compile'', ''kernel'', ''ref'']"

definition tombstone_key :: "str \<Rightarrow> str \<Rightarrow> key" where
  "tombstone_key pfx task_id = pfx @ '':cancelled:'' @ task_id"

definition cancel_key :: "str \<Rightarrow> str \<Rightarrow> key" where
  "cancel_key pfx task_id = pfx @ '':cancel:'' @ task_id"

definition json_object :: "json \<Rightarrow> dict" where
  "json_object j = (case j of JObj d \<Rightarrow> d | _ \<Rightarrow> [])"

definition remove_from_queues :: "'s redis \<Rightarrow> str \<Rightarrow> str \<Rightarrow> str \<Rightarrow> 's \<Rightarrow> 's" where
  \<comment> \<open>both resource queues and the queue of the assigned worker, if any\<close>
  "remove_from_queues R pfx worker task_id s =
    (let s1 = lrem' R (pfx @ '':queue:resource:cpu'') 0 task_id s;
         s2 = lrem' R (pfx @ '':queue:resource:gpu'') 0 task_id s1
     in if worker \<noteq> [] then lrem' R (pfx @ '':queue:worker:'' @ worker) 0 task_id s2 else s2)"

definition clear_owner_fields :: "(str \<times> str) list" where
  "clear_owner_fields = [(''claim_token'', []), (''claim_worker'', []),
     (''claim_worker_instance'', []), (''claim_source_queue'', []), (''claim_inflight_queue'', [])]"

definition release_inflight :: "'s redis \<Rightarrow> key \<Rightarrow> str \<Rightarrow> 's \<Rightarrow> 's" where
  "release_inflight R task_key task_id s =
    (let token = hget0 R task_key ''claim_token'' s;
         inflight = hget0 R task_key ''claim_inflight_queue'' s
     in if token \<noteq> [] \<and> inflight \<noteq> [] then lrem' R inflight 1 (claim_entry token task_id) s else s)"

definition cancel_child :: "'s redis \<Rightarrow> str \<Rightarrow> str \<Rightarrow> str \<Rightarrow> str \<times> str \<Rightarrow> 's \<Rightarrow> 's" where
  "cancel_child R pfx task_id now = (\<lambda>(stage, child) s.
     r_set R (tombstone_key pfx (task_id @ ''_'' @ stage)) now
       (r_set R (cancel_key pfx child) ''1''
         (r_set R (tombstone_key pfx child) now s)))"

definition cancel_task_script ::
  "'s redis \<Rightarrow> key \<Rightarrow> key \<Rightarrow> key \<Rightarrow> key \<Rightarrow> str \<Rightarrow> str \<Rightarrow> str \<Rightarrow> int \<Rightarrow> int \<Rightarrow> 's \<Rightarrow> int \<times> 's" where
  "cancel_task_script R task_key result_key tombstone marker task_id now pfx task_ttl result_ttl s =
    (let s1 = r_set R marker ''1'' (r_set R tombstone now s);
         s2 = fold (\<lambda>stage. r_set R (tombstone_key pfx (task_id @ ''_'' @ stage)) now) stage_names s1
     in if \<not> r_exists R task_key s2 then (1, s2)
        else
          let s3 = r_hset R task_key ''cancelled_at'' now s2 in
          case r_hget R task_key ''children'' s3 of
            Some children \<Rightarrow> (1, fold (cancel_child R pfx task_id now) (cjson_fields R children) s3)
          | None \<Rightarrow>
            let s4 = remove_from_queues R pfx (hget0 R task_key ''assigned_worker'' s3) task_id s3 in
            if r_hget R task_key ''status'' s4 \<noteq> Some ''pending'' then (1, s4)
            else if hget0 R task_key ''claim_recovery_state'' s4 \<noteq> [] then (1, s4)
            else
              let s5 = release_inflight R task_key task_id s4;
                  s6 = hset_many R task_key
                    ([(''status'', ''failed''), (''completed_at'', now)] @ clear_owner_fields) s5;
                  s7 = hset_many R result_key
                    [(''result'', cjson_encode R (JObj [(''task_id'', JStr task_id),
                        (''status'', JStr ''failed''), (''error_message'', JStr ''Task cancelled''),
                        (''error_code'', JStr ''SYSTEM_ERROR'')])),
                     (''error'', ''Task cancelled''), (''error_code'', ''SYSTEM_ERROR''),
                     (''completed_at'', now)] s6
              in (1, expire_pos R result_key result_ttl (expire_pos R task_key task_ttl s7)))"

subsection \<open>The terminal commit\<close>

text \<open>The verdict of the commit: the reason and the result object after the tombstone, deadline
  and lease checks.\<close>

definition finish_reason ::
  "'s redis \<Rightarrow> key \<Rightarrow> key \<Rightarrow> str \<Rightarrow> dict \<Rightarrow> str \<Rightarrow> 's \<Rightarrow> str \<times> dict" where
  "finish_reason R task_key lease generation result reason s =
    (let now = r_time R s;
         deadline = lua_number_or_0 R (r_hget R task_key ''workflow_deadline'' s);
         cancelled = (case r_hget R task_key ''cancellation_key'' s of
                        Some c \<Rightarrow> r_exists R c s | None \<Rightarrow> False);
         (reason1, result1) = (if cancelled
           then (''Task cancelled'',
                 dset ''error_code'' (JStr ''SYSTEM_ERROR'') (dset ''status'' (JStr ''failed'') result))
           else (reason, result))
     in if now \<ge> deadline
        then (''Workflow end-to-end deadline exceeded'',
              dset ''error_code'' (JStr ''TIMEOUT_ERROR'') (dset ''status'' (JStr ''timeout'') result1))
        else if r_get R lease s \<noteq> Some generation \<and> reason1 = []
        then (''Workflow owner lease expired'',
              dset ''error_code'' (JStr ''SYSTEM_ERROR'') (dset ''status'' (JStr ''failed'') result1))
        else (reason1, result1))"

definition finish_result ::
  "'s redis \<Rightarrow> key \<Rightarrow> str \<Rightarrow> str \<Rightarrow> str \<Rightarrow> dict \<Rightarrow> 's \<Rightarrow> dict" where
  "finish_result R task_key generation task_id reason result s =
    (let result1 = (if reason \<noteq> []
           then dset ''correctness'' (JBool False) (dset ''compiled'' (JBool False)
                  (dset ''error_message'' (JStr reason) result))
           else result);
         children = (case r_hget R task_key ''children'' s of Some x \<Rightarrow> x | None \<Rightarrow> ''{}'')
     in dset ''workflow_children'' (cjson_decode R children)
          (dset ''workflow_generation'' (JStr generation) (dset ''task_id'' (JStr task_id) result1)))"

definition finish_child ::
  "'s redis \<Rightarrow> str \<Rightarrow> str \<Rightarrow> int \<Rightarrow> int \<Rightarrow> str \<Rightarrow> 's \<Rightarrow> 's" where
  "finish_child R pfx now task_ttl result_ttl child_id s =
    (let child = pfx @ '':task:'' @ child_id;
         s1 = remove_from_queues R pfx (hget0 R child ''assigned_worker'' s) child_id s
     in if r_hget R child ''status'' s1 = Some ''pending'' \<and>
           hget0 R child ''claim_recovery_state'' s1 = []
        then
          let child_result = pfx @ '':result:'' @ child_id;
              s2 = release_inflight R child child_id s1;
              s3 = hset_many R child clear_owner_fields s2;
              s4 = hset_many R child [(''status'', ''failed''), (''completed_at'', now)] s3;
              s5 = hset_many R child_result
                [(''result'', cjson_encode R (JObj [(''task_id'', JStr child_id),
                    (''status'', JStr ''failed''), (''error_message'', JStr ''Parent workflow ended''),
                    (''error_code'', JStr ''SYSTEM_ERROR'')])), (''completed_at'', now)] s4
          in expire_pos R child_result result_ttl (expire_pos R child task_ttl s5)
        else s1)"

definition finish_workflow ::
  "'s redis \<Rightarrow> key \<Rightarrow> key \<Rightarrow> key \<Rightarrow> key \<Rightarrow> key \<Rightarrow> key \<Rightarrow> str \<Rightarrow> str \<Rightarrow> str \<Rightarrow> int \<Rightarrow> int \<Rightarrow> str \<Rightarrow> str \<Rightarrow>
   str \<Rightarrow> 's \<Rightarrow> int \<times> 's" where
  "finish_workflow R task_key result_key lease cancel active children_set
     generation result_json now task_ttl result_ttl task_id reason pfx s =
    (if r_hget R task_key ''workflow_generation'' s \<noteq> Some generation then (0, s)
     else if r_hget R task_key ''status'' s \<notin> {Some ''pending'', Some ''processing''} then (0, s)
     else
       let (reason1, result1) = finish_reason R task_key lease generation
                (json_object (cjson_decode R result_json)) reason s;
           result2 = finish_result R task_key generation task_id reason1 result1 s;
           message = (case dget ''error_message'' result2 of JStr x \<Rightarrow> x | _ \<Rightarrow> []);
           s1 = hset_many R task_key [(''status'', lua_arg R (dget ''status'' result2)),
                  (''completed_at'', now), (''error_message'', message)] s;
           s2 = hset_many R result_key [(''result'', cjson_encode R (JObj result2)),
                  (''completed_at'', now), (''request_hash'', hget0 R task_key ''request_hash'' s1)] s1;
           s3 = r_srem R active task_id (r_set R cancel ''1'' (r_del R lease s2));
           s4 = fold (finish_child R pfx now task_ttl result_ttl) (r_smembers R children_set s3) s3;
           s5 = expire_pos R children_set task_ttl
                  (expire_pos R cancel task_ttl (expire_pos R task_key task_ttl s4))
       in (1, expire_pos R result_key result_ttl s5))"

end
