(* ===== verification/Keys.thy ===== *)
theory Keys
  imports LifecycleScripts
begin

section \<open>The keyspace layout\<close>

text \<open>
  The key formats of \<open>TaskManager.__init__\<close>, \<open>_gpu_inflight_queue\<close>, \<open>_workflow_key\<close> and of
  \<open>WorkflowLifecycle.keys\<close>, and the facts that keep records of different kinds and of
  different tasks apart. (\<open>cancel_key\<close> and \<open>tombstone_key\<close> are with the scripts that build
  them in Lua.)
\<close>

definition task_key :: "str \<Rightarrow> str \<Rightarrow> key" where
  "task_key pfx task_id = pfx @ '':task:'' @ task_id"

definition result_key :: "str \<Rightarrow> str \<Rightarrow> key" where
  "result_key pfx task_id = pfx @ '':result:'' @ task_id"

definition status_key :: "str \<Rightarrow> str \<Rightarrow> key" where
  "status_key pfx task_id = pfx @ '':status:'' @ task_id"

definition workflow_key :: "str \<Rightarrow> str \<Rightarrow> key" where
  "workflow_key pfx base_id = pfx @ '':workflow:'' @ base_id"

definition active_key :: "str \<Rightarrow> key" where
  "active_key pfx = pfx @ '':workflows:active''"

definition children_key :: "str \<Rightarrow> str \<Rightarrow> str \<Rightarrow> key" where
  "children_key pfx task_id generation =
     pfx @ '':workflow_children:'' @ task_id @ '':'' @ generation"

definition worker_key :: "str \<Rightarrow> str \<Rightarrow> key" where
  "worker_key pfx worker = pfx @ '':worker:'' @ worker"

definition worker_index_key :: "str \<Rightarrow> key" where
  "worker_index_key pfx = pfx @ '':workers''"

definition worker_select_key :: "str \<Rightarrow> str \<Rightarrow> key" where
  "worker_select_key pfx resource = pfx @ '':worker_select:'' @ resource @ '':rr''"

definition resource_queue :: "str \<Rightarrow> str \<Rightarrow> key" where
  "resource_queue pfx resource = pfx @ '':queue:resource:'' @ resource"

definition worker_queue :: "str \<Rightarrow> str \<Rightarrow> key" where
  "worker_queue pfx worker = pfx @ '':queue:worker:'' @ worker"

definition gpu_inflight_queue :: "str \<Rightarrow> str \<Rightarrow> key" where
  "gpu_inflight_queue pfx worker = pfx @ '':queue:inflight:'' @ worker"

lemmas key_defs =
  task_key_def result_key_def status_key_def workflow_key_def active_key_def children_key_def
  worker_key_def worker_index_key_def worker_select_key_def resource_queue_def worker_queue_def gpu_inflight_queue_def
  cancel_key_def tombstone_key_def

lemma task_key_eq [simp]: "task_key p a = task_key p b \<longleftrightarrow> a = b"
  and result_key_eq [simp]: "result_key p a = result_key p b \<longleftrightarrow> a = b"
  and workflow_key_eq [simp]: "workflow_key p a = workflow_key p b \<longleftrightarrow> a = b"
  and cancel_key_eq [simp]: "cancel_key p a = cancel_key p b \<longleftrightarrow> a = b"
  and tombstone_key_eq [simp]: "tombstone_key p a = tombstone_key p b \<longleftrightarrow> a = b"
  and inflight_eq [simp]: "gpu_inflight_queue p a = gpu_inflight_queue p b \<longleftrightarrow> a = b"
  by (simp_all add: key_defs)

text \<open>The task record is no other record, and an inflight list is no waiting queue.\<close>

lemma task_key_neq [simp]:
  "task_key p a \<noteq> result_key p b" "task_key p a \<noteq> status_key p b"
  "task_key p a \<noteq> workflow_key p b" "task_key p a \<noteq> active_key p"
  "task_key p a \<noteq> children_key p b g" "task_key p a \<noteq> cancel_key p b"
  "task_key p a \<noteq> tombstone_key p b" "task_key p a \<noteq> worker_key p b"
  "task_key p a \<noteq> gpu_inflight_queue p b" "task_key p a \<noteq> resource_queue p b"
  "task_key p a \<noteq> worker_queue p b"
  by (simp_all add: key_defs)

lemmas task_key_neq' [simp] = task_key_neq [symmetric]

lemma inflight_neq [simp]:
  "gpu_inflight_queue p a \<noteq> resource_queue p b" "gpu_inflight_queue p a \<noteq> worker_queue p b"
  "gpu_inflight_queue p a \<noteq> result_key p b" "gpu_inflight_queue p a \<noteq> status_key p b"
  "gpu_inflight_queue p a \<noteq> workflow_key p b" "gpu_inflight_queue p a \<noteq> cancel_key p b"
  "gpu_inflight_queue p a \<noteq> tombstone_key p b" "gpu_inflight_queue p a \<noteq> children_key p b g"
  "gpu_inflight_queue p a \<noteq> active_key p" "gpu_inflight_queue p a \<noteq> worker_key p b"
  by (simp_all add: key_defs)

lemmas inflight_neq' [simp] = inflight_neq [symmetric]

lemma tombstone_neq [simp]:
  "tombstone_key p a \<noteq> result_key p b" "tombstone_key p a \<noteq> cancel_key p b"
  "tombstone_key p a \<noteq> workflow_key p b" "tombstone_key p a \<noteq> status_key p b"
  "tombstone_key p a \<noteq> children_key p b g" "tombstone_key p a \<noteq> active_key p"
  "tombstone_key p a \<noteq> worker_key p b"
  by (simp_all add: key_defs)

lemmas tombstone_neq' [simp] = tombstone_neq [symmetric]

lemma workflow_key_neq [simp]:
  "workflow_key p a \<noteq> result_key p b" "workflow_key p a \<noteq> cancel_key p b"
  "workflow_key p a \<noteq> status_key p b" "workflow_key p a \<noteq> children_key p b g"
  "workflow_key p a \<noteq> active_key p"
  by (simp_all add: key_defs)

lemmas workflow_key_neq' [simp] = workflow_key_neq [symmetric]

lemma queue_literals:
  "p @ '':queue:resource:cpu'' = resource_queue p ''cpu''"
  "p @ '':queue:resource:gpu'' = resource_queue p ''gpu''"
  "p @ '':queue:worker:'' @ w = worker_queue p w"
  "p @ '':task:'' @ t = task_key p t"
  "(p @ '':task:'') @ t = task_key p t"
  "(p @ '':queue:worker:'') @ w = worker_queue p w"
  "p @ '':result:'' @ t = result_key p t"
  by (simp_all add: key_defs)

end
