(* ===== verification/Fencing.thy ===== *)
theory Fencing
  imports Keys
begin

section \<open>Fencing: an attempt that executes cannot be disturbed\<close>

text \<open>
  The scripts run one after the other in any order, called by any number of API servers,
  workers and monitors. \<open>transaction\<close> is one such step over the keys the Python code builds,
  or a single command the Python code issues by itself, or the passage of time, or the
  expiry of a key that has a TTL. Its label says which claim token the caller presents for which task. Three
  scripts act on a parent record only (acceptance, renewal, terminal commit); they carry the
  parent's id. Two writes are not fenced by a token: the publication of a task without a claim
  and the removal of the records of a finished standalone task; they carry the task's id.
\<close>

datatype label = Presents str str | Anonymous | Parent str | Unfenced str

definition waiting_queue :: "str \<Rightarrow> key \<Rightarrow> bool" where
  "waiting_queue p q \<longleftrightarrow> (\<exists>r. q = resource_queue p r) \<or> (\<exists>w. q = worker_queue p w)"

definition plain_token :: "str \<Rightarrow> bool" where
  \<comment> \<open>a \<open>uuid4().hex\<close>: non-empty, without the separator of an inflight entry\<close>
  "plain_token t \<longleftrightarrow> t \<noteq> [] \<and> CHR ''|'' \<notin> set t"

definition submission_mapping :: "(str \<times> str) list \<Rightarrow> bool" where
  \<comment> \<open>the mapping of a new task: pending, and unclaimed\<close>
  "submission_mapping fvs \<longleftrightarrow>
     (\<forall>f \<in> {''claim_token'', ''claim_source_queue'', ''claim_inflight_queue''}. f \<notin> fst ` set fvs) \<and>
     map_of (rev fvs) ''status'' = Some ''pending''"

definition terminal_mapping :: "(str \<times> str) list \<Rightarrow> bool" where
  \<comment> \<open>the mapping of a terminal publication: a terminal status, and the claim cleared\<close>
  "terminal_mapping fvs \<longleftrightarrow>
     map_of (rev fvs) ''claim_token'' = Some [] \<and>
     (\<forall>(f, x) \<in> set fvs.
        f \<in> {''claim_token'', ''claim_source_queue'', ''claim_inflight_queue''} \<longrightarrow> x = []) \<and>
     (\<exists>st \<in> set terminal_statuses. map_of (rev fvs) ''status'' = Some st)"

definition field_ok :: "str \<Rightarrow> str \<Rightarrow> str \<Rightarrow> bool" where
  \<comment> \<open>what a claim field of a task record may hold\<close>
  "field_ok p f y \<longleftrightarrow>
     (f = ''claim_token'' \<longrightarrow> CHR ''|'' \<notin> set y) \<and>
     (f = ''claim_source_queue'' \<longrightarrow> y = [] \<or> waiting_queue p y) \<and>
     (f = ''claim_inflight_queue'' \<longrightarrow> y = [] \<or> (\<exists>w. y = gpu_inflight_queue p w))"

definition plain_mapping :: "str \<Rightarrow> (str \<times> str) list \<Rightarrow> bool" where
  "plain_mapping p fvs \<longleftrightarrow> (\<forall>(f, y) \<in> set fvs. field_ok p f y)"

definition record_keys :: "str \<Rightarrow> str \<Rightarrow> str \<Rightarrow> key set" where
  \<comment> \<open>the keys \<open>discard_task_records\<close> passes for one id\<close>
  "record_keys p x g = {task_key p x, result_key p x, status_key p x, cancel_key p x,
     workflow_key p x, children_key p x g}"

inductive transaction ::
  "'s redis \<Rightarrow> ('s \<Rightarrow> keyspace) \<Rightarrow> str \<Rightarrow> label \<Rightarrow> 's \<Rightarrow> 's \<Rightarrow> bool"
  for R :: "'s redis" and view :: "'s \<Rightarrow> keyspace" and p :: str
where
  claim: "waiting_queue p source \<Longrightarrow> plain_token token \<Longrightarrow>
    transaction R view p Anonymous s
      (snd (claim_gpu_task R source (gpu_inflight_queue p w) token w inst (p @ '':task:'') n s))"
| submit: "waiting_queue p dest \<Longrightarrow> submission_mapping (cjson_fields R mapping) \<Longrightarrow>
    transaction R view p Anonymous s
      (snd (submit_task_if_absent R (task_key p x) dest x mapping s))"
| refresh: "waiting_queue p dest \<Longrightarrow> \<forall>q \<in> set cleanup. waiting_queue p q \<Longrightarrow>
    submission_mapping (cjson_fields R mapping) \<Longrightarrow>
    transaction R view p Anonymous s
      (snd (force_refresh_task R (task_key p x) (result_key p x) dest cleanup x mapping
        (p @ '':queue:worker:'') s))"
| queue_wait: "waiting_queue p source \<Longrightarrow> waiting_queue p dest \<Longrightarrow>
    transaction R view p Anonymous s
      (snd (queue_wait_requeue R (task_key p x) source dest (cancel_key p x) pc x w op
        e1 e2 e3 e4 data reason now mv s))"
| requeue: "waiting_queue p dest \<Longrightarrow> plain_token token \<Longrightarrow>
    transaction R view p (Presents token x) s
      (snd (conditional_requeue R (task_key p x) dest (gpu_inflight_queue p w) (cancel_key p x) pc x
        (claim_entry token x) token data reason now dw da release s))"
| mark_gpu: "waiting_queue p source \<Longrightarrow> plain_token token \<Longrightarrow>
    transaction R view p (Presents token x) s
      (snd (mark_claim_processing R (task_key p x) (gpu_inflight_queue p w) (cancel_key p x) pc
        (claim_entry token x) token now w inst source s))"
| mark_cpu: "transaction R view p Anonymous s
    (snd (mark_workflow_cpu_processing R (task_key p x) (cancel_key p x) pc now s))"
| return: "waiting_queue p source \<Longrightarrow> plain_token token \<Longrightarrow>
    transaction R view p (Presents token x) s
      (snd (return_claim R source (gpu_inflight_queue p w) (task_key p x) x (claim_entry token x) token s))"
| ack: "plain_token token \<Longrightarrow>
    transaction R view p (Presents token x) s
      (snd (ack_claim R (task_key p x) (gpu_inflight_queue p w) (claim_entry token x) token release s))"
| freeze: "plain_token token \<Longrightarrow>
    transaction R view p (Presents token x) s
      (snd (freeze_claim_recovery R (task_key p x) token reason now s))"
| finalize: "plain_token token \<Longrightarrow> terminal_mapping (cjson_fields R tm) \<Longrightarrow>
    transaction R view p (Presents token x) s
      (snd (finalize_claim R (task_key p x) (result_key p x) (gpu_inflight_queue p w) token
        (claim_entry token x) tm rm ttl1 ttl2 allow s))"
| cancel: "transaction R view p Anonymous s
    (snd (cancel_task_script R (task_key p x) (result_key p x) (tombstone_key p x) (cancel_key p x)
      x now p ttl1 ttl2 s))"
| discard: "set ks \<subseteq> record_keys p x g \<Longrightarrow> hd ks = task_key p x \<Longrightarrow>
    transaction R view p Anonymous s (snd (discard_workflow_records R ks g s))"
| accept: "transaction R view p (Parent x) s
    (snd (accept_workflow R (task_key p x) (result_key p x) (workflow_key p x) (cancel_key p x)
      (active_key p) (tombstone_key p x) x g h name timeout lease_ms force now children s))"
| renew: "g \<noteq> [] \<Longrightarrow> transaction R view p (Parent x) s
    (snd (renew_workflow R (task_key p x) (workflow_key p x) g lease_ms now s))"
| finish: "\<exists>st \<in> set terminal_statuses. dget ''status'' (json_object (cjson_decode R result)) = JStr st \<Longrightarrow>
    transaction R view p (Parent x) s
    (snd (finish_workflow R (task_key p x) (result_key p x) (workflow_key p x) (cancel_key p x)
      (active_key p) (children_key p x g) g result now ttl1 ttl2 x reason p s))"
| publish: "terminal_mapping tm \<Longrightarrow>
    transaction R view p (Unfenced x) s
      (publish_unclaimed R (task_key p x) (result_key p x) tm rm ttl1 ttl2 s)"
| remove: "set ks \<subseteq> record_keys p x g \<Longrightarrow>
    transaction R view p (Unfenced x) s (del_many R ks s)"
| drop_entry: \<comment> \<open>recovery drops the entry of a superseded attempt\<close>
    "plain_token token \<Longrightarrow> hashes (view s) (task_key p x) ''claim_token'' \<noteq> Some token \<Longrightarrow>
    transaction R view p Anonymous s
      (lrem' R (gpu_inflight_queue p w) 1 (claim_entry token x) s)"
| note_cancelled: "transaction R view p Anonymous s (r_hset R (task_key p x) ''cancelled_at'' now s)"
| worker_note: "transaction R view p Anonymous s (hset_many R (worker_key p w) fvs s)"
| worker_expiry: "transaction R view p Anonymous s (r_pexpire R (worker_key p w) ms s)"
| worker_index: "transaction R view p Anonymous s (r_sadd R (worker_index_key p) x s)"
| worker_unindex: "transaction R view p Anonymous s (r_srem R (worker_index_key p) x s)"
| worker_select: "transaction R view p Anonymous s (r_set R (worker_select_key p r) n s)"
| dequeue: "waiting_queue p q \<Longrightarrow> transaction R view p Anonymous s (snd (r_rpop R q s))"
| put_back: "waiting_queue p q \<Longrightarrow> transaction R view p Anonymous s (r_lpush R q x s)"
| tick: "view s' = view s \<Longrightarrow> r_time R s \<le> r_time R s' \<Longrightarrow> transaction R view p Anonymous s s'"
| expire: "ttls (view s) k \<noteq> None \<Longrightarrow> view s' = ks_del k (view s) \<Longrightarrow>
    transaction R view p Anonymous s s'"

subsection \<open>The invariant\<close>

definition attempt_running :: "str \<Rightarrow> str \<Rightarrow> str \<Rightarrow> str \<Rightarrow> keyspace \<Rightarrow> bool" where
  "attempt_running p x t w v \<longleftrightarrow>
     hashes v (task_key p x) ''status'' = Some ''processing'' \<and>
     hashes v (task_key p x) ''claim_token'' = Some t \<and>
     hashes v (task_key p x) ''claim_recovery_state'' \<in> {Some ''execution_fenced'', Some ''frozen''} \<and>
     claim_entry t x \<in> set (lists v (gpu_inflight_queue p w)) \<and>
     ttls v (task_key p x) = None \<and> ttls v (gpu_inflight_queue p w) = None"

definition fields_ok :: "str \<Rightarrow> keyspace \<Rightarrow> bool" where
  "fields_ok p v \<longleftrightarrow> (\<forall>x f y. hashes v (task_key p x) f = Some y \<longrightarrow> field_ok p f y)"

lemma field_ok_other [simp]:
  "f \<notin> {''claim_token'', ''claim_source_queue'', ''claim_inflight_queue''} \<Longrightarrow> field_ok p f y"
  by (simp add: field_ok_def)

lemma fields_ok_token:
  "fields_ok p v \<Longrightarrow> hashes v (task_key p x) ''claim_token'' = Some t \<Longrightarrow> CHR ''|'' \<notin> set t"
  by (auto simp: fields_ok_def field_ok_def)

text \<open>What a command must not touch: three fields of the record, the inflight entry, and the
  two keys having no expiry.\<close>

definition undisturbed :: "str \<Rightarrow> str \<Rightarrow> str \<Rightarrow> str \<Rightarrow> keyspace \<Rightarrow> keyspace \<Rightarrow> bool" where
  "undisturbed p x e w v v' \<longleftrightarrow>
     (\<forall>f \<in> {''status'', ''claim_token'', ''claim_recovery_state''}.
        hashes v' (task_key p x) f = hashes v (task_key p x) f) \<and>
     (e \<in> set (lists v (gpu_inflight_queue p w)) \<longrightarrow> e \<in> set (lists v' (gpu_inflight_queue p w))) \<and>
     (\<forall>k \<in> {task_key p x, gpu_inflight_queue p w}. ttls v k = None \<longrightarrow> ttls v' k = None)"

lemma undisturbed_refl [simp]: "undisturbed p x e w v v"
  by (simp add: undisturbed_def)

lemma submission_plain: "submission_mapping fvs \<Longrightarrow> plain_mapping p fvs"
  by (force simp: submission_mapping_def plain_mapping_def field_ok_def)

lemma terminal_plain: "terminal_mapping fvs \<Longrightarrow> plain_mapping p fvs"
  by (auto simp: terminal_mapping_def plain_mapping_def field_ok_def)

lemma terminal_fields:
  assumes "terminal_mapping fvs"
  shows "map_of (rev fvs) ''claim_token'' = Some []"
    and "map_of (rev fvs) ''status'' \<in> Some ` set terminal_statuses"
  using assms by (auto simp: terminal_mapping_def)

lemma undisturbed_trans:
  "undisturbed p x e w u v \<Longrightarrow> undisturbed p x e w v v' \<Longrightarrow> undisturbed p x e w u v'"
  by (simp add: undisturbed_def)

lemma attempt_running_undisturbed:
  "attempt_running p x t w v \<Longrightarrow> undisturbed p x (claim_entry t x) w v v' \<Longrightarrow>
   attempt_running p x t w v'"
  by (simp add: attempt_running_def undisturbed_def)

lemma claim_entry_neq:
  assumes "plain_token t" and "CHR ''|'' \<notin> set t'" and "t \<noteq> t' \<or> x \<noteq> y"
  shows "claim_entry t x \<noteq> claim_entry t' y"
  using assms entry_inject [of "CHR ''|''" t t' x y] by (auto simp: claim_entry_def plain_token_def)

lemma waiting_queue_not_inflight [simp]:
  "waiting_queue p q \<Longrightarrow> q \<noteq> gpu_inflight_queue p w"
  "waiting_queue p q \<Longrightarrow> gpu_inflight_queue p w \<noteq> q"
  by (auto simp: waiting_queue_def)

lemma inflight_not_waiting [simp]: "\<not> waiting_queue p (gpu_inflight_queue p w)"
  by (auto simp: waiting_queue_def)

lemma waiting_queue_resource [simp]: "waiting_queue p (resource_queue p r)"
  and waiting_queue_worker [simp]: "waiting_queue p (worker_queue p w)"
  by (auto simp: waiting_queue_def)

subsection \<open>No script disturbs a running attempt of another token\<close>

lemma remove_n_other: "e \<in> set xs \<Longrightarrow> y \<noteq> e \<Longrightarrow> e \<in> set (remove_n m y xs)"
  by (induction m y xs rule: remove_n.induct) auto

lemma attempt_runningD:
  assumes "attempt_running p x t w v"
  shows "hashes v (task_key p x) ''status'' = Some ''processing''"
    and "hashes v (task_key p x) ''claim_token'' = Some t"
    and "ks_exists (task_key p x) v"
  using assms by (auto simp: attempt_running_def ks_exists_def)

context redis_store
begin

lemma undisturbed_hset_many:
  assumes "undisturbed p x e w v (view s)"
    and "k = task_key p x \<Longrightarrow>
      \<forall>f \<in> {''status'', ''claim_token'', ''claim_recovery_state''}. f \<notin> fst ` set fvs"
  shows "undisturbed p x e w v (view (hset_many R k fvs s))"
proof (rule undisturbed_trans [OF assms(1)])
  show "undisturbed p x e w (view s) (view (hset_many R k fvs s))"
    using assms(2)
    by (auto simp: undisturbed_def store_simps map_add_def map_of_eq_None_iff split: option.split
        dest!: map_of_SomeD) (force dest!: map_of_SomeD)+
qed

lemma undisturbed_lrem:
  "undisturbed p x e w v (view s) \<Longrightarrow> q \<noteq> gpu_inflight_queue p w \<or> y \<noteq> e \<Longrightarrow>
   undisturbed p x e w v (view (lrem' R q n y s))"
  by (auto simp: undisturbed_def store_simps remove_n_other)

lemma undisturbed_lrem_raw:
  "undisturbed p x e w v (view s) \<Longrightarrow> q \<noteq> gpu_inflight_queue p w \<or> y \<noteq> e \<Longrightarrow>
   undisturbed p x e w v (view (snd (r_lrem R q n y s)))"
  by (drule undisturbed_lrem [where n = n]) (auto simp: lrem'_def)

lemma undisturbed_rpop:
  "undisturbed p x e w v (view s) \<Longrightarrow> q \<noteq> gpu_inflight_queue p w \<Longrightarrow>
   undisturbed p x e w v (view (snd (r_rpop R q s)))"
  by (auto simp: undisturbed_def store_simps)

lemma undisturbed_del:
  "undisturbed p x e w v (view s) \<Longrightarrow> k \<noteq> task_key p x \<Longrightarrow> k \<noteq> gpu_inflight_queue p w \<Longrightarrow>
   undisturbed p x e w v (view (r_del R k s))"
  by (auto simp: undisturbed_def store_simps)

lemma undisturbed_frame:
  assumes "undisturbed p x e w v (view s)"
  shows "undisturbed p x e w v (view (r_lpush R q y s))"
    and "undisturbed p x e w v (view (r_set R k y s))"
    and "undisturbed p x e w v (view (r_sadd R k y s))"
    and "undisturbed p x e w v (view (r_srem R k y s))"
    and "k \<noteq> task_key p x \<Longrightarrow> k \<noteq> gpu_inflight_queue p w \<Longrightarrow>
      undisturbed p x e w v (view (r_pexpire R k i s))"
    and "k \<noteq> task_key p x \<Longrightarrow> k \<noteq> gpu_inflight_queue p w \<Longrightarrow>
      undisturbed p x e w v (view (expire_pos R k i s))"
  using assms by (auto simp: undisturbed_def store_simps)

lemmas undisturbed_rules =
  undisturbed_hset_many undisturbed_lrem undisturbed_lrem_raw undisturbed_rpop undisturbed_del
  undisturbed_frame

lemma undisturbed_branch:
  "(c \<Longrightarrow> undisturbed p x e w v (view a)) \<Longrightarrow> (\<not> c \<Longrightarrow> undisturbed p x e w v (view b)) \<Longrightarrow>
   undisturbed p x e w v (view (if c then a else b))"
  "(c \<Longrightarrow> undisturbed p x e w v (view (snd a'))) \<Longrightarrow>
   (\<not> c \<Longrightarrow> undisturbed p x e w v (view (snd b'))) \<Longrightarrow>
   undisturbed p x e w v (view (snd (if c then a' else b')))"
  "(d = None \<Longrightarrow> undisturbed p x e w v (view a)) \<Longrightarrow>
   (\<And>z. d = Some z \<Longrightarrow> undisturbed p x e w v (view (g z))) \<Longrightarrow>
   undisturbed p x e w v (view (case d of None \<Rightarrow> a | Some z \<Rightarrow> g z))"
  "(d = None \<Longrightarrow> undisturbed p x e w v (view (snd a'))) \<Longrightarrow>
   (\<And>z. d = Some z \<Longrightarrow> undisturbed p x e w v (view (snd (g' z)))) \<Longrightarrow>
   undisturbed p x e w v (view (snd (case d of None \<Rightarrow> a' | Some z \<Rightarrow> g' z)))"
  "undisturbed p x e w v (view a) \<Longrightarrow> undisturbed p x e w v (view (snd (i :: int, a)))"
  by (auto split: option.split)

lemma undisturbed_fold:
  "undisturbed p x e w v (view s) \<Longrightarrow>
   (\<And>a s. a \<in> set as \<Longrightarrow> undisturbed p x e w v (view s) \<Longrightarrow> undisturbed p x e w v (view (f a s))) \<Longrightarrow>
   undisturbed p x e w v (view (fold f as s))"
  by (induction as arbitrary: s) auto

lemma undisturbed_submit:
  assumes "attempt_running p x t w (view s)" and "waiting_queue p dest"
  shows "undisturbed p x (claim_entry t x) w (view s)
    (view (snd (submit_task_if_absent R (task_key p y) dest y mapping s)))"
  using assms attempt_runningD(3) [OF assms(1)]
  by (auto simp: submit_task_if_absent_def Let_def "exists" split: option.split
      intro!: undisturbed_rules)

lemma undisturbed_refresh:
  assumes "attempt_running p x t w (view s)" and "waiting_queue p dest"
    and "\<forall>q \<in> set cleanup. waiting_queue p q" and "plain_token t"
  shows "undisturbed p x (claim_entry t x) w (view s)
    (view (snd (force_refresh_task R (task_key p y) (result_key p y) dest cleanup y mapping
      (p @ '':queue:worker:'') s)))"
proof (cases "y = x")
  case True
  with assms attempt_runningD [OF assms(1)] show ?thesis
    by (auto simp: force_refresh_task_def Let_def "exists" has_token_def hget0_def hget plain_token_def
        intro!: undisturbed_rules)
next
  case False
  from assms(3) have c: "undisturbed p x (claim_entry t x) w v (view s) \<Longrightarrow>
      undisturbed p x (claim_entry t x) w v (view (fold (\<lambda>q. lrem' R q 0 y) cleanup s))" for v s
    by (auto intro!: undisturbed_fold undisturbed_lrem)
  have wq: "waiting_queue p (p @ '':queue:worker:'' @ u)" for u
    by (simp only: queue_literals waiting_queue_worker)
  show ?thesis
    unfolding force_refresh_task_def Let_def del_many_def
    by (simp only: fold_simps o_apply id_apply,
        intro undisturbed_branch undisturbed_rules c undisturbed_refl)
      (use False assms(2) wq in auto)
qed

lemma undisturbed_queue_wait:
  assumes "attempt_running p x t w (view s)" and "waiting_queue p source" and "waiting_queue p dest"
  shows "undisturbed p x (claim_entry t x) w (view s)
    (view (snd (queue_wait_requeue R (task_key p y) source dest c pc y w' op e1 e2 e3 e4
      data reason now mv s)))"
  unfolding queue_wait_requeue_def Let_def case_prod_beta
  by (intro undisturbed_branch undisturbed_rules undisturbed_refl)
    (use assms attempt_runningD [OF assms(1)] in \<open>auto simp: hget\<close>)

lemma undisturbed_requeue:
  assumes "attempt_running p x t w (view s)" and "waiting_queue p dest"
    and "plain_token t" and "plain_token t'" and "t' \<noteq> t \<or> y \<noteq> x"
  shows "undisturbed p x (claim_entry t x) w (view s)
    (view (snd (conditional_requeue R (task_key p y) dest (gpu_inflight_queue p w') c pc y
      (claim_entry t' y) t' data reason now dw da release s)))"
proof -
  have e: "claim_entry t' y \<noteq> claim_entry t x"
    using assms(3-5) by (metis claim_entry_neq plain_token_def)
  have tok: "token_current R (task_key p y) t' s \<Longrightarrow> y \<noteq> x"
    using attempt_runningD(2) [OF assms(1)] assms(5) by (auto simp: token_current_def hget)
  show ?thesis
    unfolding conditional_requeue_def Let_def clear_claim_def
    by (intro undisturbed_branch undisturbed_rules undisturbed_refl) (use e tok assms(2) in auto)
qed

lemma undisturbed_claim:
  assumes "attempt_running p x t w (view s)" and "waiting_queue p source"
  shows "undisturbed p x (claim_entry t x) w (view s)
    (view (snd (claim_gpu_task R source (gpu_inflight_queue p w') token wk inst (p @ '':task:'') n s)))"
  using assms(1)
proof (induction n arbitrary: s)
  case 0
  then show ?case by simp
next
  case (Suc n)
  obtain popped s1 where pop: "r_rpop R source s = (popped, s1)" by (cases "r_rpop R source s")
  then have s1: "s1 = snd (r_rpop R source s)" by simp
  have u1: "undisturbed p x (claim_entry t x) w (view s) (view s1)"
    unfolding s1 by (rule undisturbed_rpop) (use assms(2) in auto)
  have run: "attempt_running p x t w (view s1)"
    by (rule attempt_running_undisturbed [OF Suc.prems u1])
  show ?case
  proof (cases popped)
    case None
    with pop u1 show ?thesis by simp
  next
    case (Some y)
    show ?thesis
    proof (cases "claimable R (task_key p y) s1")
      case True
      then have "y \<noteq> x"
        using attempt_runningD [OF run] by (auto simp: claimable_def hget)
      then show ?thesis
        using True Some pop u1
        by (simp only: claim_gpu_task.simps prod.case option.case Let_def queue_literals if_True snd_conv)
          (intro undisturbed_rules, auto)
    next
      case False
      have "undisturbed p x (claim_entry t x) w (view s1)
        (view (snd (claim_gpu_task R source (gpu_inflight_queue p w') token wk inst (p @ '':task:'') n s1)))"
        by (rule Suc.IH [OF run])
      then show ?thesis
        using False Some pop u1
        by (simp only: claim_gpu_task.simps prod.case option.case Let_def queue_literals if_False)
          (rule undisturbed_trans)
    qed
  qed
qed

lemma undisturbed_token_scripts:
  assumes run: "attempt_running p x t w (view s)"
    and "waiting_queue p source" and "plain_token t" and "plain_token t'" and "t' \<noteq> t \<or> y \<noteq> x"
  shows "undisturbed p x (claim_entry t x) w (view s)
      (view (snd (mark_claim_processing R (task_key p y) (gpu_inflight_queue p w') c pc
        (claim_entry t' y) t' now wk inst src s)))"
    and "undisturbed p x (claim_entry t x) w (view s)
      (view (snd (return_claim R source (gpu_inflight_queue p w') (task_key p y) y (claim_entry t' y) t' s)))"
    and "undisturbed p x (claim_entry t x) w (view s)
      (view (snd (ack_claim R (task_key p y) (gpu_inflight_queue p w') (claim_entry t' y) t' rel s)))"
    and "undisturbed p x (claim_entry t x) w (view s)
      (view (snd (freeze_claim_recovery R (task_key p y) t' reason now s)))"
    and "undisturbed p x (claim_entry t x) w (view s)
      (view (snd (finalize_claim R (task_key p y) (result_key p y) (gpu_inflight_queue p w') t'
        (claim_entry t' y) tm rm ttl1 ttl2 allow s)))"
proof -
  have e: "claim_entry t' y \<noteq> claim_entry t x"
    using assms(3-5) by (metis claim_entry_neq plain_token_def)
  have tok: "token_current R (task_key p y) t' s \<Longrightarrow> y \<noteq> x"
    using attempt_runningD(2) [OF run] assms(5) by (auto simp: token_current_def hget)
  show "undisturbed p x (claim_entry t x) w (view s)
      (view (snd (mark_claim_processing R (task_key p y) (gpu_inflight_queue p w') c pc
        (claim_entry t' y) t' now wk inst src s)))"
    unfolding mark_claim_processing_def clear_claim_def
    by (intro undisturbed_branch undisturbed_rules undisturbed_refl) (use e tok in auto)
  show "undisturbed p x (claim_entry t x) w (view s)
      (view (snd (return_claim R source (gpu_inflight_queue p w') (task_key p y) y (claim_entry t' y) t' s)))"
    unfolding return_claim_def clear_claim_def Let_def
    by (intro undisturbed_branch undisturbed_rules undisturbed_refl) (use e tok assms(2) in auto)
  show "undisturbed p x (claim_entry t x) w (view s)
      (view (snd (ack_claim R (task_key p y) (gpu_inflight_queue p w') (claim_entry t' y) t' rel s)))"
    unfolding ack_claim_def clear_claim_def
    by (intro undisturbed_branch undisturbed_rules undisturbed_refl) (use e tok in auto)
  show "undisturbed p x (claim_entry t x) w (view s)
      (view (snd (freeze_claim_recovery R (task_key p y) t' reason now s)))"
    unfolding freeze_claim_recovery_def
    by (intro undisturbed_branch undisturbed_rules undisturbed_refl) (use tok in auto)
  show "undisturbed p x (claim_entry t x) w (view s)
      (view (snd (finalize_claim R (task_key p y) (result_key p y) (gpu_inflight_queue p w') t'
        (claim_entry t' y) tm rm ttl1 ttl2 allow s)))"
    unfolding finalize_claim_def Let_def
    by (intro undisturbed_branch undisturbed_rules undisturbed_refl) (use e tok in auto)
qed

lemma undisturbed_mark_cpu:
  assumes "attempt_running p x t w (view s)"
  shows "undisturbed p x (claim_entry t x) w (view s)
    (view (snd (mark_workflow_cpu_processing R (task_key p y) c pc now s)))"
  unfolding mark_workflow_cpu_processing_def
  by (intro undisturbed_branch undisturbed_rules undisturbed_refl)
    (use attempt_runningD [OF assms] in \<open>auto simp: hget\<close>)

lemma undisturbed_remove_from_queues:
  assumes "undisturbed p x e w v (view s)"
  shows "undisturbed p x e w v (view (remove_from_queues R p wk y s))"
  unfolding remove_from_queues_def Let_def queue_literals
  by (intro undisturbed_branch undisturbed_rules) (use assms in auto)

lemma undisturbed_release_inflight:
  assumes "undisturbed p x (claim_entry t x) w v (view s)" and "plain_token t"
    and "fields_ok p (view s)" and "y \<noteq> x"
  shows "undisturbed p x (claim_entry t x) w v (view (release_inflight R (task_key p y) y s))"
  unfolding release_inflight_def Let_def
proof (intro undisturbed_branch undisturbed_rules)
  assume "hget0 R (task_key p y) ''claim_token'' s \<noteq> [] \<and>
    hget0 R (task_key p y) ''claim_inflight_queue'' s \<noteq> []"
  then have "CHR ''|'' \<notin> set (hget0 R (task_key p y) ''claim_token'' s)"
    using fields_ok_token [OF assms(3)] by (auto simp: hget0_view split: option.splits)
  then have "claim_entry t x \<noteq> claim_entry (hget0 R (task_key p y) ''claim_token'' s) y"
    using assms(2,4) by (metis claim_entry_neq)
  then show "hget0 R (task_key p y) ''claim_inflight_queue'' s \<noteq> gpu_inflight_queue p w \<or>
    claim_entry (hget0 R (task_key p y) ''claim_token'' s) y \<noteq> claim_entry t x" by simp
qed (use assms(1) in auto)

lemma plain_frame:
  assumes "fields_ok p (view s)"
  shows "fields_ok p (view (r_lpush R q y s))"
    and "fields_ok p (view (r_set R k y s))"
    and "fields_ok p (view (r_sadd R k y s))"
    and "fields_ok p (view (r_srem R k y s))"
    and "fields_ok p (view (r_pexpire R k i s))"
    and "fields_ok p (view (expire_pos R k i s))"
    and "fields_ok p (view (lrem' R q n y s))"
    and "fields_ok p (view (snd (r_lrem R q n y s)))"
    and "fields_ok p (view (snd (r_rpop R q s)))"
    and "fields_ok p (view (r_del R k s))"
  using assms by (auto simp: fields_ok_def store_simps split: if_splits)

lemma plain_hset_many:
  assumes "fields_ok p (view s)" and "plain_mapping p fvs"
  shows "fields_ok p (view (hset_many R k fvs s))"
  using assms by (fastforce simp: fields_ok_def plain_mapping_def store_simps map_add_Some_iff
      dest!: map_of_SomeD split: if_splits)

lemma plain_worker_note:
  "fields_ok p (view s) \<Longrightarrow> fields_ok p (view (hset_many R (worker_key p w) fvs s))"
  by (simp add: fields_ok_def store_simps)

lemma plain_hset:
  assumes "fields_ok p (view s)" and "field_ok p f y"
  shows "fields_ok p (view (r_hset R k f y s))"
  using assms by (auto simp: fields_ok_def store_simps)

lemma plain_branch:
  "(c \<Longrightarrow> fields_ok p (view a)) \<Longrightarrow> (\<not> c \<Longrightarrow> fields_ok p (view b)) \<Longrightarrow>
   fields_ok p (view (if c then a else b))"
  "(c \<Longrightarrow> fields_ok p (view (snd a'))) \<Longrightarrow> (\<not> c \<Longrightarrow> fields_ok p (view (snd b'))) \<Longrightarrow>
   fields_ok p (view (snd (if c then a' else b')))"
  "(d = None \<Longrightarrow> fields_ok p (view a)) \<Longrightarrow> (\<And>z. d = Some z \<Longrightarrow> fields_ok p (view (g z))) \<Longrightarrow>
   fields_ok p (view (case d of None \<Rightarrow> a | Some z \<Rightarrow> g z))"
  "(d = None \<Longrightarrow> fields_ok p (view (snd a'))) \<Longrightarrow>
   (\<And>z. d = Some z \<Longrightarrow> fields_ok p (view (snd (g' z)))) \<Longrightarrow>
   fields_ok p (view (snd (case d of None \<Rightarrow> a' | Some z \<Rightarrow> g' z)))"
  "fields_ok p (view a) \<Longrightarrow> fields_ok p (view (snd (i :: 'i, a)))"
  by (auto split: option.split)

lemma plain_fold:
  "fields_ok p (view s) \<Longrightarrow>
   (\<And>a s. a \<in> set as \<Longrightarrow> fields_ok p (view s) \<Longrightarrow> fields_ok p (view (f a s))) \<Longrightarrow>
   fields_ok p (view (fold f as s))"
  by (induction as arbitrary: s) auto

lemmas plain_rules = plain_frame plain_hset_many plain_hset plain_branch

lemma plain_remove_from_queues:
  "fields_ok p (view s) \<Longrightarrow> fields_ok p (view (remove_from_queues R q wk y s))"
  unfolding remove_from_queues_def Let_def by (intro plain_rules)

lemma plain_release_inflight:
  "fields_ok p (view s) \<Longrightarrow> fields_ok p (view (release_inflight R k y s))"
  unfolding release_inflight_def Let_def by (intro plain_rules)

lemma undisturbed_cancel:
  assumes run: "attempt_running p x t w (view s)"
    and "plain_token t" and pl: "fields_ok p (view s)"
  shows "undisturbed p x (claim_entry t x) w (view s)
    (view (snd (cancel_task_script R (task_key p y) (result_key p y) ts mk y now p ttl1 ttl2 s)))"
proof -
  let ?e = "claim_entry t x"
  let ?s2 = "fold (\<lambda>stage. r_set R (tombstone_key p (y @ ''_'' @ stage)) now) stage_names
    (r_set R mk ''1'' (r_set R ts now s))"
  let ?s3 = "r_hset R (task_key p y) ''cancelled_at'' now ?s2"
  let ?s4 = "remove_from_queues R p (hget0 R (task_key p y) ''assigned_worker'' ?s3) y ?s3"
  have u2: "undisturbed p x ?e w (view s) (view ?s2)"
    by (intro undisturbed_fold undisturbed_frame undisturbed_refl)
  have u3: "undisturbed p x ?e w (view s) (view ?s3)"
    using u2 by (auto simp: undisturbed_def hset ks_hset_def)
  have u4: "undisturbed p x ?e w (view s) (view ?s4)"
    by (rule undisturbed_remove_from_queues [OF u3])
  show ?thesis
  proof (cases "y = x")
    case True
    have st: "hashes (view ?s4) (task_key p x) ''status'' = Some ''processing''"
      using attempt_running_undisturbed [OF run u4] True by (auto dest: attempt_runningD)
    show ?thesis
      unfolding cancel_task_script_def Let_def cancel_child_def
      by (intro undisturbed_branch)
        (use u2 u3 u4 st True in \<open>auto simp: hget intro!: undisturbed_fold undisturbed_frame\<close>)
  next
    case False
    have rel: "undisturbed p x ?e w (view s) (view (release_inflight R (task_key p y) y ?s4))"
    proof (rule undisturbed_release_inflight [OF u4 assms(2) _ False])
      show "fields_ok p (view ?s4)"
        by (intro plain_remove_from_queues plain_hset plain_fold plain_frame pl) simp_all
    qed
    show ?thesis
      unfolding cancel_task_script_def Let_def cancel_child_def
      by (intro undisturbed_branch)
        (use u2 u3 u4 rel False in \<open>auto intro!: undisturbed_fold undisturbed_rules\<close>)
  qed
qed

lemma undisturbed_discard:
  assumes run: "attempt_running p x t w (view s)"
    and ks: "set ks \<subseteq> record_keys p y g" and hd: "hd ks = task_key p y"
  shows "undisturbed p x e w (view s) (view (snd (discard_workflow_records R ks g s)))"
proof (cases ks)
  case Nil
  then show ?thesis by (simp add: discard_workflow_records_def)
next
  case (Cons k ks')
  show ?thesis
  proof (cases "y = x")
    case True
    with Cons hd attempt_runningD [OF run] show ?thesis
      by (auto simp: discard_workflow_records_def hget)
  next
    case False
    have "undisturbed p x e w (view s) (view (del_many R ks s))"
      unfolding del_many_def
      by (rule undisturbed_fold [OF undisturbed_refl])
        (use ks False in \<open>auto simp: record_keys_def intro!: undisturbed_del\<close>)
    then show ?thesis
      using Cons by (auto simp: discard_workflow_records_def)
  qed
qed

lemma undisturbed_accept:
  assumes run: "attempt_running p x t w (view s)" and "y \<noteq> x"
  shows "undisturbed p x e w (view s)
    (view (snd (accept_workflow R (task_key p y) (result_key p y) (workflow_key p y) (cancel_key p y)
      (active_key p) ts y g h name timeout lease_ms force now children s)))"
  unfolding accept_workflow_def Let_def del_many_def
  by (simp only: fold_simps o_apply id_apply, intro undisturbed_branch undisturbed_rules undisturbed_refl)
    (use assms in auto)

lemma undisturbed_renew:
  assumes "y \<noteq> x"
  shows "undisturbed p x e w (view s)
    (view (snd (renew_workflow R (task_key p y) (workflow_key p y) g lease_ms now s)))"
proof -
  have nx: "undisturbed p x e w v (view s') \<Longrightarrow>
    undisturbed p x e w v (view (hsetnx R (task_key p y) ''started_at'' now s'))" for v s'
    using assms by (auto simp: hsetnx_def undisturbed_def hset ks_hset_def)
  show ?thesis
    unfolding renew_workflow_def Let_def
    by (intro nx undisturbed_branch undisturbed_rules undisturbed_refl) (use assms in auto)
qed

lemma finish_child_undisturbed:
  assumes inv: "attempt_running p x t w (view s)" "fields_ok p (view s)" and "plain_token t"
  shows "undisturbed p x (claim_entry t x) w (view s) (view (finish_child R p now a b y s))
    \<and> fields_ok p (view (finish_child R p now a b y s))"
proof -
  let ?s1 = "remove_from_queues R p (hget0 R (task_key p y) ''assigned_worker'' s) y s"
  have u1: "undisturbed p x (claim_entry t x) w (view s) (view ?s1)"
    by (intro undisturbed_remove_from_queues undisturbed_refl)
  have p1: "fields_ok p (view ?s1)" by (rule plain_remove_from_queues [OF inv(2)])
  have st: "y = x \<Longrightarrow> r_hget R (task_key p y) ''status'' ?s1 = Some ''processing''"
    using attempt_running_undisturbed [OF inv(1) u1] by (simp add: attempt_running_def hget)
  have rel: "y \<noteq> x \<Longrightarrow>
      undisturbed p x (claim_entry t x) w (view s) (view (release_inflight R (task_key p y) y ?s1))"
    by (rule undisturbed_release_inflight [OF u1 assms(3) p1])
  have "undisturbed p x (claim_entry t x) w (view s) (view (finish_child R p now a b y s))"
    unfolding finish_child_def Let_def queue_literals
    by (intro undisturbed_branch undisturbed_rules rel u1) (use st in auto)
  moreover have "fields_ok p (view (finish_child R p now a b y s))"
    unfolding finish_child_def Let_def
    by (intro plain_rules plain_release_inflight plain_remove_from_queues inv(2))
      (auto simp: plain_mapping_def field_ok_def clear_owner_fields_def)
  ultimately show ?thesis by blast
qed

lemma finish_children_undisturbed:
  assumes "attempt_running p x t w (view s)" "fields_ok p (view s)" "plain_token t"
  shows "undisturbed p x (claim_entry t x) w (view s)
      (view (fold (finish_child R p now a b) ys s))
    \<and> fields_ok p (view (fold (finish_child R p now a b) ys s))"
  using assms
proof (induction ys arbitrary: s)
  case Nil
  then show ?case by simp
next
  case (Cons y ys)
  note one = finish_child_undisturbed [OF Cons.prems, of now a b y]
  have run: "attempt_running p x t w (view (finish_child R p now a b y s))"
    using one Cons.prems(1) attempt_running_undisturbed by blast
  from Cons.IH [OF run _ Cons.prems(3)] one show ?case
    by (auto elim: undisturbed_trans)
qed

lemma undisturbed_finish:
  assumes run: "attempt_running p x t w (view s)" and pl: "fields_ok p (view s)"
    and tok: "plain_token t" and "y \<noteq> x"
  shows "undisturbed p x (claim_entry t x) w (view s)
    (view (snd (finish_workflow R (task_key p y) (result_key p y) (workflow_key p y) (cancel_key p y)
      act (children_key p y g) g result now ttl1 ttl2 y reason p s)))"
proof -
  have pm: "plain_mapping p [(''status'', a), (''completed_at'', b), (''error_message'', c)]"
    "plain_mapping p [(''result'', a), (''completed_at'', b), (''request_hash'', c)]" for a b c
    by (auto simp: plain_mapping_def field_ok_def)
  have children: "undisturbed p x (claim_entry t x) w (view s) (view s') \<Longrightarrow> fields_ok p (view s') \<Longrightarrow>
      undisturbed p x (claim_entry t x) w (view s)
        (view (fold (finish_child R p now ttl1 ttl2) ys s'))" for s' ys
    using finish_children_undisturbed [OF _ _ tok] attempt_running_undisturbed [OF run]
      undisturbed_trans by blast
  show ?thesis
    unfolding finish_workflow_def Let_def
    by (cases "finish_reason R (task_key p y) (workflow_key p y) g
          (json_object (cjson_decode R result)) reason s")
      (simp only: prod.case, intro undisturbed_branch undisturbed_rules children undisturbed_refl
        plain_frame plain_hset_many pm pl, use \<open>y \<noteq> x\<close> in auto)
qed

lemma plain_clear_claim: "fields_ok p (view s) \<Longrightarrow> fields_ok p (view (clear_claim R k s))"
  unfolding clear_claim_def
  by (intro plain_rules) (auto simp: plain_mapping_def field_ok_def clear_claim_fields_def)

lemma plain_claim:
  assumes "fields_ok p (view s)" and "plain_token token" and "waiting_queue p source"
    and "inflight = gpu_inflight_queue p w"
  shows "fields_ok p (view (snd (claim_gpu_task R source inflight token wk inst pre n s)))"
  using assms(1)
proof (induction n arbitrary: s)
  case 0
  then show ?case by simp
next
  case (Suc n)
  have p1: "fields_ok p (view (snd (r_rpop R source s)))" by (intro plain_rules Suc.prems)
  have pm: "plain_mapping p (claim_fields token wk inst source inflight)"
    using assms(2-4) by (auto simp: plain_mapping_def field_ok_def claim_fields_def plain_token_def)
  show ?case
    using p1 Suc.IH [OF p1] pm
    by (cases "r_rpop R source s") (auto simp: Let_def split: option.split intro!: plain_rules)
qed

lemma plain_scripts:
  assumes "fields_ok p (view s)"
  shows "plain_mapping p (cjson_fields R m) \<Longrightarrow>
      fields_ok p (view (snd (submit_task_if_absent R k dest y m s)))"
    and "plain_mapping p (cjson_fields R m) \<Longrightarrow>
      fields_ok p (view (snd (force_refresh_task R k rk dest cl y m wp s)))"
    and "fields_ok p (view (snd (mark_workflow_cpu_processing R k c pc now s)))"
    and "waiting_queue p src \<Longrightarrow> q = gpu_inflight_queue p w \<Longrightarrow>
      fields_ok p (view (snd (mark_claim_processing R k q c pc e tok now wk inst src s)))"
    and "fields_ok p (view (snd (return_claim R src q k y e tok s)))"
    and "fields_ok p (view (snd (ack_claim R k q e tok rel s)))"
    and "fields_ok p (view (snd (freeze_claim_recovery R k tok reason now s)))"
    and "plain_mapping p (cjson_fields R m) \<Longrightarrow> k = task_key p z \<Longrightarrow> rk = result_key p z \<Longrightarrow>
      fields_ok p (view (snd (finalize_claim R k rk q tok e m rm a b allow s)))"
proof -
  note rules = plain_clear_claim plain_fold plain_rules assms
  show "plain_mapping p (cjson_fields R m) \<Longrightarrow>
      fields_ok p (view (snd (submit_task_if_absent R k dest y m s)))"
    unfolding submit_task_if_absent_def Let_def by (intro rules)
  show "plain_mapping p (cjson_fields R m) \<Longrightarrow>
      fields_ok p (view (snd (force_refresh_task R k rk dest cl y m wp s)))"
    unfolding force_refresh_task_def Let_def del_many_def by (intro rules)
  show "fields_ok p (view (snd (mark_workflow_cpu_processing R k c pc now s)))"
    unfolding mark_workflow_cpu_processing_def by (intro rules) (auto simp: plain_mapping_def field_ok_def)
  show "fields_ok p (view (snd (mark_claim_processing R k q c pc e tok now wk inst src s)))"
    if "waiting_queue p src" "q = gpu_inflight_queue p w"
    unfolding mark_claim_processing_def
    by (intro rules) (use that in \<open>auto simp: plain_mapping_def field_ok_def processing_fields_def\<close>)
  show "fields_ok p (view (snd (return_claim R src q k y e tok s)))"
    unfolding return_claim_def Let_def by (intro rules)
  show "fields_ok p (view (snd (ack_claim R k q e tok rel s)))"
    unfolding ack_claim_def by (intro rules)
  show "fields_ok p (view (snd (freeze_claim_recovery R k tok reason now s)))"
    unfolding freeze_claim_recovery_def by (intro rules) (auto simp: plain_mapping_def field_ok_def)
  assume m: "plain_mapping p (cjson_fields R m)" and k: "k = task_key p z" "rk = result_key p z"
  have res: "fields_ok p (view s') \<Longrightarrow> fields_ok p (view (hset_many R rk fvs s'))" for s' fvs
    by (auto simp: fields_ok_def store_simps k)
  show "fields_ok p (view (snd (finalize_claim R k rk q tok e m rm a b allow s)))"
    unfolding finalize_claim_def Let_def by (intro m res rules)
qed

lemma plain_moves:
  assumes "fields_ok p (view s)"
  shows "fields_ok p (view (snd (queue_wait_requeue R k source dest c pc y wk op e1 e2 e3 e4
      data reason now mv s)))"
    and "fields_ok p (view (snd (conditional_requeue R k dest q c pc y e tok data reason now
      dw da release s)))"
proof -
  have pm: "plain_mapping p (requeue_fields d w a r n)"
    "plain_mapping p (requeue_fields d w a r n @ [(''queue_move_token'', mv)])" for d w a r n mv
    by (auto simp: plain_mapping_def field_ok_def requeue_fields_def clear_claim_fields_def)
  show "fields_ok p (view (snd (queue_wait_requeue R k source dest c pc y wk op e1 e2 e3 e4
      data reason now mv s)))"
    unfolding queue_wait_requeue_def Let_def case_prod_beta
    by (intro plain_rules pm assms)
  show "fields_ok p (view (snd (conditional_requeue R k dest q c pc y e tok data reason now
      dw da release s)))"
    unfolding conditional_requeue_def Let_def
    by (intro plain_clear_claim plain_rules pm assms)
qed

lemma plain_lifecycle:
  assumes "fields_ok p (view s)"
  shows "fields_ok p (view (snd (cancel_task_script R k rk ts mk y now p' a b s)))"
    and "fields_ok p (view (snd (discard_workflow_records R ks g s)))"
    and "fields_ok p (view (snd (accept_workflow R k rk lease c act ts y g h name timeout
      lease_ms force now children s)))"
    and "fields_ok p (view (snd (renew_workflow R k lease g lease_ms now s)))"
    and "fields_ok p (view (snd (finish_workflow R k rk lease c act ck g result now a b y reason p' s)))"
proof -
  note rules = plain_fold plain_remove_from_queues plain_release_inflight plain_rules assms
  show "fields_ok p (view (snd (cancel_task_script R k rk ts mk y now p' a b s)))"
    unfolding cancel_task_script_def Let_def cancel_child_def
    by (intro rules) (auto simp: plain_mapping_def field_ok_def clear_owner_fields_def intro!: plain_frame)
  show "fields_ok p (view (snd (discard_workflow_records R ks g s)))"
    unfolding discard_workflow_records_def del_many_def by (cases ks) (auto intro!: rules)
  show "fields_ok p (view (snd (accept_workflow R k rk lease c act ts y g h name timeout
      lease_ms force now children s)))"
    unfolding accept_workflow_def Let_def del_many_def
    by (intro rules) (auto simp: plain_mapping_def field_ok_def accept_fields_def)
  have nx: "fields_ok p (view s') \<Longrightarrow> fields_ok p (view (hsetnx R k ''started_at'' x s'))" for s' x
    by (auto simp: hsetnx_def intro!: plain_hset)
  show "fields_ok p (view (snd (renew_workflow R k lease g lease_ms now s)))"
    unfolding renew_workflow_def Let_def by (intro nx rules) (auto simp: plain_mapping_def field_ok_def)
  have child: "fields_ok p (view s') \<Longrightarrow> fields_ok p (view (finish_child R p' now a b z s'))" for s' z
    unfolding finish_child_def Let_def
    by (intro plain_release_inflight plain_remove_from_queues plain_rules)
      (auto simp: plain_mapping_def field_ok_def clear_owner_fields_def)
  have pair: "fields_ok p (view (snd (f (fst q) (snd q)))) \<Longrightarrow>
      fields_ok p (view (snd (case q of (a, b) \<Rightarrow> f a b)))" for f :: "str \<Rightarrow> dict \<Rightarrow> int \<times> 's" and q
    by (simp add: split_beta)
  show "fields_ok p (view (snd (finish_workflow R k rk lease c act ck g result now a b y reason p' s)))"
    unfolding finish_workflow_def Let_def
    by (intro child rules pair) (auto simp: plain_mapping_def field_ok_def)
qed

lemma plain_ks_del: "fields_ok p v \<Longrightarrow> fields_ok p (ks_del k v)"
  by (auto simp: fields_ok_def ks_del_def split: if_splits)

lemma undisturbed_expire:
  assumes "attempt_running p x t w v" and "ttls v k \<noteq> None"
  shows "undisturbed p x e w v (ks_del k v)"
  using assms by (auto simp: undisturbed_def attempt_running_def ks_del_def)

lemma plain_publish:
  assumes "fields_ok p (view s)" and "terminal_mapping tm"
  shows "fields_ok p (view (publish_unclaimed R (task_key p y) (result_key p y) tm rm a b s))"
  unfolding publish_unclaimed_def
proof (intro plain_frame)
  have "fields_ok p (view (hset_many R (task_key p y) tm s))"
    by (intro plain_hset_many terminal_plain assms)
  then show "fields_ok p (view (hset_many R (result_key p y) rm (hset_many R (task_key p y) tm s)))"
    by (auto simp: fields_ok_def store_simps)
qed

lemma undisturbed_publish:
  assumes "y \<noteq> x"
  shows "undisturbed p x e w (view s)
    (view (publish_unclaimed R (task_key p y) (result_key p y) tm rm a b s))"
  unfolding publish_unclaimed_def
  by (intro undisturbed_rules undisturbed_refl) (use assms in auto)

lemma undisturbed_remove:
  assumes "set ks \<subseteq> record_keys p y g" and "y \<noteq> x"
  shows "undisturbed p x e w (view s) (view (del_many R ks s))"
  unfolding del_many_def
  by (rule undisturbed_fold [OF undisturbed_refl])
    (use assms in \<open>auto simp: record_keys_def intro!: undisturbed_del\<close>)

lemma undisturbed_drop_entry:
  assumes "attempt_running p x t w (view s)" and "plain_token t" and "plain_token t'"
    and "hashes (view s) (task_key p y) ''claim_token'' \<noteq> Some t'"
  shows "undisturbed p x (claim_entry t x) w (view s)
    (view (lrem' R (gpu_inflight_queue p w') n (claim_entry t' y) s))"
proof -
  have "t \<noteq> t' \<or> x \<noteq> y" using attempt_runningD(2) [OF assms(1)] assms(4) by auto
  then have "claim_entry t' y \<noteq> claim_entry t x"
    using claim_entry_neq [of t t' x y] assms(2,3) by (auto simp: plain_token_def)
  then show ?thesis by (intro undisturbed_lrem undisturbed_refl) simp
qed

lemma undisturbed_note_cancelled:
  "undisturbed p x e w (view s) (view (r_hset R (task_key p y) ''cancelled_at'' now s))"
  by (auto simp: undisturbed_def store_simps)

lemma plain_remove: "fields_ok p (view s) \<Longrightarrow> fields_ok p (view (del_many R ks s))"
  unfolding del_many_def by (intro plain_fold plain_frame)

lemma transaction_plain:
  assumes "transaction R view p l s s'" and "fields_ok p (view s)"
  shows "fields_ok p (view s')"
  using assms
  by cases (auto simp: plain_ks_del intro!: plain_claim plain_scripts plain_moves plain_lifecycle
      plain_publish plain_remove plain_frame plain_hset plain_worker_note dest: submission_plain terminal_plain)

lemma transaction_fence:
  assumes "transaction R view p l s s'" and "l \<noteq> Presents t x" and "l \<noteq> Parent x" and "l \<noteq> Unfenced x" and tok: "plain_token t"
    and run: "attempt_running p x t w (view s)" and pl: "fields_ok p (view s)"
  shows "attempt_running p x t w (view s') \<and> fields_ok p (view s')"
proof
  show "fields_ok p (view s')"
    by (rule transaction_plain [OF assms(1) pl])
  have "undisturbed p x (claim_entry t x) w (view s) (view s')"
    using assms(1-4)
    by cases (auto intro!: undisturbed_claim undisturbed_submit undisturbed_refresh
        undisturbed_queue_wait undisturbed_requeue undisturbed_token_scripts undisturbed_mark_cpu
        undisturbed_cancel undisturbed_discard undisturbed_accept undisturbed_renew undisturbed_finish
        undisturbed_expire undisturbed_publish undisturbed_remove undisturbed_drop_entry
        undisturbed_note_cancelled undisturbed_hset_many undisturbed_rpop undisturbed_frame undisturbed_refl run pl tok waiting_queue_resource)
  then show "attempt_running p x t w (view s')"
    by (rule attempt_running_undisturbed [OF run])
qed

end

end
