(* ===== verification/Exclusion.thy ===== *)
theory Exclusion
  imports Fencing
begin

section \<open>One attempt at a time\<close>

text \<open>
  Runs of transactions, what a claim delivers, and the fence along a run: while an attempt
  executes under its token, no claim hands the task out again and no start succeeds, whatever
  the other processes do.
\<close>

inductive trace ::
  "'s redis \<Rightarrow> ('s \<Rightarrow> keyspace) \<Rightarrow> str \<Rightarrow> label list \<Rightarrow> 's \<Rightarrow> 's \<Rightarrow> bool"
  for R :: "'s redis" and view :: "'s \<Rightarrow> keyspace" and p :: str
where
  trace_nil: "trace R view p [] s s"
| trace_step: "trace R view p ls s s1 \<Longrightarrow> transaction R view p l s1 s2 \<Longrightarrow> trace R view p (ls @ [l]) s s2"

text \<open>The store after \<open>k + 1\<close> ids were popped from the right of a queue.\<close>

definition popped_view :: "key \<Rightarrow> nat \<Rightarrow> keyspace \<Rightarrow> keyspace" where
  "popped_view q k v = ks_list q (take (length (lists v q) - Suc k) (lists v q)) v"

context redis_store
begin

lemma trace_fence:
  assumes "trace R view p ls s s'" and "Presents t x \<notin> set ls" and "Parent x \<notin> set ls" and "Unfenced x \<notin> set ls" and "plain_token t"
    and "attempt_running p x t w (view s)" and "fields_ok p (view s)"
  shows "attempt_running p x t w (view s') \<and> fields_ok p (view s')"
  using assms
proof (induction rule: trace.induct)
  case (trace_nil s)
  then show ?case by blast
next
  case (trace_step ls s s1 l s2)
  then have "attempt_running p x t w (view s1) \<and> fields_ok p (view s1)" by simp
  moreover have "l \<noteq> Presents t x" "l \<noteq> Parent x" "l \<noteq> Unfenced x" using trace_step.prems by auto
  ultimately show ?case
    using transaction_fence [OF trace_step.hyps(2)] trace_step.prems(4) by blast
qed

text \<open>What a successful claim delivers: a task that was pending, unclaimed and admitted, now
  owned by the token, with its entry at the head of the worker's inflight list.\<close>

lemma claim_gpu_task_Some:
  assumes "fst (claim_gpu_task R source inflight token wk inst pre n s) = Some x"
  shows "\<exists>k s1. k < n \<and> k < length (lists (view s) source) \<and>
    x = lists (view s) source ! (length (lists (view s) source) - Suc k) \<and>
    view s1 = popped_view source k (view s) \<and> claimable R (pre @ x) s1 \<and>
    snd (claim_gpu_task R source inflight token wk inst pre n s) =
      hset_many R (pre @ x) (claim_fields token wk inst source inflight)
        (r_lpush R inflight (claim_entry token x) s1)"
  using assms
proof (induction n arbitrary: s)
  case 0
  then show ?case by simp
next
  case (Suc n)
  let ?L = "lists (view s) source"
  let ?s1 = "snd (r_rpop R source s)"
  have ne: "?L \<noteq> []"
  proof
    assume "?L = []"
    then have "fst (r_rpop R source s) = None" by (simp add: rpop_result)
    with Suc.prems show False by (cases "r_rpop R source s") simp
  qed
  then obtain s0 where pop: "r_rpop R source s = (Some (last ?L), s0)"
    by (cases "r_rpop R source s") (use rpop_result [of source s] in simp)
  then have s0: "view s0 = ks_list source (butlast ?L) (view s)"
    using rpop [of source s] by simp
  have v0: "view s0 = popped_view source 0 (view s)"
    by (simp add: popped_view_def s0 butlast_conv_take)
  show ?case
  proof (cases "claimable R (pre @ last ?L) s0")
    case True
    then have x: "x = last ?L" using Suc.prems pop by (simp add: Let_def)
    have step: "snd (claim_gpu_task R source inflight token wk inst pre (Suc n) s) =
        hset_many R (pre @ x) (claim_fields token wk inst source inflight)
          (r_lpush R inflight (claim_entry token x) s0)"
      using True pop x by (simp add: Let_def)
    show ?thesis
      by (intro exI [of _ "0::nat"] exI [of _ s0])
        (use True x ne step v0 in \<open>simp add: last_conv_nth\<close>)
  next
    case False
    then have rec: "claim_gpu_task R source inflight token wk inst pre (Suc n) s =
        claim_gpu_task R source inflight token wk inst pre n s0"
      using pop by (simp add: Let_def)
    have L1: "lists (view s0) source = butlast ?L" by (simp add: s0 ks_list_def)
    from Suc.IH [of s0] Suc.prems obtain k s1 where k: "k < n" "k < length ?L - 1"
      and xk: "x = butlast ?L ! (length ?L - 1 - Suc k)"
      and vs: "view s1 = popped_view source k (view s0)" and cl: "claimable R (pre @ x) s1"
      and st: "snd (claim_gpu_task R source inflight token wk inst pre n s0) =
        hset_many R (pre @ x) (claim_fields token wk inst source inflight)
          (r_lpush R inflight (claim_entry token x) s1)"
      unfolding rec by (auto simp: L1)
    have "view s1 = popped_view source (Suc k) (view s)"
      using k by (simp add: vs s0 popped_view_def ks_list_def butlast_conv_take take_take min_def)
    moreover have "x = ?L ! (length ?L - Suc (Suc k))"
      using k by (simp add: xk nth_butlast)
    ultimately show ?thesis
      unfolding rec using k cl st by (intro exI [of _ "Suc k"] exI [of _ s1]) auto
  qed
qed

lemma claim_first:
  assumes "lists (view s) source \<noteq> []"
    and "claimable R (pre @ last (lists (view s) source)) (snd (r_rpop R source s))"
  shows "claim_gpu_task R source inflight token wk inst pre (Suc n) s =
    (Some (last (lists (view s) source)),
     hset_many R (pre @ last (lists (view s) source)) (claim_fields token wk inst source inflight)
       (r_lpush R inflight (claim_entry token (last (lists (view s) source))) (snd (r_rpop R source s))))"
  using assms rpop_result [of source s] by (cases "r_rpop R source s") (simp add: Let_def)

lemma claim_refuses_running:
  assumes "attempt_running p x t w (view s)"
  shows "fst (claim_gpu_task R source inflight token wk inst (p @ '':task:'') n s) \<noteq> Some x"
proof
  assume "fst (claim_gpu_task R source inflight token wk inst (p @ '':task:'') n s) = Some x"
  then obtain k s1 where "view s1 = popped_view source k (view s)" "claimable R (task_key p x) s1"
    using claim_gpu_task_Some [of source inflight token wk inst "p @ '':task:''" n s x]
    unfolding queue_literals by blast
  then show False
    using assms by (auto simp: claimable_def hget popped_view_def ks_list_def attempt_running_def)
qed

lemma start_refuses_running:
  assumes "attempt_running p x t w (view s)"
  shows "fst (mark_claim_processing R (task_key p x) q c pc e t' now wk inst src s) \<noteq> 1"
    and "fst (mark_workflow_cpu_processing R (task_key p x) c pc now s) \<noteq> 1"
  using assms
  by (auto simp: mark_claim_processing_def mark_workflow_cpu_processing_def hget attempt_running_def)

end

lemma running_exclusive:
  assumes "redis_store R view" and "trace R view p ls s s'"
    and "Presents t x \<notin> set ls" and "Parent x \<notin> set ls" and "Unfenced x \<notin> set ls" and "plain_token t"
    and "attempt_running p x t w (view s)" and "fields_ok p (view s)"
  shows "attempt_running p x t w (view s') \<and>
    fst (claim_gpu_task R source inflight token wk inst (p @ '':task:'') n s') \<noteq> Some x \<and>
    fst (mark_claim_processing R (task_key p x) q c pc e t' now wk' inst' src s') \<noteq> 1 \<and>
    fst (mark_workflow_cpu_processing R (task_key p x) c pc now s') \<noteq> 1"
proof -
  have run: "attempt_running p x t w (view s')"
    using redis_store.trace_fence [OF assms] by blast
  then show ?thesis
    by (simp add: redis_store.claim_refuses_running [OF assms(1)]
        redis_store.start_refuses_running [OF assms(1)])
qed

end
