(* ===== verification/Invariant.thy ===== *)
theory Invariant
  imports Exclusion
begin

section \<open>The invariant of the store\<close>

text \<open>
  What every interleaving of the transactions keeps, from the empty store on: a claim token
  contains no separator and the recorded queues are queues of the scheduler, every live token has its entry in an inflight list (so a crash of
  its worker is recoverable), and only terminal task records and no inflight list expire.
\<close>

definition backed_but :: "str \<Rightarrow> str set \<Rightarrow> keyspace \<Rightarrow> bool" where
  \<comment> \<open>every live claim outside \<open>X\<close> has its inflight entry\<close>
  "backed_but p X v \<longleftrightarrow>
     (\<forall>x t. x \<notin> X \<longrightarrow> hashes v (task_key p x) ''claim_token'' = Some t \<longrightarrow> t \<noteq> [] \<longrightarrow>
        (\<exists>w. claim_entry t x \<in> set (lists v (gpu_inflight_queue p w))))"

abbreviation claims_backed :: "str \<Rightarrow> keyspace \<Rightarrow> bool" where
  "claims_backed p \<equiv> backed_but p {}"

definition expiry_ok :: "str \<Rightarrow> keyspace \<Rightarrow> bool" where
  "expiry_ok p v \<longleftrightarrow>
     (\<forall>x. ttls v (task_key p x) \<noteq> None \<longrightarrow>
        hashes v (task_key p x) ''status'' \<in> Some ` set terminal_statuses) \<and>
     (\<forall>w. ttls v (gpu_inflight_queue p w) = None)"

subsection \<open>Backed claims\<close>

lemma backed_weaken: "claims_backed p v \<Longrightarrow> backed_but p {y} v"
  by (simp add: backed_but_def)

lemma backed_mono:
  assumes "backed_but p X v"
    and "\<And>x t. hashes v' (task_key p x) ''claim_token'' = Some t \<Longrightarrow>
      hashes v (task_key p x) ''claim_token'' = Some t"
    and "\<And>w. set (lists v (gpu_inflight_queue p w)) \<subseteq> set (lists v' (gpu_inflight_queue p w))"
  shows "backed_but p X v'"
  using assms by (meson backed_but_def subsetD)

lemma expiry_mono:
  assumes "expiry_ok p v" and "\<And>k. ttls v' k \<noteq> None \<Longrightarrow> ttls v k \<noteq> None"
    and "\<And>x. ttls v' (task_key p x) \<noteq> None \<Longrightarrow>
      hashes v (task_key p x) ''status'' \<in> Some ` set terminal_statuses \<Longrightarrow>
      hashes v' (task_key p x) ''status'' \<in> Some ` set terminal_statuses"
  shows "expiry_ok p v'"
  using assms by (metis expiry_ok_def)

lemma claim_entry_stale:
  assumes "CHR ''|'' \<notin> set t" and "CHR ''|'' \<notin> set t'" and "t \<noteq> t' \<or> x \<noteq> y"
  shows "claim_entry t x \<noteq> claim_entry t' y"
  using assms entry_inject [of "CHR ''|''" t t' x y] by (auto simp: claim_entry_def)

context redis_store
begin

lemma backed_frame:
  assumes "backed_but p X (view s)"
  shows "backed_but p X (view (r_lpush R q y s))"
    and "backed_but p X (view (r_set R k y s))"
    and "backed_but p X (view (r_sadd R k y s))"
    and "backed_but p X (view (r_srem R k y s))"
    and "backed_but p X (view (r_pexpire R k i s))"
    and "backed_but p X (view (expire_pos R k i s))"
    and "(\<And>w. q \<noteq> gpu_inflight_queue p w) \<Longrightarrow> backed_but p X (view (lrem' R q 0 y s))"
    and "(\<And>w. q \<noteq> gpu_inflight_queue p w) \<Longrightarrow> backed_but p X (view (snd (r_rpop R q s)))"
    and "(\<And>w. q \<noteq> gpu_inflight_queue p w) \<Longrightarrow> backed_but p X (view (snd (r_lrem R q m y s)))"
    and "(\<And>w. k \<noteq> gpu_inflight_queue p w) \<Longrightarrow> backed_but p X (view (r_del R k s))"
    and "f \<noteq> ''claim_token'' \<Longrightarrow> backed_but p X (view (r_hset R k f y s))"
  by (rule backed_mono [OF assms]; auto simp: store_simps split: if_splits)+

lemma backed_hset_many:
  assumes "backed_but p X (view s)" and "\<And>y. k = task_key p y \<Longrightarrow> ''claim_token'' \<notin> fst ` set fvs"
  shows "backed_but p X (view (hset_many R k fvs s))"
proof (rule backed_mono [OF assms(1)])
  fix x t
  assume "hashes (view (hset_many R k fvs s)) (task_key p x) ''claim_token'' = Some t"
  then show "hashes (view s) (task_key p x) ''claim_token'' = Some t"
    using assms(2) [of x] by (auto simp: store_simps split: if_splits dest!: map_of_SomeD) force
qed (simp add: store_simps)

lemma backed_clearing:
  assumes "backed_but p {y} (view s)" and "map_of (rev fvs) ''claim_token'' = Some []"
  shows "claims_backed p (view (hset_many R (task_key p y) fvs s))"
  using assms by (auto simp: backed_but_def store_simps)

lemma backed_clear_claim:
  "backed_but p {y} (view s) \<Longrightarrow> claims_backed p (view (clear_claim R (task_key p y) s))"
  unfolding clear_claim_def by (erule backed_clearing) (simp add: clear_claim_fields_def)

lemma backed_claiming:
  assumes "claims_backed p (view s)"
    and "claim_entry t y \<in> set (lists (view s) (gpu_inflight_queue p w))"
    and "map_of (rev fvs) ''claim_token'' = Some t"
  shows "claims_backed p (view (hset_many R (task_key p y) fvs s))"
  using assms by (auto simp: backed_but_def store_simps)

lemma backed_lrem_stale:
  assumes "claims_backed p (view s)" and "fields_ok p (view s)" and "CHR ''|'' \<notin> set t"
    and "hashes (view s) (task_key p y) ''claim_token'' \<noteq> Some t"
  shows "claims_backed p (view (lrem' R q 1 (claim_entry t y) s))"
  unfolding backed_but_def
proof (intro allI impI)
  fix x t'
  assume "hashes (view (lrem' R q 1 (claim_entry t y) s)) (task_key p x) ''claim_token'' = Some t'"
    and ne: "t' \<noteq> []"
  then have tok: "hashes (view s) (task_key p x) ''claim_token'' = Some t'"
    by (simp add: store_simps)
  with assms(1) ne obtain w where w: "claim_entry t' x \<in> set (lists (view s) (gpu_inflight_queue p w))"
    by (auto simp: backed_but_def)
  have "claim_entry t' x \<noteq> claim_entry t y"
    using claim_entry_stale [of t' t x y] fields_ok_token [OF assms(2) tok] assms(3,4) tok by auto
  with w have "claim_entry t' x \<in>
      set (lists (view (lrem' R q 1 (claim_entry t y) s)) (gpu_inflight_queue p w))"
    by (auto simp: store_simps)
  then show "\<exists>w. claim_entry t' x \<in>
      set (lists (view (lrem' R q 1 (claim_entry t y) s)) (gpu_inflight_queue p w))" ..
qed

lemma backed_lrem_own:
  assumes "claims_backed p (view s)" and "fields_ok p (view s)" and "CHR ''|'' \<notin> set t"
  shows "backed_but p {y} (view (lrem' R q 1 (claim_entry t y) s))"
  unfolding backed_but_def
proof (intro allI impI)
  fix x t'
  assume x: "x \<notin> {y}"
    and "hashes (view (lrem' R q 1 (claim_entry t y) s)) (task_key p x) ''claim_token'' = Some t'"
    and ne: "t' \<noteq> []"
  then have tok: "hashes (view s) (task_key p x) ''claim_token'' = Some t'"
    by (simp add: store_simps)
  with assms(1) ne obtain w where w: "claim_entry t' x \<in> set (lists (view s) (gpu_inflight_queue p w))"
    by (auto simp: backed_but_def)
  have "claim_entry t' x \<noteq> claim_entry t y"
    using claim_entry_stale [of t' t x y] fields_ok_token [OF assms(2) tok] assms(3) x by auto
  with w have "claim_entry t' x \<in>
      set (lists (view (lrem' R q 1 (claim_entry t y) s)) (gpu_inflight_queue p w))"
    by (auto simp: store_simps)
  then show "\<exists>w. claim_entry t' x \<in>
      set (lists (view (lrem' R q 1 (claim_entry t y) s)) (gpu_inflight_queue p w))" ..
qed

lemma backed_branch:
  "(c \<Longrightarrow> backed_but p X (view a)) \<Longrightarrow> (\<not> c \<Longrightarrow> backed_but p X (view b)) \<Longrightarrow>
   backed_but p X (view (if c then a else b))"
  "(c \<Longrightarrow> backed_but p X (view (snd a'))) \<Longrightarrow> (\<not> c \<Longrightarrow> backed_but p X (view (snd b'))) \<Longrightarrow>
   backed_but p X (view (snd (if c then a' else b')))"
  "(d = None \<Longrightarrow> backed_but p X (view a)) \<Longrightarrow> (\<And>z. d = Some z \<Longrightarrow> backed_but p X (view (g z))) \<Longrightarrow>
   backed_but p X (view (case d of None \<Rightarrow> a | Some z \<Rightarrow> g z))"
  "(d = None \<Longrightarrow> backed_but p X (view (snd a'))) \<Longrightarrow>
   (\<And>z. d = Some z \<Longrightarrow> backed_but p X (view (snd (g' z)))) \<Longrightarrow>
   backed_but p X (view (snd (case d of None \<Rightarrow> a' | Some z \<Rightarrow> g' z)))"
  "backed_but p X (view a) \<Longrightarrow> backed_but p X (view (snd (i :: 'i, a)))"
  by (auto split: option.split)

lemma backed_fold:
  "backed_but p X (view s) \<Longrightarrow>
   (\<And>a s. a \<in> set as \<Longrightarrow> backed_but p X (view s) \<Longrightarrow> backed_but p X (view (f a s))) \<Longrightarrow>
   backed_but p X (view (fold f as s))"
  by (induction as arbitrary: s) auto

lemmas backed_rules = backed_clear_claim backed_frame backed_hset_many backed_branch

lemma backed_submit:
  assumes "claims_backed p (view s)" and "waiting_queue p dest" and "submission_mapping (cjson_fields R m)"
  shows "claims_backed p (view (snd (submit_task_if_absent R (task_key p y) dest y m s)))"
  unfolding submit_task_if_absent_def Let_def
  by (intro backed_rules) (use assms in \<open>auto simp: submission_mapping_def\<close>)

lemma backed_refresh:
  assumes "claims_backed p (view s)" and "waiting_queue p dest" and "\<forall>q \<in> set cl. waiting_queue p q"
    and "submission_mapping (cjson_fields R m)"
  shows "claims_backed p (view (snd (force_refresh_task R (task_key p y) (result_key p y) dest cl y m
    (p @ '':queue:worker:'') s)))"
  unfolding force_refresh_task_def Let_def del_many_def
  by (simp only: fold_simps o_apply id_apply queue_literals, intro backed_fold backed_rules)
    (use assms in \<open>auto simp: submission_mapping_def queue_literals\<close>)

lemma backed_claim:
  assumes "claims_backed p (view s)" and "waiting_queue p source"
  shows "claims_backed p (view (snd (claim_gpu_task R source (gpu_inflight_queue p w) token wk inst
    (p @ '':task:'') n s)))"
  using assms(1)
proof (induction n arbitrary: s)
  case 0
  then show ?case by simp
next
  case (Suc n)
  obtain popped s1 where pop: "r_rpop R source s = (popped, s1)" by (cases "r_rpop R source s")
  have s1: "claims_backed p (view s1)"
    using backed_frame(8) [OF Suc.prems, of source] assms(2) pop by auto
  have pushed: "claims_backed p (view (r_lpush R q z s1))" for q z by (rule backed_frame(1) [OF s1])
  have own: "claims_backed p (view (hset_many R (task_key p y)
      (claim_fields token wk inst source (gpu_inflight_queue p w))
      (r_lpush R (gpu_inflight_queue p w) (claim_entry token y) s1)))" for y
    by (rule backed_claiming [where t = token and w = w, OF pushed])
      (simp_all add: claim_fields_def store_simps)
  show ?case
    unfolding claim_gpu_task.simps pop prod.case Let_def queue_literals
    by (intro backed_branch own Suc.IH s1)
qed

lemma backed_token_scripts:
  assumes "claims_backed p (view s)" and "fields_ok p (view s)" and "plain_token t"
  shows "claims_backed p (view (snd (mark_claim_processing R (task_key p y) q c pc
        (claim_entry t y) t now wk inst src s)))"
    and "waiting_queue p source \<Longrightarrow>
      claims_backed p (view (snd (return_claim R source q (task_key p y) y (claim_entry t y) t s)))"
    and "claims_backed p (view (snd (ack_claim R (task_key p y) q (claim_entry t y) t rel s)))"
    and "claims_backed p (view (snd (freeze_claim_recovery R (task_key p y) t' reason now s)))"
    and "hashes (view s) (task_key p y) ''claim_token'' \<noteq> Some t \<Longrightarrow>
      claims_backed p (view (lrem' R q (Suc 0) (claim_entry t y) s))"
proof -
  have bar: "CHR ''|'' \<notin> set t" using assms(3) by (simp add: plain_token_def)
  note rules = backed_lrem_own [OF assms(1,2) bar] backed_lrem_stale [OF assms(1,2) bar] backed_rules
    assms(1)
  show "claims_backed p (view (snd (mark_claim_processing R (task_key p y) q c pc
        (claim_entry t y) t now wk inst src s)))"
    unfolding mark_claim_processing_def
    by (intro rules) (auto simp: token_current_def hget processing_fields_def)
  show "claims_backed p (view (snd (return_claim R source q (task_key p y) y (claim_entry t y) t s)))"
    if "waiting_queue p source"
    unfolding return_claim_def Let_def
    by (intro rules) (use that in \<open>auto simp: token_current_def hget\<close>)
  show "claims_backed p (view (snd (ack_claim R (task_key p y) q (claim_entry t y) t rel s)))"
    unfolding ack_claim_def
    by (intro rules) (auto simp: token_current_def hget "exists" ks_exists_def)
  show "claims_backed p (view (snd (freeze_claim_recovery R (task_key p y) t' reason now s)))"
    unfolding freeze_claim_recovery_def by (intro rules) auto
  show "claims_backed p (view (lrem' R q (Suc 0) (claim_entry t y) s))"
    if "hashes (view s) (task_key p y) ''claim_token'' \<noteq> Some t"
    using backed_lrem_stale [OF assms(1,2) bar that] by simp
qed

lemma backed_publish:
  assumes "claims_backed p (view s)" and "terminal_mapping tm"
  shows "claims_backed p (view (publish_unclaimed R (task_key p y) (result_key p y) tm rm a b s))"
  unfolding publish_unclaimed_def
  by (intro backed_frame(6) backed_hset_many backed_clearing backed_weaken assms(1))
    (use terminal_fields [OF assms(2)] in simp_all)

lemma backed_finalize:
  assumes "claims_backed p (view s)" and "fields_ok p (view s)" and "plain_token t"
    and "terminal_mapping (cjson_fields R tm)"
  shows "claims_backed p (view (snd (finalize_claim R (task_key p y) (result_key p y) q t
    (claim_entry t y) tm rm a b allow s)))"
proof -
  have bar: "CHR ''|'' \<notin> set t" using assms(3) by (simp add: plain_token_def)
  let ?s1 = "hset_many R (task_key p y) (cjson_fields R tm) s"
  let ?s2 = "hset_many R (result_key p y) (cjson_fields R rm) ?s1"
  have cleared: "map_of (rev (cjson_fields R tm)) ''claim_token'' = Some []"
    by (rule terminal_fields(1) [OF assms(4)])
  have s2: "claims_backed p (view ?s2)"
    by (intro backed_hset_many backed_clearing [OF _ cleared] backed_weaken assms(1)) simp
  have pl: "fields_ok p (view ?s2)"
  proof -
    have "fields_ok p (view ?s1)" by (intro plain_hset_many assms(2) terminal_plain assms(4))
    then show ?thesis by (auto simp: fields_ok_def store_simps)
  qed
  show ?thesis
  proof (cases "t = []")
    case True
    then show ?thesis using assms(3) by (simp add: plain_token_def)
  next
    case False
    have "claims_backed p (view (lrem' R q 1 (claim_entry t y) ?s2))"
      by (rule backed_lrem_stale [OF s2 pl bar]) (use False cleared in \<open>simp add: store_simps\<close>)
    then show ?thesis
      unfolding finalize_claim_def Let_def
      by (intro backed_rules backed_lrem_stale [OF assms(1,2) bar])
        (auto simp: token_current_def hget assms(1))
  qed
qed

lemma backed_requeue:
  assumes "claims_backed p (view s)" and "fields_ok p (view s)" and "plain_token t"
    and "waiting_queue p dest"
  shows "claims_backed p (view (snd (conditional_requeue R (task_key p y) dest q c pc y
    (claim_entry t y) t data reason now dw da release s)))"
proof -
  have bar: "CHR ''|'' \<notin> set t" using assms(3) by (simp add: plain_token_def)
  have rq: "backed_but p {y} (view s') \<Longrightarrow>
      claims_backed p (view (hset_many R (task_key p y) (requeue_fields d a b r n) s'))" for d a b r n s'
    by (erule backed_clearing) (simp add: requeue_fields_def clear_claim_fields_def)
  show ?thesis
    unfolding conditional_requeue_def Let_def
    by (intro rq backed_lrem_own [OF assms(1,2) bar] backed_lrem_stale [OF assms(1,2) bar] backed_rules)
      (use assms in \<open>auto simp: token_current_def hget\<close>)
qed

lemma backed_queue_wait:
  assumes "claims_backed p (view s)" and "waiting_queue p source" and "waiting_queue p dest"
  shows "claims_backed p (view (snd (queue_wait_requeue R (task_key p y) source dest c pc y wk op
    e1 e2 e3 e4 data reason now mv s)))"
proof -
  have rq: "backed_but p {y} (view s') \<Longrightarrow> claims_backed p (view (hset_many R (task_key p y)
      (requeue_fields d a b r n @ [(''queue_move_token'', mv)]) s'))" for d a b r n s'
    by (erule backed_clearing) (simp add: requeue_fields_def clear_claim_fields_def)
  show ?thesis
    unfolding queue_wait_requeue_def Let_def case_prod_beta
    by (intro rq backed_branch backed_frame backed_weaken) (use assms in auto)
qed

lemma backed_mark_cpu:
  "claims_backed p (view s) \<Longrightarrow>
   claims_backed p (view (snd (mark_workflow_cpu_processing R k c pc now s)))"
  unfolding mark_workflow_cpu_processing_def by (intro backed_rules) auto

lemma backed_remove_from_queues:
  "backed_but p X (view s) \<Longrightarrow> backed_but p X (view (remove_from_queues R p wk y s))"
  unfolding remove_from_queues_def Let_def queue_literals
  by (intro backed_rules) auto

lemma backed_release_inflight:
  assumes "claims_backed p (view s)" and "fields_ok p (view s)"
  shows "backed_but p {y} (view (release_inflight R (task_key p y) y s))"
  unfolding release_inflight_def Let_def
  by (intro backed_branch backed_lrem_own backed_weaken assms)
    (use fields_ok_token [OF assms(2)] in \<open>simp split: option.split add: hget0_view\<close>)

lemma backed_cancel:
  assumes "claims_backed p (view s)" and "fields_ok p (view s)"
  shows "claims_backed p (view (snd (cancel_task_script R (task_key p y) (result_key p y) ts mk y now
    p a b s)))"
proof -
  have cl: "backed_but p {y} (view s') \<Longrightarrow> claims_backed p (view (hset_many R (task_key p y)
      ([(''status'', f), (''completed_at'', n)] @ clear_owner_fields) s'))" for s' f n
    by (erule backed_clearing) (simp add: clear_owner_fields_def)
  note pl = plain_remove_from_queues plain_hset plain_fold plain_frame assms(2)
  show ?thesis
    unfolding cancel_task_script_def Let_def cancel_child_def
    by (intro cl backed_release_inflight backed_remove_from_queues backed_fold backed_rules pl)
      (auto intro: assms backed_frame)
qed

lemma backed_discard:
  assumes "claims_backed p (view s)" and "set ks \<subseteq> record_keys p y g"
  shows "claims_backed p (view (del_many R ks s))"
    and "claims_backed p (view (snd (discard_workflow_records R ks g' s)))"
proof -
  show del: "claims_backed p (view (del_many R ks s))"
    unfolding del_many_def
    by (rule backed_fold [OF assms(1)])
      (use assms(2) in \<open>auto simp: record_keys_def intro!: backed_frame\<close>)
  show "claims_backed p (view (snd (discard_workflow_records R ks g' s)))"
    using del assms(1) by (auto simp: discard_workflow_records_def split: list.split)
qed

lemma backed_accept:
  assumes "claims_backed p (view s)"
  shows "claims_backed p (view (snd (accept_workflow R (task_key p y) (result_key p y)
    (workflow_key p y) (cancel_key p y) (active_key p) ts y g h name timeout lease_ms force now children s)))"
  unfolding accept_workflow_def Let_def del_many_def
  by (simp only: fold_simps o_apply id_apply, intro backed_rules assms) (auto simp: accept_fields_def)

lemma backed_renew:
  assumes "claims_backed p (view s)"
  shows "claims_backed p (view (snd (renew_workflow R k lease g lease_ms now s)))"
proof -
  have nx: "claims_backed p (view s') \<Longrightarrow>
      claims_backed p (view (hsetnx R k ''started_at'' x s'))" for s' x
    by (auto simp: hsetnx_def intro!: backed_frame)
  show ?thesis unfolding renew_workflow_def Let_def by (intro nx backed_rules assms) auto
qed

lemma backed_finish_child:
  assumes "claims_backed p (view s)" and "fields_ok p (view s)"
  shows "claims_backed p (view (finish_child R p now a b y s))"
proof -
  have cl: "backed_but p {y} (view s') \<Longrightarrow>
      claims_backed p (view (hset_many R (task_key p y) clear_owner_fields s'))" for s'
    by (erule backed_clearing) (simp add: clear_owner_fields_def)
  show ?thesis
    unfolding finish_child_def Let_def queue_literals
    by (intro cl backed_release_inflight backed_remove_from_queues plain_remove_from_queues
        backed_branch backed_frame(6) backed_hset_many assms) (auto simp: clear_owner_fields_def)
qed

subsection \<open>Expiry\<close>

lemma expiry_frame:
  assumes "expiry_ok p (view s)"
  shows "expiry_ok p (view (r_lpush R q y s))"
    and "expiry_ok p (view (r_set R k y s))"
    and "expiry_ok p (view (r_sadd R k y s))"
    and "expiry_ok p (view (r_srem R k y s))"
    and "expiry_ok p (view (lrem' R q n y s))"
    and "expiry_ok p (view (snd (r_rpop R q s)))"
    and "expiry_ok p (view (snd (r_lrem R q n y s)))"
    and "expiry_ok p (view (r_del R k s))"
    and "f \<noteq> ''status'' \<Longrightarrow> expiry_ok p (view (r_hset R k f y s))"
  by (rule expiry_mono [OF assms]; auto simp: store_simps split: if_splits)+

lemma expiry_hset_many:
  assumes "expiry_ok p (view s)"
    and "\<And>y. k = task_key p y \<Longrightarrow> ttls (view s) k = None \<or> ''status'' \<notin> fst ` set fvs \<or>
      map_of (rev fvs) ''status'' \<in> Some ` set terminal_statuses"
  shows "expiry_ok p (view (hset_many R k fvs s))"
proof (rule expiry_mono [OF assms(1)])
  fix x
  assume t: "ttls (view (hset_many R k fvs s)) (task_key p x) \<noteq> None"
    and old: "hashes (view s) (task_key p x) ''status'' \<in> Some ` set terminal_statuses"
  show "hashes (view (hset_many R k fvs s)) (task_key p x) ''status'' \<in> Some ` set terminal_statuses"
  proof (cases "k = task_key p x \<and> ''status'' \<in> fst ` set fvs")
    case True
    then have "map_of (rev fvs) ''status'' \<in> Some ` set terminal_statuses"
      using assms(2) [of x] t by (auto simp: store_simps)
    then show ?thesis using True by (auto simp: store_simps)
  next
    case False
    then have "map_of (rev fvs) ''status'' = None \<or> k \<noteq> task_key p x"
      by (auto simp: map_of_eq_None_iff)
    then show ?thesis using old by (auto simp: store_simps map_add_def)
  qed
qed (simp add: store_simps)

lemma expiry_expire:
  assumes "expiry_ok p (view s)" and "\<And>w. k \<noteq> gpu_inflight_queue p w"
    and "\<And>y. k = task_key p y \<Longrightarrow> hashes (view s) k ''status'' \<in> Some ` set terminal_statuses"
  shows "expiry_ok p (view (expire_pos R k i s))" "expiry_ok p (view (r_pexpire R k i s))"
  using assms by (auto simp: expiry_ok_def store_simps ks_pexpire_def expire_pos_def split: if_splits)

lemma expiry_branch:
  "(c \<Longrightarrow> expiry_ok p (view a)) \<Longrightarrow> (\<not> c \<Longrightarrow> expiry_ok p (view b)) \<Longrightarrow>
   expiry_ok p (view (if c then a else b))"
  "(c \<Longrightarrow> expiry_ok p (view (snd a'))) \<Longrightarrow> (\<not> c \<Longrightarrow> expiry_ok p (view (snd b'))) \<Longrightarrow>
   expiry_ok p (view (snd (if c then a' else b')))"
  "(d = None \<Longrightarrow> expiry_ok p (view a)) \<Longrightarrow> (\<And>z. d = Some z \<Longrightarrow> expiry_ok p (view (g z))) \<Longrightarrow>
   expiry_ok p (view (case d of None \<Rightarrow> a | Some z \<Rightarrow> g z))"
  "(d = None \<Longrightarrow> expiry_ok p (view (snd a'))) \<Longrightarrow>
   (\<And>z. d = Some z \<Longrightarrow> expiry_ok p (view (snd (g' z)))) \<Longrightarrow>
   expiry_ok p (view (snd (case d of None \<Rightarrow> a' | Some z \<Rightarrow> g' z)))"
  "expiry_ok p (view a) \<Longrightarrow> expiry_ok p (view (snd (i :: 'i, a)))"
  by (auto split: option.split)

lemma expiry_fold:
  "expiry_ok p (view s) \<Longrightarrow>
   (\<And>a s. a \<in> set as \<Longrightarrow> expiry_ok p (view s) \<Longrightarrow> expiry_ok p (view (f a s))) \<Longrightarrow>
   expiry_ok p (view (fold f as s))"
  by (induction as arbitrary: s) auto

lemma expiry_open:
  "expiry_ok p v \<Longrightarrow> hashes v (task_key p y) ''status'' \<notin> Some ` set terminal_statuses \<Longrightarrow>
   ttls v (task_key p y) = None"
  by (auto simp: expiry_ok_def)

lemma expiry_clear_claim: "expiry_ok p (view s) \<Longrightarrow> expiry_ok p (view (clear_claim R k s))"
  unfolding clear_claim_def by (rule expiry_hset_many) (auto simp: clear_claim_fields_def)

lemmas expiry_rules =
  expiry_clear_claim expiry_frame expiry_hset_many expiry_expire expiry_branch

lemma expiry_claim:
  assumes "expiry_ok p (view s)"
  shows "expiry_ok p (view (snd (claim_gpu_task R source q token wk inst pre n s)))"
  using assms
proof (induction n arbitrary: s)
  case 0
  then show ?case by simp
next
  case (Suc n)
  obtain popped s1 where pop: "r_rpop R source s = (popped, s1)" by (cases "r_rpop R source s")
  have s1: "expiry_ok p (view s1)" using expiry_frame(6) [OF Suc.prems, of source] pop by simp
  have own: "expiry_ok p (view (hset_many R k (claim_fields token wk inst source q) (r_lpush R q e s1)))" for k e
    by (rule expiry_hset_many [OF expiry_frame(1) [OF s1]]) (simp add: claim_fields_def)
  show ?case
    unfolding claim_gpu_task.simps pop prod.case Let_def
    by (intro expiry_branch own Suc.IH s1)
qed

lemma expiry_submit:
  assumes "expiry_ok p (view s)"
  shows "expiry_ok p (view (snd (submit_task_if_absent R (task_key p y) dest z m s)))"
  unfolding submit_task_if_absent_def Let_def
  by (intro expiry_rules assms)
    (use expiry_open [OF assms, of y] in \<open>auto simp: "exists" ks_exists_def\<close>)

lemma expiry_refresh:
  assumes "expiry_ok p (view s)" and "submission_mapping (cjson_fields R m)"
  shows "expiry_ok p (view (snd (force_refresh_task R (task_key p y) (result_key p y) dest cl z m wp s)))"
  unfolding force_refresh_task_def Let_def del_many_def
  by (simp only: fold_simps o_apply id_apply, intro expiry_fold expiry_rules assms)
    (auto simp: store_simps)

lemma expiry_claim_scripts:
  assumes "expiry_ok p (view s)"
  shows "expiry_ok p (view (snd (mark_claim_processing R (task_key p y) q c pc e t now wk inst src s)))"
    and "expiry_ok p (view (snd (mark_workflow_cpu_processing R (task_key p y) c pc now s)))"
    and "expiry_ok p (view (snd (return_claim R src q k z e t s)))"
    and "expiry_ok p (view (snd (ack_claim R k q e t rel s)))"
    and "expiry_ok p (view (snd (freeze_claim_recovery R k t reason now s)))"
proof -
  show "expiry_ok p (view (snd (mark_claim_processing R (task_key p y) q c pc e t now wk inst src s)))"
    unfolding mark_claim_processing_def
    by (intro expiry_rules assms) (use expiry_open [OF assms, of y] in \<open>auto simp: hget\<close>)
  show "expiry_ok p (view (snd (mark_workflow_cpu_processing R (task_key p y) c pc now s)))"
    unfolding mark_workflow_cpu_processing_def
    by (intro expiry_rules assms) (use expiry_open [OF assms, of y] in \<open>auto simp: hget\<close>)
  show "expiry_ok p (view (snd (return_claim R src q k z e t s)))"
    unfolding return_claim_def Let_def by (intro expiry_rules assms)
  show "expiry_ok p (view (snd (ack_claim R k q e t rel s)))"
    unfolding ack_claim_def by (intro expiry_rules assms)
  show "expiry_ok p (view (snd (freeze_claim_recovery R k t reason now s)))"
    unfolding freeze_claim_recovery_def by (intro expiry_rules assms) simp
qed

lemma expiry_moves:
  assumes "expiry_ok p (view s)"
  shows "expiry_ok p (view (snd (queue_wait_requeue R (task_key p y) source dest c pc z wk op
      e1 e2 e3 e4 data reason now mv s)))"
    and "expiry_ok p (view (snd (conditional_requeue R (task_key p y) dest q c pc z e t data reason
      now dw da release s)))"
proof -
  show "expiry_ok p (view (snd (queue_wait_requeue R (task_key p y) source dest c pc z wk op
      e1 e2 e3 e4 data reason now mv s)))"
    unfolding queue_wait_requeue_def Let_def case_prod_beta
    by (intro expiry_rules assms)
      (use expiry_open [OF assms, of y] in \<open>auto simp: store_simps\<close>)
  show "expiry_ok p (view (snd (conditional_requeue R (task_key p y) dest q c pc z e t data reason
      now dw da release s)))"
    unfolding conditional_requeue_def Let_def
    by (intro expiry_rules assms)
      (use expiry_open [OF assms, of y] in \<open>auto simp: store_simps\<close>)
qed

lemma expiry_terminal:
  assumes "expiry_ok p (view s)"
  shows "terminal_mapping (cjson_fields R tm) \<Longrightarrow>
      expiry_ok p (view (snd (finalize_claim R (task_key p y) (result_key p y) q t e tm rm a b allow s)))"
    and "terminal_mapping m \<Longrightarrow>
      expiry_ok p (view (publish_unclaimed R (task_key p y) (result_key p y) m rf a b s))"
proof -
  show "expiry_ok p (view (snd (finalize_claim R (task_key p y) (result_key p y) q t e tm rm a b allow s)))"
    if "terminal_mapping (cjson_fields R tm)"
    unfolding finalize_claim_def Let_def
    by (intro expiry_rules assms) (use terminal_fields [OF that] in \<open>auto simp: store_simps\<close>)
  show "expiry_ok p (view (publish_unclaimed R (task_key p y) (result_key p y) m rf a b s))"
    if "terminal_mapping m"
    unfolding publish_unclaimed_def
    by (intro expiry_rules assms) (use terminal_fields [OF that] in \<open>auto simp: store_simps\<close>)
qed

lemma expiry_remove_from_queues:
  "expiry_ok p (view s) \<Longrightarrow> expiry_ok p (view (remove_from_queues R p' wk y s))"
  unfolding remove_from_queues_def Let_def by (intro expiry_rules)

lemma expiry_release_inflight:
  "expiry_ok p (view s) \<Longrightarrow> expiry_ok p (view (release_inflight R k y s))"
  unfolding release_inflight_def Let_def by (intro expiry_rules)

lemma expiry_cancel:
  assumes "expiry_ok p (view s)"
  shows "expiry_ok p (view (snd (cancel_task_script R (task_key p y) (result_key p y) ts mk z now p' a b s)))"
  unfolding cancel_task_script_def Let_def cancel_child_def
  by (intro expiry_release_inflight expiry_remove_from_queues expiry_fold expiry_rules assms)
    (auto simp: store_simps clear_owner_fields_def intro: expiry_frame)

lemma expiry_discard:
  assumes "expiry_ok p (view s)"
  shows "expiry_ok p (view (del_many R ks s))"
    and "expiry_ok p (view (snd (discard_workflow_records R ks g s)))"
proof -
  show del: "expiry_ok p (view (del_many R ks s))"
    unfolding del_many_def by (intro expiry_fold expiry_frame assms)
  show "expiry_ok p (view (snd (discard_workflow_records R ks g s)))"
    using del assms by (auto simp: discard_workflow_records_def split: list.split)
qed

lemma expiry_accept:
  assumes "expiry_ok p (view s)"
  shows "expiry_ok p (view (snd (accept_workflow R (task_key p y) (result_key p y) (workflow_key p y)
    (cancel_key p y) (active_key p) ts z g h name timeout lease_ms force now children s)))"
  unfolding accept_workflow_def Let_def del_many_def
  by (simp only: fold_simps o_apply id_apply, intro expiry_rules assms) (auto simp: store_simps)

lemma expiry_renew:
  assumes "expiry_ok p (view s)" and "g \<noteq> []"
  shows "expiry_ok p (view (snd (renew_workflow R (task_key p y) (workflow_key p y) g lease_ms now s)))"
proof -
  have nx: "expiry_ok p (view s') \<Longrightarrow> expiry_ok p (view (hsetnx R k ''started_at'' x s'))" for s' x k
    by (auto simp: hsetnx_def intro!: expiry_frame)
  show ?thesis
    unfolding renew_workflow_def Let_def
    by (intro nx expiry_rules assms)
      (use expiry_open [OF assms(1), of y] assms(2) in \<open>auto simp: store_simps workflow_allowed_iff guard_open_def\<close>)
qed

lemma expiry_finish_child:
  assumes "expiry_ok p (view s)"
  shows "expiry_ok p (view (finish_child R p now a b y s))"
  unfolding finish_child_def Let_def queue_literals
  by (intro expiry_release_inflight expiry_remove_from_queues expiry_rules assms)
    (auto simp: store_simps clear_owner_fields_def)

lemma finish_reason_status:
  assumes "finish_reason R k lease g res reason s = (a, b)"
    and "\<exists>st \<in> set terminal_statuses. dget ''status'' res = JStr st"
  shows "\<exists>st \<in> set terminal_statuses. dget ''status'' b = JStr st"
  using assms by (auto simp: finish_reason_def Let_def split: if_splits option.splits)

lemma finish_result_status: "dget ''status'' (finish_result R k g y a b s) = dget ''status'' b"
  by (simp add: finish_result_def)

lemma finish_children_keep:
  assumes "claims_backed p (view s)" and "fields_ok p (view s)" and "expiry_ok p (view s)"
  shows "claims_backed p (view (fold (finish_child R p now a b) ys s)) \<and>
    expiry_ok p (view (fold (finish_child R p now a b) ys s))"
  using assms
proof (induction ys arbitrary: s)
  case (Cons y ys)
  have "fields_ok p (view (finish_child R p now a b y s))"
    unfolding finish_child_def Let_def
    by (intro plain_rules plain_release_inflight plain_remove_from_queues Cons.prems(2))
      (auto simp: plain_mapping_def field_ok_def clear_owner_fields_def)
  then show ?case
    using Cons backed_finish_child expiry_finish_child by simp
qed simp

lemma finish_children_parent_status:
  assumes "hashes (view s) (task_key p x) ''status'' = Some st" and "st \<noteq> ''pending''"
  shows "hashes (view (fold (finish_child R p now a b) ys s)) (task_key p x) ''status'' = Some st"
  using assms(1)
proof (induction ys arbitrary: s)
  case (Cons y ys)
  have rel: "hashes (view (release_inflight R k z s')) = hashes (view s')" for k z s'
    by (simp add: release_inflight_def Let_def store_simps)
  have rem: "hashes (view (remove_from_queues R q wk z s')) = hashes (view s')" for q wk z s'
    by (simp add: remove_from_queues_def Let_def store_simps)
  have "hashes (view (finish_child R p now a b y s)) (task_key p x) ''status'' = Some st"
    using Cons.prems assms(2)
    by (auto simp: finish_child_def Let_def queue_literals store_simps rel rem clear_owner_fields_def
        simp del: append.append_Cons append_assoc)
  then show ?case using Cons.IH by simp
qed simp

lemma finish_keeps:
  assumes "claims_backed p (view s)" and "fields_ok p (view s)" and "expiry_ok p (view s)"
    and st: "\<exists>st \<in> set terminal_statuses. dget ''status'' (json_object (cjson_decode R result)) = JStr st"
  shows "claims_backed p (view (snd (finish_workflow R (task_key p y) (result_key p y) (workflow_key p y)
      (cancel_key p y) (active_key p) (children_key p y g) g result now a b z reason p s)))"
    and "expiry_ok p (view (snd (finish_workflow R (task_key p y) (result_key p y) (workflow_key p y)
      (cancel_key p y) (active_key p) (children_key p y g) g result now a b z reason p s)))"
proof -
  let ?f = "finish_workflow R (task_key p y) (result_key p y) (workflow_key p y)
      (cancel_key p y) (active_key p) (children_key p y g) g result now a b z reason p s"
  obtain rs rd where fr: "finish_reason R (task_key p y) (workflow_key p y) g
      (json_object (cjson_decode R result)) reason s = (rs, rd)" by fastforce
  let ?d = "finish_result R (task_key p y) g z rs rd s"
  obtain x where x: "x \<in> set terminal_statuses" "dget ''status'' ?d = JStr x"
    using finish_reason_status [OF fr st] by (auto simp: finish_result_status)
  define fvs where "fvs = [(''status'', lua_arg R (dget ''status'' ?d)), (''completed_at'', now),
    (''error_message'', case dget ''error_message'' ?d of JStr x \<Rightarrow> x | _ \<Rightarrow> [])]"
  define s1 where "s1 = hset_many R (task_key p y) fvs s"
  define s3 where "s3 = r_srem R (active_key p) z (r_set R (cancel_key p y) ''1''
    (r_del R (workflow_key p y) (hset_many R (result_key p y) [(''result'', cjson_encode R (JObj ?d)),
      (''completed_at'', now), (''request_hash'', hget0 R (task_key p y) ''request_hash'' s1)] s1)))"
  define s4 where "s4 = fold (finish_child R p now a b) (r_smembers R (children_key p y g) s3) s3"
  have final: "map_of (rev fvs) ''status'' = Some x"
    using x(2) by (simp add: fvs_def arg_string)
  have b3: "claims_backed p (view s3)"
    unfolding s3_def s1_def by (intro backed_frame backed_hset_many assms) (auto simp: fvs_def)
  have e3: "expiry_ok p (view s3)"
    unfolding s3_def s1_def by (intro expiry_frame expiry_hset_many assms) (use final x in auto)
  have p3: "fields_ok p (view s3)"
    unfolding s3_def s1_def by (intro plain_rules assms) (auto simp: plain_mapping_def field_ok_def fvs_def)
  have b4: "claims_backed p (view s4)" and e4: "expiry_ok p (view s4)"
    unfolding s4_def using finish_children_keep [OF b3 p3 e3] by blast+
  have "hashes (view s3) (task_key p y) ''status'' = Some x"
    using final by (simp add: s3_def s1_def store_simps)
  then have st4: "hashes (view s4) (task_key p y) ''status'' = Some x"
    unfolding s4_def by (rule finish_children_parent_status) (use x(1) in auto)
  have f: "?f = (0, s) \<or> ?f = (1, expire_pos R (result_key p y) b (expire_pos R (children_key p y g) a
      (expire_pos R (cancel_key p y) a (expire_pos R (task_key p y) a s4))))"
    by (simp add: finish_workflow_def fr Let_def s4_def s3_def s1_def fvs_def)
  from f show "claims_backed p (view (snd ?f))"
    by (elim disjE; simp only: snd_conv; intro assms(1) backed_frame(6) b4)
  from f show "expiry_ok p (view (snd ?f))"
    by (auto intro!: assms(3) expiry_expire(1) e4) (use st4 x(1) in auto)
qed

end

text \<open>The whole invariant.\<close>

definition store_ok :: "str \<Rightarrow> keyspace \<Rightarrow> bool" where
  "store_ok p v \<longleftrightarrow> fields_ok p v \<and> claims_backed p v \<and> expiry_ok p v"

lemma ks_del_keeps:
  assumes "expiry_ok p v"
  shows "ttls v k \<noteq> None \<Longrightarrow> claims_backed p v \<Longrightarrow> claims_backed p (ks_del k v)"
    and "expiry_ok p (ks_del k v)"
proof -
  show "claims_backed p (ks_del k v)" if "ttls v k \<noteq> None" "claims_backed p v"
  proof (rule backed_mono [OF that(2)])
    fix w
    have "k \<noteq> gpu_inflight_queue p w" using that(1) assms by (auto simp: expiry_ok_def)
    then show "set (lists v (gpu_inflight_queue p w)) \<subseteq> set (lists (ks_del k v) (gpu_inflight_queue p w))"
      by (auto simp: ks_del_def)
  qed (auto simp: ks_del_def split: if_splits)
  show "expiry_ok p (ks_del k v)"
    by (rule expiry_mono [OF assms]) (auto simp: ks_del_def split: if_splits)
qed

context redis_store
begin

lemma transaction_keeps:
  assumes "transaction R view p l s s'" and "store_ok p (view s)"
  shows "store_ok p (view s')"
proof -
  from assms(2) have pl: "fields_ok p (view s)" and b: "claims_backed p (view s)"
    and e: "expiry_ok p (view s)" by (simp_all add: store_ok_def)
  have "fields_ok p (view s')" using transaction_plain [OF assms(1) pl] .
  moreover have "claims_backed p (view s')"
    using assms(1)
    by cases (auto intro!: backed_claim backed_submit backed_refresh backed_queue_wait backed_requeue
      backed_token_scripts backed_mark_cpu backed_finalize backed_cancel backed_discard backed_accept
      backed_renew backed_publish finish_keeps backed_frame backed_hset_many ks_del_keeps pl b e)
  moreover have "expiry_ok p (view s')"
    using assms(1)
    by cases (auto intro!: expiry_claim expiry_submit expiry_refresh expiry_moves expiry_claim_scripts
      expiry_terminal expiry_cancel expiry_discard expiry_accept
      expiry_renew finish_keeps expiry_frame expiry_hset_many expiry_expire ks_del_keeps pl b e)
  ultimately show ?thesis by (simp add: store_ok_def)
qed

lemma trace_keeps:
  "trace R view p ls s s' \<Longrightarrow> store_ok p (view s) \<Longrightarrow> store_ok p (view s')"
  by (induction rule: trace.induct) (auto intro: transaction_keeps)

end

end
