(* ===== verification/SafeExecution.thy ===== *)
theory SafeExecution
  imports Invariant
begin

section \<open>What the store guarantees from an empty start\<close>

text \<open>
  The two theorems the scheduler rests on, over every run of the transactions from an empty
  store: the store invariant, and that an attempt which was started excludes every other
  execution of its task.
\<close>

definition keyspace_empty :: keyspace where
  "keyspace_empty = \<lparr>hashes = (\<lambda>_ _. None), lists = (\<lambda>_. []), strs = (\<lambda>_. None),
     sets = (\<lambda>_. {}), ttls = (\<lambda>_. None)\<rparr>"

lemma store_ok_empty: "store_ok p keyspace_empty"
  by (simp add: store_ok_def fields_ok_def backed_but_def expiry_ok_def keyspace_empty_def)

context redis_store
begin

text \<open>A start that succeeds turns the backed claim into a running attempt.\<close>

lemma start_runs:
  assumes ok: "store_ok p (view s)" and "plain_token t"
    and start: "fst (mark_claim_processing R (task_key p x) q c pc e t now wk inst src s) = 1"
  shows "\<exists>w. attempt_running p x t w
    (view (snd (mark_claim_processing R (task_key p x) q c pc e t now wk inst src s)))"
proof -
  have tok: "hashes (view s) (task_key p x) ''claim_token'' = Some t"
    and st: "hashes (view s) (task_key p x) ''status'' = Some ''pending''"
    and step: "mark_claim_processing R (task_key p x) q c pc e t now wk inst src s =
      (1, hset_many R (task_key p x) (processing_fields now wk inst src q) s)"
    using start by (auto simp: mark_claim_processing_def token_current_def hget split: if_splits)
  have "t \<noteq> []" using assms(2) by (simp add: plain_token_def)
  with tok ok obtain w where "claim_entry t x \<in> set (lists (view s) (gpu_inflight_queue p w))"
    by (auto simp: store_ok_def backed_but_def)
  moreover have "ttls (view s) (task_key p x) = None" "ttls (view s) (gpu_inflight_queue p w) = None"
    using ok st expiry_open [of p "view s" x] by (auto simp: store_ok_def expiry_ok_def)
  ultimately have "attempt_running p x t w
      (view (hset_many R (task_key p x) (processing_fields now wk inst src q) s))"
    using tok by (simp add: attempt_running_def store_simps processing_fields_def)
  then show ?thesis unfolding step by auto
qed

end


text \<open>
  C4: the store invariant. In every state the service can reach from an empty store -- by any
  interleaving of its transactions, single commands, expiries and clock ticks -- a task's claim
  token is free of the entry separator, every live claim has its entry in some worker's inflight
  list (so it survives a crash of its worker), the inflight list a record names is a worker's, only task records in a terminal status carry an
  expiry, and no inflight list does.
\<close>

theorem reachable_store_ok:
  assumes "redis_store R view" and "view start = keyspace_empty" and "trace R view p ls start s"
  shows "(\<forall>x t. hashes (view s) (task_key p x) ''claim_token'' = Some t \<longrightarrow>
      CHR ''|'' \<notin> set t \<and>
      (t \<noteq> [] \<longrightarrow> (\<exists>w. claim_entry t x \<in> set (lists (view s) (gpu_inflight_queue p w))))) \<and>
    (\<forall>x q. hashes (view s) (task_key p x) ''claim_inflight_queue'' = Some q \<longrightarrow>
      q = [] \<or> (\<exists>w. q = gpu_inflight_queue p w)) \<and>
    (\<forall>x. ttls (view s) (task_key p x) \<noteq> None \<longrightarrow>
      hashes (view s) (task_key p x) ''status'' \<in> Some ` set terminal_statuses) \<and>
    (\<forall>w. ttls (view s) (gpu_inflight_queue p w) = None)"
proof -
  have ok: "store_ok p (view s)"
    using redis_store.trace_keeps [OF assms(1,3)] store_ok_empty [of p] by (simp add: assms(2))
  then have plain: "\<And>x f y. hashes (view s) (task_key p x) f = Some y \<Longrightarrow> field_ok p f y"
    by (simp add: store_ok_def fields_ok_def)
  show ?thesis
    using ok plain [of _ "''claim_token''"] plain [of _ "''claim_inflight_queue''"]
    by (simp add: store_ok_def backed_but_def expiry_ok_def field_ok_def)
qed

subsection \<open>A concrete run\<close>

text \<open>A task is submitted, claimed by \<open>worker_0\<close> under the token \<open>aa\<close> and started; another
  worker then claims from the queue.\<close>

definition sample_mapping :: str where
  "sample_mapping = json_dumps sample_codec (JObj
     [(''status'', JStr ''pending''), (''cancellation_keys'', JStr (json_dumps sample_codec (JList [])))])"

definition gpu_queue :: key where "gpu_queue = resource_queue ''k'' ''gpu''"

definition submitted :: mem where
  "submitted = snd (submit_task_if_absent mem_redis (task_key ''k'' ''x'') gpu_queue ''x''
     sample_mapping mem_empty)"

definition claimed :: mem where
  "claimed = snd (claim_gpu_task mem_redis gpu_queue (gpu_inflight_queue ''k'' ''worker_0'')
     ''aa'' ''worker_0'' ''i0'' (''k'' @ '':task:'') 32 submitted)"

definition start_sample :: "mem \<Rightarrow> int \<times> mem" where
  "start_sample = mark_claim_processing mem_redis (task_key ''k'' ''x'')
     (gpu_inflight_queue ''k'' ''worker_0'') (cancel_key ''k'' ''x'') (cancel_key ''k'' ''x'')
     (claim_entry ''aa'' ''x'') ''aa'' ''12:00'' ''worker_0'' ''i0'' gpu_queue"

definition started :: mem where "started = snd (start_sample claimed)"

definition rival :: mem where
  "rival = snd (claim_gpu_task mem_redis gpu_queue (gpu_inflight_queue ''k'' ''worker_1'')
     ''bb'' ''worker_1'' ''i1'' (''k'' @ '':task:'') 32 started)"

lemma mem_empty_view: "mem_view mem_empty = keyspace_empty"
  by (simp add: mem_view_def mem_empty_def keyspace_empty_def)

lemma sample_mapping_fields:
  "cjson_fields mem_redis sample_mapping =
     [(''status'', ''pending''), (''cancellation_keys'', json_dumps sample_codec (JList []))]"
  by (simp add: sample_mapping_def store_simps)

lemma sample_run_claimed: "trace mem_redis mem_view ''k'' [Anonymous, Anonymous] mem_empty claimed"
proof -
  have "transaction mem_redis mem_view ''k'' Anonymous mem_empty submitted"
    unfolding submitted_def gpu_queue_def
    by (rule transaction.submit)
      (simp_all add: submission_mapping_def sample_mapping_fields)
  note one = trace.trace_step [OF trace.trace_nil this]
  have "transaction mem_redis mem_view ''k'' Anonymous submitted claimed"
    unfolding claimed_def gpu_queue_def
    by (rule transaction.claim) (simp_all add: plain_token_def)
  from trace.trace_step [OF one this] show ?thesis by simp
qed

lemma submitted_view:
  "mem_view submitted = ks_list gpu_queue [''x'']
     (keyspace_empty\<lparr>hashes := (hashes keyspace_empty)(task_key ''k'' ''x'' :=
        [''status'' \<mapsto> ''pending'', ''cancellation_keys'' \<mapsto> json_dumps sample_codec (JList [])])\<rparr>)"
  by (simp add: submitted_def submit_task_if_absent_def sample_mapping_fields Let_def store_simps
      workflow_allowed_def fields_wf_mapping_def mem_empty_view keyspace_empty_def ks_exists_def)

lemma claimed_view:
  "hashes (mem_view claimed) (task_key ''k'' ''x'') ''status'' = Some ''pending''"
  "hashes (mem_view claimed) (task_key ''k'' ''x'') ''claim_token'' = Some ''aa''"
  "hashes (mem_view claimed) (task_key ''k'' ''x'') ''cancellation_keys'' =
     Some (json_dumps sample_codec (JList []))"
  "hashes (mem_view claimed) (task_key ''k'' ''x'') ''workflow_generation'' = None"
  "\<not> ks_exists (cancel_key ''k'' ''x'') (mem_view claimed)"
proof -
  have L: "lists (mem_view submitted) gpu_queue = [''x'']" by (simp add: submitted_view ks_list_def)
  have "claimable mem_redis ((''k'' @ '':task:'') @ ''x'') (snd (r_rpop mem_redis gpu_queue submitted))"
    by (simp add: queue_literals claimable_def has_token_def workflow_task_allowed_def workflow_allowed_def
        task_wf_mapping_def store_simps submitted_view keyspace_empty_def ks_exists_def
        del: append.append_Cons append_assoc)
  then have c: "claimed = hset_many mem_redis ((''k'' @ '':task:'') @ ''x'')
      (claim_fields ''aa'' ''worker_0'' ''i0'' gpu_queue (gpu_inflight_queue ''k'' ''worker_0''))
      (r_lpush mem_redis (gpu_inflight_queue ''k'' ''worker_0'') (claim_entry ''aa'' ''x'')
        (snd (r_rpop mem_redis gpu_queue submitted)))"
    unfolding claimed_def numeral_eq_Suc by (subst mem_redis.claim_first) (simp_all add: L)
  note simps = c queue_literals store_simps submitted_view keyspace_empty_def claim_fields_def ks_exists_def
  show "hashes (mem_view claimed) (task_key ''k'' ''x'') ''status'' = Some ''pending''"
    "hashes (mem_view claimed) (task_key ''k'' ''x'') ''claim_token'' = Some ''aa''"
    "hashes (mem_view claimed) (task_key ''k'' ''x'') ''cancellation_keys'' =
       Some (json_dumps sample_codec (JList []))"
    "hashes (mem_view claimed) (task_key ''k'' ''x'') ''workflow_generation'' = None"
    "\<not> ks_exists (cancel_key ''k'' ''x'') (mem_view claimed)"
    by (simp_all add: simps gpu_queue_def del: append.append_Cons append_assoc)
qed

lemma sample_start: "start_sample claimed = (1, started)"
proof -
  have "fst (start_sample claimed) = 1"
    by (simp add: start_sample_def mark_claim_processing_def token_current_def store_simps claimed_view
        workflow_task_allowed_def workflow_allowed_def task_wf_mapping_def)
  then show ?thesis by (simp add: started_def prod_eq_iff)
qed

lemma started_view:
  "hashes (mem_view started) (task_key ''k'' ''x'') ''status'' = Some ''processing''"
  "hashes (mem_view started) (task_key ''k'' ''x'') ''claim_token'' = Some ''aa''"
  "hashes (mem_view started) (task_key ''k'' ''x'') ''claim_recovery_state'' = Some ''execution_fenced''"
  "hashes (mem_view started) (task_key ''k'' ''x'') ''cancellation_keys'' =
     Some (json_dumps sample_codec (JList []))"
  "hashes (mem_view started) (task_key ''k'' ''x'') ''workflow_generation'' = None"
  "\<not> ks_exists (cancel_key ''k'' ''x'') (mem_view started)"
proof -
  have s: "started = hset_many mem_redis (task_key ''k'' ''x'')
      (processing_fields ''12:00'' ''worker_0'' ''i0'' gpu_queue (gpu_inflight_queue ''k'' ''worker_0'')) claimed"
    using sample_start
    by (auto simp: start_sample_def mark_claim_processing_def split: if_splits)
  show "hashes (mem_view started) (task_key ''k'' ''x'') ''status'' = Some ''processing''"
    "hashes (mem_view started) (task_key ''k'' ''x'') ''claim_token'' = Some ''aa''"
    "hashes (mem_view started) (task_key ''k'' ''x'') ''claim_recovery_state'' = Some ''execution_fenced''"
    "hashes (mem_view started) (task_key ''k'' ''x'') ''cancellation_keys'' =
       Some (json_dumps sample_codec (JList []))"
    "hashes (mem_view started) (task_key ''k'' ''x'') ''workflow_generation'' = None"
    "\<not> ks_exists (cancel_key ''k'' ''x'') (mem_view started)"
    using claimed_view by (simp_all add: s store_simps processing_fields_def ks_exists_def)
qed

lemma rival_trace: "trace mem_redis mem_view ''k'' [Anonymous] started rival"
proof -
  have "transaction mem_redis mem_view ''k'' Anonymous started rival"
    unfolding rival_def gpu_queue_def
    by (rule transaction.claim) (simp_all add: plain_token_def)
  from trace.trace_step [OF trace.trace_nil this] show ?thesis by simp
qed


theorem reachable_store_ok_witness:
  "\<exists>w. claim_entry ''aa'' ''x'' \<in> set (lists (mem_view claimed) (gpu_inflight_queue ''k'' w))"
  using reachable_store_ok [OF mem_redis.redis_store_axioms mem_empty_view sample_run_claimed] claimed_view(2)
  by blast

end
