(* ===== verification/ClaimContracts.thy ===== *)
theory ClaimContracts
  imports SafeExecution
begin

section \<open>Contracts of the claim transactions\<close>

text \<open>
  What each claim script promises on every branch, as one theorem per script: the reference
  definition a claim computes, the compare-and-swap conditions of the moves, and which branches
  leave the store alone.
\<close>

subsection \<open>Claiming as a search\<close>

definition claimable_view :: "'s redis \<Rightarrow> rat \<Rightarrow> key \<Rightarrow> keyspace \<Rightarrow> bool" where
  "claimable_view R now k v \<longleftrightarrow>
     ks_exists k v \<and> hashes v k ''status'' = Some ''pending'' \<and>
     hashes v k ''claim_token'' \<in> {None, Some []} \<and>
     guard_open R \<lparr>
       m_cancellation_keys = Some (case hashes v k ''cancellation_keys'' of Some x \<Rightarrow> x | None \<Rightarrow> ''[]''),
       m_generation = hashes v k ''workflow_generation'',
       m_parent = hashes v k ''workflow_parent_key'',
       m_lease = hashes v k ''workflow_lease_key'',
       m_deadline = hashes v k ''workflow_deadline''\<rparr> v now"

text \<open>The reference: the first id from the right of the queue that is claimable once it is
  popped, within the scan limit.\<close>

definition claim_search :: "'s redis \<Rightarrow> rat \<Rightarrow> key \<Rightarrow> key \<Rightarrow> nat \<Rightarrow> keyspace \<Rightarrow> nat option" where
  "claim_search R now pre source n v = find
     (\<lambda>k. claimable_view R now (pre @ lists v source ! (length (lists v source) - Suc k))
       (popped_view source k v))
     [0..<min n (length (lists v source))]"

context redis_store
begin

lemma claimable_iff: "claimable R k s \<longleftrightarrow> claimable_view R (r_time R s) k (view s)"
  by (auto simp: claimable_def claimable_view_def store_simps has_token_def workflow_task_allowed_def
      task_wf_mapping_def workflow_allowed_iff split: option.splits)

end

lemma find_upt_Suc:
  "find P [0..<Suc n] = (if P 0 then Some 0 else map_option Suc (find (\<lambda>k. P (Suc k)) [0..<n]))"
proof -
  have f: "find P (map Suc xs) = map_option Suc (find (\<lambda>k. P (Suc k)) xs)" for xs
    by (induction xs) auto
  show ?thesis by (simp add: upt_conv_Cons map_Suc_upt [symmetric] f del: upt_Suc)
qed

lemma popped_view_Suc:
  assumes "lists v source \<noteq> []"
  shows "popped_view source k (ks_list source (butlast (lists v source)) v) = popped_view source (Suc k) v"
  using assms
  by (cases "Suc k < length (lists v source)")
    (simp_all add: popped_view_def ks_list_def butlast_conv_take take_take min_def)

lemma claim_search_Suc:
  assumes "lists v source \<noteq> []"
  shows "claim_search R now pre source (Suc n) v =
    (if claimable_view R now (pre @ last (lists v source)) (ks_list source (butlast (lists v source)) v)
     then Some 0
     else map_option Suc (claim_search R now pre source n (ks_list source (butlast (lists v source)) v)))"
proof -
  let ?L = "lists v source"
  have m: "min (Suc n) (length ?L) = Suc (min n (length ?L - 1))"
    using assms by (cases ?L) auto
  have z: "popped_view source 0 v = ks_list source (butlast ?L) v"
    by (simp add: popped_view_def butlast_conv_take)
  have l: "?L ! (length ?L - Suc 0) = last ?L" using assms by (simp add: last_conv_nth)
  have s: "lists (ks_list source (butlast ?L) v) source = butlast ?L" by (simp add: ks_list_def)
  have nth: "k < length ?L - 1 \<Longrightarrow>
      ?L ! (length ?L - Suc (Suc k)) = butlast ?L ! (length ?L - Suc 0 - Suc k)" for k
    by (simp add: nth_butlast)
  have cong: "find (\<lambda>k. claimable_view R now (pre @ ?L ! (length ?L - Suc (Suc k)))
        (popped_view source (Suc k) v)) [0..<min n (length ?L - 1)] =
      find (\<lambda>k. claimable_view R now (pre @ butlast ?L ! (length (butlast ?L) - Suc k))
        (popped_view source k (ks_list source (butlast ?L) v))) [0..<min n (length (butlast ?L))]"
    by (rule find_cong) (use assms nth in \<open>auto simp: popped_view_Suc\<close>)
  show ?thesis
    unfolding claim_search_def m find_upt_Suc z l s cong [symmetric] by simp
qed

definition claim_effect ::
  "key \<Rightarrow> key \<Rightarrow> str \<Rightarrow> str \<Rightarrow> str \<Rightarrow> key \<Rightarrow> str \<Rightarrow> keyspace \<Rightarrow> keyspace" where
  "claim_effect source inflight token worker inst k x v =
    (let v1 = ks_list inflight (claim_entry token x # lists v inflight) v
     in v1\<lparr>hashes := (hashes v1)(k :=
          hashes v1 k ++ map_of (rev (claim_fields token worker inst source inflight)))\<rparr>)"

context redis_store
begin

lemma claim_is_search:
  "(case claim_search R (r_time R s) pre source n (view s) of
      None \<Rightarrow> fst (claim_gpu_task R source inflight token wk inst pre n s) = None \<and>
        view (snd (claim_gpu_task R source inflight token wk inst pre n s)) =
          ks_list source (take (length (lists (view s) source) - n) (lists (view s) source)) (view s)
    | Some k \<Rightarrow>
        (let x = lists (view s) source ! (length (lists (view s) source) - Suc k) in
         fst (claim_gpu_task R source inflight token wk inst pre n s) = Some x \<and>
         view (snd (claim_gpu_task R source inflight token wk inst pre n s)) =
           claim_effect source inflight token wk inst (pre @ x) x (popped_view source k (view s))))"
proof (induction n arbitrary: s)
  case 0
  then show ?case by (simp add: claim_search_def ks_list_def)
next
  case (Suc n)
  let ?L = "lists (view s) source"
  show ?case
  proof (cases "?L = []")
    case True
    then have "fst (r_rpop R source s) = None" "view (snd (r_rpop R source s)) = view s"
      by (simp_all add: rpop_result rpop ks_list_same)
    with True show ?thesis
      by (cases "r_rpop R source s") (simp add: claim_search_def ks_list_same)
  next
    case False
    then obtain s0 where pop: "r_rpop R source s = (Some (last ?L), s0)"
      by (cases "r_rpop R source s") (use rpop_result [of source s] in simp)
    then have v0: "view s0 = ks_list source (butlast ?L) (view s)" and t0: "r_time R s0 = r_time R s"
      using rpop [of source s] rpop_time [of source s] by simp_all
    have cl: "claimable R (pre @ last ?L) s0 \<longleftrightarrow>
        claimable_view R (r_time R s) (pre @ last ?L) (ks_list source (butlast ?L) (view s))"
      by (simp add: claimable_iff v0 t0)
    show ?thesis
    proof (cases "claimable R (pre @ last ?L) s0")
      case True
      have z: "popped_view source 0 (view s) = view s0"
        by (simp add: popped_view_def butlast_conv_take v0)
      have l: "?L ! (length ?L - Suc 0) = last ?L" using False by (simp add: last_conv_nth)
      show ?thesis
        using True cl by (simp add: claim_search_Suc [OF False] pop Let_def z l claim_effect_def
            view_hset_many lpush)
    next
      case no: False
      have rec: "claim_gpu_task R source inflight token wk inst pre (Suc n) s =
          claim_gpu_task R source inflight token wk inst pre n s0"
        using no pop by (simp add: Let_def)
      have L0: "lists (view s0) source = butlast ?L" by (simp add: v0 ks_list_def)
      have cs: "claim_search R (r_time R s) pre source (Suc n) (view s) =
          map_option Suc (claim_search R (r_time R s) pre source n (view s0))"
        using no cl by (simp add: claim_search_Suc [OF False] v0)
      have vs: "ks_list source xs (view s0) = ks_list source xs (view s)" for xs
        by (simp add: v0 ks_list_def)
      show ?thesis
      proof (cases "claim_search R (r_time R s) pre source n (view s0)")
        case None
        then show ?thesis
          using Suc.IH [of s0] unfolding rec cs
          by (simp add: t0 L0 vs butlast_conv_take take_take min_def)
      next
        case (Some k)
        then have k: "k < length ?L - 1"
          by (auto simp: claim_search_def L0 find_Some_iff)
        then have x: "butlast ?L ! (length ?L - Suc (Suc k)) = ?L ! (length ?L - Suc (Suc k))"
          by (simp add: nth_butlast)
        have pv: "popped_view source k (view s0) = popped_view source (Suc k) (view s)"
          by (simp add: v0 popped_view_Suc [OF False])
        show ?thesis
          using Suc.IH [of s0] Some unfolding rec cs
          by (simp add: t0 L0 x pv Let_def)
      qed
    qed
  qed
qed

end

text \<open>
  C29: a GPU claim is exactly a search. The claim transaction pops ids from the right of the
  source queue until one is claimable -- its record exists, is pending, carries no token, and
  its workflow admits it -- or the scan limit or the queue is exhausted. It returns the first
  such id; the ids it passed are removed from the queue and nothing else changes except that the
  claimed record gets the claim fields and the inflight list its entry.
\<close>

theorem claim_spec:
  assumes "redis_store R view"
  shows "case claim_search R (r_time R s) pre source n (view s) of
      None \<Rightarrow> fst (claim_gpu_task R source inflight token wk inst pre n s) = None \<and>
        view (snd (claim_gpu_task R source inflight token wk inst pre n s)) =
          ks_list source (take (length (lists (view s) source) - n) (lists (view s) source)) (view s)
    | Some k \<Rightarrow>
        (let x = lists (view s) source ! (length (lists (view s) source) - Suc k) in
         fst (claim_gpu_task R source inflight token wk inst pre n s) = Some x \<and>
         view (snd (claim_gpu_task R source inflight token wk inst pre n s)) =
           claim_effect source inflight token wk inst (pre @ x) x (popped_view source k (view s)))"
  by (rule redis_store.claim_is_search [OF assms])

theorem claim_spec_witness:
  "case claim_search mem_redis (r_time mem_redis submitted) ''k:task:'' gpu_queue 32 (mem_view submitted) of
      None \<Rightarrow> fst (claim_gpu_task mem_redis gpu_queue ''q'' ''aa'' ''w'' ''i'' ''k:task:'' 32 submitted) = None \<and>
        mem_view (snd (claim_gpu_task mem_redis gpu_queue ''q'' ''aa'' ''w'' ''i'' ''k:task:'' 32 submitted)) =
          ks_list gpu_queue (take (length (lists (mem_view submitted) gpu_queue) - 32)
            (lists (mem_view submitted) gpu_queue)) (mem_view submitted)
    | Some k \<Rightarrow>
        (let x = lists (mem_view submitted) gpu_queue ! (length (lists (mem_view submitted) gpu_queue) - Suc k) in
         fst (claim_gpu_task mem_redis gpu_queue ''q'' ''aa'' ''w'' ''i'' ''k:task:'' 32 submitted) = Some x \<and>
         mem_view (snd (claim_gpu_task mem_redis gpu_queue ''q'' ''aa'' ''w'' ''i'' ''k:task:'' 32 submitted)) =
           claim_effect gpu_queue ''q'' ''aa'' ''w'' ''i'' (''k:task:'' @ x) x
             (popped_view gpu_queue k (mem_view submitted)))"
  by (rule claim_spec [OF mem_redis.redis_store_axioms])

end
