(* ===== verification/MoveContracts.thy ===== *)
theory MoveContracts
  imports ClaimContracts
begin

section \<open>Contracts of submission, moves and terminal commits\<close>

text \<open>
  The branches of the remaining claim scripts: which conditions a script tests, what it then
  writes, and that every refusal leaves the task alone.
\<close>

definition guard_for_task :: "'s redis \<Rightarrow> rat \<Rightarrow> key \<Rightarrow> keyspace \<Rightarrow> bool" where
  \<comment> \<open>the workflow guard as it reads a task record\<close>
  "guard_for_task R now k v = guard_open R \<lparr>
       m_cancellation_keys = Some (case hashes v k ''cancellation_keys'' of Some x \<Rightarrow> x | None \<Rightarrow> ''[]''),
       m_generation = hashes v k ''workflow_generation'',
       m_parent = hashes v k ''workflow_parent_key'',
       m_lease = hashes v k ''workflow_lease_key'',
       m_deadline = hashes v k ''workflow_deadline''\<rparr> v now"

definition requeue_permitted :: "str option \<Rightarrow> str \<Rightarrow> bool" where
  \<comment> \<open>the recovery fence a requeue with this release mode may lift\<close>
  "requeue_permitted recovery release \<longleftrightarrow>
     recovery \<in> {None, Some []} \<or>
     recovery = Some ''execution_fenced'' \<and> release \<in> {''execution'', ''all''} \<or>
     recovery = Some ''frozen'' \<and> release = ''all''"

context redis_store
begin

lemma guard_for_task_iff:
  "workflow_task_allowed R k s \<longleftrightarrow> guard_for_task R (r_time R s) k (view s)"
  by (simp add: workflow_task_allowed_def task_wf_mapping_def workflow_allowed_iff hget guard_for_task_def
      cong: option.case_cong)

lemma submit_branches:
  assumes "submit_task_if_absent R (task_key p x) dest x m s = (code, s1)"
    and "cjson_fields R m = fvs" and "fvs \<noteq> []"
  shows "(code = -5 \<and> s1 = s \<and> \<not> guard_open R (fields_wf_mapping fvs) (view s) (r_time R s)) \<or>
    (code = 0 \<and> s1 = s \<and> guard_open R (fields_wf_mapping fvs) (view s) (r_time R s) \<and>
      ks_exists (task_key p x) (view s)) \<or>
    (code = 1 \<and> guard_open R (fields_wf_mapping fvs) (view s) (r_time R s) \<and>
      \<not> ks_exists (task_key p x) (view s) \<and>
      hashes (view s1) = (hashes (view s))(task_key p x := map_of (rev fvs)) \<and>
      lists (view s1) = (lists (view s))(dest := x # removeAll x (lists (view s) dest)))"
  using assms
  by (auto simp: submit_task_if_absent_def Let_def store_simps workflow_allowed_iff ks_exists_def
      split: if_splits option.splits)

lemma fold_lrem_all:
  "hashes (view (fold (\<lambda>q. lrem' R q 0 x) qs s)) = hashes (view s)"
  "lists (view (fold (\<lambda>q. lrem' R q 0 x) qs s)) q =
     (if q \<in> set qs then removeAll x (lists (view s) q) else lists (view s) q)"
  by (induction qs arbitrary: s) (auto simp: store_simps)

lemma refresh_branches:
  assumes "force_refresh_task R (task_key p x) (result_key p x) dest cleanup x m wp s = (code, s1)"
    and "cjson_fields R m = fvs" and "dest \<notin> {task_key p x, result_key p x}"
  shows "(code \<in> {-5, -2, -1, -4} \<and> s1 = s) \<or>
    (code \<in> {1, 2} \<and> guard_open R (fields_wf_mapping fvs) (view s) (r_time R s) \<and>
      (ks_exists (task_key p x) (view s) \<longrightarrow>
         hashes (view s) (task_key p x) ''status'' \<in> Some ` set terminal_statuses \<and>
         hashes (view s) (task_key p x) ''claim_token'' \<in> {None, Some []} \<and>
         hashes (view s) (task_key p x) ''claim_recovery_state'' \<noteq> Some ''frozen'') \<and>
      hashes (view s1) (task_key p x) = map_of (rev fvs) \<and>
      hashes (view s1) (result_key p x) = Map.empty \<and>
      count_list (lists (view s1) dest) x = 1 \<and>
      (\<forall>q \<in> set cleanup - {dest}. x \<notin> set (lists (view s1) q)))"
proof -
  let ?k = "task_key p x" and ?rk = "result_key p x"
  define s' where "s' = (if r_exists R ?k s \<and> hget0 R ?k ''assigned_worker'' s \<noteq> []
    then lrem' R (wp @ hget0 R ?k ''assigned_worker'' s) 0 x s else s)"
  define s5 where "s5 = r_lpush R dest x (hset_many R ?k fvs (del_many R [?k, ?rk]
    (fold (\<lambda>q. lrem' R q 0 x) (dest # cleanup) s')))"
  define s6 where "s6 = (case map_of (rev fvs) ''workflow_children_key'' of
    Some ck \<Rightarrow> r_sadd R ck x s5 | None \<Rightarrow> s5)"
  have h: "hashes (view s6) ?k = map_of (rev fvs)" "hashes (view s6) ?rk = Map.empty"
    unfolding s6_def s5_def
    by (simp_all add: store_simps del_many_def fold_lrem_all del: fold_simps split: option.split)
  have l: "lists (view s6) q = (if q = dest then x # removeAll x (lists (view s') q)
      else if q \<in> {?k, ?rk} then []
      else if q \<in> set cleanup then removeAll x (lists (view s') q) else lists (view s') q)" for q
    unfolding s6_def s5_def using assms(3)
    by (auto simp: store_simps del_many_def fold_lrem_all split: option.split)
  have eq: "force_refresh_task R ?k ?rk dest cleanup x m wp s =
    (if \<not> workflow_allowed R (fields_wf_mapping fvs) s then (-5, s)
     else if r_exists R ?k s \<and> r_hget R ?k ''claim_recovery_state'' s = Some ''frozen'' then (-2, s)
     else if r_exists R ?k s \<and> has_token R ?k s then (-1, s)
     else if r_exists R ?k s \<and> hget0 R ?k ''status'' s \<notin> set terminal_statuses then (-4, s)
     else (if r_exists R ?k s then 2 else 1, s6))"
    unfolding force_refresh_task_def Let_def assms(2) s6_def s5_def s'_def ..
  have code: "(code \<in> {-5, -2, -1, -4} \<and> s1 = s) \<or>
    (code \<in> {1, 2} \<and> s1 = s6 \<and> workflow_allowed R (fields_wf_mapping fvs) s \<and>
      (r_exists R ?k s \<longrightarrow> r_hget R ?k ''claim_recovery_state'' s \<noteq> Some ''frozen'' \<and>
        \<not> has_token R ?k s \<and> hget0 R ?k ''status'' s \<in> set terminal_statuses))"
    using assms(1) unfolding eq by (simp split: if_splits)
  have "hget0 R ?k ''status'' s \<in> set terminal_statuses \<Longrightarrow>
      hashes (view s) ?k ''status'' \<in> Some ` set terminal_statuses"
    by (auto simp: hget0_view split: option.splits)
  with code show ?thesis
    using h by (elim disjE conjE; simp add: l workflow_allowed_iff "exists" hget has_token_def
        hget0_view split: option.splits) blast?
qed

lemma requeue_branches:
  assumes "conditional_requeue R (task_key p x) dest q c pc x e t data reason now dw da release s = (code, s1)"
    and "dest \<noteq> q"
  shows "(code = 1 \<longleftrightarrow>
      hashes (view s) (task_key p x) ''claim_token'' = Some t \<and>
      requeue_permitted (hashes (view s) (task_key p x) ''claim_recovery_state'') release \<and>
      (\<exists>st. hashes (view s) (task_key p x) ''status'' = Some st \<and> st \<notin> set terminal_statuses) \<and>
      guard_for_task R (r_time R s) (task_key p x) (view s) \<and>
      \<not> ks_exists c (view s) \<and> \<not> ks_exists pc (view s))"
    and "code = 1 \<longrightarrow>
      hashes (view s1) = (hashes (view s))(task_key p x :=
        hashes (view s) (task_key p x) ++ map_of (rev (requeue_fields data dw da reason now))) \<and>
      lists (view s1) = (lists (view s))(q := remove1 e (lists (view s) q),
        dest := x # removeAll x (lists (view s) dest))"
    and "code = -4 \<longrightarrow> s1 = s"
    and "code \<notin> {1, -4} \<longrightarrow>
      (\<forall>f. f \<notin> fst ` set clear_claim_fields \<longrightarrow>
         hashes (view s1) (task_key p x) f = hashes (view s) (task_key p x) f) \<and>
      lists (view s1) = (lists (view s))(q := remove1 e (lists (view s) q))"
proof -
  note defs = conditional_requeue_def Let_def token_current_def guard_for_task_iff
    requeue_permitted_def
  show "(code = 1 \<longleftrightarrow>
      hashes (view s) (task_key p x) ''claim_token'' = Some t \<and>
      requeue_permitted (hashes (view s) (task_key p x) ''claim_recovery_state'') release \<and>
      (\<exists>st. hashes (view s) (task_key p x) ''status'' = Some st \<and> st \<notin> set terminal_statuses) \<and>
      guard_for_task R (r_time R s) (task_key p x) (view s) \<and>
      \<not> ks_exists c (view s) \<and> \<not> ks_exists pc (view s))"
    using assms(1) by (auto simp: defs hget "exists" hget0_view split: if_splits option.splits)
  show "code = -4 \<longrightarrow> s1 = s"
    using assms(1) by (auto simp: defs split: if_splits option.splits)
  show "code = 1 \<longrightarrow>
      hashes (view s1) = (hashes (view s))(task_key p x :=
        hashes (view s) (task_key p x) ++ map_of (rev (requeue_fields data dw da reason now))) \<and>
      lists (view s1) = (lists (view s))(q := remove1 e (lists (view s) q),
        dest := x # removeAll x (lists (view s) dest))"
    using assms by (auto simp: defs store_simps split: if_splits option.splits)
  have cl: "hashes (view (clear_claim R k s')) k f = hashes (view s') k f"
    "lists (view (clear_claim R k s')) = lists (view s')"
    if "f \<notin> fst ` set clear_claim_fields" for k s' f
    using that by (auto simp: clear_claim_def view_hset_many map_add_def clear_claim_fields_def)
  have cl': "lists (view (clear_claim R k s')) = lists (view s')" for k s'
    by (simp add: clear_claim_def view_hset_many)
  show "code \<notin> {1, -4} \<longrightarrow>
      (\<forall>f. f \<notin> fst ` set clear_claim_fields \<longrightarrow>
         hashes (view s1) (task_key p x) f = hashes (view s) (task_key p x) f) \<and>
      lists (view s1) = (lists (view s))(q := remove1 e (lists (view s) q))"
    using assms(1) by (auto simp: defs cl cl' view_lrem' ks_lrem_def ks_list_def split: if_splits option.splits)
qed

lemma finalize_branches:
  assumes "finalize_claim R k rk q t e tm rm a b allow s = (code, s1)" and "k \<noteq> rk"
  shows "(code = 0 \<and> hashes (view s) k ''claim_token'' \<noteq> Some t \<and>
      view s1 = ks_list q (remove1 e (lists (view s) q)) (view s)) \<or>
    (code = -2 \<and> hashes (view s) k ''claim_token'' = Some t \<and>
      hashes (view s) k ''claim_recovery_state'' = Some ''frozen'' \<and> \<not> allow \<and> s1 = s) \<or>
    (code = 1 \<and> hashes (view s) k ''claim_token'' = Some t \<and>
      (hashes (view s) k ''claim_recovery_state'' = Some ''frozen'' \<longrightarrow> allow) \<and>
      hashes (view s1) = (hashes (view s))(k := hashes (view s) k ++ map_of (rev (cjson_fields R tm)),
        rk := hashes (view s) rk ++ map_of (rev (cjson_fields R rm))) \<and>
      lists (view s1) = (lists (view s))(q := remove1 e (lists (view s) q)) \<and>
      strs (view s1) = strs (view s) \<and> sets (view s1) = sets (view s))"
  using assms
  by (auto simp: finalize_claim_def Let_def token_current_def store_simps split: if_splits)

text \<open>A frozen claim: only its own token with the containment authority can move it.\<close>

lemma frozen_retained:
  assumes "hashes (view s) k ''claim_token'' = Some t" and "t \<noteq> []"
    and "hashes (view s) k ''claim_recovery_state'' = Some ''frozen''"
  shows "ack_claim R k q e t False s = (-2, s)"
    and "release \<noteq> ''all'' \<Longrightarrow>
      conditional_requeue R k dest q c pc x e t data reason now dw da release s = (-4, s)"
    and "finalize_claim R k rk q t e tm rm a b False s = (-2, s)"
    and "fst (force_refresh_task R k rk dest cl x m wp s) < 0"
    and "snd (force_refresh_task R k rk dest cl x m wp s) = s"
proof -
  have ex: "ks_exists k (view s)" using assms(1) by (auto simp: ks_exists_def)
  show "ack_claim R k q e t False s = (-2, s)"
    using assms ex by (simp add: ack_claim_def token_current_def store_simps)
  show "conditional_requeue R k dest q c pc x e t data reason now dw da release s = (-4, s)"
    if "release \<noteq> ''all''"
    using assms that by (simp add: conditional_requeue_def token_current_def store_simps Let_def)
  show "finalize_claim R k rk q t e tm rm a b False s = (-2, s)"
    using assms by (simp add: finalize_claim_def token_current_def store_simps)
  show "fst (force_refresh_task R k rk dest cl x m wp s) < 0"
    "snd (force_refresh_task R k rk dest cl x m wp s) = s"
    using assms ex by (simp_all add: force_refresh_task_def Let_def "exists" hget)
qed

end

text \<open>
  C27: requeueing never resurrects finished work. A claimed task goes back to a queue exactly when
  the caller still holds its token, has the authority to lift its recovery fence, the task is in
  a non-terminal status, its workflow admits it, and no cancel marker exists; it is then pending,
  unclaimed, exactly once in the destination queue, and its inflight entry is gone. Refused by a
  fence, nothing changes; refused otherwise, only the claim fields and the inflight entry are
  dropped: the status stays and no queue gains the task.
\<close>

theorem requeue_contract:
  assumes "redis_store R view" and "dest \<noteq> q"
    and "conditional_requeue R (task_key p x) dest q c pc x e t data reason now dw da release s = (code, s1)"
  shows "(code = 1 \<longleftrightarrow>
      hashes (view s) (task_key p x) ''claim_token'' = Some t \<and>
      requeue_permitted (hashes (view s) (task_key p x) ''claim_recovery_state'') release \<and>
      (\<exists>st. hashes (view s) (task_key p x) ''status'' = Some st \<and> st \<notin> set terminal_statuses) \<and>
      guard_for_task R (r_time R s) (task_key p x) (view s) \<and>
      \<not> ks_exists c (view s) \<and> \<not> ks_exists pc (view s)) \<and>
    (code = 1 \<longrightarrow>
      hashes (view s1) (task_key p x) ''status'' = Some ''pending'' \<and>
      hashes (view s1) (task_key p x) ''claim_token'' = Some [] \<and>
      hashes (view s1) (task_key p x) ''data'' = Some data \<and>
      count_list (lists (view s1) dest) x = 1 \<and>
      lists (view s1) q = remove1 e (lists (view s) q)) \<and>
    (code = -4 \<longrightarrow> s1 = s) \<and>
    (code \<notin> {1, -4} \<longrightarrow>
      hashes (view s1) (task_key p x) ''status'' = hashes (view s) (task_key p x) ''status'' \<and>
      lists (view s1) = (lists (view s))(q := remove1 e (lists (view s) q)))"
  using redis_store.requeue_branches [OF assms(1,3,2)] assms(2)
  by (auto simp: requeue_fields_def clear_claim_fields_def)

definition requeue_sample :: "str \<Rightarrow> int \<times> mem" where
  "requeue_sample release = conditional_requeue mem_redis (task_key ''k'' ''x'') gpu_queue
     (gpu_inflight_queue ''k'' ''worker_0'') (cancel_key ''k'' ''x'') (cancel_key ''k'' ''x'') ''x'' ''aa|x''
     ''aa'' ''d'' ''r'' ''n'' [] [] release started"

theorem requeue_contract_witness:
  "(let (code, s1) = requeue_sample ''execution'' in
      code = 1 \<and> hashes (mem_view s1) (task_key ''k'' ''x'') ''status'' = Some ''pending'' \<and>
      count_list (lists (mem_view s1) gpu_queue) ''x'' = 1) \<and>
   (let (code, s1) = requeue_sample ''none'' in code \<noteq> 1)"
proof -
  have open_guard: "guard_for_task mem_redis (r_time mem_redis started) (task_key ''k'' ''x'') (mem_view started)"
    using started_view by (simp add: guard_for_task_def guard_open_def store_simps)
  have dq: "gpu_queue \<noteq> gpu_inflight_queue ''k'' ''worker_0''" by (simp add: gpu_queue_def)
  note rule = requeue_contract [OF mem_redis.redis_store_axioms dq prod.collapse [symmetric]]
  from rule [of "''k''" "''x''" "cancel_key ''k'' ''x''" "cancel_key ''k'' ''x''" "''aa|x''" "''aa''" "''d''" "''r''"
      "''n''" "[]" "[]" "''execution''" started, folded requeue_sample_def]
    rule [of "''k''" "''x''" "cancel_key ''k'' ''x''" "cancel_key ''k'' ''x''" "''aa|x''" "''aa''" "''d''" "''r''"
      "''n''" "[]" "[]" "''none''" started, folded requeue_sample_def]
  show ?thesis
    using open_guard started_view by (simp add: case_prod_beta requeue_permitted_def)
qed

text \<open>
  C28: the terminal commit is atomic and fenced. Finalizing under a claim token writes the task
  record, the result record and the removal of the inflight entry together, exactly when the
  token is the current one and the claim is not frozen (or the caller has the containment
  authority). A superseded token changes no record and drops only its own inflight entry; a
  frozen claim is left untouched.
\<close>

theorem finalize_contract:
  assumes "redis_store R view" and "k \<noteq> rk"
    and "finalize_claim R k rk q t e tm rm a b allow s = (code, s1)"
  shows "(code = 0 \<and> hashes (view s) k ''claim_token'' \<noteq> Some t \<and>
      view s1 = ks_list q (remove1 e (lists (view s) q)) (view s)) \<or>
    (code = -2 \<and> hashes (view s) k ''claim_token'' = Some t \<and>
      hashes (view s) k ''claim_recovery_state'' = Some ''frozen'' \<and> \<not> allow \<and> s1 = s) \<or>
    (code = 1 \<and> hashes (view s) k ''claim_token'' = Some t \<and>
      (hashes (view s) k ''claim_recovery_state'' = Some ''frozen'' \<longrightarrow> allow) \<and>
      hashes (view s1) = (hashes (view s))(k := hashes (view s) k ++ map_of (rev (cjson_fields R tm)),
        rk := hashes (view s) rk ++ map_of (rev (cjson_fields R rm))) \<and>
      lists (view s1) = (lists (view s))(q := remove1 e (lists (view s) q)) \<and>
      strs (view s1) = strs (view s) \<and> sets (view s1) = sets (view s))"
  by (rule redis_store.finalize_branches [OF assms(1,3,2)])

definition finalize_sample :: "str \<Rightarrow> int \<times> mem" where
  "finalize_sample token = finalize_claim mem_redis (task_key ''k'' ''x'') (result_key ''k'' ''x'')
     (gpu_inflight_queue ''k'' ''worker_0'') token (claim_entry token ''x'')
     (json_dumps sample_codec (JObj [(''status'', JStr ''completed''), (''claim_token'', JStr [])]))
     (json_dumps sample_codec (JObj [(''result'', JStr ''r'')])) 60 60 False started"

theorem finalize_contract_witness:
  "(let (code, s1) = finalize_sample ''aa'' in code = 1 \<and>
      hashes (mem_view s1) (task_key ''k'' ''x'') ''status'' = Some ''completed'' \<and>
      hashes (mem_view s1) (result_key ''k'' ''x'') ''result'' = Some ''r'') \<and>
   (let (code, s1) = finalize_sample ''bb'' in code = 0 \<and>
      hashes (mem_view s1) (task_key ''k'' ''x'') ''status'' = Some ''processing'')"
proof -
  have k: "task_key ''k'' ''x'' \<noteq> result_key ''k'' ''x''" by simp
  note rule = finalize_contract [OF mem_redis.redis_store_axioms k prod.collapse [symmetric]]
  show ?thesis
    using started_view rule [of "gpu_inflight_queue ''k'' ''worker_0''" "''aa''" "claim_entry ''aa'' ''x''"
        "json_dumps sample_codec (JObj [(''status'', JStr ''completed''), (''claim_token'', JStr [])])"
        "json_dumps sample_codec (JObj [(''result'', JStr ''r'')])" 60 60 False started,
        folded finalize_sample_def]
      rule [of "gpu_inflight_queue ''k'' ''worker_0''" "''bb''" "claim_entry ''bb'' ''x''"
        "json_dumps sample_codec (JObj [(''status'', JStr ''completed''), (''claim_token'', JStr [])])"
        "json_dumps sample_codec (JObj [(''result'', JStr ''r'')])" 60 60 False started,
        folded finalize_sample_def]
    by (auto simp: case_prod_beta store_simps ks_list_def)
qed


definition frozen_mem :: mem where
  "frozen_mem = mem_of [(''k:task:x'', [(''status'', ''processing''), (''claim_token'', ''aa''),
     (''claim_recovery_state'', ''frozen'')])] [] [] 0"


text \<open>
  C38: submission happens once. Submitting a task id either creates its record as given, puts
  the id exactly once into the destination queue and reports 1, or changes nothing and reports
  that the id exists (0) or that its workflow admits no task (-5). After a submission that
  reported 1, any further submission of the id -- with any payload and queue -- changes nothing.
\<close>

theorem submit_once:
  assumes "redis_store R view" and "cjson_fields R m = fvs" and "fvs \<noteq> []"
    and "submit_task_if_absent R (task_key p x) dest x m s = (code, s1)"
  shows "(code = -5 \<longleftrightarrow> \<not> guard_open R (fields_wf_mapping fvs) (view s) (r_time R s)) \<and>
    (code = 0 \<longrightarrow> ks_exists (task_key p x) (view s)) \<and> (code \<noteq> 1 \<longrightarrow> s1 = s) \<and>
    (code = 1 \<longrightarrow> hashes (view s1) (task_key p x) = map_of (rev fvs) \<and>
       count_list (lists (view s1) dest) x = 1 \<and>
       (cjson_fields R m' \<noteq> [] \<longrightarrow>
          fst (submit_task_if_absent R (task_key p x) dest' x m' s1) \<in> {0, -5} \<and>
          snd (submit_task_if_absent R (task_key p x) dest' x m' s1) = s1))"
proof -
  note branches = redis_store.submit_branches [OF assms(1,4,2,3)]
  have "code = 1 \<Longrightarrow> ks_exists (task_key p x) (view s1)"
  proof -
    assume "code = 1"
    with branches have "hashes (view s1) (task_key p x) = map_of (rev fvs)" by auto
    moreover have "map_of (rev fvs) \<noteq> Map.empty"
      using assms(3) by (simp add: map_of_eq_empty)
    ultimately show ?thesis by (simp add: ks_exists_def)
  qed
  moreover have "cjson_fields R m' \<noteq> [] \<Longrightarrow> ks_exists (task_key p x) (view s1) \<Longrightarrow>
      fst (submit_task_if_absent R (task_key p x) dest' x m' s1) \<in> {0, -5} \<and>
      snd (submit_task_if_absent R (task_key p x) dest' x m' s1) = s1"
    using redis_store.submit_branches [OF assms(1), of p x dest' m' s1 _ _ "cjson_fields R m'"]
    by (cases "submit_task_if_absent R (task_key p x) dest' x m' s1") fastforce
  ultimately show ?thesis using branches by auto
qed

theorem submit_once_witness:
  "count_list (lists (mem_view submitted) gpu_queue) ''x'' = 1 \<and>
   snd (submit_task_if_absent mem_redis (task_key ''k'' ''x'') ''other'' ''x'' sample_mapping submitted) = submitted"
proof -
  have ne: "[(''status'', ''pending''), (''cancellation_keys'', json_dumps sample_codec (JList []))] \<noteq> []"
    by simp
  have "fst (submit_task_if_absent mem_redis (task_key ''k'' ''x'') gpu_queue ''x'' sample_mapping mem_empty) = 1"
    by (simp add: submit_task_if_absent_def sample_mapping_fields Let_def store_simps workflow_allowed_def
        fields_wf_mapping_def mem_empty_view keyspace_empty_def ks_exists_def)
  then show ?thesis
    using submit_once [OF mem_redis.redis_store_axioms sample_mapping_fields ne prod.collapse [symmetric],
        of "''k''" "''x''" gpu_queue mem_empty sample_mapping "''other''"]
    by (simp add: submitted_def sample_mapping_fields)
qed

text \<open>
  C39: a force refresh replaces only finished, released work. It succeeds only if the workflow
  admits the task and the id is free or its record is terminal, unclaimed and not frozen; then
  the record is exactly the new mapping, the old result is gone, and the id is queued once in
  the destination and nowhere else among the cleaned queues. Every refusal changes nothing.
\<close>

theorem force_refresh_contract:
  assumes "redis_store R view" and "cjson_fields R m = fvs"
    and "dest \<notin> {task_key p x, result_key p x}"
    and "force_refresh_task R (task_key p x) (result_key p x) dest cleanup x m wp s = (code, s1)"
  shows "(code \<in> {-5, -2, -1, -4} \<and> s1 = s) \<or>
    (code \<in> {1, 2} \<and> guard_open R (fields_wf_mapping fvs) (view s) (r_time R s) \<and>
      (ks_exists (task_key p x) (view s) \<longrightarrow>
         hashes (view s) (task_key p x) ''status'' \<in> Some ` set terminal_statuses \<and>
         hashes (view s) (task_key p x) ''claim_token'' \<in> {None, Some []} \<and>
         hashes (view s) (task_key p x) ''claim_recovery_state'' \<noteq> Some ''frozen'') \<and>
      hashes (view s1) (task_key p x) = map_of (rev fvs) \<and>
      hashes (view s1) (result_key p x) = Map.empty \<and>
      count_list (lists (view s1) dest) x = 1 \<and>
      (\<forall>q \<in> set cleanup - {dest}. x \<notin> set (lists (view s1) q)))"
  by (rule redis_store.refresh_branches [OF assms(1,4,2,3)])

definition refresh_sample :: "mem \<Rightarrow> int \<times> mem" where
  "refresh_sample = force_refresh_task mem_redis (task_key ''k'' ''x'') (result_key ''k'' ''x'') gpu_queue
     [gpu_queue] ''x'' sample_mapping (''k'' @ '':queue:worker:'')"

theorem force_refresh_contract_witness:
  "snd (refresh_sample started) = started \<and> fst (refresh_sample started) < 0"
proof -
  have d: "gpu_queue \<notin> {task_key ''k'' ''x'', result_key ''k'' ''x''}"
    by (simp add: gpu_queue_def key_defs)
  show ?thesis
    using force_refresh_contract [OF mem_redis.redis_store_axioms sample_mapping_fields d
        prod.collapse [symmetric], of "[gpu_queue]" "''k'' @ '':queue:worker:''" started,
        folded refresh_sample_def] started_view(1,2)
    by (auto simp: ks_exists_def)
qed

end
