(* ===== verification/LifecycleContracts.thy ===== *)
theory LifecycleContracts
  imports MoveContracts
begin

section \<open>Contracts of the parent workflow transactions\<close>

text \<open>
  Acceptance under a fresh generation, the terminal commit that ends a generation exactly once
  and shuts its admission, and the durable tombstone of a cancellation.
\<close>



subsection \<open>Acceptance\<close>

context redis_store
begin

lemma accept_effect:
  assumes "s3 = r_sadd R (active_key p) x (r_pexpire R (workflow_key p x) lease_ms
    (r_set R (workflow_key p x) g (hset_many R (task_key p x)
      (accept_fields R x g h name deadline now children (tombstone_key p x))
      (del_many R [task_key p x, result_key p x, workflow_key p x, cancel_key p x] s))))"
  shows "hashes (view s3) (task_key p x) =
      map_of (rev (accept_fields R x g h name deadline now children (tombstone_key p x)))"
    and "hashes (view s3) (result_key p x) = Map.empty"
    and "strs (view s3) (workflow_key p x) = Some g"
    and "ttls (view s3) (workflow_key p x) = Some lease_ms"
    and "\<not> ks_exists (cancel_key p x) (view s3)"
    and "x \<in> sets (view s3) (active_key p)"
  unfolding assms
  by (simp_all add: store_simps del_many_def ks_exists_def ks_pexpire_def) (simp add: key_defs)

lemma accept_branches:
  assumes "accept_workflow R (task_key p x) (result_key p x) (workflow_key p x) (cancel_key p x)
      (active_key p) (tombstone_key p x) x g h name timeout lease_ms force now children s = (code, s1)"
  shows "code \<noteq> 1 \<Longrightarrow> s1 = s"
    and "ks_exists (tombstone_key p x) (view s) \<Longrightarrow> code = -2"
    and "code = 0 \<Longrightarrow> hashes (view s) (task_key p x) ''request_hash'' = Some h"
    and "code = 1 \<Longrightarrow>
      \<not> ks_exists (tombstone_key p x) (view s) \<and>
      (if ks_exists (task_key p x) (view s)
       then hashes (view s) (task_key p x) ''status'' \<in> Some ` set terminal_statuses \<and>
         hashes (view s) (task_key p x) ''claim_token'' \<in> {None, Some []} \<and> force
       else \<not> ks_exists (workflow_key p x) (view s)) \<and>
      s1 = r_sadd R (active_key p) x (r_pexpire R (workflow_key p x) lease_ms
        (r_set R (workflow_key p x) g (hset_many R (task_key p x)
          (accept_fields R x g h name (r_time R s + timeout) now children (tombstone_key p x))
          (del_many R [task_key p x, result_key p x, workflow_key p x, cancel_key p x] s))))"
  using assms
  by (auto simp: accept_workflow_def accept_refused_def Let_def "exists" hget has_token_def hget0_view
      split: if_splits option.splits)

end

text \<open>
  C31: acceptance opens at most one generation. A cancelled id is refused for good, even with
  force. A record is replaced only if it is absent (and no old marker is held) or terminal,
  unclaimed and forced; then it is a fresh pending parent under the new generation, hash and
  deadline, the lease holds the generation for the lease time, the old result and cancel marker
  are gone and the id is indexed as active. Every other answer changes nothing, and an id is
  joined (0) only by a request with the same content hash.
\<close>

theorem accept_contract:
  assumes "redis_store R view"
    and "accept_workflow R (task_key p x) (result_key p x) (workflow_key p x) (cancel_key p x)
      (active_key p) (tombstone_key p x) x g h name timeout lease_ms force now children s = (code, s1)"
  shows "(ks_exists (tombstone_key p x) (view s) \<longrightarrow> code = -2) \<and> (code \<noteq> 1 \<longrightarrow> s1 = s) \<and>
    (code = 0 \<longrightarrow> hashes (view s) (task_key p x) ''request_hash'' = Some h) \<and>
    (code = 1 \<longrightarrow>
      (if ks_exists (task_key p x) (view s)
       then hashes (view s) (task_key p x) ''status'' \<in> Some ` set terminal_statuses \<and>
         hashes (view s) (task_key p x) ''claim_token'' \<in> {None, Some []} \<and> force
       else \<not> ks_exists (workflow_key p x) (view s)) \<and>
      hashes (view s1) (task_key p x) = map_of (rev (accept_fields R x g h name (r_time R s + timeout)
        now children (tombstone_key p x))) \<and>
      hashes (view s1) (result_key p x) = Map.empty \<and>
      strs (view s1) (workflow_key p x) = Some g \<and>
      ttls (view s1) (workflow_key p x) = Some lease_ms \<and>
      \<not> ks_exists (cancel_key p x) (view s1) \<and> x \<in> sets (view s1) (active_key p))"
proof -
  note br = redis_store.accept_branches [OF assms]
  show ?thesis
  proof (cases "code = 1")
    case True
    note conds = br(4) [OF True]
    note eff = redis_store.accept_effect [OF assms(1) conjunct2 [OF conjunct2 [OF conds]]]
    show ?thesis
      using conds by (intro conjI impI eff) (auto simp: True)
  next
    case False
    with br(1-3) show ?thesis by blast
  qed
qed

definition accept_sample :: "str \<Rightarrow> mem \<Rightarrow> int \<times> mem" where
  "accept_sample g = accept_workflow mem_redis (task_key ''k'' ''x'') (result_key ''k'' ''x'')
     (workflow_key ''k'' ''x'') (cancel_key ''k'' ''x'') (active_key ''k'') (tombstone_key ''k'' ''x'')
     ''x'' g ''hash'' ''kernelbench'' 600 30000 True ''12:00'' ''oe0:''"

definition accepted :: mem where "accepted = snd (accept_sample ''g1'' mem_empty)"

lemma accept_sample_code: "fst (accept_sample ''g1'' mem_empty) = 1"
  by (simp add: accept_sample_def accept_workflow_def store_simps mem_empty_view keyspace_empty_def
      ks_exists_def Let_def)

theorem accept_contract_witness:
  "strs (mem_view accepted) (workflow_key ''k'' ''x'') = Some ''g1'' \<and>
   hashes (mem_view accepted) (task_key ''k'' ''x'') ''status'' = Some ''pending''"
proof -
  note rule = accept_contract [OF mem_redis.redis_store_axioms prod.collapse [symmetric]]
  show ?thesis
    using rule [where p = "''k''" and x = "''x''" and g = "''g1''" and h = "''hash''"
        and name = "''kernelbench''" and timeout = 600 and lease_ms = 30000 and force = True
        and now = "''12:00''" and children = "''oe0:''" and s = mem_empty,
        folded accept_sample_def accepted_def] accept_sample_code
    by (simp add: accept_fields_def)
qed

subsection \<open>The terminal commit\<close>

definition workflow_open :: "str option \<Rightarrow> bool" where
  "workflow_open st \<longleftrightarrow> st = Some ''pending'' \<or> st = Some ''processing''"

context redis_store
begin

lemma finish_child_hashes:
  assumes "z \<noteq> task_key p y" and "z \<noteq> result_key p y"
  shows "hashes (view (finish_child R p now a b y s)) z = hashes (view s) z"
proof -
  have rel: "hashes (view (release_inflight R k w s')) = hashes (view s')" for k w s'
    by (simp add: release_inflight_def Let_def store_simps)
  have rem: "hashes (view (remove_from_queues R q wk w s')) = hashes (view s')" for q wk w s'
    by (simp add: remove_from_queues_def Let_def store_simps)
  show ?thesis
    using assms by (simp only: finish_child_def Let_def queue_literals) (simp add: store_simps rel rem)
qed

lemma finish_child_parent:
  assumes "hashes (view s) (task_key p x) ''status'' = Some st" and "st \<noteq> ''pending''"
  shows "hashes (view (finish_child R p now a b y s)) (task_key p x) = hashes (view s) (task_key p x)"
    and "hashes (view (finish_child R p now a b y s)) (result_key p x) = hashes (view s) (result_key p x)"
proof -
  have rem: "hashes (view (remove_from_queues R q wk w s')) = hashes (view s')" for q wk w s'
    by (simp add: remove_from_queues_def Let_def store_simps)
  have "hashes (view (finish_child R p now a b x s)) = hashes (view s)"
    using assms by (simp only: finish_child_def Let_def queue_literals) (simp add: store_simps rem)
  then show "hashes (view (finish_child R p now a b y s)) (task_key p x) = hashes (view s) (task_key p x)"
    and "hashes (view (finish_child R p now a b y s)) (result_key p x) = hashes (view s) (result_key p x)"
    by (cases "y = x"; simp add: finish_child_hashes)+
qed

lemma finish_children_parent:
  assumes "hashes (view s) (task_key p x) ''status'' = Some st" and "st \<noteq> ''pending''"
  shows "hashes (view (fold (finish_child R p now a b) ys s)) (task_key p x) = hashes (view s) (task_key p x)
    \<and> hashes (view (fold (finish_child R p now a b) ys s)) (result_key p x) = hashes (view s) (result_key p x)"
  using assms(1)
proof (induction ys arbitrary: s)
  case (Cons y ys)
  then show ?case
    using finish_child_parent [OF Cons.prems assms(2)] Cons.IH [of "finish_child R p now a b y s"] by simp
qed simp

lemma finish_branches:
  assumes fin: "finish_workflow R (task_key p x) (result_key p x) (workflow_key p x) (cancel_key p x)
      (active_key p) (children_key p x g) g result now a b x reason p s = (code, s1)"
    and fr: "finish_reason R (task_key p x) (workflow_key p x) g
      (json_object (cjson_decode R result)) reason s = (rs, rd)"
    and st: "dget ''status'' rd = JStr st" and fin_st: "st \<in> set terminal_statuses"
  shows "code = (if hashes (view s) (task_key p x) ''workflow_generation'' = Some g \<and>
        workflow_open (hashes (view s) (task_key p x) ''status'') then 1 else 0)"
    and "code = 0 \<Longrightarrow> s1 = s"
    and "code = 1 \<Longrightarrow> hashes (view s1) (task_key p x) ''status'' = Some st \<and>
      hashes (view s1) (task_key p x) ''workflow_generation'' = Some g \<and>
      hashes (view s1) (result_key p x) ''result'' =
        Some (cjson_encode R (JObj (finish_result R (task_key p x) g x rs rd s)))"
proof -
  show "code = (if hashes (view s) (task_key p x) ''workflow_generation'' = Some g \<and>
        workflow_open (hashes (view s) (task_key p x) ''status'') then 1 else 0)"
    and "code = 0 \<Longrightarrow> s1 = s"
    using fin by (auto simp: finish_workflow_def Let_def hget workflow_open_def split: if_splits prod.splits)
  let ?d = "finish_result R (task_key p x) g x rs rd s"
  define fvs where "fvs = [(''status'', lua_arg R (dget ''status'' ?d)), (''completed_at'', now),
    (''error_message'', case dget ''error_message'' ?d of JStr x \<Rightarrow> x | _ \<Rightarrow> [])]"
  define s1' where "s1' = hset_many R (task_key p x) fvs s"
  define s3 where "s3 = r_srem R (active_key p) x (r_set R (cancel_key p x) ''1''
    (r_del R (workflow_key p x) (hset_many R (result_key p x) [(''result'', cjson_encode R (JObj ?d)),
      (''completed_at'', now), (''request_hash'', hget0 R (task_key p x) ''request_hash'' s1')] s1')))"
  define s4 where "s4 = fold (finish_child R p now a b) (r_smembers R (children_key p x g) s3) s3"
  have st3: "hashes (view s3) (task_key p x) ''status'' = Some st"
    using st by (simp add: s3_def s1'_def fvs_def store_simps finish_result_status arg_string)
  have "st \<noteq> ''pending''" using fin_st by auto
  note keep = finish_children_parent [OF st3 this, of now a b "r_smembers R (children_key p x g) s3",
      folded s4_def]
  assume one: "code = 1"
  then have gen: "hashes (view s) (task_key p x) ''workflow_generation'' = Some g"
    and s1: "s1 = expire_pos R (result_key p x) b (expire_pos R (children_key p x g) a
      (expire_pos R (cancel_key p x) a (expire_pos R (task_key p x) a s4)))"
    using fin fr by (auto simp: finish_workflow_def Let_def hget s4_def s3_def s1'_def fvs_def
        split: if_splits)
  have "hashes (view s3) (task_key p x) ''workflow_generation'' = Some g"
    using gen by (simp add: s3_def s1'_def fvs_def store_simps)
  moreover have "hashes (view s3) (result_key p x) ''result'' = Some (cjson_encode R (JObj ?d))"
    by (simp add: s3_def s1'_def store_simps)
  ultimately show "hashes (view s1) (task_key p x) ''status'' = Some st \<and>
      hashes (view s1) (task_key p x) ''workflow_generation'' = Some g \<and>
      hashes (view s1) (result_key p x) ''result'' = Some (cjson_encode R (JObj ?d))"
    using keep st3 by (simp add: s1 expire_pos_view)
qed

end

text \<open>The verdict of a terminal commit: the deadline first, then a cancellation, then a lost
  lease unless the caller already has a reason, and only then the status the caller gives.\<close>

definition finish_verdict ::
  "'s redis \<Rightarrow> rat \<Rightarrow> key \<Rightarrow> key \<Rightarrow> str \<Rightarrow> str \<Rightarrow> str \<Rightarrow> keyspace \<Rightarrow> str" where
  "finish_verdict R now k lease g reason st v =
    (if now \<ge> lua_number_or_0 R (hashes v k ''workflow_deadline'') then ''timeout''
     else if (case hashes v k ''cancellation_key'' of Some c \<Rightarrow> ks_exists c v | None \<Rightarrow> False) then ''failed''
     else if strs v lease \<noteq> Some g \<and> reason = [] then ''failed'' else st)"

context redis_store
begin

lemma finish_reason_verdict:
  assumes "finish_reason R k lease g d reason s = (rs, rd)" and "dget ''status'' d = JStr st"
  shows "dget ''status'' rd = JStr (finish_verdict R (r_time R s) k lease g reason st (view s))"
    and "rs = [] \<Longrightarrow> rd = d"
  using assms
  by (auto simp: finish_reason_def finish_verdict_def Let_def store_simps split: if_splits option.splits)

lemma finish_verdict_terminal:
  "st \<in> set terminal_statuses \<Longrightarrow> finish_verdict R now k lease g reason st v \<in> set terminal_statuses"
  by (auto simp: finish_verdict_def)

lemma finish_result_content:
  "dget ''status'' (finish_result R k g x rs rd s) = dget ''status'' rd"
  "dget ''task_id'' (finish_result R k g x rs rd s) = JStr x"
  "dget ''workflow_generation'' (finish_result R k g x rs rd s) = JStr g"
  "rs \<noteq> [] \<Longrightarrow> dget ''correctness'' (finish_result R k g x rs rd s) = JBool False"
  "rs \<noteq> [] \<Longrightarrow> dget ''error_message'' (finish_result R k g x rs rd s) = JStr rs"
  by (simp_all add: finish_result_def)

end

text \<open>
  C12: one terminal commit per generation, with a fixed verdict. The commit takes effect exactly
  when the parent record is still pending or processing under the caller's generation; otherwise
  the store is unchanged. The committed status is timeout past the deadline, else failed after a
  cancellation, else failed for a lost lease without another reason, else the caller's; the
  result record carries the same status, the task id and the generation, and a commit with a
  reason is never reported correct.
\<close>

theorem finish_contract:
  assumes "redis_store R view"
    and "finish_workflow R (task_key p x) (result_key p x) (workflow_key p x) (cancel_key p x)
      (active_key p) (children_key p x g) g result now a b x reason p s = (code, s1)"
    and "dget ''status'' (json_object (cjson_decode R result)) = JStr st" and "st \<in> set terminal_statuses"
  shows "code = (if hashes (view s) (task_key p x) ''workflow_generation'' = Some g \<and>
        workflow_open (hashes (view s) (task_key p x) ''status'') then 1 else 0) \<and>
    (code = 0 \<longrightarrow> s1 = s) \<and>
    (code = 1 \<longrightarrow> (let verdict = finish_verdict R (r_time R s) (task_key p x) (workflow_key p x) g reason
          st (view s) in
      hashes (view s1) (task_key p x) ''status'' = Some verdict \<and> verdict \<in> set terminal_statuses \<and>
      (\<exists>d. hashes (view s1) (result_key p x) ''result'' = Some (cjson_encode R (JObj d)) \<and>
         dget ''status'' d = JStr verdict \<and> dget ''task_id'' d = JStr x \<and>
         dget ''workflow_generation'' d = JStr g \<and>
         (verdict \<noteq> st \<longrightarrow> dget ''correctness'' d = JBool False))))"
proof -
  obtain rs rd where fr: "finish_reason R (task_key p x) (workflow_key p x) g
      (json_object (cjson_decode R result)) reason s = (rs, rd)" by fastforce
  let ?v = "finish_verdict R (r_time R s) (task_key p x) (workflow_key p x) g reason st (view s)"
  note v = redis_store.finish_reason_verdict [OF assms(1) fr assms(3)]
  note t = redis_store.finish_verdict_terminal [OF assms(1,4)]
  note br = redis_store.finish_branches [OF assms(1,2) fr v(1) t]
  have "?v \<noteq> st \<Longrightarrow> rs \<noteq> []" using v assms(3) by auto
  then show ?thesis
    using br v t redis_store.finish_result_content [OF assms(1)]
    by (auto simp: Let_def intro!: exI [of _ "finish_result R (task_key p x) g x rs rd s"])
qed

definition finish_sample :: "mem \<Rightarrow> int \<times> mem" where
  "finish_sample = finish_workflow mem_redis (task_key ''k'' ''x'') (result_key ''k'' ''x'')
     (workflow_key ''k'' ''x'') (cancel_key ''k'' ''x'') (active_key ''k'') (children_key ''k'' ''x'' ''g1'')
     ''g1'' (json_dumps sample_codec (JObj [(''status'', JStr ''completed'')])) ''12:05'' 60 60 ''x'' [] ''k''"

lemma accepted_view:
  "hashes (mem_view accepted) (task_key ''k'' ''x'') =
     map_of (rev (accept_fields mem_redis ''x'' ''g1'' ''hash'' ''kernelbench'' 600 ''12:00'' ''oe0:''
       (tombstone_key ''k'' ''x'')))"
  "strs (mem_view accepted) (workflow_key ''k'' ''x'') = Some ''g1''"
  "\<not> ks_exists (tombstone_key ''k'' ''x'') (mem_view accepted)"
proof -
  have acc: "accepted = r_sadd mem_redis (active_key ''k'') ''x'' (r_pexpire mem_redis (workflow_key ''k'' ''x'') 30000
      (r_set mem_redis (workflow_key ''k'' ''x'') ''g1'' (hset_many mem_redis (task_key ''k'' ''x'')
        (accept_fields mem_redis ''x'' ''g1'' ''hash'' ''kernelbench'' (r_time mem_redis mem_empty + 600)
          ''12:00'' ''oe0:'' (tombstone_key ''k'' ''x''))
        (del_many mem_redis [task_key ''k'' ''x'', result_key ''k'' ''x'', workflow_key ''k'' ''x'',
          cancel_key ''k'' ''x''] mem_empty))))"
    using mem_redis.accept_branches(4) [OF prod.collapse [symmetric]] accept_sample_code
    by (simp add: accepted_def accept_sample_def)
  have time: "r_time mem_redis mem_empty = 0" by (simp add: mem_redis_def mem_empty_def)
  show "hashes (mem_view accepted) (task_key ''k'' ''x'') =
     map_of (rev (accept_fields mem_redis ''x'' ''g1'' ''hash'' ''kernelbench'' 600 ''12:00'' ''oe0:''
       (tombstone_key ''k'' ''x'')))"
    "strs (mem_view accepted) (workflow_key ''k'' ''x'') = Some ''g1''"
    "\<not> ks_exists (tombstone_key ''k'' ''x'') (mem_view accepted)"
    by (simp_all add: acc time store_simps del_many_def ks_exists_def mem_empty_view keyspace_empty_def)
qed

theorem finish_contract_witness:
  "fst (finish_sample accepted) = 1 \<and>
   (\<exists>st \<in> set terminal_statuses.
      hashes (mem_view (snd (finish_sample accepted))) (task_key ''k'' ''x'') ''status'' = Some st)"
proof -
  have d: "dget ''status'' (json_object (cjson_decode mem_redis
      (json_dumps sample_codec (JObj [(''status'', JStr ''completed'')])))) = JStr ''completed''"
    by (simp add: mem_redis.cjson_dumps json_object_def dget_def)
  show ?thesis
    using finish_contract [OF mem_redis.redis_store_axioms prod.collapse [symmetric] d, where p = "''k''" and
        x = "''x''" and g = "''g1''" and now = "''12:05''" and a = 60 and b = 60 and reason = "[]" and
        s = accepted, folded finish_sample_def]
    by (simp add: accepted_view accept_fields_def workflow_open_def Let_def)
qed



end
