(* ===== verification/TaskInput.thy ===== *)
theory TaskInput
  imports LifecycleContracts
begin

section \<open>Reading task payloads and worker records\<close>

text \<open>
  The helpers of \<open>TaskManager\<close> that interpret a task's JSON payload and a worker's Redis hash:
  node affinity, the resource a task needs, its timeouts, and the admission gate of a GPU worker.
  A decoded Redis hash is an association list; \<open>settings\<close> holds the configuration values the
  manager reads; the environment gives the wall clock, \<open>datetime.fromisoformat\<close> and the outcome
  of reading the GPU quarantine (latch files and locks of the host).
\<close>

record settings =
  default_timeout :: int
  worker_monitor_heartbeat_timeout :: int
  worker_queue_wait_timeout_sec :: int
  worker_queue_wait_monitor_interval :: int
  worker_queue_wait_scan_limit :: int
  gpu_inflight_recovery_scan_limit :: int
  terminal_task_ttl_sec :: int
  terminal_result_ttl_sec :: int
  workflow_lease_ms :: int
  default_toolkit :: str
  default_backend_adapter :: str
  default_backend :: str

record 's env =
  e_now :: "'s \<Rightarrow> rat" \<comment> \<open>\<open>datetime.now()\<close>, in seconds\<close>
  e_iso :: "'s \<Rightarrow> str" \<comment> \<open>\<open>datetime.now().isoformat()\<close>\<close>
  e_mono_ns :: "'s \<Rightarrow> int" \<comment> \<open>\<open>time.monotonic_ns()\<close>\<close>
  e_fromiso :: "str \<Rightarrow> rat option" \<comment> \<open>\<open>datetime.fromisoformat\<close>; None is ValueError\<close>
  e_scan :: "key \<Rightarrow> 's \<Rightarrow> key list" \<comment> \<open>\<open>SCAN\<close> for the keys with a given beginning\<close>
  e_digest :: "str \<Rightarrow> nat" \<comment> \<open>the first eight bytes of the SHA-256 of a text, big-endian\<close>
  e_uuid :: "nat \<Rightarrow> str" \<comment> \<open>the hex text of the n-th \<open>uuid4\<close> of this process\<close>
  e_quarantine :: "bool \<Rightarrow> str \<Rightarrow> str \<Rightarrow> str \<Rightarrow> 's \<Rightarrow> bool option"
    \<comment> \<open>\<open>read_gpu_quarantine\<close> of (\<open>read_only\<close>, worker, device, host): whether a latch was found;
      None: the read raised\<close>

type_synonym rhash = "(str \<times> str) list"

definition rget :: "str \<Rightarrow> rhash \<Rightarrow> str" where
  \<comment> \<open>\<open>str(decoded.get(f) or "")\<close>\<close>
  "rget f h = (case map_of h f of Some x \<Rightarrow> x | None \<Rightarrow> [])"

definition starts_with :: "str \<Rightarrow> str \<Rightarrow> bool" where
  "starts_with pre x \<longleftrightarrow> take (length pre) x = pre"

definition node_identity :: "rhash \<Rightarrow> str \<times> str" where
  "node_identity worker_info = (rget ''node_id'' worker_info, rget ''hostname'' worker_info)"

definition parse_datetime :: "'s env \<Rightarrow> str \<Rightarrow> rat option" where
  "parse_datetime E x = (if x = [] then None else e_fromiso E x)"

definition task_node_affinity :: "dict \<Rightarrow> str \<times> str \<times> bool" where
  "task_node_affinity task_json =
    (let affinity = py_lower (py_strip (str_or_empty (dget ''node_affinity'' task_json)));
         node_id = py_strip (str_or_empty (py_or (dget ''target_node_id'' task_json)
           (py_or (dget ''artifact_node_id'' task_json) (dget ''preferred_node_id'' task_json))));
         hostname = py_strip (str_or_empty (py_or (dget ''target_hostname'' task_json)
           (dget ''artifact_hostname'' task_json)));
         required = (affinity = ''required'' \<or> node_id \<noteq> [] \<or> hostname \<noteq> [])
     in (node_id, hostname, required))"

definition task_matches_worker_node :: "dict \<Rightarrow> rhash \<Rightarrow> bool" where
  "task_matches_worker_node task_json worker_info =
    (let (required_node_id, required_hostname, required) = task_node_affinity task_json in
     if \<not> required then True
     else let (worker_node_id, worker_hostname) = node_identity worker_info;
              node_ok = (required_node_id = [] \<or> required_node_id \<in> {worker_node_id, worker_hostname});
              host_ok = (required_hostname = [] \<or> required_hostname \<in> {worker_hostname, worker_node_id})
          in node_ok \<and> host_ok)"

definition gpu_worker_admission_open :: "settings \<Rightarrow> 's env \<Rightarrow> str \<Rightarrow> rhash \<Rightarrow> 's \<Rightarrow> bool" where
  "gpu_worker_admission_open cfg E worker_id decoded s =
    (let device = rget ''device'' decoded;
         health_state = py_lower (rget ''health_state'' decoded);
         accepting = py_lower (rget ''accepting_tasks'' decoded);
         hostname = py_strip (rget ''hostname'' decoded)
     in if \<not> starts_with ''cuda:'' device \<or> hostname = [] \<or>
           py_lower (rget ''status'' decoded) \<noteq> ''online'' \<or>
           py_lower (rget ''online'' decoded) \<noteq> ''true'' \<or>
           accepting \<noteq> ''true'' \<or> health_state \<notin> {''healthy'', ''degraded_check''} then False
        else (case parse_datetime E (rget ''last_heartbeat'' decoded) of
          None \<Rightarrow> False
        | Some heartbeat \<Rightarrow>
            let max_age = max 1 (worker_monitor_heartbeat_timeout cfg) in
            if e_now E s - heartbeat > of_int max_age then False
            else e_quarantine E False worker_id device hostname s = Some False))"

definition load_task_json :: "codec \<Rightarrow> rhash \<Rightarrow> dict" where
  "load_task_json C task_data =
    (let raw = rget ''data'' task_data in
     if raw = [] then [] else (case json_loads C raw of Some (JObj d) \<Rightarrow> d | _ \<Rightarrow> []))"

definition get_task_timeout_sec :: "settings \<Rightarrow> dict \<Rightarrow> int" where
  "get_task_timeout_sec cfg task_json =
    (let timeout_val = (if dhas ''timeout'' task_json then dget ''timeout'' task_json
                        else dget ''per_task_timeout'' task_json);
         timeout_sec = (if timeout_val = JNull then default_timeout cfg
                        else case py_int timeout_val of Some i \<Rightarrow> i | None \<Rightarrow> default_timeout cfg)
     in max 0 timeout_sec)"

definition get_queue_wait_timeout_sec :: "dict \<Rightarrow> int \<Rightarrow> int \<Rightarrow> int" where
  "get_queue_wait_timeout_sec task_json task_timeout_sec default_timeout_sec =
    (let queue_timeout = (if dhas ''queue_wait_timeout'' task_json then dget ''queue_wait_timeout'' task_json
                          else dget ''queue_timeout'' task_json);
         sec = (if queue_timeout = JNull then default_timeout_sec
                else case py_int queue_timeout of Some i \<Rightarrow> i | None \<Rightarrow> default_timeout_sec);
         sec' = (if task_timeout_sec > 0 \<and> sec > task_timeout_sec then task_timeout_sec else sec)
     in max 0 sec')"

definition resolve_required_resource :: "dict \<Rightarrow> str" where
  "resolve_required_resource task_data =
    (let explicit = py_lower (py_strip (str_or_empty (dget ''required_resource'' task_data))) in
     if explicit \<in> {''cpu'', ''gpu''} then explicit
     else let stage = py_lower (py_strip (str_or_empty (py_or (dget ''task_stage'' task_data)
                        (dget ''stage'' task_data))))
          in if stage = ''compile'' \<or> truthy (dget ''pure_compile_task'' task_data) then ''cpu'' else ''gpu'')"

definition dropped_before_dispatch :: "rhash \<Rightarrow> bool" where
  "dropped_before_dispatch task_hash \<longleftrightarrow>
     task_hash \<noteq> [] \<and> rget ''status'' task_hash \<in> set terminal_statuses"

subsection \<open>Their contracts\<close>

lemma resolve_required_resource_cases: "resolve_required_resource d \<in> {''cpu'', ''gpu''}"
  by (auto simp: resolve_required_resource_def Let_def)

lemma queue_wait_bounds:
  "0 \<le> get_queue_wait_timeout_sec d t q"
  "t > 0 \<Longrightarrow> get_queue_wait_timeout_sec d t q \<le> t"
  by (simp_all add: get_queue_wait_timeout_sec_def Let_def split: option.split)

lemma task_timeout_nonneg: "0 \<le> get_task_timeout_sec cfg d"
  by (simp add: get_task_timeout_sec_def Let_def)

lemma admission_open_implies:
  assumes "gpu_worker_admission_open cfg E w h s"
  shows "starts_with ''cuda:'' (rget ''device'' h)" and "py_lower (rget ''accepting_tasks'' h) = ''true''"
    and "e_quarantine E False w (rget ''device'' h) (py_strip (rget ''hostname'' h)) s = Some False"
    and "\<exists>hb. e_fromiso E (rget ''last_heartbeat'' h) = Some hb \<and>
      e_now E s - hb \<le> of_int (max 1 (worker_monitor_heartbeat_timeout cfg))"
  using assms
  by (auto simp: gpu_worker_admission_open_def Let_def parse_datetime_def not_less
      split: if_splits option.splits)

end
