(* ===== verification/Balancer.thy ===== *)
theory Balancer
  imports TaskInput
begin

section \<open>The round-robin load balancer\<close>

text \<open>
  \<open>WorkerLoadBalancer\<close>: the workers in registration order with their last heartbeat, and the
  index of the next one. Its lock serialises the operations, so each is one step.
\<close>

record worker_slot =
  ws_device :: str
  ws_status :: str
  ws_last_heartbeat :: rat

record balancer =
  available_workers :: "(str \<times> worker_slot) list"
  current_index :: nat

definition new_balancer :: balancer where
  "new_balancer = \<lparr>available_workers = [], current_index = 0\<rparr>"

definition lb_register_worker :: "str \<Rightarrow> str \<Rightarrow> rat \<Rightarrow> balancer \<Rightarrow> balancer" where
  "lb_register_worker worker_id device now b = b\<lparr>available_workers := AList.update worker_id
     \<lparr>ws_device = device, ws_status = ''online'', ws_last_heartbeat = now\<rparr> (available_workers b)\<rparr>"

definition lb_unregister_worker :: "str \<Rightarrow> balancer \<Rightarrow> balancer" where
  "lb_unregister_worker worker_id b =
     b\<lparr>available_workers := filter (\<lambda>(w, _). w \<noteq> worker_id) (available_workers b)\<rparr>"

definition lb_update_heartbeat :: "str \<Rightarrow> rat \<Rightarrow> balancer \<Rightarrow> balancer" where
  "lb_update_heartbeat worker_id now b =
     (case map_of (available_workers b) worker_id of
        None \<Rightarrow> b
      | Some slot \<Rightarrow> b\<lparr>available_workers :=
          AList.update worker_id (slot\<lparr>ws_last_heartbeat := now\<rparr>) (available_workers b)\<rparr>)"

definition fresh_online :: "rat \<Rightarrow> balancer \<Rightarrow> str list" where
  "fresh_online now b = map fst (filter (\<lambda>(w, slot). ws_status slot = ''online'' \<and>
     now - ws_last_heartbeat slot \<le> 30) (available_workers b))"

definition get_next_worker :: "rat \<Rightarrow> balancer \<Rightarrow> str option \<times> balancer" where
  "get_next_worker now b =
    (let fresh = fresh_online now b in
     if fresh = [] then (None, b)
     else (Some (fresh ! (current_index b mod length fresh)),
           b\<lparr>current_index := (current_index b + 1) mod length fresh\<rparr>))"

text \<open>\<open>k\<close> calls in a row at the same time of day.\<close>

fun next_workers :: "nat \<Rightarrow> rat \<Rightarrow> balancer \<Rightarrow> str list \<times> balancer" where
  "next_workers 0 now b = ([], b)"
| "next_workers (Suc k) now b =
    (case get_next_worker now b of
       (None, b1) \<Rightarrow> ([], b1)
     | (Some w, b1) \<Rightarrow> (case next_workers k now b1 of (ws, b2) \<Rightarrow> (w # ws, b2)))"

subsection \<open>Fairness\<close>

lemma fresh_online_index [simp]: "fresh_online now (b\<lparr>current_index := i\<rparr>) = fresh_online now b"
  by (simp add: fresh_online_def)

lemma next_workers_rotation:
  assumes "fresh_online now b = ws" and "ws \<noteq> []"
  shows "fst (next_workers k now b) = map (\<lambda>i. ws ! ((current_index b + i) mod length ws)) [0..<k]"
  using assms(1)
proof (induction k arbitrary: b)
  case 0
  then show ?case by simp
next
  case (Suc k)
  let ?n = "length ws"
  let ?b1 = "b\<lparr>current_index := (current_index b + 1) mod ?n\<rparr>"
  have step: "get_next_worker now b = (Some (ws ! (current_index b mod ?n)), ?b1)"
    using Suc.prems assms(2) by (simp add: get_next_worker_def)
  have "fst (next_workers k now ?b1) = map (\<lambda>i. ws ! ((current_index ?b1 + i) mod ?n)) [0..<k]"
    by (rule Suc.IH) (use Suc.prems in simp)
  also have "\<dots> = map (\<lambda>i. ws ! ((current_index b + Suc i) mod ?n)) [0..<k]"
    by (simp add: mod_add_left_eq)
  finally show ?case
    by (simp add: step split_beta upt_conv_Cons map_Suc_upt [symmetric] del: upt_Suc)
qed

text \<open>
  C37: the load balancer is fair. While the same workers stay fresh and online, every round of as
  many calls as there are workers returns each of them exactly once, in registration order from
  the current index; no worker starves and none is favoured.
\<close>

theorem load_balancer_fair:
  assumes "fresh_online now b = ws" and "ws \<noteq> []"
  shows "fst (next_workers (length ws) now b) = rotate (current_index b) ws \<and>
    (\<forall>w. count_list (fst (next_workers (length ws) now b)) w = count_list ws w)"
proof -
  have rot: "fst (next_workers (length ws) now b) = rotate (current_index b) ws"
    unfolding next_workers_rotation [OF assms]
    by (rule nth_equalityI) (simp_all add: nth_rotate)
  have "count_list (rotate m xs) w = count_list xs w" for m :: nat and xs :: "str list" and w
  proof (induction m)
    case (Suc m)
    have "count_list (rotate1 ys) w = count_list ys w" for ys :: "str list"
      by (cases ys) auto
    with Suc show ?case by simp
  qed simp
  with rot show ?thesis by simp
qed

definition sample_balancer :: balancer where
  "sample_balancer = (lb_register_worker ''b'' ''cuda:1'' 10 (lb_register_worker ''a'' ''cuda:0'' 0
     new_balancer))\<lparr>current_index := 1\<rparr>"

theorem load_balancer_fair_witness:
  "fst (next_workers 2 20 sample_balancer) = [''b'', ''a''] \<and> fresh_online 35 sample_balancer = [''b'']"
proof -
  have "fresh_online 20 sample_balancer = [''a'', ''b'']"
    and stale: "fresh_online 35 sample_balancer = [''b'']"
    by (simp_all add: sample_balancer_def fresh_online_def lb_register_worker_def new_balancer_def)
  from load_balancer_fair [OF this(1)] stale show ?thesis
    by (simp add: sample_balancer_def numeral_2_eq_2)
qed

end
