(* ===== verification/Cancellation.thy ===== *)
theory Cancellation
  imports LifecycleContracts
begin

section \<open>Cancellation is permanent\<close>

text \<open>
  The tombstone a cancellation writes is never deleted, replaced by nothing or given an expiry
  by any transaction, so every later acceptance of the id and every admission that names it is
  refused.
\<close>

definition tombstoned :: "str \<Rightarrow> str \<Rightarrow> keyspace \<Rightarrow> bool" where
  "tombstoned p x v \<longleftrightarrow> strs v (tombstone_key p x) \<noteq> None \<and> ttls v (tombstone_key p x) = None"

lemma tombstoned_exists: "tombstoned p x v \<Longrightarrow> ks_exists (tombstone_key p x) v"
  by (simp add: tombstoned_def ks_exists_def)

lemma tombstoned_expire: "tombstoned p x v \<Longrightarrow> ttls v k \<noteq> None \<Longrightarrow> tombstoned p x (ks_del k v)"
  by (auto simp: tombstoned_def ks_del_def)

context redis_store
begin

lemma tombstoned_frame:
  assumes "tombstoned p x (view s)"
  shows "tombstoned p x (view (hset_many R k fvs s))"
    and "tombstoned p x (view (r_hset R k f y s))"
    and "tombstoned p x (view (r_lpush R k y s))"
    and "tombstoned p x (view (r_set R k y s))"
    and "tombstoned p x (view (r_sadd R k y s))"
    and "tombstoned p x (view (r_srem R k y s))"
    and "tombstoned p x (view (lrem' R k n y s))"
    and "tombstoned p x (view (snd (r_lrem R k n y s)))"
    and "tombstoned p x (view (snd (r_rpop R k s)))"
    and "tombstoned p x (view (clear_claim R k s))"
    and "k \<noteq> tombstone_key p x \<Longrightarrow> tombstoned p x (view (r_del R k s))"
    and "k \<noteq> tombstone_key p x \<Longrightarrow> tombstoned p x (view (r_pexpire R k i s))"
    and "k \<noteq> tombstone_key p x \<Longrightarrow> tombstoned p x (view (expire_pos R k i s))"
  using assms by (simp_all add: tombstoned_def store_simps clear_claim_def)

lemma tombstoned_branch:
  "(c \<Longrightarrow> tombstoned p x (view a)) \<Longrightarrow> (\<not> c \<Longrightarrow> tombstoned p x (view b)) \<Longrightarrow>
   tombstoned p x (view (if c then a else b))"
  "(c \<Longrightarrow> tombstoned p x (view (snd a'))) \<Longrightarrow> (\<not> c \<Longrightarrow> tombstoned p x (view (snd b'))) \<Longrightarrow>
   tombstoned p x (view (snd (if c then a' else b')))"
  "(d = None \<Longrightarrow> tombstoned p x (view a)) \<Longrightarrow> (\<And>z. d = Some z \<Longrightarrow> tombstoned p x (view (g z))) \<Longrightarrow>
   tombstoned p x (view (case d of None \<Rightarrow> a | Some z \<Rightarrow> g z))"
  "(d = None \<Longrightarrow> tombstoned p x (view (snd a'))) \<Longrightarrow>
   (\<And>z. d = Some z \<Longrightarrow> tombstoned p x (view (snd (g' z)))) \<Longrightarrow>
   tombstoned p x (view (snd (case d of None \<Rightarrow> a' | Some z \<Rightarrow> g' z)))"
  "tombstoned p x (view a) \<Longrightarrow> tombstoned p x (view (snd (i :: 'i, a)))"
  by (auto split: option.split)

lemma tombstoned_fold:
  "tombstoned p x (view s) \<Longrightarrow>
   (\<And>a s. a \<in> set as \<Longrightarrow> tombstoned p x (view s) \<Longrightarrow> tombstoned p x (view (f a s))) \<Longrightarrow>
   tombstoned p x (view (fold f as s))"
  by (induction as arbitrary: s) auto

lemmas tombstoned_rules = tombstoned_fold tombstoned_frame tombstoned_branch

lemma tombstoned_claim:
  assumes "tombstoned p x (view s)"
  shows "tombstoned p x (view (snd (claim_gpu_task R source q token wk inst pre n s)))"
  using assms
proof (induction n arbitrary: s)
  case (Suc n)
  obtain popped s1 where pop: "r_rpop R source s = (popped, s1)" by (cases "r_rpop R source s")
  have s1: "tombstoned p x (view s1)" using tombstoned_frame(9) [OF Suc.prems, of source] pop by simp
  show ?case
    unfolding claim_gpu_task.simps pop prod.case Let_def
    by (intro tombstoned_branch tombstoned_frame Suc.IH s1)
qed simp

lemma tombstoned_scripts:
  assumes "tombstoned p x (view s)"
  shows "tombstoned p x (view (snd (submit_task_if_absent R k dest z m s)))"
    and "tombstoned p x (view (snd (force_refresh_task R (task_key p y) (result_key p y) dest cl z m wp s)))"
    and "tombstoned p x (view (snd (queue_wait_requeue R k src dest c pc z wk op e1 e2 e3 e4 d rs n mv s)))"
    and "tombstoned p x (view (snd (conditional_requeue R k dest q c pc z e t d rs n dw da rel s)))"
    and "tombstoned p x (view (snd (mark_claim_processing R k q c pc e t n wk inst src s)))"
    and "tombstoned p x (view (snd (mark_workflow_cpu_processing R k c pc n s)))"
    and "tombstoned p x (view (snd (return_claim R src q k z e t s)))"
    and "tombstoned p x (view (snd (ack_claim R k q e t b s)))"
    and "tombstoned p x (view (snd (freeze_claim_recovery R k t rs n s)))"
    and "tombstoned p x (view (snd (finalize_claim R (task_key p y) (result_key p y) q t e tm rm i j b s)))"
    and "tombstoned p x (view (publish_unclaimed R (task_key p y) (result_key p y) fs gs i j s))"
  unfolding submit_task_if_absent_def force_refresh_task_def queue_wait_requeue_def
    conditional_requeue_def mark_claim_processing_def mark_workflow_cpu_processing_def
    return_claim_def ack_claim_def freeze_claim_recovery_def finalize_claim_def
    publish_unclaimed_def Let_def del_many_def case_prod_beta
  by (intro tombstoned_rules assms; auto)+

lemma tombstoned_discard:
  assumes "tombstoned p x (view s)" and "set ks \<subseteq> record_keys p y g"
  shows "tombstoned p x (view (del_many R ks s))"
    and "tombstoned p x (view (snd (discard_workflow_records R ks g' s)))"
proof -
  show del: "tombstoned p x (view (del_many R ks s))"
    unfolding del_many_def
    by (rule tombstoned_fold [OF assms(1)])
      (use assms(2) in \<open>auto simp: record_keys_def intro!: tombstoned_frame\<close>)
  show "tombstoned p x (view (snd (discard_workflow_records R ks g' s)))"
    using del assms(1) by (auto simp: discard_workflow_records_def split: list.split)
qed

lemma tombstoned_helpers:
  assumes "tombstoned p x (view s)"
  shows "tombstoned p x (view (remove_from_queues R p' wk y s))"
    and "tombstoned p x (view (release_inflight R k y s))"
    and "tombstoned p x (view (hsetnx R k f v s))"
  unfolding remove_from_queues_def release_inflight_def hsetnx_def Let_def
  by (intro tombstoned_rules assms)+

lemma tombstoned_finish_child:
  "tombstoned p x (view s) \<Longrightarrow> tombstoned p x (view (finish_child R p n a b y s))"
  unfolding finish_child_def Let_def queue_literals
  by (intro tombstoned_helpers tombstoned_rules) auto

lemma tombstoned_lifecycle:
  assumes "tombstoned p x (view s)"
  shows "tombstoned p x (view (snd (cancel_task_script R (task_key p y) (result_key p y) ts mk z n p a b s)))"
    and "tombstoned p x (view (snd (accept_workflow R (task_key p y) (result_key p y) (workflow_key p y)
      (cancel_key p y) (active_key p) ts z g h nm to lm force n ch s)))"
    and "tombstoned p x (view (snd (renew_workflow R k (workflow_key p y) g lm n s)))"
    and "tombstoned p x (view (snd (finish_workflow R (task_key p y) (result_key p y) (workflow_key p y)
      (cancel_key p y) (active_key p) (children_key p y g) g res n a b z reason p s)))"
proof -
  show "tombstoned p x (view (snd (cancel_task_script R (task_key p y) (result_key p y) ts mk z n p a b s)))"
    unfolding cancel_task_script_def Let_def cancel_child_def
    by (intro tombstoned_helpers tombstoned_rules assms) (auto intro: tombstoned_frame)
  show "tombstoned p x (view (snd (accept_workflow R (task_key p y) (result_key p y) (workflow_key p y)
      (cancel_key p y) (active_key p) ts z g h nm to lm force n ch s)))"
    unfolding accept_workflow_def Let_def del_many_def
    by (intro tombstoned_rules assms) auto
  show "tombstoned p x (view (snd (renew_workflow R k (workflow_key p y) g lm n s)))"
    unfolding renew_workflow_def Let_def by (intro tombstoned_helpers tombstoned_rules assms) auto
  have pair: "tombstoned p x (view (snd (f (fst q) (snd q)))) \<Longrightarrow>
      tombstoned p x (view (snd (case q of (a, b) \<Rightarrow> f a b)))" for f :: "str \<Rightarrow> dict \<Rightarrow> int \<times> 's" and q
    by (simp add: split_beta)
  show "tombstoned p x (view (snd (finish_workflow R (task_key p y) (result_key p y) (workflow_key p y)
      (cancel_key p y) (active_key p) (children_key p y g) g res n a b z reason p s)))"
    unfolding finish_workflow_def Let_def
    by (intro pair tombstoned_finish_child tombstoned_rules assms) auto
qed

lemma transaction_tombstoned:
  assumes "transaction R view p l s s'" and "tombstoned p x (view s)"
  shows "tombstoned p x (view s')"
  using assms
  by cases (auto intro!: tombstoned_claim tombstoned_scripts tombstoned_discard
      tombstoned_lifecycle tombstoned_frame tombstoned_expire)

lemma trace_tombstoned:
  "trace R view p ls s s' \<Longrightarrow> tombstoned p x (view s) \<Longrightarrow> tombstoned p x (view s')"
  by (induction rule: trace.induct) (auto intro: transaction_tombstoned)

lemma cancel_tombstones:
  "tombstoned p x (view (snd (cancel_task_script R (task_key p x) (result_key p x) (tombstone_key p x)
    (cancel_key p x) x now p a b s)))"
proof -
  have put: "k = tombstone_key p x \<or> tombstoned p x (view s') \<Longrightarrow>
      tombstoned p x (view (r_set R k y s'))" for k y s'
    by (auto simp: tombstoned_def store_simps)
  show ?thesis
    unfolding cancel_task_script_def Let_def cancel_child_def
    by (intro tombstoned_helpers tombstoned_fold tombstoned_frame(1-3,5-13) tombstoned_branch put)
      (auto intro!: put)
qed

end

text \<open>
  C6: cancellation is permanent. After the cancel transaction for id x, in every state that any
  later run of transactions, expiries and clock ticks reaches, the tombstone of x still exists;
  accepting x as a workflow is refused (even with force), and the guard admits no task whose
  cancellation keys include the tombstone -- so no submission, claim, start or requeue of such a
  task succeeds.
\<close>

theorem cancellation_permanent:
  assumes "redis_store R view"
    and "trace R view p ls (snd (cancel_task_script R (task_key p x) (result_key p x) (tombstone_key p x)
      (cancel_key p x) x now p a b s)) s2"
  shows "ks_exists (tombstone_key p x) (view s2) \<and>
    accept_workflow R k rk lease c act (tombstone_key p x) x g h name timeout lease_ms force now' children s2
      = (-2, s2) \<and>
    (m_cancellation_keys m = Some ks \<and> tombstone_key p x \<in> set (cjson_strings R ks) \<longrightarrow>
       \<not> workflow_allowed R m s2)"
proof -
  have ex: "ks_exists (tombstone_key p x) (view s2)"
    by (rule tombstoned_exists [OF redis_store.trace_tombstoned [OF assms(1,2)]])
      (rule redis_store.cancel_tombstones [OF assms(1)])
  then show ?thesis
    by (auto simp: accept_workflow_def redis_store.exists [OF assms(1)]
        redis_store.workflow_allowed_iff [OF assms(1)] guard_open_def)
qed

theorem cancellation_permanent_witness:
  "ks_exists (tombstone_key ''k'' ''x'') (mem_view (snd (cancel_task_script mem_redis (task_key ''k'' ''x'')
      (result_key ''k'' ''x'') (tombstone_key ''k'' ''x'') (cancel_key ''k'' ''x'') ''x'' ''12:00'' ''k'' 60 60
      started))) \<and>
   accept_sample ''g2'' (snd (cancel_task_script mem_redis (task_key ''k'' ''x'')
      (result_key ''k'' ''x'') (tombstone_key ''k'' ''x'') (cancel_key ''k'' ''x'') ''x'' ''12:00'' ''k'' 60 60
      started)) = (-2, snd (cancel_task_script mem_redis (task_key ''k'' ''x'')
      (result_key ''k'' ''x'') (tombstone_key ''k'' ''x'') (cancel_key ''k'' ''x'') ''x'' ''12:00'' ''k'' 60 60
      started))"
  unfolding accept_sample_def
  by (intro conjI conjunct1 [OF cancellation_permanent [OF mem_redis.redis_store_axioms trace.trace_nil]]
      conjunct1 [OF conjunct2 [OF cancellation_permanent [OF mem_redis.redis_store_axioms trace.trace_nil]]])

end
