(* ===== verification/Manager.thy ===== *)
theory Manager
  imports TaskInput Balancer Cancellation
begin

section \<open>The task manager: claims\<close>

text \<open>
  The state of \<open>TaskManager\<close> in one process and the operations that hold, start, return,
  acknowledge, freeze and requeue a GPU claim. Every operation takes the manager and the store
  and returns them updated; an exception is a left value. \<open>uuid_count\<close> numbers the calls of
  \<open>uuid.uuid4()\<close> made so far.
\<close>

datatype tm_error =
    StaleTaskClaim | FrozenTaskClaim | TaskRefreshConflict int | WorkflowStopped
  | WorkflowConflict | ValueError | JSONDecodeError | KeyError | TypeError | RuntimeError

record task_claim =
  c_prefix :: str
  c_inflight :: key
  c_source :: key
  c_token :: str
  c_entry :: str
  c_instance :: str

record tmgr =
  key_prefix :: str
  legacy_prefix :: str
  instance_id :: str
  task_claims :: "str \<Rightarrow> task_claim option"
  worker_queues :: "(str \<times> key) list"
  active_tasks :: "str \<Rightarrow> str option" \<comment> \<open>the status of a \<open>TaskInfo\<close>\<close>
  worker_registry :: "(str \<times> rhash) list"
  load_balancer :: balancer
  uuid_count :: nat

definition new_manager :: "str \<Rightarrow> str \<Rightarrow> tmgr" where
  \<comment> \<open>a \<open>TaskManager\<close> after \<open>__init__\<close>\<close>
  "new_manager p inst = \<lparr>key_prefix = p, legacy_prefix = p, instance_id = inst,
     task_claims = Map.empty, worker_queues = [], active_tasks = Map.empty, worker_registry = [],
     load_balancer = new_balancer, uuid_count = 0\<rparr>"

definition prefixes_for_read :: "tmgr \<Rightarrow> str list" where
  "prefixes_for_read m = key_prefix m #
     (if legacy_prefix m \<noteq> [] \<and> legacy_prefix m \<noteq> key_prefix m then [legacy_prefix m] else [])"

definition fresh_uuid :: "'s env \<Rightarrow> tmgr \<Rightarrow> str \<times> tmgr" where
  "fresh_uuid E m = (e_uuid E (uuid_count m), m\<lparr>uuid_count := Suc (uuid_count m)\<rparr>)"

definition pop_claim :: "str \<Rightarrow> tmgr \<Rightarrow> tmgr" where
  "pop_claim task_id m = m\<lparr>task_claims := (task_claims m)(task_id := None)\<rparr>"

definition put_claim :: "str \<Rightarrow> task_claim \<Rightarrow> tmgr \<Rightarrow> tmgr" where
  "put_claim task_id c m = m\<lparr>task_claims := (task_claims m)(task_id \<mapsto> c)\<rparr>"

definition base_task_id :: "dict \<Rightarrow> str" where
  "base_task_id task_json = str_or_empty (dget ''base_task_id'' task_json)"

definition parent_cancel_key :: "str \<Rightarrow> str \<Rightarrow> dict \<Rightarrow> key" where
  "parent_cancel_key pfx task_id task_json =
     (if base_task_id task_json \<noteq> [] then cancel_key pfx (base_task_id task_json)
      else cancel_key pfx task_id)"

definition worker_data :: "'s redis \<Rightarrow> tmgr \<Rightarrow> str \<Rightarrow> 's \<Rightarrow> rhash" where
  "worker_data R m worker_id s =
     (case filter (\<lambda>h. h \<noteq> []) (map (\<lambda>p. r_hgetall R (worker_key p worker_id) s) (prefixes_for_read m)) of
        [] \<Rightarrow> [] | h # _ \<Rightarrow> h)"

text \<open>\<open>_load_task_data_for_prefix\<close>: no record, a record without data, or a record with its
  decoded payload.\<close>

datatype loaded = NoRecord | NoPayload rhash | Payload rhash dict | Undecodable

definition load_task_data_for_prefix :: "'s redis \<Rightarrow> codec \<Rightarrow> str \<Rightarrow> str \<Rightarrow> 's \<Rightarrow> loaded" where
  "load_task_data_for_prefix R C pfx task_id s =
    (let data = r_hgetall R (task_key pfx task_id) s in
     if data = [] then NoRecord
     else let raw = rget ''data'' data in
       if raw = [] then NoPayload data
       else (case json_loads C raw of Some (JObj d) \<Rightarrow> Payload data d | _ \<Rightarrow> Undecodable))"

definition dequeued_task_cancelled :: "'s redis \<Rightarrow> str \<Rightarrow> str \<Rightarrow> str \<Rightarrow> 's \<Rightarrow> bool" where
  "dequeued_task_cancelled R pfx task_id base_id s =
     list_ex (\<lambda>k. r_exists R k s)
       ([cancel_key pfx task_id, tombstone_key pfx task_id] @
        (if base_id \<noteq> [] \<and> base_id \<noteq> task_id
         then [cancel_key pfx base_id, tombstone_key pfx base_id] else []))"

subsection \<open>Operations on a claim\<close>

definition claim_gpu_task_op ::
  "'s redis \<Rightarrow> 's env \<Rightarrow> str \<Rightarrow> str \<Rightarrow> key \<Rightarrow> tmgr \<Rightarrow> 's \<Rightarrow> str option \<times> tmgr \<times> 's" where
  "claim_gpu_task_op R E pfx worker_id source_queue m s =
    (let inflight_queue = gpu_inflight_queue pfx worker_id;
         (token, m1) = fresh_uuid E m;
         (raw, s1) = claim_gpu_task R source_queue inflight_queue token worker_id (instance_id m)
                       (pfx @ '':task:'') 32 s
     in (case raw of
       None \<Rightarrow> (None, m1, s1)
     | Some task_id \<Rightarrow>
         (Some task_id, put_claim task_id \<lparr>c_prefix = pfx, c_inflight = inflight_queue,
            c_source = source_queue, c_token = token, c_entry = claim_entry token task_id,
            c_instance = instance_id m\<rparr> m1, s1)))"

definition return_claim_to_source ::
  "'s redis \<Rightarrow> str \<Rightarrow> tmgr \<Rightarrow> 's \<Rightarrow> (tm_error + unit) \<times> tmgr \<times> 's" where
  "return_claim_to_source R task_id m s =
    (case task_claims m task_id of
       None \<Rightarrow> (Inl StaleTaskClaim, m, s)
     | Some c \<Rightarrow>
         let (code, s1) = return_claim R (c_source c) (c_inflight c) (task_key (c_prefix c) task_id)
                            task_id (c_entry c) (c_token c) s
         in (if code \<noteq> 1 then Inl StaleTaskClaim else Inr (), pop_claim task_id m, s1))"

definition acknowledge_task_claim ::
  "'s redis \<Rightarrow> str \<Rightarrow> bool \<Rightarrow> tmgr \<Rightarrow> 's \<Rightarrow> tmgr \<times> 's" where
  "acknowledge_task_claim R task_id release_fenced_claim m s =
    (case task_claims m task_id of
       None \<Rightarrow> (m, s)
     | Some c \<Rightarrow>
         let (code, s1) = ack_claim R (task_key (c_prefix c) task_id) (c_inflight c) (c_entry c)
                            (c_token c) release_fenced_claim s
         in (if code \<noteq> -2 then pop_claim task_id m else m, s1))"

definition freeze_task_claim ::
  "'s redis \<Rightarrow> 's env \<Rightarrow> str \<Rightarrow> str \<Rightarrow> tmgr \<Rightarrow> 's \<Rightarrow> bool \<times> tmgr \<times> 's" where
  "freeze_task_claim R E task_id reason m s =
    (case task_claims m task_id of
       None \<Rightarrow> (False, m, s)
     | Some c \<Rightarrow>
         let (code, s1) = freeze_claim_recovery R (task_key (c_prefix c) task_id) (c_token c) reason
                            (e_iso E s) s
         in if code \<noteq> 1 then (False, pop_claim task_id m, s1) else (True, m, s1))"

definition mark_claim_processing_op ::
  "'s redis \<Rightarrow> 's env \<Rightarrow> str \<Rightarrow> str \<Rightarrow> dict \<Rightarrow> str \<Rightarrow> key \<Rightarrow> key \<Rightarrow> tmgr \<Rightarrow> 's \<Rightarrow>
   (tm_error + bool) \<times> tmgr \<times> 's" where
  "mark_claim_processing_op R E pfx task_id task_json worker_id inflight_queue source_queue m s =
    (case task_claims m task_id of
       None \<Rightarrow> (Inl StaleTaskClaim, m, s)
     | Some c \<Rightarrow>
         let (code, s1) = mark_claim_processing R (task_key pfx task_id) inflight_queue
               (cancel_key pfx task_id) (parent_cancel_key pfx task_id task_json) (c_entry c)
               (c_token c) (e_iso E s) worker_id (c_instance c) source_queue s
         in if code \<noteq> 1 then (Inr False, pop_claim task_id m, s1) else (Inr True, m, s1))"

definition mark_cpu_processing ::
  "'s redis \<Rightarrow> 's env \<Rightarrow> str \<Rightarrow> str \<Rightarrow> dict \<Rightarrow> 's \<Rightarrow> bool \<times> 's" where
  "mark_cpu_processing R E pfx task_id task_json s =
    (let (code, s1) = mark_workflow_cpu_processing R (task_key pfx task_id)
           (cancel_key pfx task_id) (parent_cancel_key pfx task_id task_json) (e_iso E s) s
     in (code \<noteq> 0, s1))"

definition release_mode :: "bool \<Rightarrow> bool \<Rightarrow> str" where
  "release_mode release_frozen release_execution =
     (if release_frozen then ''all'' else if release_execution then ''execution'' else ''none'')"

text \<open>\<open>requeue_unstarted_task\<close>: back to the queue the claim came from, or to the resource queue.\<close>

definition requeue_unstarted_task ::
  "'s redis \<Rightarrow> codec \<Rightarrow> 's env \<Rightarrow> dict \<Rightarrow> str \<Rightarrow> bool \<Rightarrow> bool \<Rightarrow> bool \<Rightarrow> tmgr \<Rightarrow> 's \<Rightarrow>
   (tm_error + bool) \<times> tmgr \<times> 's" where
  "requeue_unstarted_task R C E task_data reason restore_claim_source release_frozen release_execution m s =
    (let task_id = str_or_empty (dget ''task_id'' task_data) in
     if task_id = [] then (Inl ValueError, m, s)
     else if release_frozen \<and> release_execution then (Inl ValueError, m, s)
     else (case task_claims m task_id of
       None \<Rightarrow> (Inr False, m, s)
     | Some c \<Rightarrow>
         let now_iso = e_iso E s; pfx = c_prefix c;
             decoded = r_hgetall R (task_key pfx task_id) s;
             required = resolve_required_resource task_data;
             restored1 = dset ''required_resource'' (JStr required) task_data;
             assigned_worker = (if restore_claim_source then rget ''assigned_worker'' decoded else []);
             assigned_at = (if restore_claim_source then rget ''assigned_at'' decoded else []);
             queue_key = (if restore_claim_source then c_source c else resource_queue pfx required);
             restored2 = dset ''queue_timeout_at'' (JStr now_iso)
                           (dset ''queue_timeout_reason'' (JStr reason)
                             (dset ''assigned_worker'' (JStr assigned_worker) restored1));
             (code, s1) = conditional_requeue R (task_key pfx task_id) queue_key (c_inflight c)
               (cancel_key pfx task_id) (parent_cancel_key pfx task_id restored2) task_id
               (c_entry c) (c_token c) (json_dumps C (JObj restored2)) reason now_iso assigned_worker
               assigned_at (release_mode release_frozen release_execution) s
         in (Inr (code = 1), if code \<noteq> -4 then pop_claim task_id m else m, s1)))"

end
