(* ===== verification/Publish.thy ===== *)
theory Publish
  imports Manager "HOL-Library.List_Lexorder" "HOL-Library.Char_ord"
begin

section \<open>The task manager: submission, publication and look-up of results\<close>

text \<open>
  \<open>submit_task\<close>, the terminal commit \<open>_finalize_task_records\<close> with its callers \<open>complete_task\<close>
  and \<open>fail_task\<close>, the reads of results and cancellation markers and the removal of records.
  The names of the registered toolkits and backends are arguments. \<open>complete_task\<close> adds timing
  figures to the caller's dictionary after the commit; only the one it adds before, which is
  stored, is modelled.
\<close>

subsection \<open>\<open>kernelgym/utils/task_status.py\<close>\<close>

datatype task_status = PENDING | PROCESSING | COMPLETED | FAILED | TIMEOUT

primrec status_value :: "task_status \<Rightarrow> str" where
  "status_value PENDING = ''pending''"
| "status_value PROCESSING = ''processing''"
| "status_value COMPLETED = ''completed''"
| "status_value FAILED = ''failed''"
| "status_value TIMEOUT = ''timeout''"

definition is_timeout_error_code :: "json \<Rightarrow> bool" where
  "is_timeout_error_code error_code \<longleftrightarrow> py_upper (str_or_empty error_code) = ''TIMEOUT_ERROR''"

definition task_status_from_result_payload :: "dict \<Rightarrow> task_status" where
  "task_status_from_result_payload payload =
    (let raw_status = py_lower (str_or_empty (dget ''status'' payload)) in
     if raw_status = ''timeout'' then TIMEOUT
     else if is_timeout_error_code (dget ''error_code'' payload) then TIMEOUT
     else if raw_status = ''failed'' then FAILED
     else COMPLETED)"

subsection \<open>Submission\<close>

definition string_object :: "(str \<times> str) list \<Rightarrow> json" where
  "string_object fvs = JObj (map (\<lambda>(f, x). (f, JStr x)) fvs)"

definition with_default :: "str \<Rightarrow> str \<Rightarrow> dict \<Rightarrow> dict" where
  "with_default k dflt d = (if truthy (dget k d) then d else dset k (JStr dflt) d)"

definition cancellation_tombstones :: "tmgr \<Rightarrow> str \<Rightarrow> dict \<Rightarrow> json list" where
  "cancellation_tombstones m task_id d =
     JStr (tombstone_key (key_prefix m) task_id) #
     map (\<lambda>k. JStr (tombstone_key (key_prefix m) (py_str (dget k d))))
       (filter (\<lambda>k. truthy (dget k d)) [''base_task_id'', ''workflow_source_task_id''])"

definition workflow_fields :: "str list" where
  "workflow_fields = [''workflow_generation'', ''workflow_parent_key'', ''workflow_lease_key'',
     ''workflow_deadline'', ''workflow_children_key'']"

definition submission_fields :: "codec \<Rightarrow> tmgr \<Rightarrow> str \<Rightarrow> str \<Rightarrow> str \<Rightarrow> json \<Rightarrow> str \<Rightarrow> dict \<Rightarrow> dict" where
  "submission_fields C m task_id priority submitted_at assigned_worker assigned_at d =
     [(''data'', JStr (json_dumps C (JObj d))), (''status'', JStr (status_value PENDING)),
      (''priority'', JStr priority), (''submitted_at'', JStr submitted_at),
      (''assigned_worker'', assigned_worker), (''assigned_at'', JStr assigned_at),
      (''cancellation_keys'', JStr (json_dumps C (JList (cancellation_tombstones m task_id d))))] @
     map (\<lambda>f. (f, dget f d)) (filter (\<lambda>f. dhas f d) workflow_fields)"

definition submit_if_absent_op ::
  "'s redis \<Rightarrow> codec \<Rightarrow> tmgr \<Rightarrow> str \<Rightarrow> dict \<Rightarrow> key \<Rightarrow> 's \<Rightarrow> (tm_error + bool) \<times> 's" where
  "submit_if_absent_op R C m task_id task_mapping destination_queue s =
    (let (code, s1) = submit_task_if_absent R (task_key (key_prefix m) task_id) destination_queue
                        task_id (json_dumps C (JObj task_mapping)) s
     in (if code = -5 then Inl WorkflowStopped else Inr (code = 1), s1))"

definition dedupe_first :: "'a list \<Rightarrow> 'a list" where
  \<comment> \<open>\<open>list(dict.fromkeys(xs))\<close>\<close>
  "dedupe_first xs = rev (remdups (rev xs))"

definition force_refresh_op ::
  "'s redis \<Rightarrow> codec \<Rightarrow> tmgr \<Rightarrow> str \<Rightarrow> dict \<Rightarrow> key \<Rightarrow> 's \<Rightarrow> (tm_error + int) \<times> 's" where
  "force_refresh_op R C m task_id task_mapping destination_queue s =
    (let p = key_prefix m;
         cleanup_queues = dedupe_first (destination_queue #
           [resource_queue p ''cpu'', resource_queue p ''gpu''] @ map snd (worker_queues m));
         (code, s1) = force_refresh_task R (task_key p task_id) (result_key p task_id)
           (hd cleanup_queues) (tl cleanup_queues) task_id (json_dumps C (JObj task_mapping))
           (p @ '':queue:worker:'') s
     in (if code < 0 then (if code = -5 then Inl WorkflowStopped else Inl (TaskRefreshConflict code))
         else Inr code, s1))"

definition remember_worker_queue :: "str \<Rightarrow> tmgr \<Rightarrow> tmgr" where
  \<comment> \<open>\<open>self.worker_queues.setdefault(...)\<close>\<close>
  "remember_worker_queue w m =
     (if w \<in> fst ` set (worker_queues m) then m
      else m\<lparr>worker_queues := worker_queues m @ [(w, worker_queue (key_prefix m) w)]\<rparr>)"

definition submit_task ::
  "'s redis \<Rightarrow> codec \<Rightarrow> settings \<Rightarrow> 's env \<Rightarrow> str list \<Rightarrow> str list \<Rightarrow> dict \<Rightarrow> tmgr \<Rightarrow> 's \<Rightarrow>
   (tm_error + str) \<times> tmgr \<times> 's" where
  "submit_task R C cfg E toolkits backends task_data m s =
    (let d1 = with_default ''backend'' (default_backend cfg)
                (with_default ''backend_adapter'' (default_backend_adapter cfg)
                  (with_default ''toolkit'' (default_toolkit cfg) task_data))
     in if dget ''toolkit'' d1 \<notin> JStr ` set toolkits then (Inl ValueError, m, s)
        else if dget ''backend_adapter'' d1 \<notin> JStr ` set backends then (Inl ValueError, m, s)
        else (case map_of d1 ''task_id'' of
          None \<Rightarrow> (Inl KeyError, m, s)
        | Some (JStr task_id) \<Rightarrow>
          let priority = (if dhas ''priority'' d1 then dget ''priority'' d1 else JStr ''normal'') in
          if priority \<notin> {JStr ''low'', JStr ''normal'', JStr ''high''} then (Inl ValueError, m, s)
          else
            let required_resource = resolve_required_resource d1;
                d2 = dset ''required_resource'' (JStr required_resource) d1;
                submitted_at = e_iso E s;
                assigned_worker = py_or (dget ''assigned_worker'' d2) (JStr []);
                d3 = (if dhas ''assigned_worker'' d2 then dset ''assigned_worker'' assigned_worker d2 else d2);
                worker = str_or_empty assigned_worker;
                assigned_at = (if truthy assigned_worker then submitted_at else []);
                m1 = (if truthy assigned_worker then remember_worker_queue worker m else m);
                destination_queue = (if truthy assigned_worker then worker_queue (key_prefix m) worker
                                     else resource_queue (key_prefix m) required_resource);
                task_mapping = submission_fields C m task_id (py_str priority) submitted_at
                                 assigned_worker assigned_at d3;
                m2 = m1\<lparr>active_tasks := (active_tasks m1)(task_id \<mapsto> status_value PENDING)\<rparr>
            in if truthy (dget ''force_refresh'' d3) then
                 (case force_refresh_op R C m1 task_id task_mapping destination_queue s of
                    (Inl e, s1) \<Rightarrow> (Inl e, m1, s1)
                  | (Inr _, s1) \<Rightarrow> (Inr task_id, m2, s1))
               else
                 (case submit_if_absent_op R C m1 task_id task_mapping destination_queue s of
                    (Inl e, s1) \<Rightarrow> (Inl e, m1, s1)
                  | (Inr created, s1) \<Rightarrow> (Inr task_id, if created then m2 else m1, s1))
        | Some _ \<Rightarrow> (Inl TypeError, m, s)))"

subsection \<open>The terminal commit\<close>

definition adopt_claim :: "str \<Rightarrow> str \<Rightarrow> rhash \<Rightarrow> bool \<Rightarrow> tm_error + task_claim option" where
  \<comment> \<open>the claim under which a caller without one of its own publishes\<close>
  "adopt_claim pfx task_id decoded allow_control_plane_claim =
    (let current_token = rget ''claim_token'' decoded;
         inflight_queue = rget ''claim_inflight_queue'' decoded
     in if rget ''workflow_generation'' decoded \<noteq> [] \<and> rget ''workflow_parent_key'' decoded = []
        then Inl StaleTaskClaim
        else if current_token = [] then Inr None
        else if \<not> allow_control_plane_claim then Inl StaleTaskClaim
        else if inflight_queue = [] then Inl StaleTaskClaim
        else Inr (Some \<lparr>c_prefix = pfx, c_inflight = inflight_queue,
               c_source = rget ''claim_source_queue'' decoded, c_token = current_token,
               c_entry = claim_entry current_token task_id,
               c_instance = rget ''claim_worker_instance'' decoded\<rparr>))"

definition finalize_task_records ::
  "'s redis \<Rightarrow> codec \<Rightarrow> settings \<Rightarrow> str \<Rightarrow> str \<Rightarrow> (str \<times> str) list \<Rightarrow> (str \<times> str) list \<Rightarrow>
   task_claim option \<Rightarrow> bool \<Rightarrow> bool \<Rightarrow> tmgr \<Rightarrow> 's \<Rightarrow> (tm_error + unit) \<times> tmgr \<times> 's" where
  \<comment> \<open>\<open>task_mapping\<close> of the callers has no claim field, so appending them is the dict merge\<close>
  "finalize_task_records R C cfg pfx task_id task_mapping result_mapping claim
     allow_control_plane_claim allow_frozen_claim m s =
    (let tkey = task_key pfx task_id; rkey = result_key pfx task_id;
         task_mapping' = task_mapping @ clear_claim_fields;
         adopted = (case claim of Some c \<Rightarrow> Inr (Some c)
           | None \<Rightarrow> adopt_claim pfx task_id (r_hgetall R tkey s) allow_control_plane_claim)
     in (case adopted of
       Inl e \<Rightarrow> (Inl e, m, s)
     | Inr (Some c) \<Rightarrow>
         let (code, s1) = finalize_claim R tkey rkey (c_inflight c) (c_token c) (c_entry c)
               (json_dumps C (string_object task_mapping')) (json_dumps C (string_object result_mapping))
               (terminal_task_ttl_sec cfg) (terminal_result_ttl_sec cfg) allow_frozen_claim s
         in if code = -2 then (Inl FrozenTaskClaim, m, s1)
            else if code \<noteq> 1 then (Inl StaleTaskClaim, m, s1)
            else (Inr (), pop_claim task_id m, s1)
     | Inr None \<Rightarrow>
         (Inr (), pop_claim task_id m,
          publish_unclaimed R tkey rkey task_mapping' result_mapping (terminal_task_ttl_sec cfg)
            (terminal_result_ttl_sec cfg) s)))"

definition note_status :: "str \<Rightarrow> task_status \<Rightarrow> tmgr \<Rightarrow> tmgr" where
  "note_status task_id st m =
     (if active_tasks m task_id = None then m
      else m\<lparr>active_tasks := (active_tasks m)(task_id \<mapsto> status_value st)\<rparr>)"

definition completion_fields :: "task_status \<Rightarrow> str \<Rightarrow> (str \<times> str) list" where
  "completion_fields st completed_at =
     [(''status'', status_value st), (''completed_at'', completed_at)] @
     (if st = FAILED then [(''failed_at'', completed_at)]
      else if st = TIMEOUT then [(''timeout_at'', completed_at)] else [])"

definition result_metadata :: "dict \<Rightarrow> dict option" where
  \<comment> \<open>\<open>result.setdefault("metadata", {})\<close>; None: not a dictionary, the item assignment raises\<close>
  "result_metadata result =
    (case (if dhas ''metadata'' result then dget ''metadata'' result else JObj []) of
       JObj d \<Rightarrow> Some d | _ \<Rightarrow> None)"

definition completed_payload :: "int \<Rightarrow> dict \<Rightarrow> dict" where
  \<comment> \<open>the caller's result with the entry time and the derived status\<close>
  "completed_payload entered result =
    (let metadata = (case result_metadata result of Some d \<Rightarrow> d | None \<Rightarrow> []);
         result1 = dset ''metadata'' (JObj (dset ''tm_enter_monotonic_ns'' (JInt entered) metadata)) result
     in dset ''status'' (JStr (status_value (task_status_from_result_payload result1))) result1)"

definition complete_task ::
  "'s redis \<Rightarrow> codec \<Rightarrow> settings \<Rightarrow> 's env \<Rightarrow> str \<Rightarrow> dict \<Rightarrow> str \<Rightarrow> tmgr \<Rightarrow> 's \<Rightarrow>
   (tm_error + unit) \<times> tmgr \<times> 's" where
  \<comment> \<open>\<open>request_hash\<close> is empty for None\<close>
  "complete_task R C cfg E task_id result request_hash m s =
    (case result_metadata result of
       None \<Rightarrow> (Inl TypeError, m, s)
     | Some metadata \<Rightarrow>
         let completed_at = e_iso E s;
             st = task_status_from_result_payload result;
             payload = completed_payload (e_mono_ns E s) result;
             claim = task_claims m task_id;
             pfx = (case claim of Some c \<Rightarrow> c_prefix c | None \<Rightarrow> key_prefix m);
             result_mapping = [(''result'', json_dumps C (JObj payload)), (''completed_at'', completed_at)] @
               (if request_hash \<noteq> [] then [(''request_hash'', request_hash)] else [])
         in (case finalize_task_records R C cfg pfx task_id (completion_fields st completed_at)
                    result_mapping claim False False m s of
               (Inl e, m1, s1) \<Rightarrow> (Inl e, m1, s1)
             | (Inr _, m1, s1) \<Rightarrow> (Inr (), note_status task_id st m1, s1)))"

lemma status_of_metadata [simp]:
  "task_status_from_result_payload (dset ''metadata'' v d) = task_status_from_result_payload d"
  by (simp add: task_status_from_result_payload_def cong: if_cong)

definition fail_task ::
  "'s redis \<Rightarrow> codec \<Rightarrow> settings \<Rightarrow> 's env \<Rightarrow> str \<Rightarrow> str \<Rightarrow> str \<Rightarrow> str option \<Rightarrow> bool \<Rightarrow> bool \<Rightarrow> tmgr \<Rightarrow> 's \<Rightarrow>
   (tm_error + unit) \<times> tmgr \<times> 's" where
  "fail_task R C cfg E task_id error_message error_code pfx_arg adopt_current_claim
     allow_frozen_claim m s =
    (let failed_at = e_iso E s;
         claim = task_claims m task_id;
         pfx = (case pfx_arg of
                  None \<Rightarrow> (case claim of Some c \<Rightarrow> c_prefix c | None \<Rightarrow> key_prefix m)
                | Some q \<Rightarrow> if q = [] then key_prefix m else q);
         st = task_status_from_result_payload
                [(''status'', JStr ''failed''), (''error_code'', JStr error_code)];
         timing_key = (if st = TIMEOUT then ''timeout_at'' else ''failed_at'')
     in (case finalize_task_records R C cfg pfx task_id
                [(''status'', status_value st), (timing_key, failed_at)]
                [(''error'', error_message), (timing_key, failed_at), (''error_code'', error_code)]
                claim adopt_current_claim allow_frozen_claim m s of
           (Inl e, m1, s1) \<Rightarrow> (Inl e, m1, s1)
         | (Inr _, m1, s1) \<Rightarrow> (Inr (), note_status task_id st m1, s1)))"

subsection \<open>Results and markers\<close>

definition cached_result :: "codec \<Rightarrow> str option \<Rightarrow> rhash \<Rightarrow> (tm_error + dict option) option" where
  \<comment> \<open>one prefix of \<open>get_task_result\<close>; None: look at the next prefix\<close>
  "cached_result C expected_request_hash result_data =
    (if result_data = [] then None
     else if expected_request_hash \<noteq> None \<and>
       (rget ''request_hash'' result_data = [] \<or>
        Some (rget ''request_hash'' result_data) \<noteq> expected_request_hash) then Some (Inr None)
     else (case map_of result_data ''result'' of
       Some raw \<Rightarrow> (case json_loads C raw of
           None \<Rightarrow> Some (Inl JSONDecodeError)
         | Some (JObj result) \<Rightarrow>
             Some (Inr (Some (dupdate result [(''completed_at'', JStr (rget ''completed_at'' result_data))])))
         | Some _ \<Rightarrow> Some (Inl TypeError))
     | None \<Rightarrow> (case map_of result_data ''error'' of
         Some err \<Rightarrow> Some (Inr (Some [(''failed_at'', JStr (rget ''failed_at'' result_data)),
             (''error_message'', JStr err),
             (''error_code'', JStr (case map_of result_data ''error_code'' of Some c \<Rightarrow> c
                                    | None \<Rightarrow> ''UNKNOWN_ERROR''))]))
       | None \<Rightarrow> None)))"

fun first_some :: "('a \<Rightarrow> 'b option) \<Rightarrow> 'a list \<Rightarrow> 'b option" where
  "first_some f [] = None"
| "first_some f (x # xs) = (case f x of Some y \<Rightarrow> Some y | None \<Rightarrow> first_some f xs)"

definition get_task_result ::
  "'s redis \<Rightarrow> codec \<Rightarrow> tmgr \<Rightarrow> str \<Rightarrow> str option \<Rightarrow> 's \<Rightarrow> tm_error + dict option" where
  "get_task_result R C m task_id expected_request_hash s =
    (case first_some (\<lambda>p. cached_result C expected_request_hash (r_hgetall R (result_key p task_id) s))
            (prefixes_for_read m) of
       Some r \<Rightarrow> r | None \<Rightarrow> Inr None)"

definition is_task_cancelled :: "'s redis \<Rightarrow> tmgr \<Rightarrow> str \<Rightarrow> 's \<Rightarrow> bool" where
  "is_task_cancelled R m task_id s =
    (case first_some (\<lambda>p.
        if r_exists R (cancel_key p task_id) s \<or> r_exists R (tombstone_key p task_id) s then Some True
        else if rget ''workflow_generation'' (r_hgetall R (task_key p task_id) s) \<noteq> []
        then Some (workflow_task_alive R (task_key p task_id) (workflow_key p task_id) s = 0)
        else None) (prefixes_for_read m) of
       Some b \<Rightarrow> b | None \<Rightarrow> False)"

definition is_workflow_active :: "'s redis \<Rightarrow> tmgr \<Rightarrow> str \<Rightarrow> 's \<Rightarrow> bool" where
  "is_workflow_active R m base_id s = list_ex (\<lambda>p. r_exists R (workflow_key p base_id) s) (prefixes_for_read m)"

definition mark_task_cancelled :: "'s redis \<Rightarrow> settings \<Rightarrow> 's env \<Rightarrow> str \<Rightarrow> str \<Rightarrow> 's \<Rightarrow> 's" where
  "mark_task_cancelled R cfg E task_id pfx s =
     snd (cancel_task_script R (task_key pfx task_id) (result_key pfx task_id)
       (tombstone_key pfx task_id) (cancel_key pfx task_id) task_id (e_iso E s) pfx
       (terminal_task_ttl_sec cfg) (terminal_result_ttl_sec cfg) s)"

definition remove_task_from_queues :: "'s redis \<Rightarrow> tmgr \<Rightarrow> str \<Rightarrow> str \<Rightarrow> str \<Rightarrow> 's \<Rightarrow> nat \<times> 's" where
  "remove_task_from_queues R m task_id pfx assigned_worker s =
    (let queue_keys = [resource_queue pfx ''cpu'', resource_queue pfx ''gpu''] @
           (if assigned_worker \<noteq> [] then [worker_queue pfx assigned_worker] else []);
         all = fold (\<lambda>q qs. if q \<in> set qs then qs else qs @ [q]) (map snd (worker_queues m)) queue_keys
     in fold (\<lambda>q (n, s). case r_lrem R q 0 task_id s of (k, s1) \<Rightarrow> (n + k, s1)) all (0, s))"

definition get_queue_status :: "'s redis \<Rightarrow> tmgr \<Rightarrow> 's \<Rightarrow> nat \<times> (str \<times> nat) list \<times> (str \<times> nat) list" where
  "get_queue_status R m s =
    (let pending_by_prefix = map (\<lambda>p. (p, length (r_lrange R (resource_queue p ''cpu'') s) +
                                        length (r_lrange R (resource_queue p ''gpu'') s))) (prefixes_for_read m)
     in (sum_list (map snd pending_by_prefix), pending_by_prefix,
         map (\<lambda>(w, q). (w, length (r_lrange R q s))) (worker_queues m)))"

subsection \<open>Removing records\<close>

definition record_key_list :: "str \<Rightarrow> str \<Rightarrow> key list" where
  "record_key_list p task_id = [task_key p task_id, result_key p task_id, status_key p task_id,
     cancel_key p task_id, workflow_key p task_id]"

text \<open>One pair of a prefix and an id: the records of a finished workflow task go at once, those
  of other tasks are collected, and work that may still run is retained.\<close>

definition discard_step ::
  "'s redis \<Rightarrow> str \<times> str \<Rightarrow> key list \<times> str set \<times> int \<times> 's \<Rightarrow> key list \<times> str set \<times> int \<times> 's" where
  "discard_step R = (\<lambda>(p, task_id) (keys, retained, deleted, s).
    let record = r_hgetall R (task_key p task_id) s;
        generation = rget ''workflow_generation'' record
    in if generation \<noteq> [] \<and>
          (rget ''claim_token'' record \<noteq> [] \<or> rget ''status'' record \<notin> set terminal_statuses)
       then (keys, insert task_id retained, deleted, s)
       else if generation \<noteq> [] then
         (let generation_keys = record_key_list p task_id @
                (if rget ''workflow_parent_key'' record = [] then [children_key p task_id generation] else []);
              (removed, s1) = discard_workflow_records R generation_keys generation s
          in (keys, if removed = 0 then insert task_id retained else retained, deleted + int removed, s1))
       else (keys @ record_key_list p task_id, retained, deleted, s))"

definition del_count :: "'s redis \<Rightarrow> key list \<Rightarrow> 's \<Rightarrow> int \<times> 's" where
  \<comment> \<open>\<open>DEL k1 k2 ...\<close> with its reply\<close>
  "del_count R ks s =
     fold (\<lambda>k (n, s). (if r_exists R k s then n + 1 else n, r_del R k s)) ks (0, s)"

definition discard_task_records :: "'s redis \<Rightarrow> str list \<Rightarrow> tmgr \<Rightarrow> 's \<Rightarrow> int \<times> tmgr \<times> 's" where
  "discard_task_records R task_ids m s =
    (let normalized_ids = sort (remdups (filter (\<lambda>t. t \<noteq> []) (map py_strip task_ids)));
         (keys, retained, deleted, s1) =
            fold (discard_step R) (List.product (prefixes_for_read m) normalized_ids) ([], {}, 0, s);
         (n, s2) = (if keys = [] then (0, s1) else del_count R keys s1);
         m1 = fold (\<lambda>t m. if t \<in> retained then m
                     else pop_claim t (m\<lparr>active_tasks := (active_tasks m)(t := None)\<rparr>)) normalized_ids m
     in (deleted + n, m1, s2))"

end
