(* ===== verification/Dispatch.thy ===== *)
theory Dispatch
  imports Publish
begin

section \<open>The task manager: crash recovery and dispatch\<close>

text \<open>
  \<open>recover_gpu_inflight\<close> restores the claims an earlier process left in a worker's inflight list,
  and \<open>get_next_task\<close> hands a task to a worker: first from the worker's own queue, then from the
  resource queues, returning claims of tasks bound to another node in a \<open>finally\<close> block. Loops
  over queues are bounded by the configured scan limits. Log lines are not modelled.
\<close>

subsection \<open>Recovery\<close>

definition recovered_claim :: "str \<Rightarrow> str \<Rightarrow> str \<Rightarrow> str \<Rightarrow> rhash \<Rightarrow> dict \<Rightarrow> task_claim" where
  "recovered_claim pfx worker_id token entry decoded task_json =
     \<lparr>c_prefix = pfx, c_inflight = gpu_inflight_queue pfx worker_id,
      c_source = (if rget ''claim_source_queue'' decoded \<noteq> [] then rget ''claim_source_queue'' decoded
                  else resource_queue pfx (resolve_required_resource task_json)),
      c_token = token, c_entry = entry, c_instance = rget ''claim_worker_instance'' decoded\<rparr>"

definition close_cancelled_claim ::
  "'s redis \<Rightarrow> codec \<Rightarrow> settings \<Rightarrow> 's env \<Rightarrow> str \<Rightarrow> str \<Rightarrow> bool \<Rightarrow> tmgr \<Rightarrow> 's \<Rightarrow> tmgr \<times> 's" where
  "close_cancelled_claim R C cfg E pfx task_id release m s =
    (case fail_task R C cfg E task_id ''Task cancelled'' ''SYSTEM_ERROR'' (Some pfx) False release m s of
       (Inl _, m1, s1) \<Rightarrow> (pop_claim task_id m1, s1)
     | (Inr _, m1, s1) \<Rightarrow> (m1, r_hset R (task_key pfx task_id) ''cancelled_at'' (e_iso E s1) s1))"

definition recover_entry ::
  "'s redis \<Rightarrow> codec \<Rightarrow> settings \<Rightarrow> 's env \<Rightarrow> str \<Rightarrow> str \<Rightarrow> bool \<Rightarrow> str \<Rightarrow> tmgr \<Rightarrow> 's \<Rightarrow>
   (tm_error + unit) \<times> tmgr \<times> 's" where
  "recover_entry R C cfg E pfx worker_id release entry m s =
    (let inflight_queue = gpu_inflight_queue pfx worker_id;
         (token, separator, task_id) = py_partition (CHR ''|'') entry
     in if \<not> separator \<or> token = [] \<or> task_id = [] then (Inr (), m, s)
        else
          let decoded = r_hgetall R (task_key pfx task_id) s in
          if decoded = [] then (Inr (), m, lrem' R inflight_queue 1 entry s)
          else if rget ''claim_token'' decoded \<noteq> token then (Inr (), m, lrem' R inflight_queue 1 entry s)
          else if rget ''claim_recovery_state'' decoded \<noteq> [] \<and> \<not> release then (Inr (), m, s)
          else if instance_id m \<noteq> [] \<and> rget ''claim_worker_instance'' decoded = instance_id m
          then (Inr (), m, s)
          else
            let task_json = load_task_json C decoded;
                m1 = put_claim task_id (recovered_claim pfx worker_id token entry decoded task_json) m
            in if task_json = [] \<or> dropped_before_dispatch decoded
               then (Inr (), acknowledge_task_claim R task_id release m1 s)
               else if dequeued_task_cancelled R pfx task_id (base_task_id task_json) s
               then (Inr (), close_cancelled_claim R C cfg E pfx task_id release m1 s)
               else
                 (case requeue_unstarted_task R C E task_json ''worker_process_recovered_inflight_claim''
                         True release False m1 s of
                    (Inl e, m2, s2) \<Rightarrow> (Inl e, m2, s2)
                  | (Inr _, m2, s2) \<Rightarrow> (Inr (), m2, s2)))"

text \<open>A loop over a list whose body may raise.\<close>

fun each :: "('a \<Rightarrow> tmgr \<Rightarrow> 's \<Rightarrow> (tm_error + unit) \<times> tmgr \<times> 's) \<Rightarrow> 'a list \<Rightarrow> tmgr \<Rightarrow> 's \<Rightarrow>
    (tm_error + unit) \<times> tmgr \<times> 's" where
  "each f [] m s = (Inr (), m, s)"
| "each f (x # xs) m s =
    (case f x m s of (Inl e, m1, s1) \<Rightarrow> (Inl e, m1, s1) | (Inr _, m1, s1) \<Rightarrow> each f xs m1 s1)"

definition recover_gpu_inflight_prefix ::
  "'s redis \<Rightarrow> codec \<Rightarrow> settings \<Rightarrow> 's env \<Rightarrow> str \<Rightarrow> bool \<Rightarrow> str \<Rightarrow> tmgr \<Rightarrow> 's \<Rightarrow>
   (tm_error + unit) \<times> tmgr \<times> 's" where
  "recover_gpu_inflight_prefix R C cfg E worker_id release pfx m s =
    (let scan_limit = nat (max 1 (gpu_inflight_recovery_scan_limit cfg));
         raw_entries = take scan_limit (r_lrange R (gpu_inflight_queue pfx worker_id) s)
     in each (recover_entry R C cfg E pfx worker_id release) raw_entries m s)"

definition recover_gpu_inflight ::
  "'s redis \<Rightarrow> codec \<Rightarrow> settings \<Rightarrow> 's env \<Rightarrow> str \<Rightarrow> bool \<Rightarrow> tmgr \<Rightarrow> 's \<Rightarrow>
   (tm_error + unit) \<times> tmgr \<times> 's" where
  "recover_gpu_inflight R C cfg E worker_id release m s =
     each (recover_gpu_inflight_prefix R C cfg E worker_id release) (prefixes_for_read m) m s"

subsection \<open>Dispatch\<close>

text \<open>How a phase of the loop ends: an exception, a \<open>return\<close>, \<open>continue\<close> with the next prefix,
  or the next statement.\<close>

datatype flow = Raise tm_error | Return "dict option" | NextPrefix | Fall

definition pop_task ::
  "'s redis \<Rightarrow> 's env \<Rightarrow> str \<Rightarrow> str \<Rightarrow> bool \<Rightarrow> key \<Rightarrow> tmgr \<Rightarrow> 's \<Rightarrow> str option \<times> tmgr \<times> 's" where
  "pop_task R E pfx worker_id is_gpu queue_key m s =
    (if is_gpu then claim_gpu_task_op R E pfx worker_id queue_key m s
     else let (popped, s1) = r_rpop R queue_key s in (popped, m, s1))"

definition drop_task :: "'s redis \<Rightarrow> bool \<Rightarrow> str \<Rightarrow> tmgr \<Rightarrow> 's \<Rightarrow> tmgr \<times> 's" where
  "drop_task R is_gpu task_id m s =
    (if is_gpu then acknowledge_task_claim R task_id False m s else (m, s))"

definition start_attempt ::
  "'s redis \<Rightarrow> codec \<Rightarrow> settings \<Rightarrow> 's env \<Rightarrow> str \<Rightarrow> str \<Rightarrow> bool \<Rightarrow> str \<Rightarrow> dict \<Rightarrow> key \<Rightarrow> str \<Rightarrow> tmgr \<Rightarrow> 's \<Rightarrow>
   flow \<times> tmgr \<times> 's" where
  "start_attempt R C cfg E pfx worker_id is_gpu task_id task_json queue_key closed_reason m s =
    (if is_gpu \<and> \<not> gpu_worker_admission_open cfg E worker_id (worker_data R m worker_id s) s then
       (case requeue_unstarted_task R C E task_json closed_reason False False False m s of
          (Inl e, m1, s1) \<Rightarrow> (Raise e, m1, s1)
        | (Inr _, m1, s1) \<Rightarrow> (Return None, m1, s1))
     else if is_gpu then
       (case mark_claim_processing_op R E pfx task_id task_json worker_id
               (gpu_inflight_queue pfx worker_id) queue_key m s of
          (Inl e, m1, s1) \<Rightarrow> (Raise e, m1, s1)
        | (Inr begun, m1, s1) \<Rightarrow> (if begun then Return (Some task_json) else NextPrefix, m1, s1))
     else
       (case mark_cpu_processing R E pfx task_id task_json s of
          (begun, s1) \<Rightarrow> (if begun then Return (Some task_json) else NextPrefix, m, s1)))"

definition direct_phase ::
  "'s redis \<Rightarrow> codec \<Rightarrow> settings \<Rightarrow> 's env \<Rightarrow> str \<Rightarrow> str \<Rightarrow> bool \<Rightarrow> tmgr \<Rightarrow> 's \<Rightarrow> flow \<times> tmgr \<times> 's" where
  "direct_phase R C cfg E pfx worker_id is_gpu m s =
    (let worker_queue_key = worker_queue pfx worker_id in
     case pop_task R E pfx worker_id is_gpu worker_queue_key m s of
       (None, m1, s1) \<Rightarrow> (Fall, m1, s1)
     | (Some task_id, m1, s1) \<Rightarrow>
         (case load_task_data_for_prefix R C pfx task_id s1 of
            Undecodable \<Rightarrow> (Raise JSONDecodeError, m1, s1)
          | Payload task_hash task_json \<Rightarrow>
              if dropped_before_dispatch task_hash \<or>
                 dequeued_task_cancelled R pfx task_id (base_task_id task_json) s1
              then (Fall, drop_task R is_gpu task_id m1 s1)
              else start_attempt R C cfg E pfx worker_id is_gpu task_id task_json worker_queue_key
                     ''gpu_admission_closed_after_direct_dequeue'' m1 s1
          | _ \<Rightarrow> (Fall, drop_task R is_gpu task_id m1 s1)))"

text \<open>The scan of one resource queue; \<open>NextPrefix\<close> from \<open>start_attempt\<close> is the \<open>continue\<close> of this
  loop, and the deferred ids are collected in the order of the scan.\<close>

fun scan_resource ::
  "'s redis \<Rightarrow> codec \<Rightarrow> settings \<Rightarrow> 's env \<Rightarrow> str \<Rightarrow> str \<Rightarrow> rhash \<Rightarrow> bool \<Rightarrow> key \<Rightarrow> nat \<Rightarrow> str list \<Rightarrow>
   tmgr \<Rightarrow> 's \<Rightarrow> flow \<times> str list \<times> tmgr \<times> 's" where
  "scan_resource R C cfg E pfx worker_id worker_info is_gpu queue_key 0 deferred m s =
     (Fall, deferred, m, s)"
| "scan_resource R C cfg E pfx worker_id worker_info is_gpu queue_key (Suc n) deferred m s =
    (case pop_task R E pfx worker_id is_gpu queue_key m s of
       (None, m1, s1) \<Rightarrow> (Fall, deferred, m1, s1)
     | (Some task_id, m1, s1) \<Rightarrow>
         (case load_task_data_for_prefix R C pfx task_id s1 of
            Undecodable \<Rightarrow> (Raise JSONDecodeError, deferred, m1, s1)
          | Payload task_hash task_json \<Rightarrow>
              if dropped_before_dispatch task_hash \<or>
                 dequeued_task_cancelled R pfx task_id (base_task_id task_json) s1
              then (case drop_task R is_gpu task_id m1 s1 of (m2, s2) \<Rightarrow>
                scan_resource R C cfg E pfx worker_id worker_info is_gpu queue_key n deferred m2 s2)
              else if \<not> task_matches_worker_node task_json worker_info
              then scan_resource R C cfg E pfx worker_id worker_info is_gpu queue_key n
                     (deferred @ [task_id]) m1 s1
              else
                (case start_attempt R C cfg E pfx worker_id is_gpu task_id task_json queue_key
                        ''gpu_admission_closed_after_resource_dequeue'' m1 s1 of
                   (NextPrefix, m2, s2) \<Rightarrow>
                     scan_resource R C cfg E pfx worker_id worker_info is_gpu queue_key n deferred m2 s2
                 | (out, m2, s2) \<Rightarrow> (out, deferred, m2, s2))
          | _ \<Rightarrow> (case drop_task R is_gpu task_id m1 s1 of (m2, s2) \<Rightarrow>
              scan_resource R C cfg E pfx worker_id worker_info is_gpu queue_key n deferred m2 s2)))"

text \<open>The \<open>finally\<close> block; an exception in it replaces the outcome of the loop.\<close>

definition return_deferred ::
  "'s redis \<Rightarrow> bool \<Rightarrow> key \<Rightarrow> str list \<Rightarrow> tmgr \<Rightarrow> 's \<Rightarrow> (tm_error + unit) \<times> tmgr \<times> 's" where
  "return_deferred R is_gpu queue_key deferred m s =
    (if is_gpu then each (return_claim_to_source R) deferred m s
     else (Inr (), m, fold (r_lpush R queue_key) deferred s))"

definition resource_phase ::
  "'s redis \<Rightarrow> codec \<Rightarrow> settings \<Rightarrow> 's env \<Rightarrow> str \<Rightarrow> str \<Rightarrow> rhash \<Rightarrow> bool \<Rightarrow> str \<Rightarrow> tmgr \<Rightarrow> 's \<Rightarrow>
   flow \<times> tmgr \<times> 's" where
  "resource_phase R C cfg E pfx worker_id worker_info is_gpu resource m s =
    (let queue_key = resource_queue pfx resource;
         scan_limit = nat (max 1 (worker_queue_wait_scan_limit cfg))
     in case scan_resource R C cfg E pfx worker_id worker_info is_gpu queue_key scan_limit [] m s of
       (out, deferred, m1, s1) \<Rightarrow>
         (case return_deferred R is_gpu queue_key deferred m1 s1 of
            (Inl e, m2, s2) \<Rightarrow> (Raise e, m2, s2)
          | (Inr _, m2, s2) \<Rightarrow> (out, m2, s2)))"

fun resource_phases ::
  "'s redis \<Rightarrow> codec \<Rightarrow> settings \<Rightarrow> 's env \<Rightarrow> str \<Rightarrow> str \<Rightarrow> rhash \<Rightarrow> bool \<Rightarrow> str list \<Rightarrow> tmgr \<Rightarrow> 's \<Rightarrow>
   flow \<times> tmgr \<times> 's" where
  "resource_phases R C cfg E pfx worker_id worker_info is_gpu [] m s = (Fall, m, s)"
| "resource_phases R C cfg E pfx worker_id worker_info is_gpu (resource # resources) m s =
    (case resource_phase R C cfg E pfx worker_id worker_info is_gpu resource m s of
       (Fall, m1, s1) \<Rightarrow> resource_phases R C cfg E pfx worker_id worker_info is_gpu resources m1 s1
     | (out, m1, s1) \<Rightarrow> (out, m1, s1))"

fun dispatch_prefixes ::
  "'s redis \<Rightarrow> codec \<Rightarrow> settings \<Rightarrow> 's env \<Rightarrow> str \<Rightarrow> rhash \<Rightarrow> bool \<Rightarrow> str list \<Rightarrow> str list \<Rightarrow> tmgr \<Rightarrow> 's \<Rightarrow>
   (tm_error + dict option) \<times> tmgr \<times> 's" where
  "dispatch_prefixes R C cfg E worker_id worker_info is_gpu resources [] m s = (Inr None, m, s)"
| "dispatch_prefixes R C cfg E worker_id worker_info is_gpu resources (pfx # pfxs) m s =
    (case direct_phase R C cfg E pfx worker_id is_gpu m s of
       (Raise e, m1, s1) \<Rightarrow> (Inl e, m1, s1)
     | (Return r, m1, s1) \<Rightarrow> (Inr r, m1, s1)
     | (NextPrefix, m1, s1) \<Rightarrow>
         dispatch_prefixes R C cfg E worker_id worker_info is_gpu resources pfxs m1 s1
     | (Fall, m1, s1) \<Rightarrow>
         (case resource_phases R C cfg E pfx worker_id worker_info is_gpu resources m1 s1 of
            (Raise e, m2, s2) \<Rightarrow> (Inl e, m2, s2)
          | (Return r, m2, s2) \<Rightarrow> (Inr r, m2, s2)
          | (_, m2, s2) \<Rightarrow>
              dispatch_prefixes R C cfg E worker_id worker_info is_gpu resources pfxs m2 s2))"

definition get_next_task ::
  "'s redis \<Rightarrow> codec \<Rightarrow> settings \<Rightarrow> 's env \<Rightarrow> str \<Rightarrow> str list \<Rightarrow> tmgr \<Rightarrow> 's \<Rightarrow>
   (tm_error + dict option) \<times> tmgr \<times> 's" where
  "get_next_task R C cfg E worker_id resources_arg m s =
    (let resources = (if resources_arg = [] then [''gpu''] else resources_arg);
         worker_info = worker_data R m worker_id s;
         is_gpu_worker = (starts_with ''cuda:'' (rget ''device'' worker_info) \<or> ''gpu'' \<in> set resources)
     in if is_gpu_worker \<and> \<not> gpu_worker_admission_open cfg E worker_id worker_info s
        then (Inr None, m, s)
        else (case (if is_gpu_worker then recover_gpu_inflight R C cfg E worker_id False m s
                    else (Inr (), m, s)) of
          (Inl e, m1, s1) \<Rightarrow> (Inl e, m1, s1)
        | (Inr _, m1, s1) \<Rightarrow>
            dispatch_prefixes R C cfg E worker_id worker_info is_gpu_worker resources
              (prefixes_for_read m) m1 s1))"

end
