(* ===== verification/Refinement.thy ===== *)
theory Refinement
  imports Dispatch
begin

section \<open>The task manager refines the transaction system\<close>

text \<open>
  Every operation of the manager is a sequence of the transactions of \<open>Fencing\<close>, on the keys and
  with the arguments those demand, so the theorems about all runs of transactions apply to the
  Python code. \<open>sound\<close> is what a manager and the store satisfy between operations. Its
  argument \<open>A\<close> is a set of labels the operation must not need: empty for the plain refinement,
  or the labels that could disturb one running attempt.
\<close>

definition fences :: "str \<Rightarrow> str \<Rightarrow> label set" where
  "fences t x = {Presents t x, Unfenced x, Parent x}"

definition guarded :: "str \<Rightarrow> label set \<Rightarrow> keyspace \<Rightarrow> bool" where
  "guarded p A v \<longleftrightarrow>
     A = {} \<or> (\<exists>t x w. A = fences t x \<and> plain_token t \<and> attempt_running p x t w v)"

definition claim_ok :: "str \<Rightarrow> str \<Rightarrow> task_claim \<Rightarrow> bool" where
  "claim_ok p x c \<longleftrightarrow> c_prefix c = p \<and> (\<exists>w. c_inflight c = gpu_inflight_queue p w) \<and>
     waiting_queue p (c_source c) \<and> plain_token (c_token c) \<and> c_entry c = claim_entry (c_token c) x"

definition manager_ok :: "str \<Rightarrow> label set \<Rightarrow> tmgr \<Rightarrow> bool" where
  \<comment> \<open>one namespace; well-formed claims, none of which is forbidden by \<open>A\<close>\<close>
  "manager_ok p A m \<longleftrightarrow> p \<noteq> [] \<and> key_prefix m = p \<and> legacy_prefix m \<in> {[], p} \<and>
     (\<forall>x c. task_claims m x = Some c \<longrightarrow> claim_ok p x c \<and> Presents (c_token c) x \<notin> A) \<and>
     (\<forall>q \<in> snd ` set (worker_queues m). waiting_queue p q)"

definition uuids_ok :: "'s env \<Rightarrow> bool" where
  "uuids_ok E \<longleftrightarrow> (\<forall>n. plain_token (e_uuid E n))"

definition performs ::
  "'s redis \<Rightarrow> ('s \<Rightarrow> keyspace) \<Rightarrow> str \<Rightarrow> label set \<Rightarrow> 's \<Rightarrow> 's \<Rightarrow> bool" where
  "performs R view p A s s' \<longleftrightarrow> (\<exists>ls. trace R view p ls s s' \<and> List.set ls \<inter> A = {})"

definition sound :: "('s \<Rightarrow> keyspace) \<Rightarrow> str \<Rightarrow> label set \<Rightarrow> tmgr \<Rightarrow> 's \<Rightarrow> bool" where
  "sound view p A m s \<longleftrightarrow> manager_ok p A m \<and> guarded p A (view s) \<and> fields_ok p (view s)"

definition step ::
  "'s redis \<Rightarrow> ('s \<Rightarrow> keyspace) \<Rightarrow> str \<Rightarrow> label set \<Rightarrow> tmgr \<Rightarrow> 's \<Rightarrow> tmgr \<Rightarrow> 's \<Rightarrow> bool" where
  "step R view p A m s m' s' \<longleftrightarrow>
     (sound view p A m s \<longrightarrow> performs R view p A s s' \<and> sound view p A m' s')"

text \<open>The same for an operation's result: a reply, the manager and the store.\<close>

definition leads ::
  "'s redis \<Rightarrow> ('s \<Rightarrow> keyspace) \<Rightarrow> str \<Rightarrow> label set \<Rightarrow> tmgr \<Rightarrow> 's \<Rightarrow> 'r \<times> tmgr \<times> 's \<Rightarrow> bool" where
  "leads R view p A m s out \<longleftrightarrow> step R view p A m s (fst (snd out)) (snd (snd out))"

subsection \<open>Traces compose\<close>

lemma trace_append:
  assumes "trace R view p ls2 s1 s2" and "trace R view p ls1 s s1"
  shows "trace R view p (ls1 @ ls2) s s2"
  using assms
proof (induction rule: trace.induct)
  case (trace_nil s)
  then show ?case by simp
next
  case (trace_step ls s s1 l s2)
  then show ?case using trace.trace_step [of R view p "ls1 @ ls"] by simp
qed

lemma performs_refl [simp]: "performs R view p A s s"
  unfolding performs_def by (rule exI [of _ "[]"]) (simp add: trace_nil)

lemma performs_trans:
  assumes "performs R view p A s s1" and "performs R view p A s1 s2"
  shows "performs R view p A s s2"
proof -
  obtain ls1 ls2 where "trace R view p ls1 s s1" "List.set ls1 \<inter> A = {}"
    "trace R view p ls2 s1 s2" "List.set ls2 \<inter> A = {}"
    using assms by (auto simp: performs_def)
  then have "trace R view p (ls1 @ ls2) s s2 \<and> List.set (ls1 @ ls2) \<inter> A = {}"
    using trace_append by auto
  then show ?thesis unfolding performs_def by blast
qed

lemma performs_transaction:
  assumes "transaction R view p l s s'" and "l \<notin> A"
  shows "performs R view p A s s'"
proof -
  have "trace R view p ([] @ [l]) s s'" by (rule trace_step [OF trace_nil assms(1)])
  with assms(2) show ?thesis unfolding performs_def by (intro exI [of _ "[l]"]) simp
qed

lemma step_refl [simp]: "step R view p A m s m s"
  by (simp add: step_def)

lemma step_trans:
  "step R view p A m s m1 s1 \<Longrightarrow> step R view p A m1 s1 m2 s2 \<Longrightarrow> step R view p A m s m2 s2"
  by (auto simp: step_def intro: performs_trans)

lemma step_sound:
  "(sound view p A m s \<Longrightarrow> step R view p A m s m' s') \<Longrightarrow> step R view p A m s m' s'"
  by (simp add: step_def)

lemma step_manager:
  "(manager_ok p A m \<Longrightarrow> manager_ok p A m') \<Longrightarrow> step R view p A m s m' s"
  by (simp add: step_def sound_def)

lemma leads_pair [simp]: "leads R view p A m s (r, m', s') \<longleftrightarrow> step R view p A m s m' s'"
  by (simp add: leads_def)

lemma leads_result: "leads R view p A m s out \<Longrightarrow> out = (r, m', s') \<Longrightarrow> step R view p A m s m' s'"
  by simp

lemma leads_sound:
  "(sound view p A m s \<Longrightarrow> leads R view p A m s out) \<Longrightarrow> leads R view p A m s out"
  unfolding leads_def by (rule step_sound)

lemma leads_if:
  "(b \<Longrightarrow> leads R view p A m s x) \<Longrightarrow> (\<not> b \<Longrightarrow> leads R view p A m s y) \<Longrightarrow>
   leads R view p A m s (if b then x else y)"
  by simp

lemma leads_option:
  "(v = None \<Longrightarrow> leads R view p A m s x) \<Longrightarrow> (\<And>y. v = Some y \<Longrightarrow> leads R view p A m s (f y)) \<Longrightarrow>
   leads R view p A m s (case v of None \<Rightarrow> x | Some y \<Rightarrow> f y)"
  by (cases v) auto

lemma leads_step:
  "step R view p A m s m1 s1 \<Longrightarrow> leads R view p A m1 s1 out \<Longrightarrow> leads R view p A m s out"
  unfolding leads_def by (rule step_trans)

lemma leads_bind:
  assumes "leads R view p A m s out"
    and "\<And>r m1 s1. out = (r, m1, s1) \<Longrightarrow> sound view p A m1 s1 \<Longrightarrow> leads R view p A m1 s1 (F (r, m1, s1))"
  shows "leads R view p A m s (F out)"
proof -
  obtain r m1 s1 where out: "out = (r, m1, s1)" by (cases out)
  with assms(1) have st: "step R view p A m s m1 s1" by simp
  have "leads R view p A m1 s1 (F (r, m1, s1))"
    by (rule leads_sound) (rule assms(2) [OF out])
  with st show ?thesis unfolding out by (rule leads_step)
qed

lemma manager_ok_pop [simp]: "manager_ok p A m \<Longrightarrow> manager_ok p A (pop_claim x m)"
  by (simp add: manager_ok_def pop_claim_def)

lemma manager_ok_put:
  "manager_ok p A m \<Longrightarrow> claim_ok p x c \<Longrightarrow> Presents (c_token c) x \<notin> A \<Longrightarrow>
   manager_ok p A (put_claim x c m)"
  by (simp add: manager_ok_def put_claim_def)

lemma manager_ok_frame [simp]:
  "manager_ok p A (m\<lparr>uuid_count := n\<rparr>) = manager_ok p A m"
  "manager_ok p A (m\<lparr>active_tasks := a\<rparr>) = manager_ok p A m"
  by (simp_all add: manager_ok_def)

lemma manager_ok_note [simp]: "manager_ok p A m \<Longrightarrow> manager_ok p A (note_status x st m)"
  by (simp add: note_status_def)

lemma manager_ok_claim:
  "manager_ok p A m \<Longrightarrow> task_claims m x = Some c \<Longrightarrow> claim_ok p x c \<and> Presents (c_token c) x \<notin> A"
  by (simp add: manager_ok_def)

lemma prefixes_ok: "manager_ok p A m \<Longrightarrow> prefixes_for_read m = [p]"
  by (auto simp: manager_ok_def prefixes_for_read_def)

lemma claim_okE:
  assumes "claim_ok p x c"
  obtains w where "c_prefix c = p" "c_inflight c = gpu_inflight_queue p w" "waiting_queue p (c_source c)"
    "plain_token (c_token c)" "c_entry c = claim_entry (c_token c) x"
  using assms by (auto simp: claim_ok_def)

lemma fences_simps [simp]:
  "fences t x = fences t' x' \<longleftrightarrow> t = t' \<and> x = x'" "fences t x \<noteq> {}"
proof -
  have "Presents t x \<in> fences t x" by (simp add: fences_def)
  moreover have "Presents t x \<in> fences t' x' \<Longrightarrow> t = t' \<and> x = x'" by (simp add: fences_def)
  ultimately show "fences t x = fences t' x' \<longleftrightarrow> t = t' \<and> x = x'" by metis
qed (simp add: fences_def)

lemma anonymous_free [simp]: "Anonymous \<notin> fences t x"
  by (simp add: fences_def)

lemma guarded_anonymous: "guarded p A v \<Longrightarrow> Anonymous \<notin> A"
  by (auto simp: guarded_def)

context redis_store
begin

lemma performs_keeps:
  assumes "performs R view p A s s'" and "guarded p A (view s)" and "fields_ok p (view s)"
  shows "guarded p A (view s') \<and> fields_ok p (view s')"
proof -
  from assms(1) obtain ls where tr: "trace R view p ls s s'" and free: "List.set ls \<inter> A = {}"
    by (auto simp: performs_def)
  have plain: "fields_ok p (view s')"
    using tr assms(3) by (induction rule: trace.induct) (auto intro: transaction_plain)
  show ?thesis
  proof (cases "A = {}")
    case True
    with plain show ?thesis by (simp add: guarded_def)
  next
    case False
    with assms(2) obtain t x w where A: "A = fences t x" and tok: "plain_token t"
      and run: "attempt_running p x t w (view s)" by (auto simp: guarded_def)
    have "attempt_running p x t w (view s')"
      using trace_fence [OF tr _ _ _ tok run assms(3)] free by (auto simp: A fences_def)
    with A tok plain show ?thesis by (auto simp: guarded_def)
  qed
qed

lemma step_transaction:
  assumes "transaction R view p l s s'" and "l \<notin> A"
  shows "step R view p A m s m s'"
  unfolding step_def sound_def
  using performs_transaction [OF assms] performs_keeps by blast

lemma step_anonymous:
  assumes "transaction R view p Anonymous s s'"
  shows "step R view p A m s m s'"
  by (rule step_sound, rule step_transaction [OF assms])
    (auto simp: sound_def dest: guarded_anonymous)

lemma step_parts:
  assumes "step R view p A m s m1 s'" and "manager_ok p A m1 \<Longrightarrow> manager_ok p A m'"
  shows "step R view p A m s m' s'"
  using assms by (auto simp: step_def sound_def)

lemma step_note: "step R view p A m s m1 s' \<Longrightarrow> step R view p A m s (note_status y st m1) s'"
  by (erule step_parts) simp

lemma step_pop: "step R view p A m s m1 s' \<Longrightarrow> step R view p A m s (pop_claim y m1) s'"
  by (erule step_parts) simp

lemma rget_hgetall [store_simps]:
  "rget f (r_hgetall R k s) = (case hashes (view s) k f of Some x \<Rightarrow> x | None \<Rightarrow> [])"
  by (simp add: rget_def hgetall)

lemma hgetall_nil: "r_hgetall R k s = [] \<longleftrightarrow> hashes (view s) k = Map.empty"
  using hgetall [of k s] by (auto simp: map_of_eq_empty)

subsection \<open>Operations on a claim\<close>

lemma claim_gpu_task_op_step:
  assumes "claim_gpu_task_op R E p wk src m s = (r, m', s')" and "waiting_queue p src" and "uuids_ok E"
  shows "step R view p A m s m' s'"
    and "sound view p A m s \<Longrightarrow> r = Some y \<Longrightarrow> (\<forall>t. A \<noteq> fences t y)"
proof -
  let ?tok = "e_uuid E (uuid_count m)"
  let ?op = "claim_gpu_task R src (gpu_inflight_queue p wk) ?tok wk (instance_id m) (p @ '':task:'') 32 s"
  have tok: "plain_token ?tok" using assms(3) by (simp add: uuids_ok_def)
  have tr: "step R view p A m s m (snd ?op)"
    by (rule step_anonymous, rule transaction.claim [OF assms(2) tok])
  have other: "sound view p A m s \<Longrightarrow> fst ?op = Some x \<Longrightarrow> A \<noteq> fences t x" for t x
    using claim_refuses_running [of p x t] by (auto simp: sound_def guarded_def)
  have label: "Presents ?tok x \<notin> A" if "sound view p A m s" "fst ?op = Some x" for x
    using other [OF that] that(1) by (fastforce simp: sound_def guarded_def fences_def)
  have good: "claim_ok p x \<lparr>c_prefix = p, c_inflight = gpu_inflight_queue p wk, c_source = src,
      c_token = ?tok, c_entry = claim_entry ?tok x, c_instance = i\<rparr>" for x i
    using assms(2) tok by (simp add: claim_ok_def)
  show "step R view p A m s m' s'"
  proof (rule step_sound)
    assume s: "sound view p A m s"
    show ?thesis
      using s label assms(1)
      by (auto simp: claim_gpu_task_op_def fresh_uuid_def Let_def case_prod_beta split: option.splits
          intro!: step_parts [OF tr] manager_ok_put good)
  qed
  show "\<forall>t. A \<noteq> fences t y" if "sound view p A m s" "r = Some y"
    using other [OF that(1)] that(2) assms(1)
    by (auto simp: claim_gpu_task_op_def fresh_uuid_def Let_def split: prod.splits option.splits)
qed

lemma step_claim_transaction:
  assumes "\<And>w. plain_token (c_token c) \<Longrightarrow> waiting_queue p (c_source c) \<Longrightarrow>
      c_inflight c = gpu_inflight_queue p w \<Longrightarrow> c_entry c = claim_entry (c_token c) x \<Longrightarrow> c_prefix c = p \<Longrightarrow>
      transaction R view p (Presents (c_token c) x) s s'"
    and "task_claims m x = Some c"
  shows "step R view p A m s m s'"
proof (rule step_sound)
  assume "sound view p A m s"
  then have ok: "claim_ok p x c" and free: "Presents (c_token c) x \<notin> A"
    using manager_ok_claim [of p A m x c] assms(2) by (auto simp: sound_def)
  from ok obtain w where "c_prefix c = p" "c_inflight c = gpu_inflight_queue p w"
    "waiting_queue p (c_source c)" "plain_token (c_token c)" "c_entry c = claim_entry (c_token c) x"
    by (rule claim_okE)
  with assms(1) free show ?thesis by (intro step_transaction)
qed

lemma return_claim_step:
  "leads R view p A m s (return_claim_to_source R x m s)"
  by (auto simp: return_claim_to_source_def Let_def case_prod_beta split: option.split
      intro!: step_parts [OF step_claim_transaction] transaction.return)

lemma acknowledge_step:
  "step R view p A m s (fst (acknowledge_task_claim R x rel m s)) (snd (acknowledge_task_claim R x rel m s))"
  by (auto simp: acknowledge_task_claim_def Let_def case_prod_beta split: option.split
      intro!: step_parts [OF step_claim_transaction] transaction.ack)

lemma freeze_step:
  "leads R view p A m s (freeze_task_claim R E x reason m s)"
  by (auto simp: freeze_task_claim_def Let_def case_prod_beta split: option.split
      intro!: step_parts [OF step_claim_transaction] transaction.freeze)

lemma mark_processing_step:
  assumes "waiting_queue p src"
  shows "leads R view p A m s (mark_claim_processing_op R E p x d wk (gpu_inflight_queue p wk) src m s)"
  using assms
  by (auto simp: mark_claim_processing_op_def Let_def case_prod_beta split: option.split
      intro!: step_parts [OF step_claim_transaction] transaction.mark_gpu)

lemma mark_cpu_step: "step R view p A m s m (snd (mark_cpu_processing R E p x d s))"
  by (auto simp: mark_cpu_processing_def Let_def case_prod_beta intro!: step_anonymous transaction.mark_cpu)

lemma requeue_step:
  "leads R view p A m s (requeue_unstarted_task R C E d reason src rf re m s)"
  unfolding requeue_unstarted_task_def Let_def case_prod_beta
  by (auto split: option.split intro!: step_parts [OF step_claim_transaction] transaction.requeue)

end

end
