(* ===== verification/RefinePublish.thy ===== *)
theory RefinePublish
  imports Refinement MemRedis
begin

section \<open>The refinement, continued: submission, publication, removal\<close>

lemma task_status_value_terminal:
  "status_value (task_status_from_result_payload d) \<in> set terminal_statuses"
  by (simp add: task_status_from_result_payload_def Let_def)

lemma map_of_rev_distinct: "distinct (map fst xs) \<Longrightarrow> map_of (rev xs) = map_of xs"
  by (simp add: map_of_inject_set flip: rev_map)

lemma terminal_mapping_claim_cleared:
  assumes "map_of fvs ''status'' = Some st" and "st \<in> set terminal_statuses" and "distinct (map fst fvs)"
    and "\<forall>f \<in> fst ` set fvs. f \<notin> fst ` set clear_claim_fields"
  shows "terminal_mapping (fvs @ clear_claim_fields)"
proof -
  have dist: "distinct (map fst (fvs @ clear_claim_fields))"
    using assms(3,4) by (auto simp: clear_claim_fields_def)
  have "map_of (rev (fvs @ clear_claim_fields)) = map_of (fvs @ clear_claim_fields)"
    using dist by (intro map_of_rev_distinct)
  then show ?thesis
    using assms unfolding terminal_mapping_def
    by (auto simp: clear_claim_fields_def map_add_def split: option.splits dest!: map_of_SomeD)
qed

context json_redis
begin

lemma string_object_fields: "cjson_fields R (json_dumps C (string_object fvs)) = fvs"
  by (induction fvs) (auto simp: string_object_def cjson_fields_dumps arg_string)

lemma adopt_claim_ok:
  assumes "adopt_claim p y (r_hgetall R (task_key p y) s) b = Inr (Some c)" and "fields_ok p (view s)"
  shows "b \<and> (\<exists>w. c_inflight c = gpu_inflight_queue p w) \<and> plain_token (c_token c) \<and>
    c_entry c = claim_entry (c_token c) y"
proof -
  have plain: "\<And>f z. hashes (view s) (task_key p y) f = Some z \<Longrightarrow> field_ok p f z"
    using assms(2) by (simp add: fields_ok_def)
  show ?thesis
    using assms(1) plain [of "''claim_token''"] plain [of "''claim_inflight_queue''"]
    by (auto simp: adopt_claim_def Let_def rget_hgetall field_ok_def plain_token_def
        split: if_splits option.splits)
qed

lemma adopt_none:
  assumes "adopt_claim p y (r_hgetall R (task_key p y) s) b = Inr None" and "guarded p A (view s)"
  shows "Unfenced y \<notin> A"
  using assms
  by (auto simp: adopt_claim_def Let_def rget_hgetall guarded_def fences_def attempt_running_def
      plain_token_def split: if_splits option.splits)

lemma finalize_records_step:
  assumes "\<And>c. claim = Some c \<Longrightarrow> claim_ok p y c \<and> Presents (c_token c) y \<notin> A"
    and "allow_cp \<Longrightarrow> A = {}" and "terminal_mapping (tm @ clear_claim_fields)"
  shows "leads R view p A m s (finalize_task_records R C cfg p y tm rm claim allow_cp allow_frozen m s)"
proof (rule leads_sound)
  assume s: "sound view p A m s"
  have tm: "terminal_mapping (cjson_fields R (json_dumps C (string_object (tm @ clear_claim_fields))))"
    using assms(3) by (simp only: string_object_fields)
  have fin: "step R view p A m s m (snd (finalize_claim R (task_key p y) (result_key p y) (c_inflight c)
      (c_token c) (c_entry c) (json_dumps C (string_object (tm @ clear_claim_fields)))
      (json_dumps C (string_object rm)) a b allow_frozen s))"
    if "c_inflight c = gpu_inflight_queue p w" "plain_token (c_token c)"
      "c_entry c = claim_entry (c_token c) y" "Presents (c_token c) y \<notin> A" for c w a b
    unfolding that(1,3) by (rule step_transaction [OF transaction.finalize [OF that(2) tm] that(4)])
  show ?thesis
  proof (cases claim)
    case (Some c)
    with assms(1) obtain w where "c_inflight c = gpu_inflight_queue p w" "plain_token (c_token c)"
      "c_entry c = claim_entry (c_token c) y" "Presents (c_token c) y \<notin> A"
      by (auto simp: claim_ok_def)
    note f = fin [OF this]
    show ?thesis
      using Some by (auto simp: finalize_task_records_def Let_def case_prod_beta intro!: step_parts [OF f])
  next
    case None
    show ?thesis
    proof (cases "adopt_claim p y (r_hgetall R (task_key p y) s) allow_cp")
      case (Inl e)
      with None show ?thesis by (simp add: finalize_task_records_def Let_def)
    next
      case (Inr found)
      show ?thesis
      proof (cases found)
        case (Some c)
        with Inr have a: "adopt_claim p y (r_hgetall R (task_key p y) s) allow_cp = Inr (Some c)" by simp
        from adopt_claim_ok [OF a] s obtain w where "c_inflight c = gpu_inflight_queue p w"
          "plain_token (c_token c)" "c_entry c = claim_entry (c_token c) y" "Presents (c_token c) y \<notin> A"
          using assms(2) by (auto simp: sound_def)
        note f = fin [OF this]
        show ?thesis
          using None a by (auto simp: finalize_task_records_def Let_def case_prod_beta intro!: step_parts [OF f])
      next
        case n: None
        with Inr have a: "adopt_claim p y (r_hgetall R (task_key p y) s) allow_cp = Inr None" by simp
        have "Unfenced y \<notin> A" using adopt_none [OF a] s by (simp add: sound_def)
        note f = step_transaction [OF transaction.publish [OF assms(3)] this]
        show ?thesis
          using None a by (auto simp: finalize_task_records_def Let_def intro!: step_parts [OF f])
      qed
    qed
  qed
qed

lemma finalize_result_step:
  assumes "finalize_task_records R C cfg p y tm rm claim allow_cp allow_frozen m s = (r, m1, s1)"
    and "\<And>c. claim = Some c \<Longrightarrow> claim_ok p y c \<and> Presents (c_token c) y \<notin> A"
    and "allow_cp \<Longrightarrow> A = {}" and "terminal_mapping (tm @ clear_claim_fields)"
  shows "step R view p A m s m1 s1"
proof -
  have "leads R view p A m s (finalize_task_records R C cfg p y tm rm claim allow_cp allow_frozen m s)"
    by (rule finalize_records_step) (use assms(2-4) in auto)
  with assms(1) show ?thesis by simp
qed

lemma completion_terminal:
  "terminal_mapping (completion_fields (task_status_from_result_payload d) t @ clear_claim_fields)"
  using task_status_value_terminal [of d]
  by (intro terminal_mapping_claim_cleared) (auto simp: completion_fields_def clear_claim_fields_def)

lemma failure_terminal:
  "terminal_mapping ([(''status'', status_value (task_status_from_result_payload d)),
     (if b then ''timeout_at'' else ''failed_at'', t)] @ clear_claim_fields)"
  using task_status_value_terminal [of d]
  by (intro terminal_mapping_claim_cleared) (auto simp: clear_claim_fields_def)

lemma own_claim:
  "sound view p A m s \<Longrightarrow> task_claims m y = Some c \<Longrightarrow> claim_ok p y c \<and> Presents (c_token c) y \<notin> A"
  using manager_ok_claim by (auto simp: sound_def)

lemma own_prefix:
  assumes "sound view p A m s"
  shows "(case task_claims m y of Some c \<Rightarrow> c_prefix c | None \<Rightarrow> key_prefix m) = p"
  using own_claim [OF assms, of y] assms
  by (auto simp: claim_ok_def sound_def manager_ok_def split: option.split)

lemma complete_task_step:
  "leads R view p A m s (complete_task R C cfg E y result h m s)"
proof (rule leads_sound)
  assume s: "sound view p A m s"
  show ?thesis
    unfolding complete_task_def Let_def own_prefix [OF s]
    by (auto split: option.split sum.split prod.split
        dest!: finalize_result_step [OF _ own_claim [OF s] _ completion_terminal] intro: step_note)
qed

lemma fail_task_step:
  assumes "adopt \<Longrightarrow> A = {}" and "pfx_arg \<in> {None, Some p}"
  shows "leads R view p A m s (fail_task R C cfg E y msg code pfx_arg adopt frozen m s)"
proof (rule leads_sound)
  assume s: "sound view p A m s"
  then have "p \<noteq> []" by (simp add: sound_def manager_ok_def)
  with assms(2) own_prefix [OF s, of y]
  have pfx: "(case pfx_arg of None \<Rightarrow> (case task_claims m y of Some c \<Rightarrow> c_prefix c | None \<Rightarrow> key_prefix m)
      | Some q \<Rightarrow> if q = [] then key_prefix m else q) = p"
    by auto
  let ?st = "task_status_from_result_payload [(''status'', JStr ''failed''), (''error_code'', JStr code)]"
  let ?k = "if ?st = TIMEOUT then ''timeout_at'' else ''failed_at''"
  define F where "F = finalize_task_records R C cfg p y [(''status'', status_value ?st), (?k, e_iso E s)]
    [(''error'', msg), (?k, e_iso E s), (''error_code'', code)] (task_claims m y) adopt frozen m s"
  have "leads R view p A m s F"
    unfolding F_def by (rule finalize_records_step [OF own_claim [OF s] assms(1) failure_terminal])
  then show ?thesis
    unfolding fail_task_def Let_def pfx F_def [symmetric]
    by (cases F) (auto split: sum.split intro: step_note)
qed

lemma mark_cancelled_step:
  "step R view p A m s m (mark_task_cancelled R cfg E y p s)"
  unfolding mark_task_cancelled_def by (rule step_anonymous [OF transaction.cancel])

lemma submission_fields_ok:
  "submission_mapping (cjson_fields R (json_dumps C (JObj (submission_fields C m y pr t aw aa d))))"
proof -
  let ?W = "map (\<lambda>f. (f, dget f d)) (filter (\<lambda>f. dhas f d) workflow_fields)"
  have W: "fst ` List.set ?W \<subseteq> List.set workflow_fields" by auto
  then have "''status'' \<notin> fst ` List.set ?W" "\<forall>f \<in> {''claim_token'', ''claim_source_queue'', ''claim_inflight_queue''}. f \<notin> fst ` List.set ?W"
    by (auto simp: workflow_fields_def)
  moreover from this(1) have "map_of (rev (map (\<lambda>(k, v). (k, lua_arg R v)) ?W)) ''status'' = None"
    by (force simp: map_of_eq_None_iff)
  moreover have "''claim_token'' \<notin> List.set workflow_fields" "''claim_source_queue'' \<notin> List.set workflow_fields"
    "''claim_inflight_queue'' \<notin> List.set workflow_fields" by (simp_all add: workflow_fields_def)
  ultimately show ?thesis
    by (auto simp: submission_mapping_def cjson_fields_dumps submission_fields_def arg_string map_add_def
        simp del: filter.simps)
qed

lemma manager_ok_remember: "manager_ok p A m \<Longrightarrow> manager_ok p A (remember_worker_queue w m)"
  by (auto simp: manager_ok_def remember_worker_queue_def)

lemma submit_if_absent_step:
  assumes "waiting_queue p dest" and "d = submission_fields C m' y pr t aw aa d'" and "key_prefix m = p"
  shows "step R view p A m s m (snd (submit_if_absent_op R C m y d dest s))"
  unfolding submit_if_absent_op_def Let_def case_prod_beta assms(2,3)
  by (auto intro!: step_anonymous transaction.submit assms(1) submission_fields_ok)

lemma force_refresh_step:
  assumes "waiting_queue p dest" and "d = submission_fields C m' y pr t aw aa d'"
  shows "step R view p A m s m (snd (force_refresh_op R C m y d dest s))"
proof (rule step_sound)
  assume s: "sound view p A m s"
  let ?qs = "dedupe_first (dest # [resource_queue p ''cpu'', resource_queue p ''gpu''] @ map snd (worker_queues m))"
  have p: "key_prefix m = p" using s by (simp add: sound_def manager_ok_def)
  have "List.set ?qs = insert dest {resource_queue p ''cpu'', resource_queue p ''gpu''} \<union> snd ` List.set (worker_queues m)"
    by (auto simp: dedupe_first_def)
  then have all: "\<forall>q \<in> List.set ?qs. waiting_queue p q" and ne: "?qs \<noteq> []"
    using s assms(1) by (auto simp: sound_def manager_ok_def)
  then have "waiting_queue p (hd ?qs)" "\<forall>q \<in> List.set (tl ?qs). waiting_queue p q"
    by (auto dest: list.set_sel(2))
  then show ?thesis
    unfolding force_refresh_op_def Let_def case_prod_beta p assms(2)
    by (auto intro!: step_anonymous transaction.refresh submission_fields_ok)
qed

lemma submit_store_step:
  assumes "waiting_queue p q" and "fm = submission_fields C m' y pr t aw aa d'"
    and "manager_ok p A m \<Longrightarrow> manager_ok p A m2"
  shows "leads R view p A m s
    (if b then (case force_refresh_op R C m y fm q s of (Inl e, s1) \<Rightarrow> (Inl e, m, s1) | (Inr _, s1) \<Rightarrow> (Inr y, m2, s1))
     else (case submit_if_absent_op R C m y fm q s of (Inl e, s1) \<Rightarrow> (Inl e, m, s1)
       | (Inr created, s1) \<Rightarrow> (Inr y, if created then m2 else m, s1)))"
proof (rule leads_sound)
  assume s: "sound view p A m s"
  then have p: "key_prefix m = p" by (simp add: sound_def manager_ok_def)
  note f = force_refresh_step [OF assms(1,2), of A m s] and g = submit_if_absent_step [OF assms(1,2) p, of A s]
  show ?thesis
    using f g step_parts [OF f assms(3)] step_parts [OF g assms(3)]
    by (auto split: sum.split prod.split)
qed

lemma leads_json_string:
  assumes "\<And>x. v = Some (JStr x) \<Longrightarrow> leads R view p A m s (f x)"
  shows "leads R view p A m s (case v of None \<Rightarrow> (e1, m, s) | Some (JStr x) \<Rightarrow> f x | Some _ \<Rightarrow> (e2, m, s))"
  using assms by (auto split: option.split json.split)

lemma submit_task_step:
  "leads R view p A m s (submit_task R C cfg E tks bks d m s)"
proof (rule leads_sound)
  assume s: "sound view p A m s"
  have p: "key_prefix m = p" using s by (simp add: sound_def manager_ok_def)
  have r: "step R view p A m s (if b then remember_worker_queue w m else m) s" for w b
    by (auto intro!: step_manager manager_ok_remember)
  show ?thesis
    unfolding submit_task_def Let_def p
    by (intro leads_step [OF r submit_store_step [OF _ refl]] leads_if leads_json_string) simp_all
qed

end

end
