(* ===== verification/RefineDispatch.thy ===== *)
theory RefineDispatch
  imports RefinePublish
begin

section \<open>The refinement, continued: recovery and dispatch\<close>

lemma py_partition_split:
  assumes "py_partition c xs = (a, True, b)"
  shows "xs = a @ c # b \<and> c \<notin> set a"
proof -
  have a: "a = takeWhile (\<lambda>x. x \<noteq> c) xs" and ne: "dropWhile (\<lambda>x. x \<noteq> c) xs \<noteq> []"
    and b: "b = tl (dropWhile (\<lambda>x. x \<noteq> c) xs)"
    using assms by (auto simp: py_partition_def Let_def)
  have "hd (dropWhile (\<lambda>x. x \<noteq> c) xs) = c" using hd_dropWhile [OF ne] by simp
  then have "dropWhile (\<lambda>x. x \<noteq> c) xs = c # b" using ne b by (metis list.collapse)
  then have "xs = a @ c # b" unfolding a by (metis takeWhile_dropWhile_id)
  moreover have "c \<notin> set a" unfolding a by (auto dest: set_takeWhileD)
  ultimately show ?thesis by simp
qed

context json_redis
begin

lemma leads_each:
  assumes "\<And>x m s. x \<in> List.set xs \<Longrightarrow> leads R view p A m s (f x m s)"
  shows "leads R view p A m s (each f xs m s)"
  using assms
proof (induction xs arbitrary: m s)
  case Nil
  then show ?case by simp
next
  case (Cons x xs)
  have "leads R view p A m s (f x m s)" by (rule Cons.prems) simp
  moreover have "\<And>m s. leads R view p A m s (each f xs m s)" by (rule Cons.IH) (use Cons.prems in auto)
  ultimately show ?case
    by (cases "f x m s") (auto split: sum.split intro: leads_step)
qed

lemma close_cancelled_step:
  "step R view p A m s (fst (close_cancelled_claim R C cfg E p y rel m s))
    (snd (close_cancelled_claim R C cfg E p y rel m s))"
proof -
  have f: "leads R view p A m s (fail_task R C cfg E y msg code (Some p) False rel m s)" for msg code
    by (rule fail_task_step) auto
  have noted: "step R view p A m' s' m' (r_hset R (task_key p y) ''cancelled_at'' t s')" for m' s' t
    by (rule step_anonymous [OF transaction.note_cancelled])
  show ?thesis
    unfolding close_cancelled_claim_def
    by (cases "fail_task R C cfg E y ''Task cancelled'' ''SYSTEM_ERROR'' (Some p) False rel m s")
      (auto split: sum.split dest!: leads_result [OF f] intro: step_pop step_trans noted)
qed

lemma recovered_claim_ok:
  assumes "py_partition (CHR ''|'') entry = (token, True, y)" and "token \<noteq> []"
    and "fields_ok p (view s)"
  shows "claim_ok p y (recovered_claim p wk token entry (r_hgetall R (task_key p y) s) d)"
proof -
  have "entry = claim_entry token y" "plain_token token"
    using py_partition_split [OF assms(1)] assms(2) by (auto simp: claim_entry_def plain_token_def)
  moreover have "hashes (view s) (task_key p y) ''claim_source_queue'' = Some q \<Longrightarrow> q \<noteq> [] \<Longrightarrow> waiting_queue p q" for q
    using assms(3) by (auto simp: fields_ok_def field_ok_def)
  ultimately show ?thesis
    by (auto simp: claim_ok_def recovered_claim_def rget_hgetall split: option.split)
qed

lemma drop_entry_step:
  assumes "py_partition (CHR ''|'') entry = (token, True, y)" and "token \<noteq> []"
    and "rget ''claim_token'' (r_hgetall R (task_key p y) s) \<noteq> token"
  shows "step R view p A m s m (lrem' R (gpu_inflight_queue p wk) 1 entry s)"
proof -
  have e: "entry = claim_entry token y" and tok: "plain_token token"
    using py_partition_split [OF assms(1)] assms(2) by (auto simp: claim_entry_def plain_token_def)
  have "hashes (view s) (task_key p y) ''claim_token'' \<noteq> Some token"
    using assms(3) by (auto simp: rget_hgetall)
  then show ?thesis unfolding e by (intro step_anonymous transaction.drop_entry tok)
qed

lemma recover_tail:
  "leads R view p A m s
    (if b then (Inr (), acknowledge_task_claim R y rel m s)
     else if c then (Inr (), close_cancelled_claim R C cfg E p y rel m s)
     else (case requeue_unstarted_task R C E d reason True rel False m s of
        (Inl e, m2, s2) \<Rightarrow> (Inl e, m2, s2) | (Inr _, m2, s2) \<Rightarrow> (Inr (), m2, s2)))"
proof (intro leads_if)
  show "leads R view p A m s (Inr (), acknowledge_task_claim R y rel m s)"
    unfolding leads_def using acknowledge_step by simp
  show "leads R view p A m s (Inr (), close_cancelled_claim R C cfg E p y rel m s)"
    unfolding leads_def using close_cancelled_step by simp
  show "leads R view p A m s (case requeue_unstarted_task R C E d reason True rel False m s of
        (Inl e, m2, s2) \<Rightarrow> (Inl e, m2, s2) | (Inr _, m2, s2) \<Rightarrow> (Inr (), m2, s2))"
    using requeue_step [of p A m s C E d reason True rel False]
    by (cases "requeue_unstarted_task R C E d reason True rel False m s") (auto split: sum.split)
qed

lemma recover_entry_step:
  assumes "rel \<Longrightarrow> A = {}"
  shows "leads R view p A m s (recover_entry R C cfg E p wk rel entry m s)"
proof (rule leads_sound)
  assume s: "sound view p A m s"
  obtain token sep y where part: "py_partition (CHR ''|'') entry = (token, sep, y)"
    by (cases "py_partition (CHR ''|'') entry")
  let ?h = "r_hgetall R (task_key p y) s"
  show ?thesis
  proof (cases "sep \<and> token \<noteq> [] \<and> y \<noteq> []")
    case False
    with part show ?thesis by (auto simp: recover_entry_def)
  next
    case True
    with part have part': "py_partition (CHR ''|'') entry = (token, True, y)" by simp
    have drop: "rget ''claim_token'' ?h \<noteq> token \<Longrightarrow>
        step R view p A m s m (lrem' R (gpu_inflight_queue p wk) 1 entry s)"
      by (rule drop_entry_step [OF part']) (use True in auto)
    have empty: "?h = [] \<Longrightarrow> rget ''claim_token'' ?h \<noteq> token"
      using True by (auto simp: rget_def)
    have put: "step R view p A m s (put_claim y (recovered_claim p wk token entry ?h d) m) s"
      if "rget ''claim_token'' ?h = token" "rget ''claim_recovery_state'' ?h = [] \<or> rel" for d
    proof (rule step_manager, rule manager_ok_put)
      show "claim_ok p y (recovered_claim p wk token entry ?h d)"
        by (rule recovered_claim_ok [OF part']) (use True s in \<open>auto simp: sound_def\<close>)
      show "Presents (c_token (recovered_claim p wk token entry ?h d)) y \<notin> A"
        using that s assms
        by (auto simp: recovered_claim_def sound_def guarded_def fences_def attempt_running_def rget_hgetall)
    qed
    show ?thesis
      unfolding recover_entry_def Let_def part' prod.case
      by (intro leads_if leads_step [OF put recover_tail]) (use True drop empty in auto)
  qed
qed

lemma recover_gpu_inflight_step:
  assumes "rel \<Longrightarrow> A = {}"
  shows "leads R view p A m s (recover_gpu_inflight R C cfg E wk rel m s)"
proof (rule leads_sound)
  assume "sound view p A m s"
  then have only: "prefixes_for_read m = [p]" by (auto simp: sound_def dest: prefixes_ok)
  have entries: "leads R view p A m s (recover_gpu_inflight_prefix R C cfg E wk rel p m s)" for m s
    unfolding recover_gpu_inflight_prefix_def Let_def by (intro leads_each recover_entry_step assms)
  show ?thesis
    unfolding recover_gpu_inflight_def only by (rule leads_each) (use entries in simp)
qed

subsection \<open>Dispatch\<close>

lemma leads_here: "leads R view p A m s (r, m, s)"
  by simp

lemma pop_task_step:
  assumes "waiting_queue p q" and "uuids_ok E"
  shows "leads R view p A m s (pop_task R E p wk is_gpu q m s)"
proof (cases is_gpu)
  case True
  obtain r m1 s1 where op: "claim_gpu_task_op R E p wk q m s = (r, m1, s1)"
    by (cases "claim_gpu_task_op R E p wk q m s")
  from claim_gpu_task_op_step(1) [OF op assms] show ?thesis
    by (simp add: pop_task_def True op)
next
  case False
  then show ?thesis
    by (auto simp: pop_task_def Let_def case_prod_beta intro!: step_anonymous transaction.dequeue assms(1))
qed

lemma drop_task_step:
  "step R view p A m s (fst (drop_task R is_gpu y m s)) (snd (drop_task R is_gpu y m s))"
  by (simp add: drop_task_def acknowledge_step)

lemma start_attempt_step:
  assumes "waiting_queue p q"
  shows "leads R view p A m s (start_attempt R C cfg E p wk is_gpu y d q reason m s)"
proof -
  have requeue: "leads R view p A m s
      (case requeue_unstarted_task R C E d reason False False False m s of
         (Inl e, m1, s1) \<Rightarrow> (Raise e, m1, s1) | (Inr _, m1, s1) \<Rightarrow> (Return None, m1, s1))"
    using requeue_step [of p A m s C E d reason False False False]
    by (cases "requeue_unstarted_task R C E d reason False False False m s") (auto split: sum.split)
  have mark: "leads R view p A m s
      (case mark_claim_processing_op R E p y d wk (gpu_inflight_queue p wk) q m s of
         (Inl e, m1, s1) \<Rightarrow> (Raise e, m1, s1)
       | (Inr begun, m1, s1) \<Rightarrow> (if begun then Return (Some d) else NextPrefix, m1, s1))"
    using mark_processing_step [OF assms, of A m s E y d wk]
    by (cases "mark_claim_processing_op R E p y d wk (gpu_inflight_queue p wk) q m s") (auto split: sum.split)
  have cpu: "leads R view p A m s (case mark_cpu_processing R E p y d s of
         (begun, s1) \<Rightarrow> (if begun then Return (Some d) else NextPrefix, m, s1))"
    using mark_cpu_step [of p A m s E y d] by (cases "mark_cpu_processing R E p y d s") auto
  show ?thesis
    unfolding start_attempt_def by (intro leads_if requeue mark cpu)
qed

lemma direct_phase_step:
  assumes "uuids_ok E"
  shows "leads R view p A m s (direct_phase R C cfg E p wk is_gpu m s)"
proof -
  obtain r m1 s1 where pop: "pop_task R E p wk is_gpu (worker_queue p wk) m s = (r, m1, s1)"
    by (cases "pop_task R E p wk is_gpu (worker_queue p wk) m s")
  have st: "step R view p A m s m1 s1"
    by (rule leads_result [OF pop_task_step pop]) (simp_all add: assms)
  have dropped: "leads R view p A m1 s1 (Fall, drop_task R is_gpu y m1 s1)" for y
    unfolding leads_def using drop_task_step by simp
  show ?thesis
    unfolding direct_phase_def Let_def pop
    by (rule leads_step [OF st])
      (auto split: option.split loaded.split simp del: leads_pair intro!: dropped start_attempt_step leads_if leads_here)
qed

lemma scan_resource_step:
  assumes "waiting_queue p q" and "uuids_ok E"
  shows "step R view p A m s
    (fst (snd (snd (scan_resource R C cfg E p wk info is_gpu q n deferred m s))))
    (snd (snd (snd (scan_resource R C cfg E p wk info is_gpu q n deferred m s))))"
proof (induction n arbitrary: deferred m s)
  case 0
  then show ?case by simp
next
  case (Suc n)
  obtain r m1 s1 where pop: "pop_task R E p wk is_gpu q m s = (r, m1, s1)"
    by (cases "pop_task R E p wk is_gpu q m s")
  have st: "step R view p A m s m1 s1"
    by (rule leads_result [OF pop_task_step pop]) (simp_all add: assms)
  show ?case
  proof (cases r)
    case None
    with st pop show ?thesis by simp
  next
    case (Some y)
    obtain m2 s2 where drop: "drop_task R is_gpu y m1 s1 = (m2, s2)"
      by (cases "drop_task R is_gpu y m1 s1")
    have st2: "step R view p A m1 s1 m2 s2"
      using drop_task_step [of p A m1 s1 is_gpu y] drop by simp
    define X where "X d reason = start_attempt R C cfg E p wk is_gpu y d q reason m1 s1" for d reason
    define out m3 s3 where "out d reason = fst (X d reason)" and "m3 d reason = fst (snd (X d reason))"
      and "s3 d reason = snd (snd (X d reason))" for d reason
    then have start: "start_attempt R C cfg E p wk is_gpu y d q reason m1 s1 =
      (out d reason, m3 d reason, s3 d reason)" for d reason
      by (simp add: X_def)
    have st3: "step R view p A m1 s1 (m3 d reason) (s3 d reason)" for d reason
      by (rule leads_result [OF start_attempt_step [OF assms(1)] start])
    note go = step_trans [OF st] step_trans [OF st step_trans [OF st2 Suc.IH]]
      step_trans [OF st step_trans [OF st3 Suc.IH]] step_trans [OF st st3] step_trans [OF st Suc.IH]
    show ?thesis
      by (simp only: scan_resource.simps pop Some prod.case option.case start drop)
        (auto split: loaded.split flow.split intro: st go)
  qed
qed

lemma return_deferred_step:
  assumes "waiting_queue p q"
  shows "leads R view p A m s (return_deferred R is_gpu q ys m s)"
proof -
  have pushed: "step R view p A m s m (fold (r_lpush R q) ys s)"
  proof (induction ys arbitrary: s)
    case (Cons y ys)
    show ?case
      using step_trans [OF step_anonymous [OF transaction.put_back [OF assms]] Cons] by simp
  qed simp
  show ?thesis
    unfolding return_deferred_def
    by (intro leads_if leads_each return_claim_step) (simp add: pushed)
qed

lemma resource_phase_step:
  assumes "uuids_ok E"
  shows "leads R view p A m s (resource_phase R C cfg E p wk info is_gpu resource m s)"
proof -
  let ?q = "resource_queue p resource" and ?n = "nat (max 1 (worker_queue_wait_scan_limit cfg))"
  obtain out deferred m1 s1 where scan:
    "scan_resource R C cfg E p wk info is_gpu ?q ?n [] m s = (out, deferred, m1, s1)"
    by (cases "scan_resource R C cfg E p wk info is_gpu ?q ?n [] m s")
  have st: "step R view p A m s m1 s1"
    using scan_resource_step [OF _ assms, where q = ?q and n = ?n and deferred = "[]"] scan
    by (metis fst_conv snd_conv waiting_queue_resource)
  have "leads R view p A m1 s1 (return_deferred R is_gpu ?q deferred m1 s1)"
    by (rule return_deferred_step) simp
  then have "leads R view p A m1 s1 (case return_deferred R is_gpu ?q deferred m1 s1 of
      (Inl e, m2, s2) \<Rightarrow> (Raise e, m2, s2) | (Inr _, m2, s2) \<Rightarrow> (out, m2, s2))"
    by (cases "return_deferred R is_gpu ?q deferred m1 s1") (auto split: sum.split)
  with st show ?thesis
    unfolding resource_phase_def Let_def scan by (auto intro: leads_step)
qed

lemma resource_phases_step:
  assumes "uuids_ok E"
  shows "leads R view p A m s (resource_phases R C cfg E p wk info is_gpu rs m s)"
proof (induction rs arbitrary: m s)
  case Nil
  then show ?case by simp
next
  case (Cons resource rs)
  obtain out m1 s1 where ph: "resource_phase R C cfg E p wk info is_gpu resource m s = (out, m1, s1)"
    by (cases "resource_phase R C cfg E p wk info is_gpu resource m s")
  have "step R view p A m s m1 s1" by (rule leads_result [OF resource_phase_step [OF assms] ph])
  with Cons ph show ?case by (auto split: flow.split intro: leads_step)
qed

lemma get_next_task_step:
  assumes "uuids_ok E"
  shows "leads R view p A m s (get_next_task R C cfg E wk resources m s)"
proof (rule leads_sound)
  assume "sound view p A m s"
  then have only: "prefixes_for_read m = [p]" by (auto simp: sound_def dest: prefixes_ok)
  have run: "leads R view p A m s (dispatch_prefixes R C cfg E wk info is_gpu rs [p] m s)" for info is_gpu rs m s
  proof -
    obtain out m1 s1 where ph: "direct_phase R C cfg E p wk is_gpu m s = (out, m1, s1)"
      by (cases "direct_phase R C cfg E p wk is_gpu m s")
    obtain out2 m2 s2 where ph2: "resource_phases R C cfg E p wk info is_gpu rs m1 s1 = (out2, m2, s2)"
      by (cases "resource_phases R C cfg E p wk info is_gpu rs m1 s1")
    have "step R view p A m s m1 s1" by (rule leads_result [OF direct_phase_step [OF assms] ph])
    moreover have "step R view p A m1 s1 m2 s2"
      by (rule leads_result [OF resource_phases_step [OF assms] ph2])
    ultimately show ?thesis using ph ph2 by (auto split: flow.split intro: step_trans)
  qed
  have rec: "leads R view p A m s (recover_gpu_inflight R C cfg E wk False m s)"
    by (rule recover_gpu_inflight_step) simp
  have tail: "leads R view p A m s (case (if b then recover_gpu_inflight R C cfg E wk False m s else (Inr (), m, s)) of
      (Inl e, m1, s1) \<Rightarrow> (Inl e, m1, s1)
    | (Inr _, m1, s1) \<Rightarrow> dispatch_prefixes R C cfg E wk info is_gpu rs [p] m1 s1)" for b info is_gpu rs
    using rec run by (cases "recover_gpu_inflight R C cfg E wk False m s") (auto split: sum.split intro: leads_step)
  show ?thesis
    unfolding get_next_task_def Let_def only by (intro leads_if leads_here tail)
qed

end

end
