(* ===== verification/Decimal.thy ===== *)
theory Decimal
  imports Prelude
begin

section \<open>Decimal texts\<close>

text \<open>
  \<open>float(text)\<close> on decimal literals with an optional sign, fraction and exponent. A float is its
  exact rational value: the rounding of the literal to a double and the texts \<open>inf\<close> and \<open>nan\<close> are
  not modelled. \<open>None\<close> is \<open>ValueError\<close>.
\<close>

definition split_sign :: "str \<Rightarrow> bool \<times> str" where
  "split_sign xs = (case xs of
     [] \<Rightarrow> (False, [])
   | c # cs \<Rightarrow> if c = CHR ''-'' then (True, cs) else if c = CHR ''+'' then (False, cs) else (False, xs))"

definition scale10 :: "rat \<Rightarrow> int \<Rightarrow> rat" where
  "scale10 q e = (if e \<ge> 0 then q * 10 ^ nat e else q / 10 ^ nat (- e))"

definition parse_exponent :: "str \<Rightarrow> int option" where
  "parse_exponent xs = (case split_sign xs of (neg, ds) \<Rightarrow>
     if ds \<noteq> [] \<and> list_all is_digit ds
     then Some (if neg then - int (digits_value ds) else int (digits_value ds)) else None)"

definition parse_float :: "str \<Rightarrow> rat option" where
  "parse_float raw =
    (let (neg, xs) = split_sign (py_lower (py_strip raw));
         mantissa = takeWhile (\<lambda>c. c \<noteq> CHR ''e'') xs;
         exponent = (if mantissa = xs then Some 0 else parse_exponent (drop (Suc (length mantissa)) xs));
         whole = takeWhile (\<lambda>c. c \<noteq> CHR ''.'') mantissa;
         fraction = drop (Suc (length whole)) mantissa;
         digits = whole @ fraction
     in if digits \<noteq> [] \<and> list_all is_digit digits
        then map_option (\<lambda>e. let q = scale10 (of_nat (digits_value digits)) (e - int (length fraction))
                             in if neg then - q else q) exponent
        else None)"

text \<open>A text without point and exponent is read as \<open>int(text)\<close> reads it.\<close>

lemma digit_not:
  "is_digit c \<Longrightarrow> c \<noteq> CHR ''e'' \<and> c \<noteq> CHR ''.'' \<and> c \<noteq> CHR ''-'' \<and> c \<noteq> CHR ''+'' \<and>
     lower_char c = c \<and> \<not> is_space c"
  by (auto simp: is_digit_def lower_char_def is_space_def Let_def)

lemma takeWhile_none: "(\<And>c. c \<in> set xs \<Longrightarrow> c \<noteq> d) \<Longrightarrow> takeWhile (\<lambda>c. c \<noteq> d) xs = xs"
  by (simp add: takeWhile_eq_all_conv)

lemma py_strip_id: "(\<And>c. c \<in> set xs \<Longrightarrow> \<not> is_space c) \<Longrightarrow> py_strip xs = xs"
proof -
  assume a: "\<And>c. c \<in> set xs \<Longrightarrow> \<not> is_space c"
  have "dropWhile is_space ys = ys" if "set ys \<subseteq> set xs" for ys
    using a that by (cases ys) auto
  from this [of xs] this [of "rev xs"] show ?thesis by (simp add: py_strip_def)
qed

lemma parse_float_digits:
  assumes "ds \<noteq> []" and "list_all is_digit ds"
  shows "parse_float ds = Some (of_nat (digits_value ds))"
proof -
  have d: "\<And>c. c \<in> set ds \<Longrightarrow> is_digit c" using assms(2) by (simp add: list_all_iff)
  have "py_strip ds = ds" using d digit_not by (intro py_strip_id) auto
  moreover have "py_lower ds = ds" using d digit_not by (simp add: py_lower_def map_idI)
  moreover have "split_sign ds = (False, ds)" using assms d digit_not
    by (auto simp: split_sign_def split: list.split)
  moreover have "takeWhile (\<lambda>c. c \<noteq> CHR ''e'') ds = ds" "takeWhile (\<lambda>c. c \<noteq> CHR ''.'') ds = ds"
    using d digit_not by (auto intro!: takeWhile_none simp del: takeWhile_eq_all_conv)
  ultimately show ?thesis using assms by (simp add: parse_float_def scale10_def del: takeWhile_eq_all_conv)
qed

lemma parse_float_int_text: "0 \<le> i \<Longrightarrow> parse_float (int_text i) = Some (of_int i)"
  using parse_float_digits [OF nat_digits_nonempty, of "nat i"] nat_digits_digit
  by (simp add: int_text_def list_all_iff digits_value_nat_digits)

end
