(* ===== verification/Lifecycle.thy ===== *)
theory Lifecycle
  imports Publish Decimal RefinePublish
begin

section \<open>The workflow lifecycle\<close>

text \<open>
  The class \<open>WorkflowLifecycle\<close> of \<open>kernelgym/server/workflow_lifecycle.py\<close> over the scripts of
  \<open>LifecycleScripts\<close>, and the two operations of the manager that read or stop a parent workflow.
  The coroutines of \<open>run\<close> -- the controller, the lease heartbeat and the deadline -- are the
  argument \<open>outcome\<close>, which says how waiting for them ended. \<open>wait\<close> polls; what other processes do
  while it sleeps is an argument. The five-second limits around single Redis calls are not
  modelled.
\<close>

definition wf_read :: "'s redis \<Rightarrow> tmgr \<Rightarrow> str \<Rightarrow> 's \<Rightarrow> rhash" where
  "wf_read R m task_id s = r_hgetall R (task_key (key_prefix m) task_id) s"

definition stage_children :: "str \<Rightarrow> str \<Rightarrow> dict" where
  "stage_children task_id generation =
     map (\<lambda>stage. (stage, JStr (task_id @ ''_'' @ stage @ ''_'' @ generation))) stage_names"

definition wf_accept ::
  "'s redis \<Rightarrow> codec \<Rightarrow> settings \<Rightarrow> 's env \<Rightarrow> str \<Rightarrow> str \<Rightarrow> str \<Rightarrow> rat \<Rightarrow> bool \<Rightarrow> tmgr \<Rightarrow> 's \<Rightarrow>
   (tm_error + bool \<times> rhash) \<times> tmgr \<times> 's" where
  "wf_accept R C cfg E task_id request_hash name timeout force m s =
    (let p = key_prefix m;
         (generation, m1) = fresh_uuid E m;
         (result, s1) = accept_workflow R (task_key p task_id) (result_key p task_id)
           (workflow_key p task_id) (cancel_key p task_id) (active_key p) (tombstone_key p task_id)
           task_id generation request_hash name timeout (workflow_lease_ms cfg) force (e_iso E s)
           (json_dumps C (JObj (stage_children task_id generation))) s
     in if result < 0 then (Inl WorkflowConflict, m1, s1)
        else (Inr (result = 1, wf_read R m1 task_id s1), m1, s1))"

definition wf_renew :: "'s redis \<Rightarrow> settings \<Rightarrow> 's env \<Rightarrow> str \<Rightarrow> str \<Rightarrow> tmgr \<Rightarrow> 's \<Rightarrow> bool \<times> 's" where
  "wf_renew R cfg E task_id generation m s =
    (let p = key_prefix m;
         (code, s1) = renew_workflow R (task_key p task_id) (workflow_key p task_id) generation
                        (workflow_lease_ms cfg) (e_iso E s) s
     in (code \<noteq> 0, s1))"

definition wf_failure :: "str \<Rightarrow> str \<Rightarrow> dict" where
  "wf_failure task_id reason =
     [(''task_id'', JStr task_id), (''status'', JStr ''failed''), (''error_message'', JStr reason),
      (''error_code'', JStr ''SYSTEM_ERROR''), (''compiled'', JBool False), (''correctness'', JBool False),
      (''decoy_kernel'', JBool False), (''speedup'', JFloat ''0.0''), (''kernel_runtime'', JFloat ''-1.0''),
      (''reference_runtime'', JFloat ''-1.0''), (''metadata'', JObj [])]"

definition wf_finish ::
  "'s redis \<Rightarrow> codec \<Rightarrow> settings \<Rightarrow> 's env \<Rightarrow> str \<Rightarrow> str \<Rightarrow> dict \<Rightarrow> str \<Rightarrow> tmgr \<Rightarrow> 's \<Rightarrow> bool \<times> 's" where
  "wf_finish R C cfg E task_id generation result reason m s =
    (let p = key_prefix m;
         (code, s1) = finish_workflow R (task_key p task_id) (result_key p task_id)
           (workflow_key p task_id) (cancel_key p task_id) (active_key p)
           (children_key p task_id generation) generation (json_dumps C (JObj result)) (e_iso E s)
           (terminal_task_ttl_sec cfg) (terminal_result_ttl_sec cfg) task_id reason p s
     in (code \<noteq> 0, s1))"

subsection \<open>One controller run\<close>

datatype outcome =
    Returned dict
  | LeaseLost \<comment> \<open>the heartbeat raised \<open>WorkflowStoppedError\<close>\<close>
  | DeadlinePassed
  | ShutDown
  | Crashed str str \<comment> \<open>the type and the text of an exception of the controller\<close>

definition crash_reason :: "str \<Rightarrow> str \<Rightarrow> str" where
  "crash_reason exc_type message = ''Workflow controller failed: '' @ exc_type @ '': '' @ message"

text \<open>The deadline raises \<open>TimeoutError\<close>; one that the controller raises is not told apart from it.\<close>

definition deadline_verdict :: "str \<Rightarrow> str \<times> dict" where
  "deadline_verdict task_id =
    (let reason = ''Workflow end-to-end deadline exceeded''
     in (reason, dset ''error_code'' (JStr ''TIMEOUT_ERROR'')
           (dset ''status'' (JStr ''timeout'') (wf_failure task_id reason))))"

definition run_verdict :: "str \<Rightarrow> outcome \<Rightarrow> str \<times> dict" where
  "run_verdict task_id out = (case out of
     Returned result \<Rightarrow>
       let result1 = dset ''task_id'' (JStr task_id) result
       in ([], dset ''status'' (JStr (status_value (task_status_from_result_payload result1))) result1)
   | DeadlinePassed \<Rightarrow> deadline_verdict task_id
   | ShutDown \<Rightarrow>
       let reason = ''Workflow controller cancelled during shutdown'' in (reason, wf_failure task_id reason)
   | LeaseLost \<Rightarrow>
       let reason = crash_reason ''WorkflowStoppedError'' ''Workflow lease/deadline is no longer valid''
       in (reason, wf_failure task_id reason)
   | Crashed exc_type message \<Rightarrow>
       if exc_type = ''TimeoutError'' then deadline_verdict task_id
       else let reason = crash_reason exc_type message in (reason, wf_failure task_id reason))"

definition wf_run ::
  "'s redis \<Rightarrow> codec \<Rightarrow> settings \<Rightarrow> 's env \<Rightarrow> str \<Rightarrow> str \<Rightarrow> outcome \<Rightarrow> tmgr \<Rightarrow> 's \<Rightarrow> bool \<times> 's" where
  \<comment> \<open>whether the cancellation of the controller is raised again, after the commit\<close>
  "wf_run R C cfg E task_id generation out m s =
    (let (reason, result) = run_verdict task_id out;
         (_, s1) = wf_finish R C cfg E task_id generation result reason m s
     in (out = ShutDown, s1))"

subsection \<open>Reconciliation\<close>

definition json_strings :: "json \<Rightarrow> str list option" where
  \<comment> \<open>a list of texts; None: another value, which the code cannot use\<close>
  "json_strings j = (case j of
     JList js \<Rightarrow> if list_all (\<lambda>j. case j of JStr _ \<Rightarrow> True | _ \<Rightarrow> False) js
                then Some (map (\<lambda>j. case j of JStr x \<Rightarrow> x | _ \<Rightarrow> []) js) else None
   | _ \<Rightarrow> None)"

definition decoded_strings :: "codec \<Rightarrow> (json \<Rightarrow> json) \<Rightarrow> str option \<Rightarrow> tm_error + str list" where
  \<comment> \<open>\<open>json.loads\<close> of a record's field that holds texts, empty when the field is missing\<close>
  "decoded_strings C view_of raw = (case raw of
     None \<Rightarrow> Inr []
   | Some x \<Rightarrow> (case json_loads C x of
       None \<Rightarrow> Inl JSONDecodeError
     | Some j \<Rightarrow> (case json_strings (view_of j) of None \<Rightarrow> Inl TypeError | Some xs \<Rightarrow> Inr xs)))"

definition object_values :: "json \<Rightarrow> json" where
  "object_values j = (case j of JObj d \<Rightarrow> JList (map snd d) | _ \<Rightarrow> JNull)"

definition frozen_reason :: "str \<Rightarrow> str \<Rightarrow> str" where
  "frozen_reason child_id why = ''Infrastructure failure: child '' @ child_id @ '' frozen: '' @ why"

definition child_verdict ::
  "'s redis \<Rightarrow> codec \<Rightarrow> 's env \<Rightarrow> str \<Rightarrow> str \<Rightarrow> 's \<Rightarrow> tm_error + str" where
  \<comment> \<open>the reason for which one child stops its workflow, empty for none\<close>
  "child_verdict R C E pfx child_id s =
    (let child = r_hgetall R (task_key pfx child_id) s in
     case decoded_strings C id (map_of child ''cancellation_keys'') of
       Inl e \<Rightarrow> Inl e
     | Inr cancellation_keys \<Rightarrow>
         if list_ex (\<lambda>k. r_exists R k s) (tombstone_key pfx child_id # cancellation_keys)
         then Inr (''Child task '' @ child_id @ '' cancelled'')
         else if rget ''claim_recovery_state'' child = ''frozen''
         then Inr (frozen_reason child_id (rget ''claim_recovery_reason'' child))
         else if rget ''status'' child \<notin> {''pending'', ''processing''} then Inr []
         else
           let worker_id = (if rget ''claim_worker'' child \<noteq> [] then rget ''claim_worker'' child
                            else rget ''assigned_worker'' child);
               worker = r_hgetall R (worker_key pfx worker_id) s
           in if worker_id = [] then Inr []
              else (case e_quarantine E True worker_id (rget ''device'' worker) (rget ''hostname'' worker) s of
                None \<Rightarrow> Inl RuntimeError
              | Some latched \<Rightarrow>
                  Inr (if latched then ''Infrastructure failure: child '' @ child_id @ '' worker '' @
                         worker_id @ '' quarantined'' else [])))"

fun children_verdict :: "(str \<Rightarrow> tm_error + str) \<Rightarrow> str list \<Rightarrow> tm_error + str" where
  "children_verdict f [] = Inr []"
| "children_verdict f (c # cs) =
    (case f c of Inl e \<Rightarrow> Inl e | Inr reason \<Rightarrow> if reason \<noteq> [] then Inr reason else children_verdict f cs)"

definition workflow_children ::
  "'s redis \<Rightarrow> codec \<Rightarrow> str \<Rightarrow> str \<Rightarrow> rhash \<Rightarrow> 's \<Rightarrow> tm_error + str list" where
  \<comment> \<open>\<open>sorted\<close> set of the stage children and of those that submission registered\<close>
  "workflow_children R C pfx task_id record s =
    (case decoded_strings C object_values (map_of record ''children'') of
       Inl e \<Rightarrow> Inl e
     | Inr stages \<Rightarrow> Inr (sort (remdups
         (stages @ r_smembers R (children_key pfx task_id (rget ''workflow_generation'' record)) s))))"

definition reconcile_reason ::
  "'s redis \<Rightarrow> codec \<Rightarrow> 's env \<Rightarrow> str \<Rightarrow> str \<Rightarrow> rhash \<Rightarrow> 's \<Rightarrow> tm_error + str" where
  "reconcile_reason R C E pfx task_id record s =
    (case map_of record ''workflow_deadline'' of
       None \<Rightarrow> Inl KeyError
     | Some text \<Rightarrow> (case parse_float text of
         None \<Rightarrow> Inl ValueError
       | Some deadline \<Rightarrow>
           if r_time R s \<ge> deadline then Inr ''Workflow end-to-end deadline exceeded''
           else if r_get R (workflow_key pfx task_id) s \<noteq> Some (rget ''workflow_generation'' record)
           then Inr ''Workflow owner lease expired''
           else if r_exists R (tombstone_key pfx task_id) s then Inr ''Task cancelled''
           else (case workflow_children R C pfx task_id record s of
               Inl e \<Rightarrow> Inl e
             | Inr children \<Rightarrow> children_verdict (\<lambda>c. child_verdict R C E pfx c s) children)))"

definition workflow_active :: "rhash \<Rightarrow> bool" where
  "workflow_active record \<longleftrightarrow>
     rget ''status'' record \<in> {''pending'', ''processing''} \<and> rget ''workflow_generation'' record \<noteq> []"

definition wf_reconcile ::
  "'s redis \<Rightarrow> codec \<Rightarrow> settings \<Rightarrow> 's env \<Rightarrow> str \<Rightarrow> tmgr \<Rightarrow> 's \<Rightarrow> (tm_error + rhash) \<times> 's" where
  "wf_reconcile R C cfg E task_id m s =
    (let record = wf_read R m task_id s in
     if \<not> workflow_active record then (Inr record, s)
     else (case reconcile_reason R C E (key_prefix m) task_id record s of
       Inl e \<Rightarrow> (Inl e, s)
     | Inr reason \<Rightarrow>
         if reason = [] then (Inr record, s)
         else (case wf_finish R C cfg E task_id (rget ''workflow_generation'' record)
                      (wf_failure task_id reason) reason m s of
           (_, s1) \<Rightarrow> (Inr (wf_read R m task_id s1), s1))))"

text \<open>One round of \<open>watch\<close>; an exception ends the round.\<close>

fun wf_watch ::
  "'s redis \<Rightarrow> codec \<Rightarrow> settings \<Rightarrow> 's env \<Rightarrow> str list \<Rightarrow> tmgr \<Rightarrow> 's \<Rightarrow> 's" where
  "wf_watch R C cfg E [] m s = s"
| "wf_watch R C cfg E (x # xs) m s =
    (case wf_reconcile R C cfg E x m s of
       (Inl _, s1) \<Rightarrow> s1
     | (Inr _, s1) \<Rightarrow> wf_watch R C cfg E xs m s1)"

definition wf_watch_round :: "'s redis \<Rightarrow> codec \<Rightarrow> settings \<Rightarrow> 's env \<Rightarrow> tmgr \<Rightarrow> 's \<Rightarrow> 's" where
  "wf_watch_round R C cfg E m s = wf_watch R C cfg E (r_smembers R (active_key (key_prefix m)) s) m s"

subsection \<open>Waiting for a result\<close>

definition wf_poll ::
  "'s redis \<Rightarrow> codec \<Rightarrow> settings \<Rightarrow> 's env \<Rightarrow> str \<Rightarrow> str \<Rightarrow> tmgr \<Rightarrow> 's \<Rightarrow> (tm_error + dict) option \<times> 's" where
  \<comment> \<open>one iteration of \<open>wait\<close>; None: sleep and poll again\<close>
  "wf_poll R C cfg E task_id generation m s =
    (case wf_reconcile R C cfg E task_id m s of
       (Inl e, s1) \<Rightarrow> (Some (Inl e), s1)
     | (Inr record, s1) \<Rightarrow>
         if map_of record ''workflow_generation'' \<noteq> Some generation then (Some (Inl WorkflowConflict), s1)
         else (case get_task_result R C m task_id None s1 of
           Inl e \<Rightarrow> (Some (Inl e), s1)
         | Inr (Some (entry # rest)) \<Rightarrow>
             if dget ''workflow_generation'' (entry # rest) \<noteq> JStr generation
             then (Some (Inl WorkflowConflict), s1) else (Some (Inr (entry # rest)), s1)
         | Inr _ \<Rightarrow>
             if rget ''status'' record \<notin> {''pending'', ''processing''} then (Some (Inl WorkflowConflict), s1)
             else (None, s1)))"

fun wf_wait ::
  "'s redis \<Rightarrow> codec \<Rightarrow> settings \<Rightarrow> 's env \<Rightarrow> ('s \<Rightarrow> 's) \<Rightarrow> nat \<Rightarrow> str \<Rightarrow> str \<Rightarrow> tmgr \<Rightarrow> 's \<Rightarrow>
   (tm_error + dict) option \<times> 's" where
  \<comment> \<open>None: still polling after the given number of polls\<close>
  "wf_wait R C cfg E others 0 task_id generation m s = (None, s)"
| "wf_wait R C cfg E others (Suc n) task_id generation m s =
    (case wf_poll R C cfg E task_id generation m s of
       (Some r, s1) \<Rightarrow> (Some r, s1)
     | (None, s1) \<Rightarrow> wf_wait R C cfg E others n task_id generation m (others s1))"

subsection \<open>The manager's operations on workflows\<close>

definition is_parent_record :: "rhash \<Rightarrow> bool" where
  "is_parent_record h \<longleftrightarrow> rget ''workflow_generation'' h \<noteq> [] \<and> rget ''workflow_parent_key'' h = []"

definition cancel_parent ::
  "'s redis \<Rightarrow> codec \<Rightarrow> settings \<Rightarrow> 's env \<Rightarrow> str \<Rightarrow> tmgr \<Rightarrow> str \<Rightarrow> 's \<Rightarrow> (tm_error + unit) \<times> 's" where
  \<comment> \<open>the second loop of \<open>cancel_task\<close> for one prefix\<close>
  "cancel_parent R C cfg E task_id m pfx s =
    (let task_data = r_hgetall R (task_key pfx task_id) s in
     if \<not> is_parent_record task_data then (Inr (), s)
     else if pfx \<noteq> key_prefix m then (Inl RuntimeError, s)
     else (Inr (), snd (wf_finish R C cfg E task_id (rget ''workflow_generation'' task_data)
                         (wf_failure task_id ''Task cancelled'') ''Task cancelled'' m s)))"

fun cancel_parents ::
  "'s redis \<Rightarrow> codec \<Rightarrow> settings \<Rightarrow> 's env \<Rightarrow> str \<Rightarrow> tmgr \<Rightarrow> str list \<Rightarrow> 's \<Rightarrow> (tm_error + unit) \<times> 's" where
  "cancel_parents R C cfg E task_id m [] s = (Inr (), s)"
| "cancel_parents R C cfg E task_id m (p # ps) s =
    (case cancel_parent R C cfg E task_id m p s of
       (Inl e, s1) \<Rightarrow> (Inl e, s1) | (Inr _, s1) \<Rightarrow> cancel_parents R C cfg E task_id m ps s1)"

definition cancel_task ::
  "'s redis \<Rightarrow> codec \<Rightarrow> settings \<Rightarrow> 's env \<Rightarrow> str \<Rightarrow> tmgr \<Rightarrow> 's \<Rightarrow> (tm_error + bool) \<times> 's" where
  "cancel_task R C cfg E task_id m s =
    (let s1 = fold (mark_task_cancelled R cfg E task_id) (prefixes_for_read m) s in
     case cancel_parents R C cfg E task_id m (prefixes_for_read m) s1 of
       (Inl e, s2) \<Rightarrow> (Inl e, s2) | (Inr _, s2) \<Rightarrow> (Inr True, s2))"

text \<open>The three shapes of a status report: a parent workflow, a task with a result record, and a
  task that is not finished. A missing text is \<open>None\<close>.\<close>

datatype status_view =
    WorkflowView (v_status: str) (v_submitted_at: "str option") (v_started_at: "str option")
      (v_completed_at: "str option") (v_error: json) (v_generation: str) (v_deadline: rat) (v_children: json)
  | FinishedView (v_status: str) (v_completed_at: "str option") (v_failed_at: "str option") (v_error: json)
  | TaskView (v_status: str) (v_submitted_at: "str option") (v_started_at: "str option")

definition optional_text :: "str option \<Rightarrow> json" where
  "optional_text x = (case x of None \<Rightarrow> JNull | Some t \<Rightarrow> JStr t)"

definition workflow_view :: "codec \<Rightarrow> rhash \<Rightarrow> tm_error + status_view" where
  "workflow_view C parent =
    (let field = map_of parent in
     case (field ''status'', field ''workflow_generation'', field ''workflow_deadline'') of
       (Some status, Some generation, Some deadline_text) \<Rightarrow>
         (case parse_float deadline_text of
            None \<Rightarrow> Inl ValueError
          | Some deadline \<Rightarrow>
              (case (case field ''children'' of None \<Rightarrow> Some (JObj []) | Some raw \<Rightarrow> json_loads C raw) of
                 None \<Rightarrow> Inl JSONDecodeError
               | Some children \<Rightarrow>
                   Inr (WorkflowView status (field ''submitted_at'') (field ''started_at'')
                     (field ''completed_at'') (optional_text (field ''error_message'')) generation
                     deadline children)))
     | _ \<Rightarrow> Inl KeyError)"

definition finished_view :: "codec \<Rightarrow> rhash \<Rightarrow> status_view" where
  "finished_view C result_data =
    (let field = map_of result_data;
         (status, message) = (case field ''result'' of
           Some raw \<Rightarrow> (case json_loads C raw of
               Some (JObj payload) \<Rightarrow>
                 let st = task_status_from_result_payload payload
                 in (st, if st \<noteq> COMPLETED then dget ''error_message'' payload else JNull)
             | _ \<Rightarrow> (COMPLETED, JNull))
         | None \<Rightarrow>
             (if rget ''error_code'' result_data \<noteq> []
              then task_status_from_result_payload [(''status'', JStr (status_value FAILED)),
                     (''error_code'', JStr (rget ''error_code'' result_data))]
              else FAILED, JNull));
         error_message = (if message = JNull then optional_text (field ''error'') else message)
     in FinishedView (status_value status) (field ''completed_at'') (field ''failed_at'') error_message)"

definition task_view :: "rhash \<Rightarrow> status_view" where
  "task_view task_data =
     TaskView (case map_of task_data ''status'' of Some st \<Rightarrow> st | None \<Rightarrow> ''pending'')
       (Some (rget ''submitted_at'' task_data)) (Some (rget ''started_at'' task_data))"

definition get_task_status ::
  "'s redis \<Rightarrow> codec \<Rightarrow> settings \<Rightarrow> 's env \<Rightarrow> str \<Rightarrow> tmgr \<Rightarrow> 's \<Rightarrow> (tm_error + status_view option) \<times> 's" where
  "get_task_status R C cfg E task_id m s =
    (if is_parent_record (wf_read R m task_id s) then
       (case wf_reconcile R C cfg E task_id m s of
          (Inl e, s1) \<Rightarrow> (Inl e, s1)
        | (Inr parent, s1) \<Rightarrow>
            (case workflow_view C parent of Inl e \<Rightarrow> (Inl e, s1) | Inr view \<Rightarrow> (Inr (Some view), s1)))
     else (Inr (first_some (\<lambda>p.
         let result_data = r_hgetall R (result_key p task_id) s;
             task_data = r_hgetall R (task_key p task_id) s
         in if result_data \<noteq> [] then Some (finished_view C result_data)
            else if task_data \<noteq> [] then Some (task_view task_data) else None)
       (prefixes_for_read m)), s))"

end
