(* ===== verification/Workers.thy ===== *)
theory Workers
  imports Publish
begin

section \<open>The task manager: the worker registry\<close>

text \<open>
  Registration, heartbeats and the choice of a worker. The registry is kept twice: in the
  manager and as Redis hashes with an index set. The \<open>INCR\<close> of the round-robin counter is a
  read and a write of one string.
\<close>

definition merge_hash :: "rhash \<Rightarrow> rhash \<Rightarrow> rhash" where
  \<comment> \<open>\<open>old.update(new)\<close>, the first argument being \<open>new\<close>\<close>
  "merge_hash new old = fold (\<lambda>(f, x). AList.update f x) new old"

definition admission_defaults :: "str \<Rightarrow> rhash" where
  "admission_defaults device = (if starts_with ''cuda:'' device
     then [(''health_state'', ''initializing''), (''accepting_tasks'', ''false'')] else [])"

definition registration_fields :: "str \<Rightarrow> str \<Rightarrow> str \<Rightarrow> str \<Rightarrow> rhash" where
  "registration_fields device now node_id hostname =
     [(''device'', device), (''status'', ''online''), (''last_heartbeat'', now),
      (''node_id'', node_id), (''hostname'', hostname)] @ admission_defaults device"

definition register_worker ::
  "'s redis \<Rightarrow> 's env \<Rightarrow> str \<Rightarrow> str \<Rightarrow> str \<Rightarrow> str \<Rightarrow> tmgr \<Rightarrow> 's \<Rightarrow> tmgr \<times> 's" where
  \<comment> \<open>an absent \<open>node_id\<close> or \<open>hostname\<close> is the empty text\<close>
  "register_worker R E worker_id device node_id hostname m s =
    (let now = e_iso E s; info = registration_fields device now node_id hostname;
         s1 = hset_many R (worker_key (key_prefix m) worker_id) info s;
         s2 = r_sadd R (worker_index_key (key_prefix m)) worker_id s1
     in (m\<lparr>worker_registry := AList.update worker_id info (worker_registry m),
           load_balancer := lb_register_worker worker_id device (e_now E s2) (load_balancer m)\<rparr>, s2))"

definition unregister_worker :: "'s redis \<Rightarrow> 's env \<Rightarrow> str \<Rightarrow> tmgr \<Rightarrow> 's \<Rightarrow> tmgr \<times> 's" where
  "unregister_worker R E worker_id m s =
    (let s1 = hset_many R (worker_key (key_prefix m) worker_id)
                [(''status'', ''offline''), (''last_heartbeat'', e_iso E s)] s;
         s2 = r_sadd R (worker_index_key (key_prefix m)) worker_id s1
     in (m\<lparr>worker_registry := filter (\<lambda>(w, _). w \<noteq> worker_id) (worker_registry m),
           load_balancer := lb_unregister_worker worker_id (load_balancer m)\<rparr>, s2))"

definition update_worker_heartbeat ::
  "'s redis \<Rightarrow> 's env \<Rightarrow> str \<Rightarrow> str \<Rightarrow> str \<Rightarrow> tmgr \<Rightarrow> 's \<Rightarrow> tmgr \<times> 's" where
  "update_worker_heartbeat R E worker_id node_id hostname m s =
    (let now = e_iso E s;
         mapping = [(''last_heartbeat'', now), (''status'', ''online'')] @
           (if node_id \<noteq> [] then [(''node_id'', node_id)] else []) @
           (if hostname \<noteq> [] then [(''hostname'', hostname)] else []);
         s1 = hset_many R (worker_key (key_prefix m) worker_id) mapping s;
         s2 = r_sadd R (worker_index_key (key_prefix m)) worker_id s1;
         registry = (case map_of (worker_registry m) worker_id of
             None \<Rightarrow> worker_registry m
           | Some info \<Rightarrow> AList.update worker_id (merge_hash mapping info) (worker_registry m))
     in (m\<lparr>worker_registry := registry,
           load_balancer := lb_update_heartbeat worker_id (e_now E s2) (load_balancer m)\<rparr>, s2))"

subsection \<open>The merged view of the workers\<close>

definition after_last :: "str \<Rightarrow> str \<Rightarrow> str" where
  \<comment> \<open>\<open>text.rsplit(sep, 1)[-1]\<close>\<close>
  "after_last sep xs =
     (case find (\<lambda>ys. prefix sep ys) (suffixes xs) of Some ys \<Rightarrow> drop (length sep) ys | None \<Rightarrow> xs)"

definition indexed_workers :: "'s redis \<Rightarrow> 's env \<Rightarrow> str \<Rightarrow> 's \<Rightarrow> str list \<times> 's" where
  \<comment> \<open>the index, rebuilt by a scan when it is empty\<close>
  "indexed_workers R E pfx s =
    (let index_key = worker_index_key pfx; ids = r_smembers R index_key s in
     if ids \<noteq> [] then (ids, s)
     else let scanned = remdups (map (after_last '':worker:'') (e_scan E (worker_key pfx []) s))
          in (scanned, fold (r_sadd R index_key) scanned s))"

definition merge_worker ::
  "'s redis \<Rightarrow> str \<Rightarrow> str \<Rightarrow> (str \<times> rhash) list \<times> 's \<Rightarrow> (str \<times> rhash) list \<times> 's" where
  "merge_worker R pfx worker_id = (\<lambda>(workers, s).
     let data = r_hgetall R (worker_key pfx worker_id) s in
     if data = [] then (workers, r_srem R (worker_index_key pfx) worker_id s)
     else let old = (case map_of workers worker_id of Some h \<Rightarrow> h | None \<Rightarrow> [])
          in (AList.update worker_id (merge_hash data old) workers, s))"

definition get_workers_status ::
  "'s redis \<Rightarrow> 's env \<Rightarrow> tmgr \<Rightarrow> 's \<Rightarrow> (str \<times> rhash) list \<times> 's" where
  "get_workers_status R E m s =
     fold (\<lambda>pfx (workers, s). case indexed_workers R E pfx s of (ids, s1) \<Rightarrow>
        fold (merge_worker R pfx) ids (workers, s1)) (prefixes_for_read m) (worker_registry m, s)"

definition is_candidate ::
  "settings \<Rightarrow> 's env \<Rightarrow> str \<Rightarrow> bool \<Rightarrow> str \<Rightarrow> str \<Rightarrow> int \<Rightarrow> 's \<Rightarrow> str \<times> rhash \<Rightarrow> bool" where
  "is_candidate cfg E resource idle_only target_node_id target_hostname max_heartbeat_age_s s =
    (\<lambda>(worker_id, info).
     let device = rget ''device'' info; (node_id, hostname) = node_identity info in
     \<not> (resource = ''gpu'' \<and> \<not> starts_with ''cuda:'' device) \<and>
     \<not> (resource = ''cpu'' \<and> device \<noteq> ''cpu'') \<and>
     \<not> (resource = ''gpu'' \<and> \<not> gpu_worker_admission_open cfg E worker_id info s) \<and>
     py_lower (rget ''status'' info) = ''online'' \<and>
     \<not> (idle_only \<and> py_strip (rget ''current_task'' info) \<noteq> []) \<and>
     (case parse_datetime E (rget ''last_heartbeat'' info) of
        None \<Rightarrow> False | Some hb \<Rightarrow> e_now E s - hb \<le> of_int max_heartbeat_age_s) \<and>
     (target_node_id = [] \<or> target_node_id \<in> {node_id, hostname}) \<and>
     (target_hostname = [] \<or> target_hostname \<in> {hostname, node_id}))"

definition resource_worker_candidates ::
  "'s redis \<Rightarrow> settings \<Rightarrow> 's env \<Rightarrow> str \<Rightarrow> bool \<Rightarrow> str \<Rightarrow> str \<Rightarrow> int \<Rightarrow> tmgr \<Rightarrow> 's \<Rightarrow>
   (str \<times> rhash) list \<times> 's" where
  "resource_worker_candidates R cfg E resource idle_only target_node_id target_hostname
     max_heartbeat_age_s m s =
    (case get_workers_status R E m s of (workers, s1) \<Rightarrow>
       (sort_key fst (filter (is_candidate cfg E resource idle_only target_node_id target_hostname
          max_heartbeat_age_s s1) workers), s1))"

record selection =
  sel_worker_id :: str
  sel_device :: str
  sel_node_id :: str
  sel_hostname :: str

definition selected :: "str \<times> rhash \<Rightarrow> selection" where
  "selected = (\<lambda>(worker_id, info). let (node_id, hostname) = node_identity info in
     \<lparr>sel_worker_id = worker_id, sel_device = rget ''device'' info, sel_node_id = node_id,
      sel_hostname = hostname\<rparr>)"

definition r_incr :: "'s redis \<Rightarrow> key \<Rightarrow> 's \<Rightarrow> int option \<times> 's" where
  \<comment> \<open>None: the stored text is no integer, and the command raises\<close>
  "r_incr R k s =
    (case (case r_get R k s of None \<Rightarrow> Some 0 | Some x \<Rightarrow> parse_int x) of
       None \<Rightarrow> (None, s)
     | Some n \<Rightarrow> (Some (n + 1), r_set R k (int_text (n + 1)) s))"

definition select_idle_worker ::
  "'s redis \<Rightarrow> settings \<Rightarrow> 's env \<Rightarrow> str \<Rightarrow> str \<Rightarrow> str \<Rightarrow> int \<Rightarrow> tmgr \<Rightarrow> 's \<Rightarrow> selection option \<times> 's" where
  "select_idle_worker R cfg E resource target_node_id target_hostname max_heartbeat_age_s m s =
    (case resource_worker_candidates R cfg E resource True target_node_id target_hostname
            max_heartbeat_age_s m s of
      (candidates, s1) \<Rightarrow>
       if candidates = [] then (None, s1)
       else (case r_incr R (worker_select_key (key_prefix m) resource) s1 of (n, s2) \<Rightarrow>
         let index = (case n of Some i \<Rightarrow> i - 1 | None \<Rightarrow> 0)
         in (Some (selected (candidates ! nat (index mod int (length candidates)))), s2)))"

definition select_worker_by_task_id ::
  "'s redis \<Rightarrow> settings \<Rightarrow> 's env \<Rightarrow> str \<Rightarrow> str \<Rightarrow> str \<Rightarrow> str \<Rightarrow> int \<Rightarrow> tmgr \<Rightarrow> 's \<Rightarrow> selection option \<times> 's" where
  "select_worker_by_task_id R cfg E resource task_id target_node_id target_hostname
     max_heartbeat_age_s m s =
    (case resource_worker_candidates R cfg E resource False target_node_id target_hostname
            max_heartbeat_age_s m s of
      (candidates, s1) \<Rightarrow>
       if candidates = [] then (None, s1)
       else (Some (selected (candidates ! (e_digest E task_id mod length candidates))), s1))"

subsection \<open>What a selection guarantees\<close>

lemma candidate_member:
  assumes "resource_worker_candidates R cfg E resource idle tn th age m s = (cs, s1)" and "c \<in> set cs"
  shows "c \<in> set (fst (get_workers_status R E m s)) \<and> is_candidate cfg E resource idle tn th age s1 c"
  using assms by (auto simp: resource_worker_candidates_def split: prod.splits)

lemma select_idle_worker_member:
  assumes "select_idle_worker R cfg E resource tn th age m s = (Some w, s')"
  shows "\<exists>c s1. is_candidate cfg E resource True tn th age s1 c \<and> w = selected c"
proof -
  obtain cs s1 where cs: "resource_worker_candidates R cfg E resource True tn th age m s = (cs, s1)"
    by (cases "resource_worker_candidates R cfg E resource True tn th age m s")
  with assms have ne: "cs \<noteq> []" by (auto simp: select_idle_worker_def)
  with assms cs obtain i where w: "w = selected (cs ! nat (i mod int (length cs)))"
    by (auto simp: select_idle_worker_def Let_def split: prod.splits)
  have "nat (i mod int (length cs)) < length cs" using ne by (simp add: nat_less_iff)
  then have "cs ! nat (i mod int (length cs)) \<in> set cs" by simp
  with candidate_member [OF cs] w show ?thesis by blast
qed

lemma select_worker_by_task_id_member:
  assumes "select_worker_by_task_id R cfg E resource task_id tn th age m s = (Some w, s')"
  shows "\<exists>c s1. is_candidate cfg E resource False tn th age s1 c \<and> w = selected c"
proof -
  obtain cs s1 where cs: "resource_worker_candidates R cfg E resource False tn th age m s = (cs, s1)"
    by (cases "resource_worker_candidates R cfg E resource False tn th age m s")
  with assms have ne: "cs \<noteq> []" and w: "w = selected (cs ! (e_digest E task_id mod length cs))"
    by (auto simp: select_worker_by_task_id_def split: if_splits)
  from ne have "cs ! (e_digest E task_id mod length cs) \<in> set cs" by simp
  with candidate_member [OF cs] w show ?thesis by blast
qed

lemma worker_admitted:
  assumes "select_idle_worker R cfg E ''gpu'' tn th age m s = (Some w, s') \<or>
    select_worker_by_task_id R cfg E ''gpu'' task_id tn th age m s = (Some w, s')"
  shows "\<exists>info s1. w = selected (sel_worker_id w, info) \<and>
    gpu_worker_admission_open cfg E (sel_worker_id w) info s1"
proof -
  obtain idle s1 worker_id info where c: "is_candidate cfg E ''gpu'' idle tn th age s1 (worker_id, info)"
    and w: "w = selected (worker_id, info)"
    using assms select_idle_worker_member select_worker_by_task_id_member by (metis surj_pair)
  show ?thesis
    using c by (intro exI [of _ info] exI [of _ s1])
      (auto simp: w is_candidate_def selected_def node_identity_def Let_def split: option.splits if_splits)
qed


end
