(* ===== verification/Monitor.thy ===== *)
theory Monitor
  imports Workers RefinePublish
begin

section \<open>The task manager: the queue wait monitor\<close>

text \<open>
  \<open>_queue_wait_monitor\<close> looks at the oldest entries of every worker queue and moves back the
  tasks that waited too long for their worker. One pass of its endless loop is modelled; the
  sleep between passes and the log lines are not. Only the transaction
  \<open>queue_wait_requeue\<close> changes the store.
\<close>

definition conditionally_requeue_waiting_task ::
  "'s redis \<Rightarrow> codec \<Rightarrow> 's env \<Rightarrow> str \<Rightarrow> key \<Rightarrow> str \<Rightarrow> rhash \<Rightarrow> dict \<Rightarrow> str \<Rightarrow> str \<Rightarrow> str \<Rightarrow> tmgr \<Rightarrow> 's \<Rightarrow>
   int \<times> tmgr \<times> 's" where
  "conditionally_requeue_waiting_task R C E pfx worker_queue_key task_id decoded task_json
     reason now_iso operation m s =
    (let restored1 = dset ''queue_timeout_at'' (JStr now_iso)
           (dset ''queue_timeout_reason'' (JStr reason)
             (dset ''assigned_worker'' (JStr []) task_json));
         required_resource = resolve_required_resource restored1;
         restored2 = dset ''required_resource'' (JStr required_resource) restored1;
         (move_token, m1) = fresh_uuid E m;
         (code, s1) = queue_wait_requeue R (task_key pfx task_id) worker_queue_key
           (resource_queue pfx required_resource) (cancel_key pfx task_id)
           (parent_cancel_key pfx task_id restored2) task_id
           (after_last '':queue:worker:'' worker_queue_key) operation
           (rget ''assigned_worker'' decoded) (rget ''assigned_at'' decoded)
           (rget ''submitted_at'' decoded) (rget ''data'' decoded) (json_dumps C (JObj restored2))
           reason now_iso move_token s
     in (code, m1, s1))"

text \<open>What the monitor decides for one entry: the operation and its reason, or nothing.\<close>

definition assignment_time :: "'s env \<Rightarrow> rhash \<Rightarrow> rat option" where
  "assignment_time E task_data =
    (case parse_datetime E (rget ''assigned_at'' task_data) of
       Some t \<Rightarrow> Some t | None \<Rightarrow> parse_datetime E (rget ''submitted_at'' task_data))"

definition wait_limit :: "settings \<Rightarrow> dict \<Rightarrow> int" where
  "wait_limit cfg task_json =
     get_queue_wait_timeout_sec task_json (get_task_timeout_sec cfg task_json)
       (worker_queue_wait_timeout_sec cfg)"

definition waiting_verdict ::
  "codec \<Rightarrow> settings \<Rightarrow> 's env \<Rightarrow> str \<Rightarrow> rat \<Rightarrow> rhash \<Rightarrow> (str \<times> str) option" where
  "waiting_verdict C cfg E worker_id now task_data =
    (let status = (if rget ''status'' task_data = [] then ''pending'' else rget ''status'' task_data);
         task_json = load_task_json C task_data;
         assigned_worker = rget ''assigned_worker'' task_data
     in if task_data = [] then None
        else if status \<noteq> status_value PENDING then None
        else if task_json = [] then None
        else if assigned_worker \<noteq> [] \<and> assigned_worker \<noteq> worker_id
        then Some (''remove_stale_copy'', ''stale_assignment_copy'')
        else if assigned_worker = [] then Some (''requeue'', ''stale_assignment'')
        else (case assignment_time E task_data of
          None \<Rightarrow> None
        | Some assigned_at \<Rightarrow>
            let queue_timeout_sec = wait_limit cfg task_json in
            if queue_timeout_sec \<le> 0 then None
            else if now - assigned_at \<le> of_int queue_timeout_sec then None
            else Some (''requeue'', ''queue_wait_timeout'')))"

definition inspect_waiting_task ::
  "'s redis \<Rightarrow> codec \<Rightarrow> settings \<Rightarrow> 's env \<Rightarrow> rat \<Rightarrow> str \<Rightarrow> str \<Rightarrow> key \<Rightarrow> str \<Rightarrow> str \<Rightarrow> tmgr \<times> 's \<Rightarrow>
   tmgr \<times> 's" where
  "inspect_waiting_task R C cfg E now now_iso pfx worker_queue_key worker_id task_id = (\<lambda>(m, s).
     let task_data = r_hgetall R (task_key pfx task_id) s in
     case waiting_verdict C cfg E worker_id now task_data of
       None \<Rightarrow> (m, s)
     | Some (operation, reason) \<Rightarrow>
         snd (conditionally_requeue_waiting_task R C E pfx worker_queue_key task_id
                task_data (load_task_json C task_data) reason now_iso operation m s))"

definition inspect_worker_queue ::
  "'s redis \<Rightarrow> codec \<Rightarrow> settings \<Rightarrow> 's env \<Rightarrow> rat \<Rightarrow> str \<Rightarrow> str \<Rightarrow> key \<Rightarrow> tmgr \<times> 's \<Rightarrow> tmgr \<times> 's" where
  \<comment> \<open>the bounded slice at the right end of one worker queue, the end it is served from\<close>
  "inspect_worker_queue R C cfg E now now_iso pfx worker_queue_key = (\<lambda>(m, s).
     let worker_id = drop (length (worker_queue pfx [])) worker_queue_key;
         m1 = (if pfx = key_prefix m
               then m\<lparr>worker_queues := AList.update worker_id worker_queue_key (worker_queues m)\<rparr> else m);
         scan_limit = nat (max 1 (worker_queue_wait_scan_limit cfg));
         ids = r_lrange R worker_queue_key s;
         raw_ids = drop (length ids - scan_limit) ids
     in fold (inspect_waiting_task R C cfg E now now_iso pfx worker_queue_key worker_id) raw_ids (m1, s))"

definition worker_queue_keys :: "'s env \<Rightarrow> str \<Rightarrow> 's \<Rightarrow> key list" where
  "worker_queue_keys E pfx s =
     filter (starts_with (worker_queue pfx [])) (e_scan E (worker_queue pfx []) s)"

definition monitor_pass ::
  "'s redis \<Rightarrow> codec \<Rightarrow> settings \<Rightarrow> 's env \<Rightarrow> tmgr \<Rightarrow> 's \<Rightarrow> tmgr \<times> 's" where
  "monitor_pass R C cfg E m s =
    (let now = e_now E s; now_iso = e_iso E s in
     fold (\<lambda>pfx (m, s).
        fold (inspect_worker_queue R C cfg E now now_iso pfx) (worker_queue_keys E pfx s) (m, s))
       (prefixes_for_read m) (m, s))"

definition queue_wait_monitor ::
  "'s redis \<Rightarrow> codec \<Rightarrow> settings \<Rightarrow> 's env \<Rightarrow> tmgr \<Rightarrow> 's \<Rightarrow> tmgr \<times> 's" where
  \<comment> \<open>one round of the monitor, which does nothing when it is disabled\<close>
  "queue_wait_monitor R C cfg E m s =
    (if worker_queue_wait_timeout_sec cfg \<le> 0 \<or> worker_queue_wait_monitor_interval cfg \<le> 0
     then (m, s) else monitor_pass R C cfg E m s)"

subsection \<open>The monitor refines the transactions\<close>

lemma fold_step:
  assumes "\<And>x m s. x \<in> set xs \<Longrightarrow> step R view p A m s (fst (f x (m, s))) (snd (f x (m, s)))"
  shows "step R view p A m s (fst (fold f xs (m, s))) (snd (fold f xs (m, s)))"
  using assms
proof (induction xs arbitrary: m s)
  case Nil
  then show ?case by simp
next
  case (Cons x xs)
  obtain m1 s1 where f: "f x (m, s) = (m1, s1)" by (cases "f x (m, s)")
  have "step R view p A m s m1 s1" using Cons.prems [of x m s] f by simp
  moreover have "step R view p A m1 s1 (fst (fold f xs (m1, s1))) (snd (fold f xs (m1, s1)))"
    by (rule Cons.IH) (use Cons.prems in auto)
  ultimately show ?case using f by (auto intro: step_trans)
qed

lemma worker_queue_split: "starts_with (worker_queue p []) q \<Longrightarrow> worker_queue p (drop (length (worker_queue p [])) q) = q"
  unfolding starts_with_def worker_queue_def
  by (metis append_Nil2 append_assoc append_take_drop_id)

context json_redis
begin

lemma inspect_task_step:
  assumes "waiting_queue p q"
  shows "step R view p A m s (fst (inspect_waiting_task R C cfg E now ti p q w y (m, s)))
     (snd (inspect_waiting_task R C cfg E now ti p q w y (m, s)))"
  using assms
  by (auto simp: inspect_waiting_task_def conditionally_requeue_waiting_task_def fresh_uuid_def Let_def
      case_prod_beta split: option.split intro!: step_parts [OF step_anonymous] transaction.queue_wait)

lemma inspect_queue_step:
  assumes "starts_with (worker_queue p []) q"
  shows "step R view p A m s (fst (inspect_worker_queue R C cfg E now ti p q (m, s)))
     (snd (inspect_worker_queue R C cfg E now ti p q (m, s)))"
proof -
  let ?w = "drop (length (worker_queue p [])) q"
  let ?m = "if p = key_prefix m then m\<lparr>worker_queues := AList.update ?w q (worker_queues m)\<rparr> else m"
  have wq: "waiting_queue p q" using worker_queue_split [OF assms] waiting_queue_worker by metis
  have mem: "set (AList.update a b xs) \<subseteq> insert (a, b) (set xs)" for a :: str and b :: str and xs
    by (induction xs) auto
  have "manager_ok p A ?m" if "manager_ok p A m"
    using that wq mem [of ?w q "worker_queues m"] by (auto simp: manager_ok_def)
  then have "step R view p A m s ?m s" by (rule step_manager)
  then show ?thesis
    using wq
    by (auto simp: inspect_worker_queue_def Let_def intro!: step_trans [OF _ fold_step] inspect_task_step)
qed

lemma monitor_step:
  "step R view p A m s (fst (queue_wait_monitor R C cfg E m s)) (snd (queue_wait_monitor R C cfg E m s))"
proof (rule step_sound)
  assume s: "sound view p A m s"
  then have pf: "prefixes_for_read m = [p]" using prefixes_ok by (auto simp: sound_def)
  have "step R view p A m s (fst (fold (inspect_worker_queue R C cfg E now ti p) (worker_queue_keys E p s) (m, s)))
     (snd (fold (inspect_worker_queue R C cfg E now ti p) (worker_queue_keys E p s) (m, s)))" for now ti
    by (intro fold_step inspect_queue_step) (simp add: worker_queue_keys_def)
  then show ?thesis by (simp add: queue_wait_monitor_def monitor_pass_def Let_def pf case_prod_beta)
qed

subsection \<open>What a pass leaves alone\<close>

lemma queue_wait_result:
  "\<exists>fvs. snd (queue_wait_requeue R tk src dest c pc y w op e1 e2 e3 e4 d r t mv s) \<in>
     {s, lrem' R src 1 y s, r_lpush R dest y (hset_many R tk fvs (lrem' R dest 0 y (lrem' R src 1 y s)))}"
  by (auto simp: queue_wait_requeue_def Let_def case_prod_beta lrem'_def)

lemma queue_wait_other:
  assumes "y \<noteq> x" and "s' = snd (queue_wait_requeue R (task_key p y) src dest c pc y w op e1 e2 e3 e4 d r t mv s)"
  shows "hashes (view s') (task_key p x) = hashes (view s) (task_key p x)"
    and "count_list (lists (view s') k) x = count_list (lists (view s) k) x"
proof -
  from queue_wait_result obtain fvs where out: "s' \<in> {s, lrem' R src 1 y s, r_lpush R dest y
      (hset_many R (task_key p y) fvs (lrem' R dest 0 y (lrem' R src 1 y s)))}"
    unfolding assms(2) by blast
  then show "hashes (view s') (task_key p x) = hashes (view s) (task_key p x)"
    using assms(1) by (auto simp: store_simps)
  from out show "count_list (lists (view s') k) x = count_list (lists (view s) k) x"
    using assms(1) by (elim insertE emptyE) (simp_all add: store_simps)
qed

lemma queue_wait_remove_frame:
  assumes "s' = snd (queue_wait_requeue R tk src dest c pc y w ''remove_stale_copy'' e1 e2 e3 e4 d r t mv s)"
  shows "hashes (view s') = hashes (view s)"
    and "k \<noteq> src \<Longrightarrow> lists (view s') k = lists (view s) k"
proof -
  have "s' \<in> {s, lrem' R src 1 y s}"
    unfolding assms by (auto simp: queue_wait_requeue_def case_prod_beta lrem'_def)
  then show "hashes (view s') = hashes (view s)" and "k \<noteq> src \<Longrightarrow> lists (view s') k = lists (view s) k"
    by (auto simp: store_simps)
qed

end

lemma rget_cong: "map_of h = map_of h' \<Longrightarrow> rget f h = rget f h'"
  by (simp add: rget_def)

lemma waiting_verdict_cong:
  assumes "map_of h = map_of h'"
  shows "waiting_verdict C cfg E w t h = waiting_verdict C cfg E w t h'"
proof -
  have "h = [] \<longleftrightarrow> h' = []" using assms map_of_eq_empty by metis
  then show ?thesis
    unfolding waiting_verdict_def assignment_time_def load_task_json_def Let_def rget_cong [OF assms]
    by (simp only:)
qed

definition served_in_time :: "codec \<Rightarrow> settings \<Rightarrow> 's env \<Rightarrow> rat \<Rightarrow> rhash \<Rightarrow> bool" where
  \<comment> \<open>a task that its own worker's queue may keep\<close>
  "served_in_time C cfg E now h \<longleftrightarrow>
     rget ''status'' h \<notin> {[], ''pending''} \<or>
     (rget ''assigned_worker'' h \<noteq> [] \<and>
      waiting_verdict C cfg E (rget ''assigned_worker'' h) now h = None)"

lemma served_in_time_verdict:
  assumes "served_in_time C cfg E now h" and "waiting_verdict C cfg E w now h = Some (op, r)"
  shows "op = ''remove_stale_copy'' \<and> w \<noteq> rget ''assigned_worker'' h"
  using assms by (auto simp: served_in_time_def waiting_verdict_def Let_def split: if_splits option.splits)

lemma fold_invariant_pair:
  assumes "\<And>x a. x \<in> set xs \<Longrightarrow> P a \<Longrightarrow> P (f x a)" and "P a"
  shows "P (fold f xs a)"
  using assms by (induction xs arbitrary: a) auto

definition kept ::
  "('s \<Rightarrow> keyspace) \<Rightarrow> str \<Rightarrow> str \<Rightarrow> str \<Rightarrow> 's \<Rightarrow> 's \<Rightarrow> bool" where
  \<comment> \<open>the record of a task, and its entries in the queue of one worker\<close>
  "kept view p x w s s' \<longleftrightarrow>
     hashes (view s') (task_key p x) = hashes (view s) (task_key p x) \<and>
     count_list (lists (view s') (worker_queue p w)) x = count_list (lists (view s) (worker_queue p w)) x"

lemma worker_queue_eq [simp]: "worker_queue p a = worker_queue p b \<longleftrightarrow> a = b"
  by (simp add: worker_queue_def)

context json_redis
begin

lemma inspect_keeps:
  assumes "served_in_time C cfg E now (r_hgetall R (task_key p x) s0)"
    and "kept view p x (rget ''assigned_worker'' (r_hgetall R (task_key p x) s0)) s0 s"
  shows "kept view p x (rget ''assigned_worker'' (r_hgetall R (task_key p x) s0)) s0
     (snd (inspect_waiting_task R C cfg E now ti p (worker_queue p wk) wk y (m, s)))"
proof -
  let ?h = "r_hgetall R (task_key p x) s0" and ?h' = "r_hgetall R (task_key p y) s"
  show ?thesis
  proof (cases "waiting_verdict C cfg E wk now ?h'")
    case None
    with assms(2) show ?thesis by (simp add: inspect_waiting_task_def)
  next
    case (Some v)
    obtain op r where v: "v = (op, r)" by (cases v)
    obtain dest c pc w e1 e2 e3 e4 d mv where out:
      "snd (inspect_waiting_task R C cfg E now ti p (worker_queue p wk) wk y (m, s)) =
       snd (queue_wait_requeue R (task_key p y) (worker_queue p wk) dest c pc y w op e1 e2 e3 e4 d r ti mv s)"
      using Some v by (simp add: inspect_waiting_task_def conditionally_requeue_waiting_task_def Let_def case_prod_beta)
    show ?thesis
    proof (cases "y = x")
      case False
      from queue_wait_other [OF False out] assms(2) show ?thesis by (simp add: kept_def)
    next
      case True
      have "map_of ?h' = map_of ?h" using assms(2) True by (simp add: kept_def hgetall)
      from waiting_verdict_cong [OF this, of C cfg E wk now] Some v True
      have "waiting_verdict C cfg E wk now ?h = Some (op, r)" by simp
      from served_in_time_verdict [OF assms(1) this]
      have "op = ''remove_stale_copy''" and ne: "worker_queue p (rget ''assigned_worker'' ?h) \<noteq> worker_queue p wk"
        by auto
      with queue_wait_remove_frame(1) [OF out [unfolded this(1)]]
        queue_wait_remove_frame(2) [OF out [unfolded this(1)] ne] assms(2)
      show ?thesis by (simp add: kept_def)
    qed
  qed
qed

end


end
