(* ===== verification/RefineLifecycle.thy ===== *)
theory RefineLifecycle
  imports Lifecycle Monitor
begin

section \<open>The refinement, continued: workflows\<close>

text \<open>Every operation of the workflow lifecycle is a run of the transactions, labelled with the
  parent it acts on.\<close>

definition terminal_result :: "dict \<Rightarrow> bool" where
  "terminal_result d \<longleftrightarrow> (\<exists>st \<in> set terminal_statuses. dget ''status'' d = JStr st)"

lemma wf_failure_fields [simp]:
  "dget ''task_id'' (wf_failure x reason) = JStr x" "dget ''status'' (wf_failure x reason) = JStr ''failed''"
  "dget ''error_message'' (wf_failure x reason) = JStr reason"
  "dget ''compiled'' (wf_failure x reason) = JBool False"
  "dget ''correctness'' (wf_failure x reason) = JBool False"
  by (simp_all add: wf_failure_def dget_def)

lemma failure_terminal_result: "terminal_result (wf_failure x reason)"
  by (simp add: terminal_result_def)

text \<open>
  C35: every way a controller can end yields a well-typed result. Whether it returned a result,
  lost its lease, ran past the deadline, was shut down or raised, the result to commit carries the
  id of the workflow and a terminal status; the committed reason is empty exactly when the
  controller returned, and a result that is not the controller's own is never reported compiled or
  correct.
\<close>

theorem run_verdict_typed:
  "terminal_result (snd (run_verdict x out)) \<and> dget ''task_id'' (snd (run_verdict x out)) = JStr x \<and>
   (fst (run_verdict x out) = [] \<longleftrightarrow> (\<exists>d. out = Returned d)) \<and>
   (fst (run_verdict x out) = [] \<or>
     dget ''compiled'' (snd (run_verdict x out)) = JBool False \<and>
     dget ''correctness'' (snd (run_verdict x out)) = JBool False \<and>
     dget ''error_message'' (snd (run_verdict x out)) = JStr (fst (run_verdict x out)))"
  using task_status_value_terminal
  by (cases out) (simp_all add: run_verdict_def deadline_verdict_def terminal_result_def crash_reason_def Let_def)

lemma run_verdict_terminal: "terminal_result (snd (run_verdict x out))"
  using task_status_value_terminal
  by (cases out) (simp_all add: run_verdict_def deadline_verdict_def terminal_result_def crash_reason_def Let_def)

context json_redis
begin

lemma step_parent:
  assumes "transaction R view p (Parent x) s s'" and "Parent x \<notin> A"
  shows "step R view p A m s m s'"
  using step_transaction [OF assms] .

lemma sound_prefix: "sound view p A m s \<Longrightarrow> key_prefix m = p"
  by (simp add: sound_def manager_ok_def)

lemma wf_accept_step:
  assumes "Parent x \<notin> A"
  shows "leads R view p A m s (wf_accept R C cfg E x h name timeout force m s)"
proof (rule leads_sound)
  assume "sound view p A m s"
  then have p: "key_prefix m = p" by (rule sound_prefix)
  show ?thesis
    unfolding wf_accept_def fresh_uuid_def Let_def case_prod_beta p
    by (auto intro!: step_parts [OF step_parent [OF transaction.accept assms]])
qed

lemma wf_renew_step:
  assumes "Parent x \<notin> A" and "g \<noteq> []"
  shows "step R view p A m s m (snd (wf_renew R cfg E x g m s))"
proof (rule step_sound)
  assume "sound view p A m s"
  then have p: "key_prefix m = p" by (rule sound_prefix)
  show ?thesis
    unfolding wf_renew_def Let_def case_prod_beta p snd_conv
    by (rule step_parent [OF transaction.renew [OF assms(2)] assms(1)])
qed

lemma wf_finish_step:
  assumes "Parent x \<notin> A" and "terminal_result d"
  shows "step R view p A m s m (snd (wf_finish R C cfg E x g d reason m s))"
proof (rule step_sound)
  assume "sound view p A m s"
  then have p: "key_prefix m = p" by (rule sound_prefix)
  have "\<exists>st \<in> set terminal_statuses. dget ''status'' (json_object (cjson_decode R (json_dumps C (JObj d)))) = JStr st"
    using assms(2) by (simp add: cjson_dumps json_object_def terminal_result_def)
  note t = transaction.finish [OF this]
  show ?thesis
    unfolding wf_finish_def Let_def case_prod_beta p snd_conv by (rule step_parent [OF t assms(1)])
qed

lemma wf_run_step:
  assumes "Parent x \<notin> A"
  shows "step R view p A m s m (snd (wf_run R C cfg E x g out m s))"
  unfolding wf_run_def Let_def case_prod_beta snd_conv
  by (rule wf_finish_step [OF assms run_verdict_terminal])

lemma wf_reconcile_step:
  assumes "Parent x \<notin> A"
  shows "step R view p A m s m (snd (wf_reconcile R C cfg E x m s))"
  using wf_finish_step [OF assms failure_terminal_result]
  by (auto simp: wf_reconcile_def Let_def case_prod_beta split: sum.split)

lemma wf_watch_step:
  assumes "\<And>x. x \<in> List.set xs \<Longrightarrow> Parent x \<notin> A"
  shows "step R view p A m s m (wf_watch R C cfg E xs m s)"
  using assms
proof (induction xs arbitrary: s)
  case Nil
  then show ?case by simp
next
  case (Cons x xs)
  obtain r s1 where out: "wf_reconcile R C cfg E x m s = (r, s1)" by (cases "wf_reconcile R C cfg E x m s")
  have one: "step R view p A m s m s1" using wf_reconcile_step [of x A p m s cfg E] Cons.prems out by simp
  have "step R view p A m s1 m (wf_watch R C cfg E xs m s1)" by (rule Cons.IH) (use Cons.prems in simp)
  with one out show ?case by (auto split: sum.split intro: step_trans)
qed

lemma cancel_parents_step:
  assumes "Parent x \<notin> A"
  shows "step R view p A m s m (snd (cancel_parents R C cfg E x m ps s))"
proof (induction ps arbitrary: s)
  case Nil
  then show ?case by simp
next
  case (Cons q qs)
  have one: "step R view p A m s m (snd (cancel_parent R C cfg E x m q s))"
    using wf_finish_step [OF assms failure_terminal_result] by (simp add: cancel_parent_def Let_def)
  then show ?case using Cons.IH by (auto split: sum.split prod.split intro: step_trans)
qed

lemma cancel_task_step:
  assumes "Parent x \<notin> A"
  shows "step R view p A m s m (snd (cancel_task R C cfg E x m s))"
proof (rule step_sound)
  assume s: "sound view p A m s"
  then have "prefixes_for_read m = [p]" using prefixes_ok by (auto simp: sound_def)
  moreover obtain r s2 where
    out: "cancel_parents R C cfg E x m [p] (mark_task_cancelled R cfg E x p s) = (r, s2)"
    by (metis prod.collapse)
  moreover have "step R view p A m s m s2"
    using step_trans [OF mark_cancelled_step cancel_parents_step [OF assms]] out by (metis snd_conv)
  ultimately show ?thesis by (simp add: cancel_task_def split: sum.split)
qed

lemma get_task_status_step:
  assumes "Parent x \<notin> A"
  shows "step R view p A m s m (snd (get_task_status R C cfg E x m s))"
  using wf_reconcile_step [OF assms, of p m s cfg E]
  by (cases "wf_reconcile R C cfg E x m s") (auto simp: get_task_status_def split: sum.split)

lemma wf_poll_step:
  assumes "Parent x \<notin> A"
  shows "step R view p A m s m (snd (wf_poll R C cfg E x g m s))"
  using wf_reconcile_step [OF assms, of p m s cfg E]
  by (cases "wf_reconcile R C cfg E x m s") (auto simp: wf_poll_def split: sum.split option.split list.split)

end

end
