(* ===== verification/Samples.thy ===== *)
theory Samples
  imports Manager MemRedis
begin

section \<open>Sample settings and environment\<close>

text \<open>The concrete configuration and environment in which the witnesses run the manager: a clock that
  reads the store's, one known timestamp, and no quarantined GPU.\<close>

definition sample_settings :: settings where
  "sample_settings = \<lparr>default_timeout = 300, worker_monitor_heartbeat_timeout = 120,
     worker_queue_wait_timeout_sec = 60, worker_queue_wait_monitor_interval = 20,
     worker_queue_wait_scan_limit = 2, gpu_inflight_recovery_scan_limit = 2,
     terminal_task_ttl_sec = 0, terminal_result_ttl_sec = 0, workflow_lease_ms = 1000,
     default_toolkit = ''kernelbench'', default_backend_adapter = ''kernelbench'', default_backend = ''triton''\<rparr>"

definition sample_env :: "str \<Rightarrow> mem env" where
  "sample_env name = \<lparr>e_now = mem_now, e_iso = (\<lambda>_. ''2026''), e_mono_ns = (\<lambda>_. 0),
     e_fromiso = (\<lambda>_. Some 0), e_scan = (\<lambda>_ _. []), e_digest = length,
     e_uuid = (\<lambda>n. name @ replicate n (CHR ''u'')), e_quarantine = (\<lambda>_ _ _ _ _. Some False)\<rparr>"

end
