(* ===== verification/Service.thy ===== *)
theory Service
  imports RefineDispatch RefineLifecycle Workers SafeExecution Samples
begin

section \<open>A service of many task managers\<close>

text \<open>
  API servers, workers and monitors each own a task manager over one store. \<open>call\<close> lists the
  operations that change the store, \<open>serve\<close> performs one, and \<open>serve_all\<close> runs a sequence of
  calls, each by some process.
\<close>

datatype call =
    Submit dict
  | GetNext str "str list"
  | Recover str bool
  | Requeue dict str bool bool bool
  | Acknowledge str bool
  | Freeze str str
  | Complete str dict str
  | Fail str str str bool bool
  | Cancel str
  | RegisterWorker str str str str
  | UnregisterWorker str
  | Heartbeat str str str
  | NoteWorker str rhash
  | QueueMonitor
  | CancelTask str
  | Accept str str str rat bool
  | Renew str str
  | Run str str outcome
  | Reconcile str
  | Poll str str
  | Watch

fun serve ::
  "'s redis \<Rightarrow> codec \<Rightarrow> settings \<Rightarrow> 's env \<Rightarrow> str list \<Rightarrow> str list \<Rightarrow> call \<Rightarrow> tmgr \<Rightarrow> 's \<Rightarrow> tmgr \<times> 's" where
  "serve R C cfg E tks bks (Submit d) m s = snd (submit_task R C cfg E tks bks d m s)"
| "serve R C cfg E tks bks (GetNext worker resources) m s = snd (get_next_task R C cfg E worker resources m s)"
| "serve R C cfg E tks bks (Recover worker release) m s = snd (recover_gpu_inflight R C cfg E worker release m s)"
| "serve R C cfg E tks bks (Requeue d reason source frozen execution) m s =
     snd (requeue_unstarted_task R C E d reason source frozen execution m s)"
| "serve R C cfg E tks bks (Acknowledge x release) m s = acknowledge_task_claim R x release m s"
| "serve R C cfg E tks bks (Freeze x reason) m s = snd (freeze_task_claim R E x reason m s)"
| "serve R C cfg E tks bks (Complete x result h) m s = snd (complete_task R C cfg E x result h m s)"
| "serve R C cfg E tks bks (Fail x msg code adopt frozen) m s =
     snd (fail_task R C cfg E x msg code None adopt frozen m s)"
| "serve R C cfg E tks bks (Cancel x) m s = (m, mark_task_cancelled R cfg E x (key_prefix m) s)"
| "serve R C cfg E tks bks (RegisterWorker w device node host) m s = register_worker R E w device node host m s"
| "serve R C cfg E tks bks (UnregisterWorker w) m s = unregister_worker R E w m s"
| "serve R C cfg E tks bks (Heartbeat w node host) m s = update_worker_heartbeat R E w node host m s"
| "serve R C cfg E tks bks (NoteWorker w fvs) m s = (m, hset_many R (worker_key (key_prefix m) w) fvs s)"
| "serve R C cfg E tks bks QueueMonitor m s = queue_wait_monitor R C cfg E m s"
| "serve R C cfg E tks bks (CancelTask x) m s = (m, snd (cancel_task R C cfg E x m s))"
| "serve R C cfg E tks bks (Accept x h name timeout force) m s =
     snd (wf_accept R C cfg E x h name timeout force m s)"
| "serve R C cfg E tks bks (Renew x g) m s = (m, if g = [] then s else snd (wf_renew R cfg E x g m s))"
| "serve R C cfg E tks bks (Run x g out) m s = (m, snd (wf_run R C cfg E x g out m s))"
| "serve R C cfg E tks bks (Reconcile x) m s = (m, snd (wf_reconcile R C cfg E x m s))"
| "serve R C cfg E tks bks (Poll x g) m s = (m, snd (wf_poll R C cfg E x g m s))"
| "serve R C cfg E tks bks Watch m s = (m, wf_watch_round R C cfg E m s)"

fun serve_all ::
  "'s redis \<Rightarrow> codec \<Rightarrow> settings \<Rightarrow> (nat \<Rightarrow> 's env) \<Rightarrow> str list \<Rightarrow> str list \<Rightarrow> (nat \<times> call) list \<Rightarrow>
   (nat \<Rightarrow> tmgr) \<Rightarrow> 's \<Rightarrow> (nat \<Rightarrow> tmgr) \<times> 's" where
  "serve_all R C cfg E tks bks [] ms s = (ms, s)"
| "serve_all R C cfg E tks bks ((i, c) # calls) ms s =
     (case serve R C cfg (E i) tks bks c (ms i) s of
        (m1, s1) \<Rightarrow> serve_all R C cfg E tks bks calls (ms(i := m1)) s1)"

text \<open>\<open>NoteWorker\<close> is the health report that a worker process writes into its own record. A
  generation is never empty: a controller renews the one its acceptance made.\<close>

text \<open>The calls that carry containment or control-plane authority over another process's claim.\<close>

fun overrides :: "call \<Rightarrow> bool" where
  "overrides (Recover worker release) = release"
| "overrides (Fail x msg code adopt frozen) = adopt"
| "overrides _ = False"

text \<open>The calls that act on a record as a parent workflow; a round of the watcher may act on any.\<close>

fun as_parent :: "call \<Rightarrow> str \<Rightarrow> bool" where
  "as_parent (CancelTask y) x = (x = y)"
| "as_parent (Accept y h name timeout force) x = (x = y)"
| "as_parent (Renew y g) x = (x = y)"
| "as_parent (Run y g out) x = (x = y)"
| "as_parent (Reconcile y) x = (x = y)"
| "as_parent (Poll y g) x = (x = y)"
| "as_parent Watch x = True"
| "as_parent _ x = False"

lemma new_manager_ok: "p \<noteq> [] \<Longrightarrow> manager_ok p A (new_manager p inst)"
  by (simp add: manager_ok_def new_manager_def)

context json_redis
begin

lemma worker_note_step:
  assumes "manager_ok p A m \<Longrightarrow> manager_ok p A m'"
  shows "step R view p A m s m' (r_sadd R (worker_index_key p) w (hset_many R (worker_key p w') fvs s))"
  by (rule step_parts [OF step_trans [OF step_anonymous [OF transaction.worker_note]
        step_anonymous [OF transaction.worker_index]] assms])

lemma worker_calls_step:
  assumes "manager_ok p A m"
  shows "step R view p A m s (fst (register_worker R E w device node host m s))
      (snd (register_worker R E w device node host m s))"
    and "step R view p A m s (fst (unregister_worker R E w m s)) (snd (unregister_worker R E w m s))"
    and "step R view p A m s (fst (update_worker_heartbeat R E w node host m s))
      (snd (update_worker_heartbeat R E w node host m s))"
proof -
  have p: "key_prefix m = p" using assms by (simp add: manager_ok_def)
  have frame: "manager_ok p A m \<Longrightarrow> manager_ok p A (m\<lparr>worker_registry := r, load_balancer := b\<rparr>)" for r b
    by (simp add: manager_ok_def)
  show "step R view p A m s (fst (register_worker R E w device node host m s))
      (snd (register_worker R E w device node host m s))"
    unfolding register_worker_def Let_def fst_conv snd_conv p by (intro worker_note_step frame)
  show "step R view p A m s (fst (unregister_worker R E w m s)) (snd (unregister_worker R E w m s))"
    unfolding unregister_worker_def Let_def fst_conv snd_conv p by (intro worker_note_step frame)
  show "step R view p A m s (fst (update_worker_heartbeat R E w node host m s))
      (snd (update_worker_heartbeat R E w node host m s))"
    unfolding update_worker_heartbeat_def Let_def fst_conv snd_conv p by (intro worker_note_step frame)
qed

lemma serve_step:
  assumes "uuids_ok E" and "overrides c \<Longrightarrow> A = {}" and "\<And>x. as_parent c x \<Longrightarrow> Parent x \<notin> A"
  shows "step R view p A m s (fst (serve R C cfg E tks bks c m s)) (snd (serve R C cfg E tks bks c m s))"
proof (cases c)
  case (Submit d)
  then show ?thesis using submit_task_step by (simp add: leads_def)
next
  case (GetNext worker resources)
  then show ?thesis using get_next_task_step [OF assms(1)] by (simp add: leads_def)
next
  case (Recover worker release)
  with assms(2) have "release \<Longrightarrow> A = {}" by simp
  from recover_gpu_inflight_step [OF this] show ?thesis using Recover by (simp add: leads_def)
next
  case (Requeue d reason source frozen execution)
  then show ?thesis using requeue_step by (simp add: leads_def)
next
  case (Acknowledge x release)
  then show ?thesis using acknowledge_step by simp
next
  case (Freeze x reason)
  then show ?thesis using freeze_step by (simp add: leads_def)
next
  case (Complete x result h)
  then show ?thesis using complete_task_step by (simp add: leads_def)
next
  case (Fail x msg code adopt frozen)
  with assms(2) have "adopt \<Longrightarrow> A = {}" by simp
  from fail_task_step [OF this, where pfx_arg = None] show ?thesis using Fail by (simp add: leads_def)
next
  case (Cancel x)
  show ?thesis
  proof (rule step_sound)
    assume "sound view p A m s"
    then have "key_prefix m = p" by (simp add: sound_def manager_ok_def)
    then show ?thesis using Cancel mark_cancelled_step by simp
  qed
next
  case (NoteWorker w fvs)
  show ?thesis
  proof (rule step_sound)
    assume "sound view p A m s"
    then have "key_prefix m = p" by (simp add: sound_def manager_ok_def)
    then show ?thesis using NoteWorker step_anonymous [OF transaction.worker_note] by simp
  qed
next
  case (Accept x h name timeout force)
  with assms(3) have "Parent x \<notin> A" by simp
  from wf_accept_step [OF this] show ?thesis using Accept by (simp add: leads_def)
next
  case (CancelTask x)
  with assms(3) have "Parent x \<notin> A" by simp
  from cancel_task_step [OF this] show ?thesis using CancelTask by simp
next
  case (Renew x g)
  with assms(3) have "Parent x \<notin> A" by simp
  from wf_renew_step [OF this] show ?thesis using Renew by simp
next
  case (Run x g out)
  with assms(3) have "Parent x \<notin> A" by simp
  from wf_run_step [OF this] show ?thesis using Run by simp
next
  case (Reconcile x)
  with assms(3) have "Parent x \<notin> A" by simp
  from wf_reconcile_step [OF this] show ?thesis using Reconcile by simp
next
  case (Poll x g)
  with assms(3) have "Parent x \<notin> A" by simp
  from wf_poll_step [OF this] show ?thesis using Poll by simp
next
  case Watch
  then show ?thesis using assms(3) by (auto simp: wf_watch_round_def intro: wf_watch_step)
next
  case QueueMonitor
  then show ?thesis using monitor_step by simp
qed (auto intro!: step_sound [OF worker_calls_step(1)] step_sound [OF worker_calls_step(2)]
    step_sound [OF worker_calls_step(3)] simp: sound_def)

lemma serve_all_steps:
  assumes "\<And>i. uuids_ok (E i)" and "\<And>i c. (i, c) \<in> List.set calls \<Longrightarrow> overrides c \<Longrightarrow> A = {}"
    and "\<And>i c x. (i, c) \<in> List.set calls \<Longrightarrow> as_parent c x \<Longrightarrow> Parent x \<notin> A"
    and "\<And>i. sound view p A (ms i) s" and "serve_all R C cfg E tks bks calls ms s = (ms', s')"
  shows "performs R view p A s s' \<and> (\<forall>i. sound view p A (ms' i) s')"
  using assms(2-5)
proof (induction calls arbitrary: ms s)
  case Nil
  then show ?case by simp
next
  case (Cons ic calls)
  obtain i c where ic: "ic = (i, c)" by (cases ic)
  obtain m1 s1 where one: "serve R C cfg (E i) tks bks c (ms i) s = (m1, s1)"
    by (cases "serve R C cfg (E i) tks bks c (ms i) s")
  have "overrides c \<Longrightarrow> A = {}" and "as_parent c x \<Longrightarrow> Parent x \<notin> A" for x
    using Cons.prems(1) [of i c] Cons.prems(2) [of i c x] ic by auto
  with assms(1) have "step R view p A (ms i) s (fst (serve R C cfg (E i) tks bks c (ms i) s))
      (snd (serve R C cfg (E i) tks bks c (ms i) s))"
    by (intro serve_step) auto
  with Cons.prems(3) one have p1: "performs R view p A s s1" and ok1: "sound view p A m1 s1"
    by (auto simp: step_def)
  have ok: "sound view p A ((ms(i := m1)) j) s1" for j
    using Cons.prems(3) [of j] ok1 by (auto simp: sound_def)
  have rest: "serve_all R C cfg E tks bks calls (ms(i := m1)) s1 = (ms', s')"
    using Cons.prems(4) ic one by simp
  have "performs R view p A s1 s' \<and> (\<forall>i. sound view p A (ms' i) s')"
    by (rule Cons.IH [OF Cons.prems(1) [OF list.set_intros(2)] Cons.prems(2) [OF list.set_intros(2)] ok rest])
  with p1 show ?case by (auto intro: performs_trans)
qed

end



subsection \<open>A concrete run\<close>

text \<open>A worker registers and reports itself healthy, a task is submitted by one process and handed
  out by another.\<close>

definition sample_calls :: "(nat \<times> call) list" where
  "sample_calls = [(1, RegisterWorker ''w'' ''cuda:0'' [] ''h''),
     (1, NoteWorker ''w'' [(''online'', ''true''), (''health_state'', ''healthy''), (''accepting_tasks'', ''true'')]),
     (0, Submit [(''task_id'', JStr ''x'')]), (1, GetNext ''w'' [''gpu'']),
     (0, Cancel ''x''), (1, Complete ''x'' [(''status'', JStr ''completed'')] ''h'')]"

definition sample_service :: "(nat \<times> call) list \<Rightarrow> mem \<Rightarrow> (nat \<Rightarrow> tmgr) \<times> mem" where
  "sample_service calls = serve_all mem_redis sample_codec sample_settings
     (\<lambda>i. sample_env (if i = 0 then ''a'' else ''b'')) [''kernelbench''] [''kernelbench''] calls
     (\<lambda>i. new_manager ''k'' (if i = 0 then ''api'' else ''gpu''))"

lemma sample_uuids: "plain_token name \<Longrightarrow> uuids_ok (sample_env name)"
  by (auto simp: uuids_ok_def sample_env_def plain_token_def)

lemma sample_uuids_ok: "uuids_ok (sample_env (if (i::nat) = 0 then ''a'' else ''b''))"
  by (rule sample_uuids) (simp add: plain_token_def)


text \<open>A worker that registered and reported itself healthy is selected for a GPU task.\<close>

definition selection_store :: mem where
  "selection_store = (mem_of [(''k:worker:w'', [(''device'', ''cuda:0''), (''status'', ''online''),
     (''last_heartbeat'', ''2026''), (''hostname'', ''h''), (''online'', ''true''),
     (''health_state'', ''healthy''), (''accepting_tasks'', ''true'')])] [] [] 0)
     \<lparr>mem_sets := (\<lambda>_. [])(''k:workers'' := [''w''])\<rparr>"

lemma selection_run:
  "map_option sel_device (fst (select_idle_worker mem_redis sample_settings (sample_env ''a'') ''gpu''
     [] ''h'' 120 (new_manager ''k'' ''api'') selection_store)) = Some ''cuda:0''"
  by code_simp


text \<open>While the attempt of task x that \<open>SafeExecution\<close> starts executes, another worker asks for
  work and x is cancelled and completed by processes without its claim.\<close>

definition intruder_calls :: "(nat \<times> call) list" where
  "intruder_calls = [(1, GetNext ''worker_0'' [''gpu'']), (0, Cancel ''x''),
     (0, Complete ''x'' [(''status'', JStr ''completed'')] []), (1, Recover ''worker_0'' False)]"


end
