(* ===== verification/ManagerContracts.thy ===== *)
theory ManagerContracts
  imports Service
begin

section \<open>What the task manager promises its callers\<close>

context json_redis
begin

subsection \<open>Publication and look-up\<close>

lemma finalize_claim_records:
  assumes "finalize_claim R k rk q t e (json_dumps C (string_object tm)) (json_dumps C (string_object rm)) a b allow s
      = (1, s1)" and "k \<noteq> rk"
  shows "hashes (view s1) = (hashes (view s))(k := hashes (view s) k ++ map_of (rev tm),
     rk := hashes (view s) rk ++ map_of (rev rm))"
  using finalize_branches [OF assms] by (auto simp: string_object_fields)

lemma publish_records:
  assumes "k \<noteq> rk"
  shows "hashes (view (publish_unclaimed R k rk tm rm a b s)) = (hashes (view s))(k :=
     hashes (view s) k ++ map_of (rev tm), rk := hashes (view s) rk ++ map_of (rev rm))"
  using assms by (auto simp: publish_unclaimed_def store_simps)

text \<open>A commit that succeeds has written both records.\<close>

lemma finalize_records_written:
  assumes "finalize_task_records R C cfg p x tm rm claim cp frozen m s = (Inr (), m1, s1)"
  shows "hashes (view s1) = (hashes (view s))(task_key p x :=
      hashes (view s) (task_key p x) ++ map_of (rev (tm @ clear_claim_fields)),
      result_key p x := hashes (view s) (result_key p x) ++ map_of (rev rm))"
    and "m1 = pop_claim x m"
proof -
  have neq: "task_key p x \<noteq> result_key p x" by simp
  show "hashes (view s1) = (hashes (view s))(task_key p x :=
      hashes (view s) (task_key p x) ++ map_of (rev (tm @ clear_claim_fields)),
      result_key p x := hashes (view s) (result_key p x) ++ map_of (rev rm))"
    using assms publish_records [OF neq]
    by (auto simp: finalize_task_records_def Let_def simp del: rev_append
        dest!: finalize_claim_records [OF _ neq] split: sum.splits option.splits prod.splits if_splits)
  show "m1 = pop_claim x m"
    using assms by (auto simp: finalize_task_records_def Let_def split: sum.splits option.splits prod.splits if_splits)
qed

lemma complete_task_written:
  assumes "complete_task R C cfg E x result h m s = (Inr (), m1, s1)"
    and "manager_ok p {} m"
  shows "hashes (view s1) (result_key p x) = hashes (view s) (result_key p x) ++ map_of (rev
      ([(''result'', json_dumps C (JObj (completed_payload (e_mono_ns E s) result))),
        (''completed_at'', e_iso E s)] @ (if h \<noteq> [] then [(''request_hash'', h)] else [])))"
    and "prefixes_for_read m1 = [p]"
proof -
  have pfx: "(case task_claims m x of Some c \<Rightarrow> c_prefix c | None \<Rightarrow> key_prefix m) = p"
    using manager_ok_claim [OF assms(2), of x] assms(2)
    by (auto simp: claim_ok_def manager_ok_def split: option.split)
  from assms(1) obtain st m2 where
    f: "finalize_task_records R C cfg p x (completion_fields st (e_iso E s))
      ([(''result'', json_dumps C (JObj (completed_payload (e_mono_ns E s) result))),
        (''completed_at'', e_iso E s)] @ (if h \<noteq> [] then [(''request_hash'', h)] else []))
      (task_claims m x) False False m s = (Inr (), m2, s1)" and m1: "m1 = note_status x st m2"
    unfolding complete_task_def Let_def pfx
    by (auto split: option.splits sum.splits prod.splits if_splits)
  from finalize_records_written(1) [OF f]
  show "hashes (view s1) (result_key p x) = hashes (view s) (result_key p x) ++ map_of (rev
      ([(''result'', json_dumps C (JObj (completed_payload (e_mono_ns E s) result))),
        (''completed_at'', e_iso E s)] @ (if h \<noteq> [] then [(''request_hash'', h)] else [])))"
    by simp
  have "manager_ok p {} m1"
    using assms(2) by (simp add: m1 finalize_records_written(2) [OF f])
  then show "prefixes_for_read m1 = [p]" by (rule prefixes_ok)
qed

end


end
