(* ===== verification/DispatchContracts.thy ===== *)
theory DispatchContracts
  imports ManagerContracts
begin

section \<open>What dispatch guarantees\<close>

text \<open>The moment at which a dispatched task was started: the store right before it, the task's
  record and the queue it came from.\<close>

definition dispatched_from ::
  "'s redis \<Rightarrow> codec \<Rightarrow> settings \<Rightarrow> 's env \<Rightarrow> str \<Rightarrow> str \<Rightarrow> rhash \<Rightarrow> bool \<Rightarrow> dict \<Rightarrow> tmgr \<Rightarrow> 's \<Rightarrow> bool" where
  "dispatched_from R C cfg E p wk info is_gpu d m1 s1 \<longleftrightarrow>
     (\<exists>y h q reason m2 s2. load_task_data_for_prefix R C p y s1 = Payload h d \<and>
        \<not> dropped_before_dispatch h \<and> \<not> dequeued_task_cancelled R p y (base_task_id d) s1 \<and>
        (q = worker_queue p wk \<or> (\<exists>r. q = resource_queue p r) \<and> task_matches_worker_node d info) \<and>
        start_attempt R C cfg E p wk is_gpu y d q reason m1 s1 = (Return (Some d), m2, s2))"

context json_redis
begin

lemma start_attempt_returns:
  "start_attempt R C cfg E p wk is_gpu y d q reason m s = (Return (Some d'), m1, s1) \<Longrightarrow> d' = d"
  by (auto simp: start_attempt_def split: sum.splits prod.splits if_splits)

lemma direct_phase_source:
  assumes "direct_phase R C cfg E p wk is_gpu m s = (Return (Some d), m', s')" and "uuids_ok E"
  shows "\<exists>m1 s1. step R view p A m s m1 s1 \<and> dispatched_from R C cfg E p wk info is_gpu d m1 s1"
proof -
  obtain r m1 s1 where pop: "pop_task R E p wk is_gpu (worker_queue p wk) m s = (r, m1, s1)"
    by (cases "pop_task R E p wk is_gpu (worker_queue p wk) m s")
  have st: "step R view p A m s m1 s1"
    by (rule leads_result [OF pop_task_step pop]) (simp_all add: assms(2))
  have "dispatched_from R C cfg E p wk info is_gpu d m1 s1"
    using assms(1) start_attempt_returns unfolding direct_phase_def Let_def pop dispatched_from_def
    by (fastforce split: option.splits loaded.splits if_splits)
  with st show ?thesis by blast
qed

lemma scan_resource_source:
  assumes "scan_resource R C cfg E p wk info is_gpu (resource_queue p r) n deferred m s =
      (Return (Some d), deferred', m', s')" and "uuids_ok E"
  shows "\<exists>m1 s1. step R view p A m s m1 s1 \<and> dispatched_from R C cfg E p wk info is_gpu d m1 s1"
  using assms(1)
proof (induction n arbitrary: deferred m s)
  case 0
  then show ?case by simp
next
  case (Suc n)
  let ?q = "resource_queue p r"
  obtain popped m1 s1 where pop: "pop_task R E p wk is_gpu ?q m s = (popped, m1, s1)"
    by (cases "pop_task R E p wk is_gpu ?q m s")
  have st: "step R view p A m s m1 s1"
    by (rule leads_result [OF pop_task_step pop]) (simp_all add: assms(2))
  from Suc.prems pop obtain y where y: "popped = Some y" by (auto split: option.splits)
  obtain m2 s2 where drop: "drop_task R is_gpu y m1 s1 = (m2, s2)" by (cases "drop_task R is_gpu y m1 s1")
  have st2: "step R view p A m1 s1 m2 s2" using drop_task_step [of p A m1 s1 is_gpu y] drop by simp
  note run = Suc.prems [unfolded scan_resource.simps pop y prod.case option.case drop]
  have later: "\<exists>m1 s1. step R view p A m s m1 s1 \<and> dispatched_from R C cfg E p wk info is_gpu d m1 s1"
    if "scan_resource R C cfg E p wk info is_gpu ?q n dd ma sa = (Return (Some d), deferred', m', s')"
      "step R view p A m s ma sa" for dd ma sa
    using Suc.IH [OF that(1)] step_trans [OF that(2)] by blast
  show ?case
  proof (cases "load_task_data_for_prefix R C p y s1")
    case (Payload h d')
    show ?thesis
    proof (cases "dropped_before_dispatch h \<or> dequeued_task_cancelled R p y (base_task_id d') s1")
      case True
      with run Payload have "scan_resource R C cfg E p wk info is_gpu ?q n deferred m2 s2 =
        (Return (Some d), deferred', m', s')" by (auto split: if_splits)
      from later [OF this step_trans [OF st st2]] show ?thesis .
    next
      case live: False
      show ?thesis
      proof (cases "task_matches_worker_node d' info")
        case False
        with run Payload live have "scan_resource R C cfg E p wk info is_gpu ?q n (deferred @ [y]) m1 s1 =
          (Return (Some d), deferred', m', s')" by (auto split: if_splits)
        from later [OF this st] show ?thesis .
      next
        case match: True
        obtain out m3 s3 where start: "start_attempt R C cfg E p wk is_gpu y d' ?q
            ''gpu_admission_closed_after_resource_dequeue'' m1 s1 = (out, m3, s3)"
          by (metis prod.collapse)
        have st3: "step R view p A m1 s1 m3 s3"
          by (rule leads_result [OF start_attempt_step start]) simp
        show ?thesis
        proof (cases out)
          case (Return res)
          with run Payload live match start have res: "res = Some d" by (simp split: if_splits)
          with start Return have "d = d'" using start_attempt_returns by blast
          with start Return res Payload live match have "dispatched_from R C cfg E p wk info is_gpu d m1 s1"
            unfolding dispatched_from_def by blast
          with st show ?thesis by blast
        next
          case NextPrefix
          with run Payload live match start have "scan_resource R C cfg E p wk info is_gpu ?q n deferred m3 s3 =
            (Return (Some d), deferred', m', s')" by (auto split: if_splits)
          from later [OF this step_trans [OF st st3]] show ?thesis .
        qed (use run Payload live match start in \<open>auto split: if_splits\<close>)
      qed
    qed
  qed (use run later [OF _ step_trans [OF st st2]] in auto)
qed

lemma resource_phases_source:
  assumes "resource_phases R C cfg E p wk info is_gpu rs m s = (Return (Some d), m', s')" and "uuids_ok E"
  shows "\<exists>m1 s1. step R view p A m s m1 s1 \<and> dispatched_from R C cfg E p wk info is_gpu d m1 s1"
  using assms(1)
proof (induction rs arbitrary: m s)
  case Nil
  then show ?case by simp
next
  case (Cons r rs)
  obtain out m1 s1 where ph: "resource_phase R C cfg E p wk info is_gpu r m s = (out, m1, s1)"
    by (cases "resource_phase R C cfg E p wk info is_gpu r m s")
  have st: "step R view p A m s m1 s1" by (rule leads_result [OF resource_phase_step [OF assms(2)] ph])
  show ?case
  proof (cases out)
    case Fall
    with Cons.prems ph have "resource_phases R C cfg E p wk info is_gpu rs m1 s1 = (Return (Some d), m', s')" by simp
    from Cons.IH [OF this] show ?thesis using step_trans [OF st] by blast
  next
    case (Return res)
    with Cons.prems ph have "resource_phase R C cfg E p wk info is_gpu r m s = (Return (Some d), m1, s1)" by simp
    then obtain n deferred m2 s2 where "scan_resource R C cfg E p wk info is_gpu (resource_queue p r) n [] m s =
        (Return (Some d), deferred, m2, s2)"
      unfolding resource_phase_def Let_def by (auto split: sum.splits prod.splits)
    from scan_resource_source [OF this assms(2)] show ?thesis .
  qed (use Cons.prems ph in auto)
qed

lemma get_next_task_source:
  assumes "get_next_task R C cfg E wk rs m s = (Inr (Some d), m', s')" and "uuids_ok E"
    and "sound view p A m s"
  defines "info \<equiv> worker_data R m wk s"
  defines "is_gpu \<equiv> starts_with ''cuda:'' (rget ''device'' info) \<or> ''gpu'' \<in> List.set (if rs = [] then [''gpu''] else rs)"
  shows "\<exists>m1 s1. step R view p A m s m1 s1 \<and> dispatched_from R C cfg E p wk info is_gpu d m1 s1"
    and "is_gpu \<Longrightarrow> gpu_worker_admission_open cfg E wk info s"
proof -
  let ?rs = "if rs = [] then [''gpu''] else rs"
  have only: "prefixes_for_read m = [p]" using assms(3) by (auto simp: sound_def dest: prefixes_ok)
  note run = assms(1) [unfolded get_next_task_def Let_def only, folded info_def, folded is_gpu_def]
  then show "is_gpu \<Longrightarrow> gpu_worker_admission_open cfg E wk info s" by (auto split: if_splits)
  obtain r m1 s1 where rec: "(if is_gpu then recover_gpu_inflight R C cfg E wk False m s else (Inr (), m, s)) = (r, m1, s1)"
    by (metis prod.collapse)
  have st: "step R view p A m s m1 s1"
  proof (cases is_gpu)
    case True
    with rec show ?thesis using leads_result [OF recover_gpu_inflight_step] by (metis (full_types))
  qed (use rec in auto)
  from run rec have disp: "dispatch_prefixes R C cfg E wk info is_gpu ?rs [p] m1 s1 = (Inr (Some d), m', s')"
    by (auto split: sum.splits if_splits)
  obtain out m2 s2 where ph: "direct_phase R C cfg E p wk is_gpu m1 s1 = (out, m2, s2)"
    by (cases "direct_phase R C cfg E p wk is_gpu m1 s1")
  have st2: "step R view p A m1 s1 m2 s2" by (rule leads_result [OF direct_phase_step [OF assms(2)] ph])
  have "\<exists>m3 s3. step R view p A m1 s1 m3 s3 \<and> dispatched_from R C cfg E p wk info is_gpu d m3 s3"
  proof (cases out)
    case (Return res)
    with disp ph have "direct_phase R C cfg E p wk is_gpu m1 s1 = (Return (Some d), m2, s2)" by simp
    from direct_phase_source [OF this assms(2)] show ?thesis .
  next
    case Fall
    with disp ph obtain m4 s4 where
      "resource_phases R C cfg E p wk info is_gpu ?rs m2 s2 = (Return (Some d), m4, s4)"
      by (auto split: flow.splits prod.splits)
    from resource_phases_source [OF this assms(2)] show ?thesis using step_trans [OF st2] by blast
  qed (use disp ph in auto)
  then show "\<exists>m1 s1. step R view p A m s m1 s1 \<and> dispatched_from R C cfg E p wk info is_gpu d m1 s1"
    using step_trans [OF st] by blast
qed

text \<open>A GPU start that succeeds: admission was open, and the attempt runs under the held claim.\<close>

lemma start_attempt_gpu:
  assumes "start_attempt R C cfg E p wk True y d q reason m s = (Return (Some d'), m1, s1)"
    and "store_ok p (view s)" and "manager_ok p {} m"
  shows "gpu_worker_admission_open cfg E wk (worker_data R m wk s) s"
    and "\<exists>c w. task_claims m1 y = Some c \<and> attempt_running p y (c_token c) w (view s1)"
proof -
  show adm: "gpu_worker_admission_open cfg E wk (worker_data R m wk s) s"
    using assms(1) by (auto simp: start_attempt_def split: if_splits sum.splits prod.splits)
  with assms(1) have mark: "mark_claim_processing_op R E p y d wk (gpu_inflight_queue p wk) q m s = (Inr True, m1, s1)"
    by (auto simp: start_attempt_def split: if_splits sum.splits prod.splits)
  then obtain c where c: "task_claims m y = Some c" and m1: "m1 = m"
    and one: "mark_claim_processing R (task_key p y) (gpu_inflight_queue p wk) (cancel_key p y)
      (parent_cancel_key p y d) (c_entry c) (c_token c) (e_iso E s) wk (c_instance c) q s = (1, s1)"
    by (auto simp: mark_claim_processing_op_def split: option.splits prod.splits if_splits)
  have "plain_token (c_token c)" using manager_ok_claim [OF assms(3) c] by (simp add: claim_ok_def)
  from start_runs [OF assms(2) this, of y "gpu_inflight_queue p wk" "cancel_key p y" "parent_cancel_key p y d"
      "c_entry c" "e_iso E s" wk "c_instance c" q] one
  show "\<exists>c w. task_claims m1 y = Some c \<and> attempt_running p y (c_token c) w (view s1)"
    using c m1 by auto
qed

end


subsection \<open>A concrete dispatch\<close>

text \<open>A healthy worker with one task in its own queue.\<close>

definition sample_task :: dict where
  "sample_task = [(''task_id'', JStr ''x'')]"

definition sample_worker :: rhash where
  "sample_worker = [(''device'', ''cuda:0''), (''hostname'', ''h''), (''status'', ''online''),
     (''online'', ''true''), (''accepting_tasks'', ''true''), (''health_state'', ''healthy''),
     (''last_heartbeat'', ''2026'')]"

definition dispatch_record :: rhash where
  "dispatch_record = [(''data'', json_dumps sample_codec (JObj sample_task)), (''status'', ''pending''),
     (''cancellation_keys'', json_dumps sample_codec (JList []))]"

definition dispatch_store :: mem where
  "dispatch_store = mem_of [(''k:worker:w'', sample_worker), (''k:task:x'', dispatch_record)]
     [(''k:queue:worker:w'', [''x''])] [] 0"

definition claimed_record :: rhash where
  "claimed_record = dispatch_record @
     claim_fields ''b'' ''w'' ''gpu'' ''k:queue:worker:w'' ''k:queue:inflight:w''"

definition claimed_store :: mem where
  "claimed_store = dispatch_store\<lparr>
     mem_hashes := (mem_hashes dispatch_store)(''k:task:x'' := claimed_record),
     mem_lists := (mem_lists dispatch_store)(''k:queue:worker:w'' := [], ''k:queue:inflight:w'' := [''b|x''])\<rparr>"

definition claimed_manager :: tmgr where
  "claimed_manager = put_claim ''x'' \<lparr>c_prefix = ''k'', c_inflight = ''k:queue:inflight:w'',
     c_source = ''k:queue:worker:w'', c_token = ''b'', c_entry = ''b|x'', c_instance = ''gpu''\<rparr>
     ((new_manager ''k'' ''gpu'')\<lparr>uuid_count := 1\<rparr>)"

lemmas dispatch_defs = dispatch_store_def dispatch_record_def mem_of_def sample_codec.loads_dumps

lemma sample_worker_data:
  "worker_data mem_redis (new_manager ''k'' i) ''w'' dispatch_store = sample_worker"
  "worker_data mem_redis claimed_manager ''w'' claimed_store = sample_worker"
  by (simp_all add: worker_data_def claimed_manager_def put_claim_def new_manager_def prefixes_for_read_def
      worker_key_def mem_redis_def claimed_store_def dispatch_store_def mem_of_def sample_worker_def)

lemma sample_admission:
  "gpu_worker_admission_open sample_settings (sample_env n) ''w'' sample_worker s \<longleftrightarrow> mem_now s \<le> 120"
  by (simp add: gpu_worker_admission_open_def sample_worker_def rget_def starts_with_def sample_env_def
      sample_settings_def py_lower_def lower_char_def py_strip_def is_space_def parse_datetime_def)

lemma sample_claim:
  "claim_gpu_task mem_redis ''k:queue:worker:w'' ''k:queue:inflight:w'' ''b'' ''w'' ''gpu'' ''k:task:'' 32
     dispatch_store = (Some ''x'', claimed_store)"
proof -
  let ?q = "''k:queue:worker:w''" and ?i = "''k:queue:inflight:w''"
  have "claimable mem_redis ''k:task:x''
      (dispatch_store\<lparr>mem_lists := (mem_lists dispatch_store)(?q := [])\<rparr>)"
    by (simp add: claimable_def has_token_def workflow_task_allowed_def workflow_allowed_def
        task_wf_mapping_def hget0_def mem_redis_def mem_exists_def dispatch_defs cjson_strings_def)
  then have ok: "claimable mem_redis ''k:task:x'' (snd (r_rpop mem_redis ?q dispatch_store))"
    by (simp add: mem_redis_def mem_rpop_def dispatch_store_def mem_of_def)
  have L: "lists (mem_view dispatch_store) ?q = [''x'']" by (simp add: dispatch_store_def)
  let ?s = "hset_many mem_redis ''k:task:x'' (claim_fields ''b'' ''w'' ''gpu'' ?q ?i)
       (r_lpush mem_redis ?i (claim_entry ''b'' ''x'') (snd (r_rpop mem_redis ?q dispatch_store)))"
  have "claim_gpu_task mem_redis ?q ?i ''b'' ''w'' ''gpu'' ''k:task:'' (Suc 31) dispatch_store = (Some ''x'', ?s)"
    by (subst mem_redis.claim_first) (simp_all add: L ok)
  moreover have "?s = claimed_store"
    by (simp add: claimed_store_def mem_redis_def mem_rpop_def dispatch_store_def mem_of_def hset_many_def
        claim_fields_def claimed_record_def dispatch_record_def claim_entry_def fun_upd_twist)
  ultimately show ?thesis by simp
qed

lemma sample_claim_op:
  "claim_gpu_task_op mem_redis (sample_env ''b'') ''k'' ''w'' ''k:queue:worker:w'' (new_manager ''k'' ''gpu'')
     dispatch_store = (Some ''x'', claimed_manager, claimed_store)"
  by (simp add: claim_gpu_task_op_def fresh_uuid_def new_manager_def sample_env_def Let_def
      gpu_inflight_queue_def sample_claim claimed_manager_def claim_entry_def)

lemma sample_load:
  "load_task_data_for_prefix mem_redis sample_codec ''k'' ''x'' claimed_store = Payload claimed_record sample_task"
  by (simp add: load_task_data_for_prefix_def mem_redis_def task_key_def claimed_store_def claimed_record_def
      dispatch_record_def rget_def Let_def sample_codec.loads_dumps sample_codec.dumps_nonempty)

lemma sample_live:
  "\<not> dropped_before_dispatch claimed_record"
  "\<not> dequeued_task_cancelled mem_redis ''k'' ''x'' (base_task_id sample_task) claimed_store"
  by (simp_all add: dropped_before_dispatch_def claimed_record_def dispatch_record_def rget_def
      dequeued_task_cancelled_def cancel_key_def tombstone_key_def mem_redis_def mem_exists_def
      claimed_store_def dispatch_store_def mem_of_def base_task_id_def sample_task_def dget_def)

lemma sample_mark:
  "fst (mark_claim_processing_op mem_redis (sample_env ''b'') ''k'' ''x'' sample_task ''w''
     (gpu_inflight_queue ''k'' ''w'') ''k:queue:worker:w'' claimed_manager claimed_store) = Inr True"
  by (simp add: mark_claim_processing_op_def claimed_manager_def put_claim_def Let_def case_prod_beta
      mark_claim_processing_def token_current_def task_key_def mem_redis_def claimed_store_def
      claimed_record_def dispatch_defs claim_fields_def workflow_task_allowed_def workflow_allowed_def
      task_wf_mapping_def cancel_key_def parent_cancel_key_def base_task_id_def sample_task_def dget_def
      mem_exists_def hget0_def cjson_strings_def)

lemma sample_get_next:
  "fst (get_next_task mem_redis sample_codec sample_settings (sample_env ''b'') ''w'' [''gpu'']
     (new_manager ''k'' ''gpu'') dispatch_store) = Inr (Some sample_task)"
proof -
  have only: "prefixes_for_read (new_manager ''k'' ''gpu'') = [''k'']"
    by (simp add: prefixes_for_read_def new_manager_def)
  have rec: "recover_gpu_inflight mem_redis sample_codec sample_settings (sample_env ''b'') ''w'' False
      (new_manager ''k'' ''gpu'') dispatch_store = (Inr (), new_manager ''k'' ''gpu'', dispatch_store)"
    by (simp add: recover_gpu_inflight_def only recover_gpu_inflight_prefix_def Let_def mem_redis_def
        gpu_inflight_queue_def dispatch_store_def mem_of_def)
  have now: "mem_now dispatch_store = 0" "mem_now claimed_store = 0"
    by (simp_all add: claimed_store_def dispatch_store_def mem_of_def)
  obtain m2 s2 where "mark_claim_processing_op mem_redis (sample_env ''b'') ''k'' ''x'' sample_task ''w''
      (gpu_inflight_queue ''k'' ''w'') ''k:queue:worker:w'' claimed_manager claimed_store = (Inr True, m2, s2)"
    using sample_mark by (metis prod.collapse)
  with now show ?thesis
    by (simp add: get_next_task_def sample_worker_data sample_admission rec only direct_phase_def
        pop_task_def worker_queue_def sample_claim_op sample_load sample_live start_attempt_def)
qed

lemma dispatch_store_ok: "store_ok ''k'' (mem_view dispatch_store)"
proof -
  have names: "hashes (mem_view dispatch_store) (task_key ''k'' x) f = Some y \<Longrightarrow>
      f \<in> {''data'', ''status'', ''cancellation_keys''}" for x f y
    by (auto simp: dispatch_store_def dispatch_record_def task_key_def split: if_splits)
  have "fields_ok ''k'' (mem_view dispatch_store)"
    unfolding fields_ok_def by (intro allI impI, drule names) (auto simp: field_ok_def)
  moreover have "claims_backed ''k'' (mem_view dispatch_store)"
    by (auto simp: backed_but_def dest: names)
  moreover have "expiry_ok ''k'' (mem_view dispatch_store)"
    by (simp add: expiry_ok_def dispatch_store_def)
  ultimately show ?thesis by (simp add: store_ok_def)
qed


end
