(* ===== verification/CompletionContracts.thy ===== *)
theory CompletionContracts
  imports DispatchContracts
begin

section \<open>Completion: what is read back and what is refused\<close>

text \<open>A run of \<open>ManagerContracts\<close>' round trip, and the error behaviour of completions that lost
  their claim.\<close>

text \<open>The publication of a result for a task nobody claimed, and its look-ups.\<close>

definition sample_completion :: "(tm_error + unit) \<times> tmgr \<times> mem" where
  "sample_completion = complete_task mem_redis sample_codec sample_settings (sample_env ''a'') ''x''
     [(''status'', JStr ''completed''), (''speedup'', JInt 2)] ''h'' (new_manager ''k'' ''api'') mem_empty"

lemma sample_completion_code: "fst sample_completion = Inr ()"
  by (simp add: sample_completion_def complete_task_def result_metadata_def dhas_def finalize_task_records_def Let_def
      new_manager_def adopt_claim_def rget_def mem_redis_def mem_empty_def split: prod.split)


context json_redis
begin

lemma finalize_refused:
  assumes "task_claims m x = None" and "adopt_claim p x (r_hgetall R (task_key p x) s) False = Inl e"
  shows "finalize_task_records R C cfg p x tm rm (task_claims m x) False frozen m s = (Inl e, m, s)"
  using assms by (simp add: finalize_task_records_def Let_def)

lemma finalize_superseded:
  assumes "task_claims m x = Some c" and "hashes (view s) (task_key p x) ''claim_token'' \<noteq> Some (c_token c)"
  shows "\<exists>s1. finalize_task_records R C cfg p x tm rm (task_claims m x) False frozen m s = (Inl StaleTaskClaim, m, s1) \<and>
    hashes (view s1) = hashes (view s)"
  using assms by (simp add: finalize_task_records_def finalize_claim_def Let_def token_current_def store_simps)

lemma finalize_frozen:
  assumes "task_claims m x = Some c" and "hashes (view s) (task_key p x) ''claim_token'' = Some (c_token c)"
    and "hashes (view s) (task_key p x) ''claim_recovery_state'' = Some ''frozen''"
  shows "finalize_task_records R C cfg p x tm rm (task_claims m x) False False m s = (Inl FrozenTaskClaim, m, s)"
  using assms by (simp add: finalize_task_records_def finalize_claim_def Let_def token_current_def store_simps)

end

definition field_of :: "keyspace \<Rightarrow> key \<Rightarrow> str \<Rightarrow> str" where
  "field_of v k f = (case hashes v k f of Some y \<Rightarrow> y | None \<Rightarrow> [])"


text \<open>A bystander reports a result, and then a failure, for the task that \<open>worker_0\<close> executes.\<close>

definition bystander_completes :: "(tm_error + unit) \<times> tmgr \<times> mem" where
  "bystander_completes = complete_task mem_redis sample_codec sample_settings (sample_env ''a'') ''x''
     [(''status'', JStr ''completed'')] [] (new_manager ''k'' ''api'') started"

definition bystander_fails :: "(tm_error + unit) \<times> tmgr \<times> mem" where
  "bystander_fails = fail_task mem_redis sample_codec sample_settings (sample_env ''a'') ''x'' ''no''
     ''RUNTIME_ERROR'' None False False (new_manager ''k'' ''api'') started"


end
