(* ===== verification/MonitorContracts.thy ===== *)
theory MonitorContracts
  imports Monitor Samples
begin

section \<open>What the queue wait monitor releases\<close>

lemma find_append: "find P (xs @ ys) = (case find P xs of Some z \<Rightarrow> Some z | None \<Rightarrow> find P ys)"
  by (induction xs) auto

lemma after_last_found:
  assumes "find (\<lambda>ys. prefix sep ys) (suffixes (sep @ w)) = Some (sep @ w)"
  shows "after_last sep (pre @ sep @ w) = w"
proof -
  have "find (\<lambda>ys. prefix sep ys) (suffixes (pre @ sep @ w)) = Some (sep @ w)"
    using assms by (induction pre) (simp_all add: find_append)
  then show ?thesis by (simp add: after_last_def)
qed

lemma after_last_worker_queue:
  assumes "CHR '':'' \<notin> set w"
  shows "after_last '':queue:worker:'' (worker_queue p w) = w"
proof -
  have "find (\<lambda>ys. prefix '':queue:worker:'' ys) (suffixes w) = None"
    using assms by (auto simp: find_None_iff suffix_def dest!: set_mono_prefix)
  moreover have "\<not> prefix ''queue:worker:'' w"
    using assms by (auto dest!: set_mono_prefix)
  ultimately show ?thesis
    unfolding worker_queue_def by (intro after_last_found) (simp add: find_append)
qed

definition released :: "str \<Rightarrow> str \<Rightarrow> dict \<Rightarrow> dict" where
  \<comment> \<open>the payload of a task that goes back to the resource queue\<close>
  "released reason now_iso task_json =
    (let d = dset ''queue_timeout_at'' (JStr now_iso)
           (dset ''queue_timeout_reason'' (JStr reason) (dset ''assigned_worker'' (JStr []) task_json))
     in dset ''required_resource'' (JStr (resolve_required_resource d)) d)"

lemma released_resource:
  "resource_queue p (resolve_required_resource (dset ''queue_timeout_at'' a (dset ''queue_timeout_reason'' b
     (dset ''assigned_worker'' c d)))) = resource_queue p (resolve_required_resource d)"
  by (simp add: resolve_required_resource_def cong: if_cong)

lemma parent_cancel_released: "parent_cancel_key p x (released r t d) = parent_cancel_key p x d"
  by (simp add: parent_cancel_key_def base_task_id_def released_def Let_def)

lemma resource_not_worker [simp]: "resource_queue p r \<noteq> worker_queue p w" "worker_queue p w \<noteq> resource_queue p r"
  by (simp_all add: key_defs)

context json_redis
begin

lemma queue_wait_moves:
  assumes "hget0 R tk ''assigned_worker'' s = e1" "hget0 R tk ''assigned_at'' s = e2"
    "hget0 R tk ''submitted_at'' s = e3" "hget0 R tk ''data'' s = e4" and "e1 = [] \<or> e1 = w"
    and "r_hget R tk ''status'' s = Some ''pending''" and "\<not> has_token R tk s"
    and "workflow_task_allowed R tk s" "\<not> r_exists R c s" "\<not> r_exists R pc s"
    and "x \<in> set (lists (view s) src)" and "src \<noteq> dest"
    and "queue_wait_requeue R tk src dest c pc x w ''requeue'' e1 e2 e3 e4 d r t mv s = (code, s')"
  shows "code = 1 \<and> count_list (lists (view s') dest) x = 1 \<and>
    lists (view s') src = remove1 x (lists (view s) src) \<and>
    hashes (view s') tk ''status'' = Some ''pending'' \<and> hashes (view s') tk ''assigned_worker'' = Some [] \<and>
    hashes (view s') tk ''data'' = Some d"
proof -
  have "count_list (lists (view s) src) x \<noteq> 0" using assms(11) by (simp add: count_list_0_iff)
  then have n: "fst (r_lrem R src 1 x s) = 1" by (simp add: lrem_result)
  have s': "code = 1 \<and> s' = r_lpush R dest x (hset_many R tk (requeue_fields d [] [] r t @ [(''queue_move_token'', mv)])
      (lrem' R dest 0 x (snd (r_lrem R src 1 x s))))"
    using assms n by (cases "r_lrem R src 1 x s") (auto simp: queue_wait_requeue_def Let_def)
  show ?thesis
    using s' assms(12) by (simp add: store_simps requeue_fields_def clear_claim_fields_def)
qed

end

text \<open>
  C26: a task that waited too long for its worker is released. Let the monitor look at an entry of a
  worker's queue whose record is pending, unclaimed and not cancelled, and let its verdict be to
  requeue it. Then the task is taken out of that queue once and is exactly once in the queue of the
  resource it requires, its record is pending and assigned to no worker, and the stored payload is
  the old one with the assignment cleared and the reason noted.
\<close>

theorem overdue_released:
  assumes "json_redis R view C" and "CHR '':'' \<notin> set w"
    and "waiting_verdict C cfg E w now (r_hgetall R (task_key p x) s) = Some (''requeue'', reason)"
    and "task_json = load_task_json C (r_hgetall R (task_key p x) s)"
    and "r_hget R (task_key p x) ''status'' s = Some ''pending''" and "\<not> has_token R (task_key p x) s"
    and "workflow_task_allowed R (task_key p x) s"
    and "\<not> r_exists R (cancel_key p x) s" and "\<not> r_exists R (parent_cancel_key p x task_json) s"
    and "x \<in> set (lists (view s) (worker_queue p w))"
    and "inspect_waiting_task R C cfg E now now_iso p (worker_queue p w) w x (m, s) = (m', s')"
  shows "count_list (lists (view s') (resource_queue p (resolve_required_resource task_json))) x = 1 \<and>
    lists (view s') (worker_queue p w) = remove1 x (lists (view s) (worker_queue p w)) \<and>
    hashes (view s') (task_key p x) ''status'' = Some ''pending'' \<and>
    hashes (view s') (task_key p x) ''assigned_worker'' = Some [] \<and>
    hashes (view s') (task_key p x) ''data'' = Some (json_dumps C (JObj (released reason now_iso task_json)))"
proof -
  note J = assms(1)
  have store: "redis_store R view" using J by (simp add: json_redis_def)
  let ?tk = "task_key p x" and ?d = "load_task_json C (r_hgetall R (task_key p x) s)"
  let ?new = "released reason now_iso ?d" and ?dest = "resource_queue p (resolve_required_resource ?d)"
  have read: "hget0 R ?tk f s = rget f (r_hgetall R ?tk s)" for f
    by (simp add: redis_store.hget0_view [OF store] redis_store.rget_hgetall [OF store])
  have own: "rget ''assigned_worker'' (r_hgetall R ?tk s) \<in> {[], w}"
    using assms(3) by (auto simp: waiting_verdict_def Let_def split: if_splits)
  let ?run = "queue_wait_requeue R ?tk (worker_queue p w) ?dest (cancel_key p x)
      (parent_cancel_key p x ?d) x w ''requeue'' (rget ''assigned_worker'' (r_hgetall R ?tk s))
      (rget ''assigned_at'' (r_hgetall R ?tk s)) (rget ''submitted_at'' (r_hgetall R ?tk s))
      (rget ''data'' (r_hgetall R ?tk s)) (json_dumps C (JObj ?new)) reason now_iso (fst (fresh_uuid E m)) s"
  have "s' = snd ?run"
    using assms(3,11)
    by (auto simp: inspect_waiting_task_def conditionally_requeue_waiting_task_def Let_def case_prod_beta
        released_resource after_last_worker_queue [OF assms(2)] parent_cancel_released
        released_def [unfolded Let_def, symmetric])
  then obtain code where run: "?run = (code, s')" by (cases ?run) simp
  show ?thesis
    using json_redis.queue_wait_moves [OF J read read read read _ assms(5-8) _ assms(10) _ run]
      own assms(9) unfolding assms(4) by auto
qed

subsection \<open>A concrete pass\<close>

text \<open>Task x waits in the queue of worker w to which it was assigned at time 0; its limit is 60
  seconds.\<close>

definition waiting_payload :: dict where
  "waiting_payload = [(''task_id'', JStr ''x'')]"

definition waiting_store :: "rat \<Rightarrow> mem" where
  "waiting_store now = mem_of
     [(''k:task:x'', [(''data'', json_dumps sample_codec (JObj waiting_payload)), (''status'', ''pending''),
        (''assigned_worker'', ''w''), (''assigned_at'', ''2026'')])]
     [(''k:queue:worker:w'', [''x''])] [] now"

lemma waiting_payload_loaded:
  "load_task_json sample_codec (r_hgetall mem_redis (task_key ''k'' ''x'') (waiting_store now)) = waiting_payload"
  by (simp add: load_task_json_def waiting_store_def mem_of_def mem_redis_def task_key_def rget_def
      sample_codec.loads_dumps sample_codec.dumps_nonempty)

lemma waiting_limit: "wait_limit sample_settings waiting_payload = 60"
  by (simp add: wait_limit_def get_queue_wait_timeout_sec_def get_task_timeout_sec_def waiting_payload_def
      sample_settings_def dget_def dhas_def)

lemma waiting_record:
  "r_hgetall mem_redis (task_key ''k'' ''x'') (waiting_store now) =
     [(''data'', json_dumps sample_codec (JObj waiting_payload)), (''status'', ''pending''),
      (''assigned_worker'', ''w''), (''assigned_at'', ''2026'')]"
  by (simp add: waiting_store_def mem_of_def mem_redis_def task_key_def)

lemma waiting_sample_verdict:
  "waiting_verdict sample_codec sample_settings (sample_env ''a'') ''w'' now
     (r_hgetall mem_redis (task_key ''k'' ''x'') (waiting_store t)) =
   (if now \<le> 60 then None else Some (''requeue'', ''queue_wait_timeout''))"
  using waiting_limit waiting_payload_loaded [of t]
  by (simp add: waiting_verdict_def waiting_record assignment_time_def parse_datetime_def sample_env_def
      rget_def waiting_payload_def Let_def)

definition scanning_env :: "mem env" where
  "scanning_env = (sample_env ''a'')\<lparr>e_scan := \<lambda>_ _. [''k:queue:worker:w'']\<rparr>"


lemma sample_no_strings: "cjson_strings mem_redis ''[]'' = []"
  by code_simp

theorem overdue_released_witness:
  "count_list (lists (mem_view (snd (inspect_waiting_task mem_redis sample_codec sample_settings
     (sample_env ''a'') 100 ''2027'' ''k'' (worker_queue ''k'' ''w'') ''w'' ''x''
     (new_manager ''k'' ''api'', waiting_store 100)))) (resource_queue ''k'' ''gpu'')) ''x'' = 1"
proof -
  let ?s = "waiting_store 100"
  have hash: "hashes (mem_view ?s) (task_key ''k'' ''x'') = map_of [(''data'', json_dumps sample_codec (JObj waiting_payload)),
      (''status'', ''pending''), (''assigned_worker'', ''w''), (''assigned_at'', ''2026'')]"
    by (simp add: waiting_store_def task_key_def)
  have free: "r_hget mem_redis (task_key ''k'' ''x'') ''status'' ?s = Some ''pending''"
    "\<not> has_token mem_redis (task_key ''k'' ''x'') ?s"
    "workflow_task_allowed mem_redis (task_key ''k'' ''x'') ?s"
    by (simp_all add: store_simps hash has_token_def workflow_task_allowed_def task_wf_mapping_def
      workflow_allowed_def sample_no_strings)
  have "\<not> r_exists mem_redis (cancel_key ''k'' y) ?s" for y
    by (simp add: store_simps ks_exists_def waiting_store_def cancel_key_def)
  then have cancel: "\<not> r_exists mem_redis (cancel_key ''k'' ''x'') ?s"
    "\<not> r_exists mem_redis (parent_cancel_key ''k'' ''x'' waiting_payload) ?s"
    by (auto simp: parent_cancel_key_def)
  have queued: "''x'' \<in> set (lists (mem_view ?s) (worker_queue ''k'' ''w''))"
    by (simp add: waiting_store_def worker_queue_def)
  have resource: "resolve_required_resource waiting_payload = ''gpu''"
    by (simp add: resolve_required_resource_def waiting_payload_def dget_def py_or_def str_or_empty_def
        py_strip_def py_lower_def Let_def)
  show ?thesis
    using overdue_released [OF mem_redis.json_redis_axioms _ _ waiting_payload_loaded [symmetric] free cancel queued
        prod.collapse [symmetric]] waiting_sample_verdict [of 100 100]
    unfolding resource by simp
qed

end
