(* ===== verification/Quarantine.thy ===== *)
theory Quarantine
  imports Publish
begin

section \<open>GPU quarantine latches\<close>

text \<open>
  \<open>kernelgym/utils/gpu_quarantine.py\<close>: persistent latches that exclude a GPU or a worker process
  until an operator clears them. A latch lives in up to four places: a durable file per device and
  per worker, and a Redis hash per device and per worker. The files are an association list from
  paths to contents, Redis is the store of \<open>Redis\<close>, and both are threaded as one state. Every
  operation holds the lock of the physical device while it changes them, so the part under the
  lock is one step; what other processes do before the lock is granted is a field of the
  environment, which also says whether the lock, the disk and Redis can be used during the call.
  Cancellation of a coroutine and the removal of a file failing are not modelled.
\<close>

type_synonym latch = rhash

datatype latch_path = WorkerLatch str | DeviceLatch str str
datatype latch_file = Latch latch | Malformed \<comment> \<open>not a JSON object\<close>

type_synonym latch_files = "(latch_path \<times> latch_file) list"
type_synonym 's qstate = "latch_files \<times> 's"

datatype q_error = InvalidLatch | StorageError | RedisDown | LockRefused | BadArgument

record 's qenv =
  q_prefix :: str
  q_lock :: bool \<comment> \<open>the device lock can be taken\<close>
  q_readable :: "latch_path \<Rightarrow> bool"
  q_writable :: "latch_path \<Rightarrow> bool"
  q_redis :: bool \<comment> \<open>Redis answers\<close>
  q_event :: str \<comment> \<open>a fresh \<open>uuid4().hex\<close>\<close>
  q_now :: str
  q_pid :: str
  q_digest :: "latch \<Rightarrow> str" \<comment> \<open>SHA-256 of the JSON of an identity with sorted keys\<close>
  q_scan :: "key \<Rightarrow> 's \<Rightarrow> key list"
  q_others :: "'s qstate \<Rightarrow> 's qstate" \<comment> \<open>what happens before the lock is granted\<close>

subsection \<open>Paths and keys\<close>

definition safe_char :: "char \<Rightarrow> bool" where
  "safe_char c \<longleftrightarrow> (let n = of_char c :: nat in
     (48 \<le> n \<and> n \<le> 57) \<or> (65 \<le> n \<and> n \<le> 90) \<or> (97 \<le> n \<and> n \<le> 122)) \<or> c \<in> set ''_.-''"

fun squash :: "str \<Rightarrow> str" where
  \<comment> \<open>every maximal run of other characters becomes one underscore\<close>
  "squash [] = []"
| "squash (c # cs) = (if safe_char c then c # squash cs
     else if (case cs of d # _ \<Rightarrow> safe_char d | [] \<Rightarrow> True) then CHR ''_'' # squash cs else squash cs)"

definition strip_chars :: "char set \<Rightarrow> str \<Rightarrow> str" where
  "strip_chars cs xs = rev (dropWhile (\<lambda>c. c \<in> cs) (rev (dropWhile (\<lambda>c. c \<in> cs) xs)))"

definition safe_component :: "str \<Rightarrow> str" where
  "safe_component x = (let y = strip_chars {CHR ''.'', CHR ''_''} (squash x)
                       in if y = [] then ''unknown'' else y)"

definition worker_latch_path :: "str \<Rightarrow> latch_path" where
  "worker_latch_path worker_id = WorkerLatch (safe_component worker_id)"

definition device_latch_path :: "str \<Rightarrow> str \<Rightarrow> latch_path" where
  "device_latch_path hostname device = DeviceLatch (safe_component hostname) (safe_component device)"

definition gpu_quarantine_key :: "str \<Rightarrow> str \<Rightarrow> key" where
  "gpu_quarantine_key p worker_id = p @ '':quarantine:worker:'' @ worker_id"

definition gpu_device_quarantine_key :: "str \<Rightarrow> str \<Rightarrow> str \<Rightarrow> key" where
  "gpu_device_quarantine_key p hostname device = p @ '':quarantine:gpu:'' @ hostname @ '':'' @ device"

subsection \<open>Records\<close>

definition put_fields :: "(str \<times> str) list \<Rightarrow> latch \<Rightarrow> latch" where
  "put_fields fvs r = fold (\<lambda>(f, x). AList.update f x) fvs r"

definition set_default :: "str \<Rightarrow> str \<Rightarrow> latch \<Rightarrow> latch" where
  "set_default f x r = (if map_of r f = None then AList.update f x r else r)"

definition drop_page_fields :: "latch \<Rightarrow> latch" where
  "drop_page_fields = filter (\<lambda>(f, _). \<not> starts_with ''page_user_'' f)"

definition same_dict :: "latch \<Rightarrow> latch \<Rightarrow> bool" where
  "same_dict a b \<longleftrightarrow> list_all (\<lambda>(f, _). map_of a f = map_of b f) (a @ b)"

definition physical :: "latch \<Rightarrow> bool" where
  "physical r \<longleftrightarrow> map_of r ''scope'' = Some ''physical_gpu''"

definition gpu_quarantine_generation :: "'s qenv \<Rightarrow> latch \<Rightarrow> str" where
  "gpu_quarantine_generation Q r =
    (let event_id = py_strip (rget ''event_id'' r); created_at = py_strip (rget ''created_at'' r);
         scope = rget ''scope'' r
     in if event_id \<noteq> [] then ''event:'' @ event_id
        else if created_at \<noteq> [] then ''created:'' @ created_at
        else ''legacy:'' @ q_digest Q
          [(''scope'', scope), (''hostname'', rget ''hostname'' r), (''device'', rget ''device'' r),
           (''worker_id'', if scope \<noteq> ''physical_gpu'' then rget ''worker_id'' r else []),
           (''fault_class'', rget ''fault_class'' r), (''reason'', rget ''reason'' r),
           (''task_id'', rget ''task_id'' r)])"

definition normalize_device_record :: "str \<Rightarrow> str \<Rightarrow> latch \<Rightarrow> latch" where
  "normalize_device_record hostname device r =
     put_fields [(''scope'', ''physical_gpu''), (''hostname'', hostname), (''device'', device)] r"

definition fill :: "str \<Rightarrow> str \<Rightarrow> latch \<Rightarrow> latch" where
  \<comment> \<open>\<open>r[f] = str(r.get(f) or x)\<close>\<close>
  "fill f x r = AList.update f (if rget f r = [] then x else rget f r) r"

definition normalize_read_record :: "str \<Rightarrow> str \<Rightarrow> str \<Rightarrow> latch \<Rightarrow> latch \<times> bool" where
  "normalize_read_record worker_id hostname device r =
    (let n1 = set_default ''page_user_state'' ''pending''
                (put_fields [(''state'', ''quarantined''), (''manual_clear_required'', ''true'')] r);
         n2 = (if rget ''scope'' n1 \<notin> {''physical_gpu'', ''worker_process''}
               then AList.update ''page_user_state'' ''pending''
                      (drop_page_fields (AList.update ''scope'' ''physical_gpu'' n1))
               else n1);
         n3 = fill ''device'' device (fill ''hostname'' hostname (fill ''worker_id'' worker_id n2))
     in (n3, \<not> same_dict n3 r))"

definition same_physical_gpu :: "str \<Rightarrow> str \<Rightarrow> latch \<Rightarrow> bool" where
  "same_physical_gpu hostname device r \<longleftrightarrow>
     physical r \<and> hostname \<noteq> [] \<and> device \<noteq> [] \<and>
     map_of r ''hostname'' = Some hostname \<and> map_of r ''device'' = Some device"

definition constrain_worker_record :: "str \<Rightarrow> str \<Rightarrow> latch \<Rightarrow> latch" where
  "constrain_worker_record hostname device r =
    (if \<not> physical r \<or> hostname = [] \<or> device = [] \<or> same_physical_gpu hostname device r then r
     else AList.update ''page_user_state'' ''not_applicable''
            (drop_page_fields (AList.update ''scope'' ''worker_process'' r)))"

subsection \<open>Reading\<close>

definition read_json :: "'s qenv \<Rightarrow> latch_path \<Rightarrow> latch_files \<Rightarrow> q_error + latch option" where
  "read_json Q path fs =
    (if \<not> q_readable Q path then Inl StorageError
     else (case map_of fs path of
       None \<Rightarrow> Inr None
     | Some Malformed \<Rightarrow> Inl InvalidLatch
     | Some (Latch r) \<Rightarrow>
         if map_of r ''state'' = Some ''quarantined'' then Inr (Some r) else Inl InvalidLatch))"

definition read_durable ::
  "'s qenv \<Rightarrow> str \<Rightarrow> str \<Rightarrow> str \<Rightarrow> latch_files \<Rightarrow> q_error + latch option \<times> latch option" where
  "read_durable Q worker_id hostname device fs =
    (case (if hostname \<noteq> [] \<and> device \<noteq> [] then read_json Q (device_latch_path hostname device) fs
           else Inr None) of
       Inl e \<Rightarrow> Inl e
     | Inr d \<Rightarrow> (case read_json Q (worker_latch_path worker_id) fs of
         Inl e \<Rightarrow> Inl e | Inr w \<Rightarrow> Inr (d, w)))"

definition hash_record :: "'s redis \<Rightarrow> key \<Rightarrow> 's \<Rightarrow> latch option" where
  "hash_record R k s = (let h = r_hgetall R k s in if h = [] then None else Some h)"

definition read_redis_records ::
  "'s redis \<Rightarrow> 's qenv \<Rightarrow> str \<Rightarrow> str \<Rightarrow> str \<Rightarrow> 's \<Rightarrow> (latch option \<times> latch option) option" where
  \<comment> \<open>None: Redis does not answer\<close>
  "read_redis_records R Q worker_id hostname device s =
    (if \<not> q_redis Q then None
     else Some (if hostname \<noteq> [] \<and> device \<noteq> []
                then hash_record R (gpu_device_quarantine_key (q_prefix Q) hostname device) s else None,
                hash_record R (gpu_quarantine_key (q_prefix Q) worker_id) s))"

definition strongest_record ::
  "'s qenv \<Rightarrow> str \<Rightarrow> str \<Rightarrow> latch option \<Rightarrow> latch option \<Rightarrow> latch option \<Rightarrow> latch option \<Rightarrow> latch option" where
  "strongest_record Q hostname device durable_device durable_worker redis_device redis_worker =
    (let ordered = map the (filter (\<lambda>x. x \<noteq> None)
           [durable_device, map_option (constrain_worker_record hostname device) durable_worker,
            redis_device, map_option (constrain_worker_record hostname device) redis_worker]);
         records = filter (\<lambda>r. r \<noteq> []) ordered;
         physicals = filter physical records
     in (case (if physicals \<noteq> [] then physicals else records) of
       [] \<Rightarrow> None
     | merged # _ \<Rightarrow>
         (case find (\<lambda>r. physical r \<and> map_of r ''page_user_state'' = Some ''sent'') records of
            None \<Rightarrow> Some merged
          | Some sent_record \<Rightarrow>
              if gpu_quarantine_generation Q sent_record = gpu_quarantine_generation Q merged
              then Some (AList.update ''page_user_state'' ''sent''
                     (put_fields (filter (\<lambda>(f, _). starts_with ''page_user_'' f) sent_record) merged))
              else Some merged)))"

record merged_read =
  mr_record :: latch
  mr_device :: "latch option" \<comment> \<open>the normalized Redis records\<close>
  mr_worker :: "latch option"
  mr_ready :: bool \<comment> \<open>the durable file needs no rewriting\<close>

definition read_merged ::
  "'s redis \<Rightarrow> 's qenv \<Rightarrow> str \<Rightarrow> str \<Rightarrow> str \<Rightarrow> 's qstate \<Rightarrow> q_error + merged_read option" where
  "read_merged R Q worker_id hostname device = (\<lambda>(fs, s).
    (case read_durable Q worker_id hostname device fs of
       Inl e \<Rightarrow> Inl e
     | Inr (raw_device, raw_worker) \<Rightarrow>
         let redis = read_redis_records R Q worker_id hostname device s;
             (raw_rdevice, raw_rworker) = (case redis of None \<Rightarrow> (None, None) | Some rs \<Rightarrow> rs);
             norm = normalize_read_record worker_id hostname device;
             as_device = map_option (normalize_device_record hostname device);
             durable_device = map_option norm (as_device raw_device);
             durable_worker = map_option norm raw_worker;
             redis_device = map_option (fst \<circ> norm) (as_device raw_rdevice);
             redis_worker = map_option (fst \<circ> norm) raw_rworker
         in (case strongest_record Q hostname device (map_option fst durable_device)
                    (map_option fst durable_worker) redis_device redis_worker of
               None \<Rightarrow> if redis = None then Inl RedisDown else Inr None
             | Some r \<Rightarrow>
                 let ready = (if physical r
                   then (case durable_device of None \<Rightarrow> False | Some (d, changed) \<Rightarrow>
                     \<not> changed \<and> gpu_quarantine_generation Q d = gpu_quarantine_generation Q r)
                   else (case durable_worker of None \<Rightarrow> False | Some (w, changed) \<Rightarrow>
                     \<not> changed \<and> map_of w ''scope'' = Some ''worker_process'' \<and>
                     gpu_quarantine_generation Q w = gpu_quarantine_generation Q r))
                 in Inr (Some \<lparr>mr_record = r, mr_device = redis_device, mr_worker = redis_worker,
                               mr_ready = ready\<rparr>))))"

subsection \<open>Writing the replicas\<close>

definition worker_alias :: "str \<Rightarrow> latch \<Rightarrow> latch" where
  "worker_alias worker_id r =
    (if map_of r ''worker_id'' \<noteq> Some worker_id
     then AList.update ''worker_id'' worker_id
            (set_default ''origin_worker_id'' (rget ''worker_id'' r) r)
     else r)"

definition located :: "latch \<Rightarrow> bool" where
  "located r \<longleftrightarrow> physical r \<and> rget ''hostname'' r \<noteq> [] \<and> rget ''device'' r \<noteq> []"

definition durable_paths :: "latch \<Rightarrow> str \<Rightarrow> (latch_path \<times> latch) list" where
  "durable_paths r worker_id =
    (if located r then [(device_latch_path (rget ''hostname'' r) (rget ''device'' r), r)] else []) @
    [(worker_latch_path worker_id, worker_alias worker_id r)]"

fun write_latches :: "'s qenv \<Rightarrow> (latch_path \<times> latch) list \<Rightarrow> latch_files \<Rightarrow> bool \<times> latch_files" where
  \<comment> \<open>file by file; a failing write leaves the earlier ones\<close>
  "write_latches Q [] fs = (True, fs)"
| "write_latches Q ((path, r) # rest) fs =
    (if q_writable Q path then write_latches Q rest (AList.update path (Latch r) fs) else (False, fs))"

definition record_contains :: "latch option \<Rightarrow> latch \<Rightarrow> bool" where
  "record_contains actual expected \<longleftrightarrow>
    (case actual of None \<Rightarrow> False | Some a \<Rightarrow> list_all (\<lambda>(f, _). map_of a f = map_of expected f) expected)"

definition rehydration_needed ::
  "latch \<Rightarrow> str \<Rightarrow> str \<Rightarrow> str \<Rightarrow> latch option \<Rightarrow> latch option \<Rightarrow> bool \<times> bool" where
  "rehydration_needed r worker_id hostname device redis_device redis_worker =
    (physical r \<and> hostname \<noteq> [] \<and> device \<noteq> [] \<and> \<not> record_contains redis_device r,
     \<not> record_contains redis_worker (worker_alias worker_id r))"

definition rehydrate ::
  "'s redis \<Rightarrow> 's qenv \<Rightarrow> latch \<Rightarrow> str \<Rightarrow> str \<Rightarrow> str \<Rightarrow> latch option \<Rightarrow> latch option \<Rightarrow> 's \<Rightarrow> 's" where
  "rehydrate R Q r worker_id hostname device redis_device redis_worker s =
    (let (write_device, write_worker) = rehydration_needed r worker_id hostname device redis_device redis_worker;
         s1 = (if write_device
               then hset_many R (gpu_device_quarantine_key (q_prefix Q) hostname device) r s else s)
     in if \<not> q_redis Q then s
        else if write_worker
        then hset_many R (gpu_quarantine_key (q_prefix Q) worker_id) (worker_alias worker_id r) s1 else s1)"

definition unlatched :: "latch \<Rightarrow> latch" where
  "unlatched = AList.update ''notification_provenance'' ''unlatched_best_effort''"

definition materialize ::
  "'s redis \<Rightarrow> 's qenv \<Rightarrow> str \<Rightarrow> str \<Rightarrow> str \<Rightarrow> merged_read \<Rightarrow> 's qstate \<Rightarrow> latch \<times> 's qstate" where
  \<comment> \<open>under the device lock: rewrite the durable files if they need it, then the Redis replicas\<close>
  "materialize R Q worker_id hostname device mr = (\<lambda>(fs, s).
    (let (ok, fs1) = (if mr_ready mr then (True, fs)
                      else write_latches Q (durable_paths (mr_record mr) worker_id) fs);
         r = (if ok then mr_record mr else unlatched (mr_record mr))
     in (r, fs1, rehydrate R Q r worker_id hostname device (mr_device mr) (mr_worker mr) s)))"

definition read_gpu_quarantine ::
  "'s redis \<Rightarrow> 's qenv \<Rightarrow> str \<Rightarrow> str \<Rightarrow> str \<Rightarrow> bool \<Rightarrow> 's qstate \<Rightarrow> (q_error + latch option) \<times> 's qstate" where
  "read_gpu_quarantine R Q worker_id device hostname read_only st =
    (case read_merged R Q worker_id hostname device st of
       Inl e \<Rightarrow> (Inl e, st)
     | Inr None \<Rightarrow> (Inr None, st)
     | Inr (Some mr) \<Rightarrow>
         if read_only then (Inr (Some (mr_record mr)), st)
         else if mr_ready mr \<and> rehydration_needed (mr_record mr) worker_id hostname device
                   (mr_device mr) (mr_worker mr) = (False, False)
         then (Inr (Some (mr_record mr)), st)
         else if hostname = [] \<or> device = [] then
           (let r = (if mr_ready mr then mr_record mr else unlatched (mr_record mr))
            in (Inr (Some r), fst st,
                rehydrate R Q r worker_id hostname device (mr_device mr) (mr_worker mr) (snd st)))
         else if \<not> q_lock Q then (Inl LockRefused, st)
         else
           let st1 = q_others Q st in
           (case read_merged R Q worker_id hostname device st1 of
              Inl e \<Rightarrow> (Inl e, st1)
            | Inr None \<Rightarrow> (Inr None, st1)
            | Inr (Some mr1) \<Rightarrow>
                (case materialize R Q worker_id hostname device mr1 st1 of
                   (r, st2) \<Rightarrow> (Inr (Some r), st2))))"

end
