(* ===== verification/QuarantineOps.thy ===== *)
theory QuarantineOps
  imports Quarantine
begin

section \<open>GPU quarantine latches: writing, paging and clearing\<close>

text \<open>
  The operations that change a latch: a new quarantine, the outcome of a notification, the claim
  that lets one process send a page, and the operator's clear. Each is the part that runs under
  the lock of the physical device; an exception is a left value together with the state it leaves.
\<close>

subsection \<open>A new quarantine\<close>

definition existing_durable_record ::
  "'s qenv \<Rightarrow> str \<Rightarrow> str \<Rightarrow> str \<Rightarrow> latch_files \<Rightarrow> q_error + latch option" where
  "existing_durable_record Q worker_id device hostname fs =
    (case (if hostname \<noteq> [] \<and> device \<noteq> [] then read_json Q (device_latch_path hostname device) fs
           else Inr None) of
       Inl e \<Rightarrow> Inl e
     | Inr (Some r) \<Rightarrow> Inr (Some (normalize_device_record hostname device r))
     | Inr None \<Rightarrow> read_json Q (worker_latch_path worker_id) fs)"

record quarantine_request =
  rq_worker :: str
  rq_device :: str
  rq_reason :: str
  rq_fault_class :: str
  rq_task_id :: str
  rq_node_id :: str
  rq_hostname :: str
  rq_physical :: bool

definition new_quarantine_record :: "'s qenv \<Rightarrow> quarantine_request \<Rightarrow> latch" where
  "new_quarantine_record Q rq =
    [(''state'', ''quarantined''), (''worker_id'', rq_worker rq), (''device'', rq_device rq),
     (''reason'', rq_reason rq), (''fault_class'', rq_fault_class rq), (''task_id'', rq_task_id rq),
     (''node_id'', rq_node_id rq), (''hostname'', rq_hostname rq), (''event_id'', q_event Q),
     (''created_at'', q_now Q), (''manual_clear_required'', ''true''),
     (''scope'', if rq_physical rq then ''physical_gpu'' else ''worker_process'')]"

definition preserves :: "quarantine_request \<Rightarrow> latch \<Rightarrow> bool" where
  \<comment> \<open>an existing latch that the request must not replace\<close>
  "preserves rq r \<longleftrightarrow>
     physical r \<and> (rq_hostname rq = [] \<or> rq_device rq = [] \<or>
        same_physical_gpu (rq_hostname rq) (rq_device rq) r) \<or>
     \<not> rq_physical rq \<and> map_of r ''scope'' = Some ''worker_process'' \<and>
       map_of r ''worker_id'' = Some (rq_worker rq) \<and> map_of r ''hostname'' = Some (rq_hostname rq) \<and>
       map_of r ''device'' = Some (rq_device rq)"

definition write_durable ::
  "'s qenv \<Rightarrow> quarantine_request \<Rightarrow> latch_files \<Rightarrow> latch \<times> bool \<times> latch_files" where
  \<comment> \<open>the record, whether the durable write failed, the files\<close>
  "write_durable Q rq fs =
    (let new_record = set_default ''page_user_state'' ''pending'' (new_quarantine_record Q rq) in
     case existing_durable_record Q (rq_worker rq) (rq_device rq) (rq_hostname rq) fs of
       Inl _ \<Rightarrow> (new_record, True, fs)
     | Inr existing \<Rightarrow>
         let r = (case existing of
               Some old \<Rightarrow> if preserves rq old then set_default ''page_user_state'' ''pending'' old else new_record
             | None \<Rightarrow> new_record);
             (ok, fs1) = write_latches Q (durable_paths r (rq_worker rq)) fs
         in (r, \<not> ok, fs1))"

definition mirror_latch :: "'s redis \<Rightarrow> 's qenv \<Rightarrow> latch \<Rightarrow> str \<Rightarrow> 's \<Rightarrow> 's" where
  \<comment> \<open>the Redis hashes of a latch\<close>
  "mirror_latch R Q r worker_id s =
    hset_many R (gpu_quarantine_key (q_prefix Q) worker_id) (worker_alias worker_id r)
      (if located r
       then hset_many R (gpu_device_quarantine_key (q_prefix Q) (rget ''hostname'' r) (rget ''device'' r)) r s
       else s)"

definition write_gpu_quarantine ::
  "'s redis \<Rightarrow> 's qenv \<Rightarrow> quarantine_request \<Rightarrow> 's qstate \<Rightarrow> (q_error + latch) \<times> 's qstate" where
  "write_gpu_quarantine R Q rq st =
    (if rq_hostname rq \<noteq> [] \<and> rq_device rq \<noteq> [] \<and> \<not> q_lock Q then (Inl StorageError, st)
     else
       let (fs, s) = (if rq_hostname rq \<noteq> [] \<and> rq_device rq \<noteq> [] then q_others Q st else st);
           (r, failed, fs1) = write_durable Q rq fs;
           r1 = (if failed then unlatched r else r);
           s1 = (if q_redis Q then mirror_latch R Q r1 (rq_worker rq) s else s)
       in (if failed then Inl StorageError else Inr r1, fs1, s1))"

subsection \<open>The outcome of a notification\<close>

definition note_outcome :: "'s qenv \<Rightarrow> str \<Rightarrow> str \<Rightarrow> latch \<Rightarrow> latch" where
  "note_outcome Q state error r =
    put_fields ([(''page_user_state'', state), (''page_user_updated_at'', q_now Q),
        (''page_user_error'', take 500 error)] @
      (if state = ''sent'' then [(''page_user_sent_at'', q_now Q)] else [])) r"

definition update_notification_durable ::
  "'s qenv \<Rightarrow> str \<Rightarrow> str \<Rightarrow> str \<Rightarrow> str \<Rightarrow> str \<Rightarrow> str \<Rightarrow> str \<Rightarrow> latch_files \<Rightarrow>
   (q_error + latch option) \<times> latch_files" where
  "update_notification_durable Q worker_id device hostname scope expected_generation state error fs =
    (case (if scope = ''worker_process'' then read_json Q (worker_latch_path worker_id) fs
           else existing_durable_record Q worker_id device hostname fs) of
       Inl e \<Rightarrow> (Inl e, fs)
     | Inr None \<Rightarrow> (Inr None, fs)
     | Inr (Some r) \<Rightarrow>
         if map_of r ''scope'' \<noteq> Some scope \<or> gpu_quarantine_generation Q r \<noteq> expected_generation
         then (Inr None, fs)
         else
           let r1 = (if map_of r ''page_user_state'' \<noteq> Some ''sent'' \<or> state = ''sent''
                     then note_outcome Q state error r else r);
               (ok, fs1) = write_latches Q (durable_paths r1 worker_id) fs
           in (if ok then Inr (Some r1) else Inl StorageError, fs1))"

definition update_gpu_quarantine_notification ::
  "'s redis \<Rightarrow> 's qenv \<Rightarrow> str \<Rightarrow> str \<Rightarrow> str \<Rightarrow> str \<Rightarrow> str \<Rightarrow> str \<Rightarrow> str \<Rightarrow> 's qstate \<Rightarrow>
   (q_error + latch option) \<times> 's qstate" where
  "update_gpu_quarantine_notification R Q worker_id device hostname scope expected_generation state error st =
    (if state \<notin> {''pending'', ''sent'', ''failed''} \<or> scope \<notin> {''physical_gpu'', ''worker_process''} \<or>
        expected_generation = [] \<or> hostname = [] \<or> device = [] then (Inl BadArgument, st)
     else if \<not> q_lock Q then (Inl LockRefused, st)
     else
       let (fs, s) = q_others Q st in
       (case update_notification_durable Q worker_id device hostname scope expected_generation state error fs of
          (Inl e, fs1) \<Rightarrow> (Inl e, fs1, s)
        | (Inr None, fs1) \<Rightarrow> (Inr None, fs1, s)
        | (Inr (Some r), fs1) \<Rightarrow>
            if q_redis Q then (Inr (Some r), fs1, mirror_latch R Q r worker_id s)
            else (Inl RedisDown, fs1, s)))"

subsection \<open>The claim to send a page\<close>

record page_claim =
  pc_held :: bool
  pc_record :: latch
  pc_worker :: str
  pc_should_send :: bool
  pc_superseded :: bool

definition attempt_count :: "latch \<Rightarrow> int" where
  "attempt_count r = (case map_of r ''page_user_attempt_count'' of
     None \<Rightarrow> 0 | Some x \<Rightarrow> (case parse_int x of Some n \<Rightarrow> max 0 n | None \<Rightarrow> 0))"

definition note_sending :: "'s qenv \<Rightarrow> latch \<Rightarrow> latch" where
  "note_sending Q r = put_fields
     [(''page_user_state'', ''sending''), (''page_user_claimed_at'', q_now Q),
      (''page_user_claim_owner'', q_pid Q),
      (''page_user_attempt_count'', int_text (attempt_count r + 1))] r"

definition claimed_latch :: "str \<Rightarrow> latch option \<Rightarrow> latch option \<Rightarrow> latch option" where
  "claimed_latch scope durable_device durable_worker =
    (if scope = ''physical_gpu'' then durable_device
     else (case durable_worker of
       Some r \<Rightarrow> if map_of r ''scope'' = Some scope then Some r else None | None \<Rightarrow> None))"

definition acquire_page_claim ::
  "'s qenv \<Rightarrow> latch \<Rightarrow> latch_files \<Rightarrow> (q_error + page_claim) \<times> latch_files" where
  "acquire_page_claim Q r fs =
    (let scope = rget ''scope'' r; hostname = rget ''hostname'' r; device = rget ''device'' r;
         worker_id = rget ''worker_id'' r;
         refuse = (\<lambda>latch superseded. \<lparr>pc_held = True, pc_record = latch, pc_worker = worker_id,
                     pc_should_send = False, pc_superseded = superseded\<rparr>)
     in if scope \<notin> {''physical_gpu'', ''worker_process''} \<or> hostname = [] \<or> device = [] \<or> worker_id = []
        then (Inl BadArgument, fs)
        else if \<not> q_lock Q then (Inl LockRefused, fs)
        else (case (read_json Q (worker_latch_path worker_id) fs, read_json Q (device_latch_path hostname device) fs) of
          (Inr durable_worker, Inr raw_device) \<Rightarrow>
            let durable_device = map_option (normalize_device_record hostname device) raw_device in
            if scope = ''worker_process'' \<and> durable_device \<noteq> None
            then (Inr (refuse (the durable_device) True), fs)
            else (case claimed_latch scope durable_device durable_worker of
              None \<Rightarrow> (Inr (refuse r True), fs)
            | Some current \<Rightarrow>
                if gpu_quarantine_generation Q current \<noteq> gpu_quarantine_generation Q r
                then (Inr (refuse current True), fs)
                else if map_of current ''page_user_state'' = Some ''sent''
                then (Inr (refuse current False), fs)
                else
                  let current1 = note_sending Q current;
                      (ok, fs1) = write_latches Q (durable_paths current1 worker_id) fs
                  in (if ok then Inr \<lparr>pc_held = True, pc_record = current1, pc_worker = worker_id,
                                      pc_should_send = True, pc_superseded = False\<rparr>
                      else Inl StorageError, fs1))
        | _ \<Rightarrow> (Inl StorageError, fs)))"

definition finish_page_claim ::
  "'s qenv \<Rightarrow> page_claim \<Rightarrow> str \<Rightarrow> str \<Rightarrow> latch_files \<Rightarrow> (q_error + page_claim) \<times> latch_files" where
  "finish_page_claim Q claim state error fs =
    (if \<not> pc_held claim then (Inl BadArgument, fs)
     else if state \<notin> {''sent'', ''failed''} then (Inl BadArgument, fs)
     else
       let r0 = put_fields [(''page_user_state'', state), (''page_user_updated_at'', q_now Q),
                  (''page_user_error'', take 500 error)] (pc_record claim);
           r1 = filter (\<lambda>(f, _). f \<noteq> ''page_user_claim_owner'') r0;
           r = (if state = ''sent'' then AList.update ''page_user_sent_at'' (q_now Q) r1 else r1);
           (ok, fs1) = write_latches Q (durable_paths r (pc_worker claim)) fs
       in (if ok then Inr (claim\<lparr>pc_record := r\<rparr>) else Inl StorageError, fs1))"

definition release_page_claim :: "page_claim \<Rightarrow> page_claim" where
  "release_page_claim claim = claim\<lparr>pc_held := False\<rparr>"

subsection \<open>The operator's clear\<close>

definition at_device :: "str \<Rightarrow> str \<Rightarrow> latch \<Rightarrow> bool" where
  "at_device hostname device r \<longleftrightarrow> map_of r ''hostname'' = Some hostname \<and> map_of r ''device'' = Some device"

definition readable_latch :: "'s qenv \<Rightarrow> latch_path \<Rightarrow> latch_files \<Rightarrow> latch option" where
  "readable_latch Q path fs = (case read_json Q path fs of Inr (Some r) \<Rightarrow> Some r | _ \<Rightarrow> None)"

definition physical_alias :: "'s qenv \<Rightarrow> str \<Rightarrow> str \<Rightarrow> latch_files \<Rightarrow> latch_path \<Rightarrow> bool" where
  \<comment> \<open>a worker file that holds a physical latch of this device\<close>
  "physical_alias Q hostname device fs path \<longleftrightarrow>
    (case path of
       DeviceLatch _ _ \<Rightarrow> False
     | WorkerLatch _ \<Rightarrow> (case readable_latch Q path fs of
         Some r \<Rightarrow> physical r \<and> at_device hostname device r | None \<Rightarrow> False))"

definition clear_durable_latches ::
  "'s qenv \<Rightarrow> str \<Rightarrow> str \<Rightarrow> str \<Rightarrow> latch_files \<Rightarrow> bool \<times> str list \<times> latch_files" where
  "clear_durable_latches Q worker_id device hostname fs =
    (let named = (hostname \<noteq> [] \<and> device \<noteq> []);
         stale = (if named then filter (physical_alias Q hostname device fs) (map fst fs) else []);
         gone = stale @ (if named then [device_latch_path hostname device] else []) @ [worker_latch_path worker_id];
         aliases = worker_id # map (\<lambda>path. rget ''worker_id'' (the (readable_latch Q path fs))) stale
     in (list_ex (\<lambda>path. map_of fs path \<noteq> None) gone, filter (\<lambda>a. a \<noteq> []) aliases,
         filter (\<lambda>(path, _). path \<notin> set gone) fs))"

definition redis_physical_aliases ::
  "'s redis \<Rightarrow> 's qenv \<Rightarrow> str \<Rightarrow> str \<Rightarrow> 's \<Rightarrow> str list" where
  \<comment> \<open>the scope must be present, and empty or physical\<close>
  "redis_physical_aliases R Q hostname device s =
    (let prefix = gpu_quarantine_key (q_prefix Q) [] in
     map (drop (length prefix))
       (filter (\<lambda>k. starts_with prefix k \<and>
            (let h = r_hgetall R k s in
             map_of h ''scope'' \<in> {Some [], Some ''physical_gpu''} \<and> at_device hostname device h))
          (q_scan Q prefix s)))"

definition clear_gpu_quarantine ::
  "'s redis \<Rightarrow> 's qenv \<Rightarrow> str \<Rightarrow> str \<Rightarrow> str \<Rightarrow> 's qstate \<Rightarrow> (q_error + bool) \<times> 's qstate" where
  "clear_gpu_quarantine R Q worker_id device hostname st =
    (let named = (device \<noteq> [] \<and> hostname \<noteq> []);
         scan = redis_physical_aliases R Q hostname device
     in if named \<and> \<not> q_redis Q then (Inl RedisDown, st)
        else if named \<and> \<not> q_lock Q then (Inl LockRefused, st)
        else
          let (fs, s) = (if named then q_others Q st else st);
              seen = (if named then scan (snd st) @ scan s else []);
              (file_removed, durable_aliases, fs1) = clear_durable_latches Q worker_id device hostname fs;
              aliases = worker_id # seen @ durable_aliases;
              keys = map (gpu_quarantine_key (q_prefix Q)) aliases @
                     (if named then [gpu_device_quarantine_key (q_prefix Q) hostname device] else [])
          in if \<not> q_redis Q then (Inl RedisDown, fs1, s)
             else (Inr (list_ex (\<lambda>k. r_exists R k s) keys \<or> file_removed), fs1, del_many R keys s))"

end
