(* ===== verification/QuarantineContracts.thy ===== *)
theory QuarantineContracts
  imports QuarantineOps
begin

section \<open>What a quarantine latch guarantees\<close>

subsection \<open>Records\<close>

lemma map_of_put_fields: "map_of (put_fields fvs r) = map_of r ++ map_of (rev fvs)"
  unfolding put_fields_def
  by (induction fvs arbitrary: r) (auto simp: map_of_AList_update map_add_def fun_eq_iff split: option.split)

lemma map_of_drop_page: "map_of (drop_page_fields r) f = (if starts_with ''page_user_'' f then None else map_of r f)"
  unfolding drop_page_fields_def by (induction r) auto

lemma map_of_set_default: "map_of (set_default f x r) g = (if g = f \<and> map_of r f = None then Some x else map_of r g)"
  by (auto simp: set_default_def map_of_AList_update)

lemma map_of_fill: "map_of (fill f x r) = (map_of r)(f \<mapsto> if rget f r = [] then x else rget f r)"
  by (simp add: fill_def map_of_AList_update)

lemmas latch_fields = map_of_put_fields map_of_drop_page map_of_set_default map_of_fill map_of_AList_update

lemma latch_nonempty: "map_of r f = Some x \<Longrightarrow> r \<noteq> []"
  by auto

text \<open>What \<open>read_json\<close> accepts, and the identity of a latch.\<close>

definition latched :: "latch \<Rightarrow> bool" where
  "latched r \<longleftrightarrow> map_of r ''state'' = Some ''quarantined''"

definition same_event :: "latch \<Rightarrow> latch \<Rightarrow> bool" where
  \<comment> \<open>equal in every field that a generation of a physical latch depends on\<close>
  "same_event a b \<longleftrightarrow> physical a \<and> physical b \<and>
     (\<forall>f \<in> {''event_id'', ''created_at'', ''hostname'', ''device'', ''fault_class'', ''reason'', ''task_id''}.
        rget f a = rget f b)"

lemma same_event_generation: "same_event a b \<Longrightarrow> gpu_quarantine_generation Q a = gpu_quarantine_generation Q b"
  by (simp add: same_event_def gpu_quarantine_generation_def physical_def rget_def Let_def)

lemma same_event_trans: "same_event a b \<Longrightarrow> same_event b c \<Longrightarrow> same_event a c"
  by (simp add: same_event_def)

definition at_gpu :: "str \<Rightarrow> str \<Rightarrow> latch \<Rightarrow> bool" where
  "at_gpu hostname device r \<longleftrightarrow> physical r \<and> at_device hostname device r"

lemma normalized_event:
  assumes "at_gpu h d r" and "h \<noteq> []" and "d \<noteq> []"
  shows "same_event (fst (normalize_read_record w h d (normalize_device_record h d r))) r \<and>
    at_gpu h d (fst (normalize_read_record w h d (normalize_device_record h d r)))"
  using assms
  by (simp add: at_gpu_def at_device_def same_event_def physical_def normalize_read_record_def
      normalize_device_record_def Let_def rget_def latch_fields)

lemma normalized_nonempty: "fst (normalize_read_record w h d r) \<noteq> []"
proof -
  have "map_of (fst (normalize_read_record w h d r)) ''device'' \<noteq> None"
    by (simp add: normalize_read_record_def Let_def latch_fields)
  then show ?thesis by auto
qed

lemma constrained_nonempty: "r \<noteq> [] \<Longrightarrow> constrain_worker_record h d r \<noteq> []"
  using latch_nonempty [of "constrain_worker_record h d r" "''page_user_state''"]
  by (auto simp: constrain_worker_record_def latch_fields)

subsection \<open>The merge is fail-closed\<close>

lemma strongest_some:
  assumes "\<exists>r \<in> {a, map_option (constrain_worker_record h d) b, c, map_option (constrain_worker_record h d) e}. r \<noteq> None \<and> r \<noteq> Some []"
  shows "strongest_record Q h d a b c e \<noteq> None"
proof -
  let ?records = "filter (\<lambda>r. r \<noteq> []) (map the (filter (\<lambda>x. x \<noteq> None)
    [a, map_option (constrain_worker_record h d) b, c, map_option (constrain_worker_record h d) e]))"
  have "\<exists>r \<in> set ?records. True" using assms by fastforce
  then obtain r rest where "(if filter physical ?records \<noteq> [] then filter physical ?records else ?records) = r # rest"
    by (metis (no_types, lifting) list.exhaust empty_iff list.set(1))
  then show ?thesis
    unfolding strongest_record_def Let_def by (simp only: list.case split: option.split if_split) simp
qed

lemma strongest_none:
  assumes "strongest_record Q h d a b c e = None"
    and "a \<noteq> Some []" "b \<noteq> Some []" "c \<noteq> Some []" "e \<noteq> Some []"
  shows "a = None \<and> b = None \<and> c = None \<and> e = None"
proof (rule ccontr)
  assume "\<not> ?thesis"
  moreover have "map_option (constrain_worker_record h d) x \<noteq> Some []" if "x \<noteq> Some []" for x
    using that constrained_nonempty by (cases x) auto
  ultimately have "\<exists>r \<in> {a, map_option (constrain_worker_record h d) b, c, map_option (constrain_worker_record h d) e}.
      r \<noteq> None \<and> r \<noteq> Some []"
    using assms(2-5) by (auto simp del: not_None_eq)
  from strongest_some [OF this] show False using assms(1) by blast
qed

lemma strongest_device:
  assumes "physical a"
  shows "\<exists>r. strongest_record Q h d (Some a) b c e = Some r \<and>
    (\<forall>f. \<not> starts_with ''page_user_'' f \<longrightarrow> map_of r f = map_of a f)"
proof -
  have ne: "a \<noteq> []" using assms by (auto simp: physical_def)
  have page: "map_of (rev (filter (\<lambda>(f, _). starts_with ''page_user_'' f) xs)) f = None"
    if "\<not> starts_with ''page_user_'' f" for xs :: latch and f
    using that by (auto simp: map_of_eq_None_iff)
  have state: "\<not> starts_with ''page_user_'' f \<Longrightarrow> f \<noteq> ''page_user_state''" for f
    by (auto simp: starts_with_def)
  obtain rest where rest: "filter (\<lambda>r. r \<noteq> []) (map the (filter (\<lambda>x. x \<noteq> None)
      [Some a, map_option (constrain_worker_record h d) b, c, map_option (constrain_worker_record h d) e])) = a # rest"
    by (simp only: filter.simps list.map) (simp add: ne)
  have lead: "(if filter physical (a # rest) \<noteq> [] then filter physical (a # rest) else a # rest) = a # filter physical rest"
    using assms by simp
  show ?thesis
    unfolding strongest_record_def Let_def rest lead list.case
    using page state
    by (cases "find (\<lambda>r. physical r \<and> map_of r ''page_user_state'' = Some ''sent'') (a # rest)")
      (simp_all only: option.case, simp_all add: latch_fields map_add_def)
qed

lemma read_json_none: "read_json Q path fs = Inr None \<Longrightarrow> map_of fs path = None"
  by (auto simp: read_json_def split: if_splits option.splits latch_file.splits)

lemma read_json_some:
  "read_json Q path fs = Inr (Some r) \<Longrightarrow> map_of fs path = Some (Latch r) \<and> latched r"
  by (auto simp: read_json_def latched_def split: if_splits option.splits latch_file.splits)

definition no_latch :: "'s redis \<Rightarrow> 's qenv \<Rightarrow> str \<Rightarrow> str \<Rightarrow> str \<Rightarrow> 's qstate \<Rightarrow> bool" where
  \<comment> \<open>none of the four places holds anything for this worker or device\<close>
  "no_latch R Q worker_id device hostname st \<longleftrightarrow>
     map_of (fst st) (worker_latch_path worker_id) = None \<and>
     r_hgetall R (gpu_quarantine_key (q_prefix Q) worker_id) (snd st) = [] \<and>
     (hostname \<noteq> [] \<longrightarrow> device \<noteq> [] \<longrightarrow>
        map_of (fst st) (device_latch_path hostname device) = None \<and>
        r_hgetall R (gpu_device_quarantine_key (q_prefix Q) hostname device) (snd st) = [])"

lemma read_merged_parts:
  assumes "read_merged R Q w h d (fs, s) = Inr None"
  obtains dd dw rd rw where "read_durable Q w h d fs = Inr (dd, dw)"
    "read_redis_records R Q w h d s = Some (rd, rw)"
    "strongest_record Q h d (map_option fst (map_option (normalize_read_record w h d) (map_option (normalize_device_record h d) dd)))
      (map_option fst (map_option (normalize_read_record w h d) dw))
      (map_option (fst \<circ> normalize_read_record w h d) (map_option (normalize_device_record h d) rd))
      (map_option (fst \<circ> normalize_read_record w h d) rw) = None"
proof (cases "read_durable Q w h d fs")
  case (Inl e)
  have "read_merged R Q w h d (fs, s) = Inl e"
    unfolding read_merged_def by (simp only: Inl prod.case sum.case)
  then show thesis using assms by simp
next
  case (Inr p)
  obtain dd dw where p: "p = (dd, dw)" by (cases p)
  show thesis
  proof (cases "read_redis_records R Q w h d s")
    case None
    let ?none = "strongest_record Q h d
      (map_option fst (map_option (normalize_read_record w h d) (map_option (normalize_device_record h d) dd)))
      (map_option fst (map_option (normalize_read_record w h d) dw))
      (map_option (fst \<circ> normalize_read_record w h d) (map_option (normalize_device_record h d) None))
      (map_option (fst \<circ> normalize_read_record w h d) None)"
    have "read_merged R Q w h d (fs, s) \<noteq> Inr None"
      unfolding read_merged_def
      by (cases ?none; simp only: Inr p None Let_def prod.case sum.case option.case) simp_all
    then show thesis using assms by simp
  next
    case (Some q)
    obtain rd rw where q: "q = (rd, rw)" by (cases q)
    have "strongest_record Q h d (map_option fst (map_option (normalize_read_record w h d) (map_option (normalize_device_record h d) dd)))
      (map_option fst (map_option (normalize_read_record w h d) dw))
      (map_option (fst \<circ> normalize_read_record w h d) (map_option (normalize_device_record h d) rd))
      (map_option (fst \<circ> normalize_read_record w h d) rw) = None"
      (is "?strongest = None")
    proof (rule ccontr)
      assume "?strongest \<noteq> None"
      then obtain r where "?strongest = Some r" by auto
      then show False using assms unfolding read_merged_def
        by (simp only: Inr p Some q Let_def prod.case sum.case option.case) simp
    qed
    then show thesis using that Inr p Some q by auto
  qed
qed

lemma read_merged_none:
  assumes "read_merged R Q w h d st = Inr None"
  shows "q_redis Q \<and> no_latch R Q w d h st"
proof -
  obtain fs s where st: "st = (fs, s)" by (cases st)
  from read_merged_parts [OF assms [unfolded st]] obtain dd dw rd rw
    where dur: "read_durable Q w h d fs = Inr (dd, dw)"
      and red: "read_redis_records R Q w h d s = Some (rd, rw)"
      and none: "strongest_record Q h d
        (map_option fst (map_option (normalize_read_record w h d) (map_option (normalize_device_record h d) dd)))
        (map_option fst (map_option (normalize_read_record w h d) dw))
        (map_option (fst \<circ> normalize_read_record w h d) (map_option (normalize_device_record h d) rd))
        (map_option (fst \<circ> normalize_read_record w h d) rw) = None"
    by metis
  have absent: "dd = None" "dw = None" "rd = None" "rw = None"
    using strongest_none [OF none] normalized_nonempty by (cases dd; cases dw; cases rd; cases rw; simp)+
  have up: "q_redis Q" using red by (simp add: read_redis_records_def split: if_splits)
  have files: "map_of fs (worker_latch_path w) = None \<and>
      (h \<noteq> [] \<longrightarrow> d \<noteq> [] \<longrightarrow> map_of fs (device_latch_path h d) = None)"
    using dur absent(1,2) by (auto simp: read_durable_def split: sum.splits if_splits dest!: read_json_none)
  have hashes: "r_hgetall R (gpu_quarantine_key (q_prefix Q) w) s = [] \<and>
      (h \<noteq> [] \<longrightarrow> d \<noteq> [] \<longrightarrow> r_hgetall R (gpu_device_quarantine_key (q_prefix Q) h d) s = [])"
    using red unfolding absent by (auto simp: read_redis_records_def hash_record_def Let_def split: if_splits)
  show ?thesis using up files hashes by (simp add: st no_latch_def)
qed

lemma read_none_no_latch:
  assumes "read_gpu_quarantine R Q w d h read_only st = (Inr None, st')"
  shows "q_redis Q \<and> no_latch R Q w d h st'"
  using assms read_merged_none [of R Q w h d st] read_merged_none [of R Q w h d "q_others Q st"]
  by (auto simp: read_gpu_quarantine_def Let_def split: sum.splits option.splits if_splits prod.splits)

text \<open>
  C19: the quarantine read is fail-closed. It reports "no quarantine" only if Redis answered and, in
  the state it leaves, neither the worker nor the named device has a latch file or a Redis hash, of
  whatever content; anything else -- a latch in any one of the four places, an unreadable or
  malformed file, a Redis failure -- is a latch or an error.
\<close>

theorem quarantine_fail_closed:
  assumes "read_gpu_quarantine R Q w d h read_only st = (Inr None, st')"
  shows "q_redis Q \<and> no_latch R Q w d h st'"
  using assms by (rule read_none_no_latch)

end
