(* ===== verification/Pager.thy ===== *)
theory Pager
  imports QuarantineOps
begin

section \<open>Paging an operator about a quarantine\<close>

text \<open>
  \<open>kernelgym/utils/page_user_notifier.py\<close>: one page for one latch. A sender holds the claim of
  \<open>QuarantineOps\<close> from before the message is built until its outcome is durable, so the attempt is
  one step on the latch files; the transport to the paging service is a parameter. The second
  component of a result is the list of pages handed to the transport.
\<close>

record page =
  pg_message :: str
  pg_title :: str
  pg_host :: str

record page_outcome =
  po_success :: bool
  po_protocol_version :: "str option"
  po_error_kind :: "str option"
  po_error :: "str option"

record pager =
  pr_hostname :: str \<comment> \<open>\<open>socket.gethostname()\<close>\<close>
  pr_send :: "page \<Rightarrow> page_outcome option" \<comment> \<open>None: interrupted\<close>
  pr_error_name :: "q_error \<Rightarrow> str" \<comment> \<open>the class of a claim's exception\<close>

definition refused :: "str \<Rightarrow> str \<Rightarrow> page_outcome" where
  "refused error_kind error =
    \<lparr>po_success = False, po_protocol_version = None, po_error_kind = Some error_kind, po_error = Some error\<rparr>"

definition not_needed :: "str \<Rightarrow> page_outcome" where
  "not_needed protocol_version =
    \<lparr>po_success = True, po_protocol_version = Some protocol_version, po_error_kind = None, po_error = None\<rparr>"

definition field_or :: "str \<Rightarrow> latch \<Rightarrow> str \<Rightarrow> str" where
  "field_or f r x = (if rget f r = [] then x else rget f r)"

definition newline :: str where
  "newline = [char_of (10 :: nat)]"

definition physical_notification_content :: "pager \<Rightarrow> latch \<Rightarrow> page" where
  "physical_notification_content P r =
    (let hostname = field_or ''hostname'' r (pr_hostname P);
         device = field_or ''device'' r ''unknown-device''
     in \<lparr>pg_message = hostname @ '' '' @ device @ '' removed from KernelGYM scheduling'' @ newline @
           ''- worker: '' @ field_or ''worker_id'' r ''unknown-worker'' @ newline @
           ''- fault: '' @ field_or ''fault_class'' r ''unknown'' @ newline @ ''- manual clear required'',
         pg_title = ''KernelGYM GPU quarantined'', pg_host = hostname\<rparr>)"

definition worker_notification_content :: "pager \<Rightarrow> latch \<Rightarrow> page" where
  "worker_notification_content P r =
    (let hostname = field_or ''hostname'' r (pr_hostname P);
         device = field_or ''device'' r ''unknown-device'';
         fault_class = field_or ''fault_class'' r ''unknown'';
         headline = hostname @ '' '' @ device @
           (if fault_class = ''restart_limit'' then '' GPU worker removed after restart limit''
            else '' GPU worker removed from KernelGYM scheduling'')
     in \<lparr>pg_message = headline @ newline @
           ''- worker: '' @ field_or ''worker_id'' r ''unknown-worker'' @ newline @
           ''- fault: '' @ fault_class @ newline @ ''- physical GPU fault: not yet proven'' @ newline @
           ''- scheduling: disabled for this worker until manual clear'',
         pg_title = ''KernelGYM GPU worker excluded'', pg_host = hostname\<rparr>)"

definition unlatched_best_effort :: "latch \<Rightarrow> bool" where
  "unlatched_best_effort r \<longleftrightarrow> map_of r ''notification_provenance'' = Some ''unlatched_best_effort''"

definition text_or :: "str option \<Rightarrow> str \<Rightarrow> str" where
  "text_or x y = (case x of None \<Rightarrow> y | Some t \<Rightarrow> if t = [] then y else t)"

definition outcome_state :: "page_outcome option \<Rightarrow> str \<times> str" where
  \<comment> \<open>the state and the error that finish the claim\<close>
  "outcome_state result = (case result of
       None \<Rightarrow> (''failed'', ''delivery interrupted before completion'')
     | Some r \<Rightarrow> if po_success r then (''sent'', [])
         else (''failed'', text_or (po_error_kind r) ''unknown'' @ '': '' @ text_or (po_error r) []))"

definition send_claimed_gpu_notification ::
  "'s qenv \<Rightarrow> pager \<Rightarrow> str \<Rightarrow> (latch \<Rightarrow> page) \<Rightarrow> latch \<Rightarrow> latch_files \<Rightarrow>
   page_outcome option \<times> page list \<times> latch_files" where
  "send_claimed_gpu_notification Q P expected_scope content_builder r fs =
    (if map_of r ''scope'' \<noteq> Some expected_scope
     then (Some (refused ''input_error'' (''GPU notification requires scope='' @ expected_scope)), [], fs)
     else if unlatched_best_effort r then
       (let pg = content_builder r in (pr_send P pg, [pg], fs))
     else (case acquire_page_claim Q r fs of
         (Inl e, fs1) \<Rightarrow> (Some (refused ''claim_error''
             (''unable to acquire durable notification claim: '' @ pr_error_name P e)), [], fs1)
       | (Inr claim, fs1) \<Rightarrow>
           if \<not> pc_should_send claim
           then (Some (not_needed (if pc_superseded claim then ''superseded'' else ''deduplicated'')), [], fs1)
           else
             let pg = content_builder (pc_record claim);
                 result = pr_send P pg;
                 (state, error) = outcome_state result;
                 (finished, fs2) = finish_page_claim Q claim state error fs1
             in (result, [pg], fs2)))"

definition send_gpu_quarantine_page ::
  "'s qenv \<Rightarrow> pager \<Rightarrow> latch \<Rightarrow> latch_files \<Rightarrow> page_outcome option \<times> page list \<times> latch_files" where
  "send_gpu_quarantine_page Q P =
    send_claimed_gpu_notification Q P ''physical_gpu'' (physical_notification_content P)"

definition send_gpu_worker_exclusion_page ::
  "'s qenv \<Rightarrow> pager \<Rightarrow> latch \<Rightarrow> latch_files \<Rightarrow> page_outcome option \<times> page list \<times> latch_files" where
  "send_gpu_worker_exclusion_page Q P =
    send_claimed_gpu_notification Q P ''worker_process'' (worker_notification_content P)"

end
