(* ===== verification/QuarantineSafety.thy ===== *)
theory QuarantineSafety
  imports QuarantineContracts Pager Workers
begin

section \<open>A quarantine lasts until it is cleared\<close>

subsection \<open>What the operations keep of a latch file\<close>

definition latch_at :: "latch_path \<Rightarrow> latch_files \<Rightarrow> bool" where
  "latch_at path fs \<longleftrightarrow> (\<exists>r. map_of fs path = Some (Latch r) \<and> latched r)"

lemma page_state [simp]: "\<not> starts_with ''page_user_'' ''state''"
  by (simp add: starts_with_def)

lemma latched_alias: "latched r \<Longrightarrow> latched (worker_alias w r)"
  by (simp add: latched_def worker_alias_def latch_fields)

lemma latched_paths: "latched r \<Longrightarrow> \<forall>(_, x) \<in> set (durable_paths r w). latched x"
  by (simp add: durable_paths_def latched_alias)

lemma write_latches_keeps:
  "\<lbrakk>\<forall>(_, x) \<in> set ps. latched x; latch_at path fs\<rbrakk> \<Longrightarrow> latch_at path (snd (write_latches Q ps fs))"
  by (induction Q ps fs rule: write_latches.induct) (auto simp: latch_at_def map_of_AList_update)

lemma write_paths_keeps:
  "\<lbrakk>latched r; latch_at path fs\<rbrakk> \<Longrightarrow> latch_at path (snd (write_latches Q (durable_paths r w) fs))"
  by (rule write_latches_keeps [OF latched_paths])

lemma write_paths_device:
  assumes "write_latches Q (durable_paths r w) fs = (True, fs1)" and "located r"
  shows "map_of fs1 (device_latch_path (rget ''hostname'' r) (rget ''device'' r)) = Some (Latch r)"
  using assms
  by (auto simp: durable_paths_def map_of_AList_update device_latch_path_def worker_latch_path_def split: if_splits)

lemma latched_normal: "latched (fst (normalize_read_record w h d r))"
  by (simp add: latched_def normalize_read_record_def Let_def latch_fields)

lemma latched_normal_pair: "normalize_read_record w h d r = (x, changed) \<Longrightarrow> latched x"
  using latched_normal [of w h d r] by simp

lemma latched_device: "latched r \<Longrightarrow> latched (normalize_device_record h d r)"
  by (simp add: latched_def normalize_device_record_def latch_fields)

lemma latched_constrained: "latched r \<Longrightarrow> latched (constrain_worker_record h d r)"
  by (simp add: latched_def constrain_worker_record_def latch_fields)

lemma latched_default: "latched r \<Longrightarrow> latched (set_default f x r)"
  by (auto simp: latched_def latch_fields)

lemma latched_new: "latched (new_quarantine_record Q rq)"
  by (simp add: latched_def new_quarantine_record_def)

lemma latched_outcome: "latched r \<Longrightarrow> latched (note_outcome Q state error r)"
  by (simp add: latched_def note_outcome_def latch_fields)

lemma latched_sending: "latched r \<Longrightarrow> latched (note_sending Q r)"
  by (simp add: latched_def note_sending_def latch_fields)

lemmas latched_intros = latched_default latched_new latched_outcome latched_sending latched_device

lemma lead_member:
  assumes "(case (if filter P rs \<noteq> [] then filter P rs else rs) of [] \<Rightarrow> None | m # _ \<Rightarrow> F m) = Some r"
  shows "\<exists>m \<in> set rs. F m = Some r"
proof (cases "filter P rs")
  case Nil
  then show ?thesis using assms by (cases rs) auto
next
  case (Cons m ms)
  then have "m \<in> set rs" using filter_is_subset [of P rs] by auto
  then show ?thesis using assms Cons by auto
qed

lemma strongest_member:
  assumes "strongest_record Q h d a b c e = Some r"
  shows "\<exists>m. Some m \<in> {a, map_option (constrain_worker_record h d) b, c, map_option (constrain_worker_record h d) e} \<and>
    (\<forall>f. \<not> starts_with ''page_user_'' f \<longrightarrow> map_of r f = map_of m f)"
proof -
  have page: "map_of (rev (filter (\<lambda>(f, _). starts_with ''page_user_'' f) xs)) f = None"
    if "\<not> starts_with ''page_user_'' f" for xs :: latch and f
    using that by (auto simp: map_of_eq_None_iff)
  have state: "f \<noteq> ''page_user_state''" if "\<not> starts_with ''page_user_'' f" for f
    using that by (auto simp: starts_with_def)
  let ?ordered = "[a, map_option (constrain_worker_record h d) b, c, map_option (constrain_worker_record h d) e]"
  let ?records = "filter (\<lambda>r. r \<noteq> []) (map the (filter (\<lambda>x. x \<noteq> None) ?ordered))"
  from lead_member [OF assms [unfolded strongest_record_def Let_def]]
  obtain m where m: "m \<in> set ?records"
    and r: "(case find (\<lambda>r. physical r \<and> map_of r ''page_user_state'' = Some ''sent'') ?records of
        None \<Rightarrow> Some m
      | Some x \<Rightarrow> if gpu_quarantine_generation Q x = gpu_quarantine_generation Q m
          then Some (AList.update ''page_user_state'' ''sent''
            (put_fields (filter (\<lambda>(f, _). starts_with ''page_user_'' f) x) m))
          else Some m) = Some r" ..
  have r: "r = m \<or> (\<exists>xs. r = AList.update ''page_user_state'' ''sent''
      (put_fields (filter (\<lambda>(f, _). starts_with ''page_user_'' f) xs) m))"
    using r by (cases "find (\<lambda>r. physical r \<and> map_of r ''page_user_state'' = Some ''sent'') ?records")
      (simp_all only: option.case option.inject split: if_splits, blast+)
  obtain x where x: "x \<in> set ?ordered" "x \<noteq> None" "m = the x"
    using m unfolding set_filter set_map by blast
  then have "Some m = x" by simp
  with x(1) have "Some m \<in> {a, map_option (constrain_worker_record h d) b, c, map_option (constrain_worker_record h d) e}"
    unfolding list.set by blast
  moreover have "\<forall>f. \<not> starts_with ''page_user_'' f \<longrightarrow> map_of r f = map_of m f"
    using r page state by (auto simp: latch_fields map_add_def)
  ultimately show ?thesis by blast
qed

lemma latched_strongest:
  assumes "strongest_record Q h d a b c e = Some r"
    and "pred_option latched a" "pred_option latched b" "pred_option latched c" "pred_option latched e"
  shows "latched r"
proof -
  from strongest_member [OF assms(1)] obtain m
    where m: "Some m \<in> {a, map_option (constrain_worker_record h d) b, c, map_option (constrain_worker_record h d) e}"
      and same: "map_of r ''state'' = map_of m ''state''"
    using page_state by metis
  have "latched m"
    using m assms(2-5) latched_constrained by (cases b; cases e) auto
  then show ?thesis using same by (simp add: latched_def)
qed

lemma read_merged_some:
  assumes "read_merged R Q w h d (fs, s) = Inr (Some mr)"
  obtains dd dw rd rw where "read_durable Q w h d fs = Inr (dd, dw)"
    "strongest_record Q h d (map_option fst (map_option (normalize_read_record w h d) (map_option (normalize_device_record h d) dd)))
      (map_option fst (map_option (normalize_read_record w h d) dw))
      (map_option (fst \<circ> normalize_read_record w h d) (map_option (normalize_device_record h d) rd))
      (map_option (fst \<circ> normalize_read_record w h d) rw) = Some (mr_record mr)"
proof (cases "read_durable Q w h d fs")
  case (Inl e)
  have "read_merged R Q w h d (fs, s) = Inl e"
    unfolding read_merged_def by (simp only: Inl prod.case sum.case)
  then show thesis using assms by simp
next
  case (Inr p)
  obtain dd dw where p: "p = (dd, dw)" by (cases p)
  obtain rd rw where q: "(case read_redis_records R Q w h d s of None \<Rightarrow> (None, None) | Some rs \<Rightarrow> rs) = (rd, rw)"
    by fastforce
  let ?r = "strongest_record Q h d
    (map_option fst (map_option (normalize_read_record w h d) (map_option (normalize_device_record h d) dd)))
    (map_option fst (map_option (normalize_read_record w h d) dw))
    (map_option (fst \<circ> normalize_read_record w h d) (map_option (normalize_device_record h d) rd))
    (map_option (fst \<circ> normalize_read_record w h d) rw)"
  show thesis
  proof (cases ?r)
    case None
    show thesis using assms unfolding read_merged_def
      by (simp only: Inr p q Let_def prod.case sum.case option.case None split: if_splits) simp_all
  next
    case (Some r)
    have "r = mr_record mr" using assms unfolding read_merged_def
      by (simp only: Inr p q Let_def prod.case sum.case option.case Some sum.inject option.inject) auto
    then show thesis using that Inr p Some by auto
  qed
qed

lemma latched_merged:
  assumes "read_merged R Q w h d st = Inr (Some mr)"
  shows "latched (mr_record mr)"
proof -
  have normal: "pred_option latched (map_option fst (map_option (normalize_read_record w h d) x))"
      "pred_option latched (map_option (fst \<circ> normalize_read_record w h d) x)" for x
    using latched_normal by (cases x; simp)+
  obtain fs s where "st = (fs, s)" by (cases st)
  with assms have "read_merged R Q w h d (fs, s) = Inr (Some mr)" by simp
  then show ?thesis by (rule read_merged_some) (rule latched_strongest, assumption, (rule normal)+)
qed

lemma existing_latched: "existing_durable_record Q w d h fs = Inr (Some r) \<Longrightarrow> latched r"
  by (auto simp: existing_durable_record_def latched_device split: sum.splits option.splits if_splits
      dest: read_json_some)

subsection \<open>Every operation but the clear keeps it\<close>

definition keeps :: "latch_path \<Rightarrow> 's qenv \<Rightarrow> bool" where
  \<comment> \<open>the other processes that run before the lock is granted clear nothing\<close>
  "keeps path Q \<longleftrightarrow> (\<forall>st. latch_at path (fst st) \<longrightarrow> latch_at path (fst (q_others Q st)))"

lemma read_keeps:
  assumes "keeps path Q" and "latch_at path (fst st)"
  shows "latch_at path (fst (snd (read_gpu_quarantine R Q w d h read_only st)))"
proof -
  have mat: "latch_at path (fst (snd (materialize R Q w h d mr st1)))"
    if "latched (mr_record mr)" "latch_at path (fst st1)" for mr st1
    using that by (cases st1) (simp add: materialize_def case_prod_beta Let_def write_paths_keeps)
  have others: "latch_at path (fst (q_others Q st))"
    using assms unfolding keeps_def by blast
  show ?thesis
    using assms(2) others mat [OF latched_merged [of R Q w h d "q_others Q st"], of _ "q_others Q st"]
    by (simp add: read_gpu_quarantine_def Let_def case_prod_beta split: sum.split option.split)
qed

lemma write_durable_keeps:
  assumes "latch_at path fs"
  shows "latch_at path (snd (snd (write_durable Q rq fs)))"
proof (cases "existing_durable_record Q (rq_worker rq) (rq_device rq) (rq_hostname rq) fs")
  case (Inl e)
  then show ?thesis using assms by (simp add: write_durable_def Let_def)
next
  case (Inr existing)
  show ?thesis
  proof (cases existing)
    case None
    then show ?thesis using Inr assms
      by (simp add: write_durable_def Let_def case_prod_beta write_paths_keeps latched_intros)
  next
    case (Some old)
    then have "latched old" using Inr by (simp add: existing_latched)
    then show ?thesis using Inr Some assms
      by (simp add: write_durable_def Let_def case_prod_beta write_paths_keeps latched_intros)
  qed
qed

lemma write_keeps:
  assumes "keeps path Q" and "latch_at path (fst st)"
  shows "latch_at path (fst (snd (write_gpu_quarantine R Q rq st)))"
  using assms
  by (cases st) (auto simp: write_gpu_quarantine_def keeps_def Let_def case_prod_beta
      intro!: write_durable_keeps)

lemma update_durable_keeps:
  assumes "latch_at path fs"
  shows "latch_at path (snd (update_notification_durable Q w d h scope generation state error fs))"
proof (cases "if scope = ''worker_process'' then read_json Q (worker_latch_path w) fs
    else existing_durable_record Q w d h fs")
  case (Inl e)
  then show ?thesis using assms by (simp add: update_notification_durable_def)
next
  case (Inr existing)
  show ?thesis
  proof (cases existing)
    case None
    then show ?thesis using Inr assms by (simp add: update_notification_durable_def)
  next
    case (Some old)
    then have "latched old" using Inr by (auto split: if_splits dest: existing_latched read_json_some)
    then show ?thesis using Inr Some assms
      by (simp add: update_notification_durable_def Let_def case_prod_beta write_paths_keeps latched_intros)
  qed
qed

lemma update_keeps:
  assumes "keeps path Q" and "latch_at path (fst st)"
  shows "latch_at path (fst (snd (update_gpu_quarantine_notification R Q w d h scope generation state error st)))"
proof -
  obtain fs s where others: "q_others Q st = (fs, s)" by (cases "q_others Q st")
  then have "latch_at path fs" using assms by (metis fst_conv keeps_def)
  from update_durable_keeps [OF this, of Q w d h scope generation state error] show ?thesis
    using assms(2)
    by (cases "update_notification_durable Q w d h scope generation state error fs")
      (auto simp: update_gpu_quarantine_notification_def others Let_def split: sum.split option.split dest: sym)
qed

lemma claimed_latched:
  assumes "claimed_latch scope (map_option (normalize_device_record h d) dd) dw = Some r"
    and "read_json Q (worker_latch_path w) fs = Inr dw" and "read_json Q (device_latch_path h d) fs = Inr dd"
  shows "latched r"
  using assms
  by (auto simp: claimed_latch_def latched_device split: if_splits option.splits dest: read_json_some)

lemma acquire_cases:
  assumes "acquire_page_claim Q r fs = (res, fs1)"
  obtains (refused) "fs1 = fs" "\<forall>c. res = Inr c \<longrightarrow> \<not> pc_should_send c"
  | (sending) current where "latched current"
      "claimed_latch (rget ''scope'' r)
         (case read_json Q (device_latch_path (rget ''hostname'' r) (rget ''device'' r)) fs of
            Inr (Some x) \<Rightarrow> Some (normalize_device_record (rget ''hostname'' r) (rget ''device'' r) x) | _ \<Rightarrow> None)
         (case read_json Q (worker_latch_path (rget ''worker_id'' r)) fs of Inr x \<Rightarrow> x | _ \<Rightarrow> None) = Some current"
      "map_of current ''page_user_state'' \<noteq> Some ''sent''"
      "fs1 = snd (write_latches Q (durable_paths (note_sending Q current) (rget ''worker_id'' r)) fs)"
      "res = (if fst (write_latches Q (durable_paths (note_sending Q current) (rget ''worker_id'' r)) fs)
        then Inr \<lparr>pc_held = True, pc_record = note_sending Q current, pc_worker = rget ''worker_id'' r,
               pc_should_send = True, pc_superseded = False\<rparr> else Inl StorageError)"
proof -
  let ?h = "rget ''hostname'' r" and ?d = "rget ''device'' r" and ?w = "rget ''worker_id'' r"
    and ?scope = "rget ''scope'' r"
  consider (bad) "?scope \<notin> {''physical_gpu'', ''worker_process''} \<or> ?h = [] \<or> ?d = [] \<or> ?w = [] \<or> \<not> q_lock Q"
    | (worker) e where "read_json Q (worker_latch_path ?w) fs = Inl e"
    | (device) x e where "read_json Q (worker_latch_path ?w) fs = Inr x" "read_json Q (device_latch_path ?h ?d) fs = Inl e"
    | (both) x y where "read_json Q (worker_latch_path ?w) fs = Inr x" "read_json Q (device_latch_path ?h ?d) fs = Inr y"
      "\<not> (?scope \<notin> {''physical_gpu'', ''worker_process''} \<or> ?h = [] \<or> ?d = [] \<or> ?w = [] \<or> \<not> q_lock Q)"
    by (metis sum.exhaust)
  then show thesis
  proof cases
    case bad
    then have "fs1 = fs \<and> (\<forall>c. res \<noteq> Inr c)"
      using assms unfolding acquire_page_claim_def Let_def by (auto split: if_splits)
    then show thesis using refused by blast
  next
    case worker
    then have "fs1 = fs \<and> (\<forall>c. res \<noteq> Inr c)"
      using assms unfolding acquire_page_claim_def Let_def by (auto split: if_splits)
    then show thesis using refused by blast
  next
    case device
    then have "fs1 = fs \<and> (\<forall>c. res \<noteq> Inr c)"
      using assms unfolding acquire_page_claim_def Let_def by (auto split: if_splits)
    then show thesis using refused by blast
  next
    case both
    let ?dev = "map_option (normalize_device_record ?h ?d) y"
    have eq: "(case Inr y of Inr (Some x) \<Rightarrow> Some (normalize_device_record ?h ?d x) | _ \<Rightarrow> None) = ?dev"
      by (cases y) simp_all
    show thesis
    proof (cases "claimed_latch ?scope ?dev x")
      case None
      then show thesis using assms both refused unfolding acquire_page_claim_def Let_def
        by (auto split: if_splits)
    next
      case (Some current)
      then have l: "latched current" using claimed_latched both by blast
      show thesis
        using assms both Some l refused sending [of current] unfolding acquire_page_claim_def Let_def both eq
        by (auto simp: case_prod_beta split: if_splits)
    qed
  qed
qed

lemma finish_files:
  assumes "finish_page_claim Q claim state error fs = (res, fs1)"
  shows "fs1 = fs \<and> \<not> (pc_held claim \<and> state \<in> {''sent'', ''failed''}) \<or>
    (\<exists>r. (\<forall>f. \<not> starts_with ''page_user_'' f \<longrightarrow> map_of r f = map_of (pc_record claim) f) \<and>
      map_of r ''page_user_state'' = Some state \<and>
      fs1 = snd (write_latches Q (durable_paths r (pc_worker claim)) fs))"
proof (cases "pc_held claim \<and> state \<in> {''sent'', ''failed''}")
  case True
  let ?r1 = "filter (\<lambda>(f, _). f \<noteq> ''page_user_claim_owner'') (put_fields [(''page_user_state'', state),
    (''page_user_updated_at'', q_now Q), (''page_user_error'', take 500 error)] (pc_record claim))"
  let ?r = "if state = ''sent'' then AList.update ''page_user_sent_at'' (q_now Q) ?r1 else ?r1"
  have eq: "fs1 = snd (write_latches Q (durable_paths ?r (pc_worker claim)) fs)"
    using assms True unfolding finish_page_claim_def Let_def by (auto simp: case_prod_beta)
  have drop: "map_of (filter (\<lambda>(f, _). f \<noteq> g) xs) f = map_of xs f" if "f \<noteq> g" for f g and xs :: latch
    using that by (induction xs) auto
  have "map_of ?r f = map_of (pc_record claim) f" if "\<not> starts_with ''page_user_'' f" for f
  proof -
    have "f \<noteq> ''page_user_claim_owner''" "f \<noteq> ''page_user_state''" "f \<noteq> ''page_user_updated_at''"
      "f \<noteq> ''page_user_error''" "f \<noteq> ''page_user_sent_at''"
      using that by (auto simp: starts_with_def)
    then show ?thesis by (simp add: latch_fields drop)
  qed
  moreover have "map_of ?r ''page_user_state'' = Some state" by (simp add: latch_fields drop)
  ultimately show ?thesis using eq by blast
next
  case False
  then show ?thesis using assms by (auto simp: finish_page_claim_def split: if_splits)
qed

lemma page_keeps:
  assumes "latch_at path fs"
  shows "latch_at path (snd (snd (send_claimed_gpu_notification Q P scope content r fs)))"
proof -
  obtain res fs1 where acq: "acquire_page_claim Q r fs = (res, fs1)"
    by (cases "acquire_page_claim Q r fs")
  have fs1: "latch_at path fs1"
    by (rule acquire_cases [OF acq]) (use assms in \<open>auto simp: write_paths_keeps latched_intros\<close>)
  have fin: "latch_at path (snd (finish_page_claim Q claim state error fs1))"
    if "res = Inr claim" "pc_should_send claim" for claim state error
  proof -
    have l: "latched (pc_record claim)"
      by (rule acquire_cases [OF acq]) (use that in \<open>auto simp: latched_intros split: if_splits\<close>)
    obtain out fs2 where fin: "finish_page_claim Q claim state error fs1 = (out, fs2)"
      by (cases "finish_page_claim Q claim state error fs1")
    from finish_files [OF fin] show ?thesis
      using l fs1 by (auto simp: fin latched_def intro!: write_paths_keeps) 
  qed
  show ?thesis
    using assms fs1 fin
    by (auto simp: send_claimed_gpu_notification_def acq Let_def case_prod_beta split: sum.splits)
qed

subsection \<open>Sequences of operations\<close>

datatype q_op =
    Read str str str bool \<comment> \<open>worker, device, host, \<open>read_only\<close>\<close>
  | Write quarantine_request
  | Note str str str str str str str
  | PageDevice latch
  | PageWorker latch

fun q_step :: "'s redis \<Rightarrow> 's qenv \<times> pager \<times> q_op \<Rightarrow> 's qstate \<Rightarrow> 's qstate" where
  "q_step R (Q, P, Read w d h read_only) st = snd (read_gpu_quarantine R Q w d h read_only st)"
| "q_step R (Q, P, Write rq) st = snd (write_gpu_quarantine R Q rq st)"
| "q_step R (Q, P, Note w d h scope generation state error) st =
     snd (update_gpu_quarantine_notification R Q w d h scope generation state error st)"
| "q_step R (Q, P, PageDevice r) st = (snd (snd (send_gpu_quarantine_page Q P r (fst st))), snd st)"
| "q_step R (Q, P, PageWorker r) st = (snd (snd (send_gpu_worker_exclusion_page Q P r (fst st))), snd st)"

definition q_run :: "'s redis \<Rightarrow> ('s qenv \<times> pager \<times> q_op) list \<Rightarrow> 's qstate \<Rightarrow> 's qstate" where
  "q_run R ops st = fold (q_step R) ops st"

lemma q_step_keeps: "\<lbrakk>keeps path (fst op); latch_at path (fst st)\<rbrakk> \<Longrightarrow> latch_at path (fst (q_step R op st))"
  by (cases "(R, op, st)" rule: q_step.cases)
    (simp_all add: read_keeps write_keeps update_keeps send_gpu_quarantine_page_def
      send_gpu_worker_exclusion_page_def page_keeps)

lemma q_run_keeps:
  "\<lbrakk>\<forall>op \<in> set ops. keeps path (fst op); latch_at path (fst st)\<rbrakk> \<Longrightarrow> latch_at path (fst (q_run R ops st))"
  by (induction ops arbitrary: st) (simp_all add: q_run_def q_step_keeps)

subsection \<open>A written latch\<close>

lemma write_durable_record:
  assumes "write_durable Q rq fs = (r, False, fs1)"
    and "rq_physical rq" "rq_hostname rq \<noteq> []" "rq_device rq \<noteq> []"
  shows "latched r \<and> at_gpu (rq_hostname rq) (rq_device rq) r \<and>
    map_of fs1 (device_latch_path (rq_hostname rq) (rq_device rq)) = Some (Latch r)"
proof -
  let ?new = "set_default ''page_user_state'' ''pending'' (new_quarantine_record Q rq)"
  obtain existing where ex: "existing_durable_record Q (rq_worker rq) (rq_device rq) (rq_hostname rq) fs = Inr existing"
    using assms(1) by (auto simp: write_durable_def Let_def split: sum.splits)
  have new: "latched ?new \<and> at_gpu (rq_hostname rq) (rq_device rq) ?new"
    using assms by (simp add: latched_def at_gpu_def at_device_def physical_def new_quarantine_record_def latch_fields)
  have old: "latched (set_default ''page_user_state'' ''pending'' old) \<and>
      at_gpu (rq_hostname rq) (rq_device rq) (set_default ''page_user_state'' ''pending'' old)"
    if "existing = Some old" "preserves rq old" for old
    using that ex assms existing_latched [of Q _ _ _ fs old]
    by (auto simp: latched_def at_gpu_def at_device_def physical_def preserves_def same_physical_gpu_def latch_fields)
  have r: "latched r \<and> at_gpu (rq_hostname rq) (rq_device rq) r"
    and files: "write_latches Q (durable_paths r (rq_worker rq)) fs = (True, fs1)"
    using assms(1) new old ex
    by (auto simp: write_durable_def Let_def case_prod_beta prod_eq_iff split: option.splits if_splits)
  then have "located r" using assms by (simp add: located_def at_gpu_def at_device_def rget_def)
  from write_paths_device [OF files this] r show ?thesis
    by (simp add: at_gpu_def at_device_def rget_def)
qed

lemma write_latched:
  assumes "write_gpu_quarantine R Q rq st = (Inr r, st1)"
    and "rq_physical rq" "rq_hostname rq \<noteq> []" "rq_device rq \<noteq> []"
  shows "latched r \<and> at_gpu (rq_hostname rq) (rq_device rq) r \<and>
    map_of (fst st1) (device_latch_path (rq_hostname rq) (rq_device rq)) = Some (Latch r)"
proof -
  obtain fs s where others: "q_others Q st = (fs, s)" by (cases "q_others Q st")
  obtain r' failed fs1 where w: "write_durable Q rq fs = (r', failed, fs1)"
    by (cases "write_durable Q rq fs") auto
  have "\<not> failed \<and> r' = r \<and> fst st1 = fs1"
    using assms by (auto simp: write_gpu_quarantine_def others w Let_def split: if_splits)
  with write_durable_record [of Q rq fs r fs1] w assms show ?thesis by simp
qed

lemma merged_of_latch:
  assumes latch: "map_of fs (device_latch_path h d) = Some (Latch r)" and at: "at_gpu h d r"
    and named: "h \<noteq> []" "d \<noteq> []"
    and read: "read_merged R Q w h d (fs, s) = Inr (Some mr)"
  shows "same_event (mr_record mr) r \<and> at_gpu h d (mr_record mr)"
proof -
  let ?a = "fst (normalize_read_record w h d (normalize_device_record h d r))"
  from read obtain dw rest where m: "strongest_record Q h d (Some ?a) (map_option fst (map_option (normalize_read_record w h d) dw))
      (fst rest) (snd rest) = Some (mr_record mr)"
  proof (rule read_merged_some)
    fix dd dw rd rw
    assume dur: "read_durable Q w h d fs = Inr (dd, dw)"
    assume st: "strongest_record Q h d (map_option fst (map_option (normalize_read_record w h d) (map_option (normalize_device_record h d) dd)))
      (map_option fst (map_option (normalize_read_record w h d) dw))
      (map_option (fst \<circ> normalize_read_record w h d) (map_option (normalize_device_record h d) rd))
      (map_option (fst \<circ> normalize_read_record w h d) rw) = Some (mr_record mr)"
    have "dd = Some r"
      using dur latch named by (auto simp: read_durable_def read_json_def split: sum.splits if_splits)
    with st that [of dw "(map_option (fst \<circ> normalize_read_record w h d) (map_option (normalize_device_record h d) rd),
      map_option (fst \<circ> normalize_read_record w h d) rw)"] show thesis by simp
  qed
  have norm: "same_event ?a r \<and> at_gpu h d ?a" using normalized_event [OF at named] .
  then have "physical ?a" by (simp add: at_gpu_def)
  from strongest_device [OF this, of Q h d "map_option fst (map_option (normalize_read_record w h d) dw)" "fst rest" "snd rest"] m
  have same: "\<forall>f. \<not> starts_with ''page_user_'' f \<longrightarrow> map_of (mr_record mr) f = map_of ?a f" by auto
  have "\<not> starts_with ''page_user_'' f"
    if "f \<in> {''scope'', ''event_id'', ''created_at'', ''hostname'', ''device'', ''fault_class'', ''reason'', ''task_id''}" for f
    using that by (auto simp: starts_with_def)
  with same have eq: "map_of (mr_record mr) f = map_of ?a f"
    if "f \<in> {''scope'', ''event_id'', ''created_at'', ''hostname'', ''device'', ''fault_class'', ''reason'', ''task_id''}" for f
    using that by blast
  have "at_gpu h d (mr_record mr)" using norm eq by (simp add: at_gpu_def at_device_def physical_def)
  moreover from this norm have "same_event (mr_record mr) ?a"
    using eq by (simp add: same_event_def at_gpu_def rget_def)
  ultimately show ?thesis using norm same_event_trans by blast
qed

text \<open>
  C17: a written quarantine is read back. After a physical quarantine of a named GPU has been
  written, a read by any worker of that GPU -- through any Redis, whatever it holds and whether or
  not it answers -- either fails or returns a physical latch of this GPU with the generation of the
  latch that was written.
\<close>

theorem written_latch_read_back:
  assumes "write_gpu_quarantine R Q rq st = (Inr r, (fs, s))"
    and "rq_physical rq" and "rq_hostname rq \<noteq> []" and "rq_device rq \<noteq> []"
    and "read_gpu_quarantine R' Q' w (rq_device rq) (rq_hostname rq) True (fs, s') = (Inr res, st')"
  shows "\<exists>r'. res = Some r' \<and> at_gpu (rq_hostname rq) (rq_device rq) r' \<and>
    gpu_quarantine_generation Q r' = gpu_quarantine_generation Q r"
proof -
  let ?h = "rq_hostname rq" and ?d = "rq_device rq"
  from write_latched [OF assms(1-4)] have l: "at_gpu ?h ?d r" "map_of fs (device_latch_path ?h ?d) = Some (Latch r)"
    by simp_all
  have "\<not> no_latch R' Q' w ?d ?h (fs, s')" using l assms by (simp add: no_latch_def)
  with read_merged_none [of R' Q' w ?h ?d "(fs, s')"]
  obtain mr where "read_merged R' Q' w ?h ?d (fs, s') = Inr (Some mr)" and "res = Some (mr_record mr)"
    using assms(5) by (auto simp: read_gpu_quarantine_def split: sum.splits option.splits)
  with merged_of_latch [OF l(2,1) assms(3,4), of R' Q' w s' mr] same_event_generation [of "mr_record mr" r Q]
  show ?thesis by blast
qed

lemma latch_outlasts:
  assumes "write_gpu_quarantine R Q rq st = (Inr r, st1)"
    and "rq_physical rq" and "rq_hostname rq \<noteq> []" and "rq_device rq \<noteq> []"
    and "\<forall>op \<in> set ops. keeps (device_latch_path (rq_hostname rq) (rq_device rq)) (fst op)"
    and "keeps (device_latch_path (rq_hostname rq) (rq_device rq)) Q'"
  shows "fst (read_gpu_quarantine R' Q' w (rq_device rq) (rq_hostname rq) read_only
    (fst (q_run R ops st1), s')) \<noteq> Inr None"
proof
  let ?path = "device_latch_path (rq_hostname rq) (rq_device rq)"
  assume none: "fst (read_gpu_quarantine R' Q' w (rq_device rq) (rq_hostname rq) read_only
    (fst (q_run R ops st1), s')) = Inr None"
  have "latch_at ?path (fst st1)" using write_latched [OF assms(1-4)] by (auto simp: latch_at_def)
  then have "latch_at ?path (fst (q_run R ops st1))" using assms(5) by (intro q_run_keeps) auto
  then have "latch_at ?path (fst (snd (read_gpu_quarantine R' Q' w (rq_device rq) (rq_hostname rq) read_only
      (fst (q_run R ops st1), s'))))"
    using assms(6) by (intro read_keeps) simp_all
  moreover have "no_latch R' Q' w (rq_device rq) (rq_hostname rq) (snd (read_gpu_quarantine R' Q' w (rq_device rq)
      (rq_hostname rq) read_only (fst (q_run R ops st1), s')))"
    using read_none_no_latch none by (metis prod.collapse)
  ultimately show False using assms(3,4) by (simp add: no_latch_def latch_at_def)
qed

text \<open>
  C8: a quarantine lasts until it is cleared. After a physical quarantine of a named GPU has been
  written, no sequence of reads, further quarantines, recorded outcomes and pages -- by any
  processes, for any devices, with any of them failing half way, between other activity that clears
  nothing -- makes a later read of this GPU report that it is not quarantined.
\<close>

theorem quarantine_persists:
  assumes "write_gpu_quarantine R Q rq st = (Inr r, st1)"
    and "rq_physical rq" and "rq_hostname rq \<noteq> []" and "rq_device rq \<noteq> []"
    and "\<forall>op \<in> set ops. keeps (device_latch_path (rq_hostname rq) (rq_device rq)) (fst op)"
    and "keeps (device_latch_path (rq_hostname rq) (rq_device rq)) Q'"
  shows "fst (read_gpu_quarantine R' Q' w (rq_device rq) (rq_hostname rq) read_only
    (fst (q_run R ops st1), s')) \<noteq> Inr None"
  using assms by (rule latch_outlasts)

text \<open>The quarantine check of the task manager, reading these files.\<close>

definition observe_quarantine ::
  "'s redis \<Rightarrow> 's qenv \<Rightarrow> latch_files \<Rightarrow> bool \<Rightarrow> str \<Rightarrow> str \<Rightarrow> str \<Rightarrow> 's \<Rightarrow> bool option" where
  "observe_quarantine R Q fs read_only worker_id device hostname s =
    (case fst (read_gpu_quarantine R Q worker_id device hostname read_only (fs, s)) of
       Inl _ \<Rightarrow> None | Inr x \<Rightarrow> Some (x \<noteq> None))"

text \<open>
  C9: a quarantined GPU gets no work. Once a physical quarantine has been written, and whatever
  happens short of a clear, neither selection of the task manager returns a worker on that GPU.
\<close>

theorem quarantined_never_selected:
  assumes "write_gpu_quarantine R Q rq st = (Inr r, st1)"
    and "rq_physical rq" and "rq_hostname rq \<noteq> []" and "rq_device rq \<noteq> []"
    and "\<forall>op \<in> set ops. keeps (device_latch_path (rq_hostname rq) (rq_device rq)) (fst op)"
    and "keeps (device_latch_path (rq_hostname rq) (rq_device rq)) Q'"
    and "E = E0\<lparr>e_quarantine := observe_quarantine R' Q' (fst (q_run R ops st1))\<rparr>"
    and "select_idle_worker R' cfg E ''gpu'' tn th age m s = (Some w, s') \<or>
      select_worker_by_task_id R' cfg E ''gpu'' task_id tn th age m s = (Some w, s')"
  shows "\<not> (sel_device w = rq_device rq \<and> py_strip (sel_hostname w) = rq_hostname rq)"
proof
  assume here: "sel_device w = rq_device rq \<and> py_strip (sel_hostname w) = rq_hostname rq"
  from worker_admitted [OF assms(8)] obtain info s1 where w: "w = selected (sel_worker_id w, info)"
    and open_: "gpu_worker_admission_open cfg E (sel_worker_id w) info s1" by blast
  have "sel_device w = rget ''device'' info"
    by (subst w) (simp add: selected_def node_identity_def Let_def)
  moreover have "sel_hostname w = rget ''hostname'' info"
    by (subst w) (simp add: selected_def node_identity_def Let_def)
  ultimately have "rget ''device'' info = rq_device rq" "py_strip (rget ''hostname'' info) = rq_hostname rq"
    using here by simp_all
  with admission_open_implies(3) [OF open_]
  have "e_quarantine E False (sel_worker_id w) (rq_device rq) (rq_hostname rq) s1 = Some False" by simp
  then have "fst (read_gpu_quarantine R' Q' (sel_worker_id w) (rq_device rq) (rq_hostname rq) False
      (fst (q_run R ops st1), s1)) = Inr None"
    by (auto simp: assms(7) observe_quarantine_def split: sum.splits)
  with latch_outlasts [OF assms(1-6)] show False by blast
qed

end
