(* ===== verification/PageOnce.thy ===== *)
theory PageOnce
  imports QuarantineSafety
begin

section \<open>A latch is paged once\<close>

subsection \<open>A sent page stays sent\<close>

definition sent_latch :: "latch \<Rightarrow> bool" where
  "sent_latch r \<longleftrightarrow> latched r \<and> map_of r ''page_user_state'' = Some ''sent''"

definition sent_at :: "str \<Rightarrow> str \<Rightarrow> latch_files \<Rightarrow> bool" where
  "sent_at h d fs \<longleftrightarrow> (\<exists>r. map_of fs (device_latch_path h d) = Some (Latch r) \<and> sent_latch r)"

definition keeps_sent :: "str \<Rightarrow> str \<Rightarrow> 's qenv \<Rightarrow> bool" where
  "keeps_sent h d Q \<longleftrightarrow> (\<forall>st. sent_at h d (fst st) \<longrightarrow> sent_at h d (fst (q_others Q st)))"

definition its_device :: "str \<Rightarrow> str \<Rightarrow> latch \<Rightarrow> bool" where
  \<comment> \<open>a write of the record goes to the latch file of this device\<close>
  "its_device h d r \<longleftrightarrow> located r \<and> device_latch_path (rget ''hostname'' r) (rget ''device'' r) = device_latch_path h d"

lemma worker_path_other: "worker_latch_path w \<noteq> device_latch_path h d"
  by (simp add: worker_latch_path_def device_latch_path_def)

lemma paths_keep_sent:
  assumes "its_device h d r \<Longrightarrow> sent_latch r" and "sent_at h d fs"
  shows "sent_at h d (snd (write_latches Q (durable_paths r w) fs))"
  using assms worker_path_other [of w h d]
  by (auto simp: durable_paths_def sent_at_def its_device_def map_of_AList_update)

lemma sent_device: "sent_latch r \<Longrightarrow> sent_latch (normalize_device_record h d r)"
  by (simp add: sent_latch_def latched_def normalize_device_record_def latch_fields)

lemma sent_default: "sent_latch r \<Longrightarrow> sent_latch (set_default ''page_user_state'' x r)"
  by (auto simp: sent_latch_def latched_def latch_fields)

lemma physical_device [simp]: "physical (normalize_device_record h d r)"
  by (simp add: physical_def normalize_device_record_def latch_fields)

lemma same_path:
  assumes "device_latch_path h' d' = device_latch_path h d" and "sent_at h d fs"
    and "read_json Q (device_latch_path h' d') fs = Inr x"
  shows "\<exists>r. x = Some r \<and> sent_latch r"
  using assms by (auto simp: sent_at_def read_json_def split: if_splits)

lemma existing_sent:
  assumes "existing_durable_record Q w d' h' fs = Inr (Some r)" and "sent_at h d fs"
    and "h' \<noteq> []" "d' \<noteq> []" and "device_latch_path h' d' = device_latch_path h d"
  shows "sent_latch r \<and> physical r \<and> map_of r ''hostname'' = Some h' \<and> map_of r ''device'' = Some d'"
proof -
  obtain x where x: "read_json Q (device_latch_path h' d') fs = Inr x"
    using assms(1,3,4) by (auto simp: existing_durable_record_def split: sum.splits)
  from same_path [OF assms(5,2) x] obtain r0 where "x = Some r0" "sent_latch r0" by blast
  moreover from this have "r = normalize_device_record h' d' r0"
    using assms(1,3,4) x by (simp add: existing_durable_record_def)
  ultimately show ?thesis
    using sent_device physical_device by (simp add: normalize_device_record_def latch_fields)
qed

subsection \<open>Reads\<close>

lemma normalized_device_sent:
  assumes "sent_latch r" and "h \<noteq> []" and "d \<noteq> []"
  shows "sent_latch (fst (normalize_read_record w h d (normalize_device_record h d r)))"
  using assms
  by (simp add: sent_latch_def latched_def normalize_read_record_def normalize_device_record_def Let_def
      rget_def latch_fields)

lemma strongest_sent:
  assumes "physical a" and "map_of a ''page_user_state'' = Some ''sent''"
    and "strongest_record Q h d (Some a) b c e = Some r"
  shows "map_of r ''page_user_state'' = Some ''sent''"
proof -
  have "a \<noteq> []" using assms(1) by (auto simp: physical_def)
  then show ?thesis using assms by (auto simp: strongest_record_def Let_def latch_fields)
qed

lemma physical_constrained:
  assumes "physical (constrain_worker_record h d r)" and "h \<noteq> []" "d \<noteq> []"
  shows "same_physical_gpu h d (constrain_worker_record h d r)"
  using assms by (auto simp: constrain_worker_record_def physical_def same_physical_gpu_def latch_fields split: if_splits)

lemma merged_device:
  assumes read: "read_merged R Q w h d (fs, s) = Inr (Some mr)"
    and named: "h \<noteq> []" "d \<noteq> []" and phys: "physical (mr_record mr)"
  shows "map_of (mr_record mr) ''hostname'' = Some h \<and> map_of (mr_record mr) ''device'' = Some d"
proof (rule read_merged_some [OF read])
  fix dd dw rd rw
  let ?dev = "\<lambda>x. fst (normalize_read_record w h d (normalize_device_record h d x))"
  assume st: "strongest_record Q h d (map_option fst (map_option (normalize_read_record w h d) (map_option (normalize_device_record h d) dd)))
      (map_option fst (map_option (normalize_read_record w h d) dw))
      (map_option (fst \<circ> normalize_read_record w h d) (map_option (normalize_device_record h d) rd))
      (map_option (fst \<circ> normalize_read_record w h d) rw) = Some (mr_record mr)"
  have fields: "\<not> starts_with ''page_user_'' ''scope''" "\<not> starts_with ''page_user_'' ''hostname''"
    "\<not> starts_with ''page_user_'' ''device''" by (simp_all add: starts_with_def)
  from strongest_member [OF st] obtain m where
    mem: "Some m \<in> {map_option fst (map_option (normalize_read_record w h d) (map_option (normalize_device_record h d) dd)),
      map_option (constrain_worker_record h d) (map_option fst (map_option (normalize_read_record w h d) dw)),
      map_option (fst \<circ> normalize_read_record w h d) (map_option (normalize_device_record h d) rd),
      map_option (constrain_worker_record h d) (map_option (fst \<circ> normalize_read_record w h d) rw)}"
    and same: "\<forall>f. \<not> starts_with ''page_user_'' f \<longrightarrow> map_of (mr_record mr) f = map_of m f"
    by blast
  have m: "Some m = map_option ?dev dd \<or> Some m = map_option ?dev rd \<or>
        (\<exists>x. m = constrain_worker_record h d x)"
    using mem by (cases dw; cases rw) (auto simp: comp_def option.map_comp)
  from same fields have same: "map_of (mr_record mr) ''scope'' = map_of m ''scope''"
      "map_of (mr_record mr) ''hostname'' = map_of m ''hostname''"
      "map_of (mr_record mr) ''device'' = map_of m ''device''" by blast+
  have dev: "at_device h d (?dev x)" for x
    using named by (simp add: at_device_def normalize_read_record_def normalize_device_record_def Let_def
        rget_def latch_fields)
  have "physical m" using phys same by (simp add: physical_def)
  then have "at_device h d m"
    using m dev physical_constrained [OF _ named] by (cases dd; cases rd) (auto simp: at_device_def same_physical_gpu_def)
  then show ?thesis using same by (simp add: at_device_def)
qed

lemma merged_sent:
  assumes read: "read_merged R Q w h' d' (fs, s) = Inr (Some mr)" and sent: "sent_at h d fs"
    and named: "h' \<noteq> []" "d' \<noteq> []" and its: "its_device h d (mr_record mr)"
  shows "sent_latch (mr_record mr)"
proof -
  have phys: "physical (mr_record mr)" using its by (simp add: its_device_def located_def)
  from merged_device [OF read named phys] its have path: "device_latch_path h' d' = device_latch_path h d"
    by (simp add: its_device_def rget_def)
  show ?thesis
  proof (rule read_merged_some [OF read])
    fix dd dw rd rw
    assume dur: "read_durable Q w h' d' fs = Inr (dd, dw)"
    assume st: "strongest_record Q h' d' (map_option fst (map_option (normalize_read_record w h' d') (map_option (normalize_device_record h' d') dd)))
        (map_option fst (map_option (normalize_read_record w h' d') dw))
        (map_option (fst \<circ> normalize_read_record w h' d') (map_option (normalize_device_record h' d') rd))
        (map_option (fst \<circ> normalize_read_record w h' d') rw) = Some (mr_record mr)"
    have "read_json Q (device_latch_path h' d') fs = Inr dd"
      using dur named by (auto simp: read_durable_def split: sum.splits if_splits)
    from same_path [OF path sent this] obtain r where r: "dd = Some r" "sent_latch r" by blast
    let ?a = "fst (normalize_read_record w h' d' (normalize_device_record h' d' r))"
    have a: "sent_latch ?a" using r named by (simp add: normalized_device_sent)
    have pa: "physical ?a"
      by (simp add: physical_def normalize_read_record_def normalize_device_record_def Let_def rget_def latch_fields)
    from strongest_sent [OF pa] st r a have "map_of (mr_record mr) ''page_user_state'' = Some ''sent''"
      by (auto simp: sent_latch_def)
    with latched_merged [OF read] show ?thesis by (simp add: sent_latch_def)
  qed
qed

lemma read_keeps_sent:
  assumes "keeps_sent h d Q" and "sent_at h d (fst st)"
  shows "sent_at h d (fst (snd (read_gpu_quarantine R Q w d' h' read_only st)))"
proof (cases "h' = [] \<or> d' = []")
  case True
  then show ?thesis using assms(2)
    by (auto simp: read_gpu_quarantine_def Let_def split: sum.split option.split)
next
  case False
  have others: "sent_at h d (fst (q_others Q st))" using assms unfolding keeps_sent_def by blast
  have mat: "sent_at h d (fst (snd (materialize R Q w h' d' mr st1)))"
    if "read_merged R Q w h' d' st1 = Inr (Some mr)" "sent_at h d (fst st1)" for mr st1
    using that merged_sent [of R Q w h' d' "fst st1" "snd st1" mr h d] False
    by (cases st1) (simp add: materialize_def case_prod_beta Let_def paths_keep_sent)
  show ?thesis using assms(2) others mat [of "q_others Q st"]
    by (simp add: read_gpu_quarantine_def Let_def case_prod_beta split: sum.split option.split)
qed

subsection \<open>Writes and outcomes\<close>

lemma write_durable_keeps_sent:
  assumes named: "rq_hostname rq \<noteq> []" "rq_device rq \<noteq> []" and sent: "sent_at h d fs"
  shows "sent_at h d (snd (snd (write_durable Q rq fs)))"
proof (cases "existing_durable_record Q (rq_worker rq) (rq_device rq) (rq_hostname rq) fs")
  case (Inl e)
  then show ?thesis using sent by (simp add: write_durable_def Let_def)
next
  case (Inr existing)
  let ?new = "set_default ''page_user_state'' ''pending'' (new_quarantine_record Q rq)"
  have mine: "existing \<noteq> None \<and> preserves rq (the existing) \<and> sent_latch (the existing)"
    if "device_latch_path (rq_hostname rq) (rq_device rq) = device_latch_path h d"
  proof -
    obtain x where x: "read_json Q (device_latch_path (rq_hostname rq) (rq_device rq)) fs = Inr x"
      using Inr named by (auto simp: existing_durable_record_def split: sum.splits)
    from same_path [OF that sent x] obtain old where old: "existing = Some old"
      using Inr named x by (auto simp: existing_durable_record_def)
    with existing_sent [OF _ sent named that] Inr named show ?thesis
      by (auto simp: preserves_def same_physical_gpu_def)
  qed
  have new: "its_device h d ?new \<Longrightarrow> device_latch_path (rq_hostname rq) (rq_device rq) = device_latch_path h d"
    by (simp add: its_device_def located_def rget_def new_quarantine_record_def latch_fields)
  have old: "device_latch_path (rq_hostname rq) (rq_device rq) = device_latch_path h d"
    if "preserves rq r" "its_device h d (set_default ''page_user_state'' ''pending'' r)" for r
    using that named
    by (auto simp: its_device_def located_def preserves_def same_physical_gpu_def physical_def rget_def latch_fields)
  show ?thesis
    using mine new old sent Inr
    by (cases existing) (auto simp: write_durable_def Let_def case_prod_beta sent_default intro!: paths_keep_sent)
qed

lemma write_keeps_sent:
  assumes "keeps_sent h d Q" and "sent_at h d (fst st)" and "rq_hostname rq \<noteq> []" "rq_device rq \<noteq> []"
  shows "sent_at h d (fst (snd (write_gpu_quarantine R Q rq st)))"
  using assms
  by (cases st) (auto simp: write_gpu_quarantine_def keeps_sent_def Let_def case_prod_beta
      intro!: write_durable_keeps_sent)

lemma sent_outcome: "sent_latch r \<Longrightarrow> state = ''sent'' \<Longrightarrow> sent_latch (note_outcome Q state error r)"
  by (simp add: sent_latch_def latched_def note_outcome_def latch_fields)

lemma page_fields:
  "\<not> starts_with ''page_user_'' f \<Longrightarrow> f \<notin> {''page_user_state'', ''page_user_updated_at'', ''page_user_error'',
     ''page_user_sent_at'', ''page_user_claimed_at'', ''page_user_claim_owner'', ''page_user_attempt_count''}"
  by (rule notI) (elim insertE, simp_all add: starts_with_def)

lemma note_keeps_fields: "\<not> starts_with ''page_user_'' f \<Longrightarrow> map_of (note_outcome Q state error r) f = map_of r f"
  "\<not> starts_with ''page_user_'' f \<Longrightarrow> map_of (note_sending Q r) f = map_of r f"
  using page_fields [of f] by (simp_all add: note_outcome_def note_sending_def latch_fields)

lemma its_device_cong:
  assumes "\<And>f. \<not> starts_with ''page_user_'' f \<Longrightarrow> map_of r f = map_of r' f"
  shows "its_device h d r = its_device h d r'"
proof -
  have "map_of r f = map_of r' f" if "f \<in> {''scope'', ''hostname'', ''device''}" for f
  proof -
    have "\<not> starts_with ''page_user_'' f" using that by (auto simp: starts_with_def)
    then show ?thesis by (rule assms)
  qed
  then show ?thesis by (simp add: its_device_def located_def physical_def rget_def)
qed

lemma update_durable_keeps_sent:
  assumes named: "h' \<noteq> []" "d' \<noteq> []" and sent: "sent_at h d fs"
    and own: "device_latch_path h' d' = device_latch_path h d \<or> state = ''sent''"
  shows "sent_at h d (snd (update_notification_durable Q w d' h' scope generation state error fs))"
proof (cases "if scope = ''worker_process'' then read_json Q (worker_latch_path w) fs
    else existing_durable_record Q w d' h' fs")
  case (Inl e)
  then show ?thesis using sent by (simp add: update_notification_durable_def)
next
  case (Inr existing)
  show ?thesis
  proof (cases "\<exists>old. existing = Some old \<and> map_of old ''scope'' = Some scope \<and>
      gpu_quarantine_generation Q old = generation")
    case False
    then show ?thesis using Inr sent
      by (cases existing) (auto simp: update_notification_durable_def)
  next
    case True
    then obtain old where old: "existing = Some old" "map_of old ''scope'' = Some scope"
      "gpu_quarantine_generation Q old = generation" by blast
    let ?r = "if map_of old ''page_user_state'' \<noteq> Some ''sent'' \<or> state = ''sent''
      then note_outcome Q state error old else old"
    have its: "its_device h d ?r = its_device h d old"
      by (rule its_device_cong) (simp add: note_keeps_fields)
    have "sent_latch ?r" if "its_device h d old"
    proof (cases "scope = ''worker_process''")
      case True
      with old that show ?thesis by (auto simp: its_device_def located_def physical_def)
    next
      case False
      then have ex: "existing_durable_record Q w d' h' fs = Inr (Some old)" using Inr old by simp
      show ?thesis
      proof (cases "state = ''sent''")
        case True
        then show ?thesis using existing_latched [OF ex] latched_outcome
          by (simp add: sent_latch_def note_outcome_def latch_fields latched_def)
      next
        case False
        with own existing_sent [OF ex sent named] show ?thesis by (auto simp: sent_latch_def)
      qed
    qed
    then have "sent_at h d (snd (write_latches Q (durable_paths ?r w) fs))"
      using its sent by (intro paths_keep_sent) simp_all
    then show ?thesis using Inr old
      by (simp add: update_notification_durable_def Let_def case_prod_beta)
  qed
qed

lemma update_keeps_sent:
  assumes "keeps_sent h d Q" and "sent_at h d (fst st)"
    and own: "device_latch_path h' d' = device_latch_path h d \<or> state = ''sent''"
  shows "sent_at h d (fst (snd (update_gpu_quarantine_notification R Q w d' h' scope generation state error st)))"
proof (cases "h' = [] \<or> d' = []")
  case True
  then show ?thesis using assms(2) by (simp add: update_gpu_quarantine_notification_def)
next
  case False
  obtain fs s where others: "q_others Q st = (fs, s)" by (cases "q_others Q st")
  then have "sent_at h d fs" using assms(1,2) unfolding keeps_sent_def by (metis fst_conv)
  with update_durable_keeps_sent [OF _ _ this own, of Q w scope generation error] False show ?thesis
    using assms(2)
    by (cases "update_notification_durable Q w d' h' scope generation state error fs")
      (auto simp: update_gpu_quarantine_notification_def others Let_def split: sum.split option.split dest: sym)
qed

subsection \<open>Pages\<close>

lemma sending_elsewhere:
  assumes "claimed_latch scope
      (case read_json Q (device_latch_path h' d') fs of
         Inr (Some x) \<Rightarrow> Some (normalize_device_record h' d' x) | _ \<Rightarrow> None) dw = Some current"
    and "map_of current ''page_user_state'' \<noteq> Some ''sent''" and "sent_at h d fs"
  shows "\<not> its_device h d (note_sending Q current)"
proof
  assume "its_device h d (note_sending Q current)"
  then have its: "its_device h d current"
    using its_device_cong [of "note_sending Q current" current] note_keeps_fields(2) by blast
  then have "scope = ''physical_gpu''"
    using assms(1) by (auto simp: claimed_latch_def its_device_def located_def physical_def split: if_splits option.splits)
  then obtain x where x: "read_json Q (device_latch_path h' d') fs = Inr (Some x)"
    and current: "current = normalize_device_record h' d' x"
    using assms(1) by (auto simp: claimed_latch_def split: sum.splits option.splits)
  from its current have "device_latch_path h' d' = device_latch_path h d"
    by (simp add: its_device_def rget_def normalize_device_record_def latch_fields)
  from same_path [OF this assms(3) x] sent_device [of x h' d'] assms(2) current
  show False by (simp add: sent_latch_def)
qed

lemma page_keeps_sent:
  assumes "sent_at h d fs"
  shows "sent_at h d (snd (snd (send_claimed_gpu_notification Q P scope content r fs)))"
proof -
  obtain res fs1 where acq: "acquire_page_claim Q r fs = (res, fs1)"
    by (cases "acquire_page_claim Q r fs")
  have fs1: "sent_at h d fs1"
    by (rule acquire_cases [OF acq]) (use assms in \<open>auto intro!: paths_keep_sent dest: sending_elsewhere\<close>)
  have fin: "sent_at h d (snd (finish_page_claim Q claim state error fs1))"
    if "res = Inr claim" "pc_should_send claim" for claim state error
  proof -
    have other: "\<not> its_device h d (pc_record claim)"
      by (rule acquire_cases [OF acq])
        (use that assms in \<open>auto split: if_splits dest: sending_elsewhere\<close>)
    obtain out fs2 where fin: "finish_page_claim Q claim state error fs1 = (out, fs2)"
      by (cases "finish_page_claim Q claim state error fs1")
    from finish_files [OF fin] consider "fs2 = fs1"
      | x where "\<forall>f. \<not> starts_with ''page_user_'' f \<longrightarrow> map_of x f = map_of (pc_record claim) f"
        "fs2 = snd (write_latches Q (durable_paths x (pc_worker claim)) fs1)"
      by blast
    then show ?thesis
    proof cases
      case 1
      then show ?thesis using fs1 by (simp add: fin)
    next
      case 2
      then have "\<not> its_device h d x" using other its_device_cong [of x "pc_record claim"] by blast
      with paths_keep_sent [OF _ fs1, of x] show ?thesis unfolding fin 2(2) snd_conv by blast
    qed
  qed
  show ?thesis
    using assms fs1 fin
    by (auto simp: send_claimed_gpu_notification_def acq Let_def case_prod_beta split: sum.splits)
qed

fun orderly :: "str \<Rightarrow> str \<Rightarrow> q_op \<Rightarrow> bool" where
  \<comment> \<open>a quarantine names its GPU, and an outcome other than sent is not recorded under another GPU's name\<close>
  "orderly h d (Write rq) \<longleftrightarrow> rq_hostname rq \<noteq> [] \<and> rq_device rq \<noteq> []"
| "orderly h d (Note w d' h' scope generation state error) \<longleftrightarrow>
     device_latch_path h' d' = device_latch_path h d \<or> state = ''sent''"
| "orderly h d _ \<longleftrightarrow> True"

lemma q_step_keeps_sent:
  "\<lbrakk>keeps_sent h d (fst op); orderly h d (snd (snd op)); sent_at h d (fst st)\<rbrakk> \<Longrightarrow>
   sent_at h d (fst (q_step R op st))"
  by (cases "(R, op, st)" rule: q_step.cases)
    (simp_all add: read_keeps_sent write_keeps_sent update_keeps_sent send_gpu_quarantine_page_def
      send_gpu_worker_exclusion_page_def page_keeps_sent)

lemma q_run_keeps_sent:
  "\<lbrakk>\<forall>op \<in> set ops. keeps_sent h d (fst op) \<and> orderly h d (snd (snd op)); sent_at h d (fst st)\<rbrakk> \<Longrightarrow>
   sent_at h d (fst (q_run R ops st))"
  by (induction ops arbitrary: st) (simp_all add: q_run_def q_step_keeps_sent)

lemma acquire_sent:
  assumes "acquire_page_claim Q r fs = (Inr claim, fs1)" and "rget ''scope'' r = ''physical_gpu''"
    and "sent_at (rget ''hostname'' r) (rget ''device'' r) fs"
  shows "\<not> pc_should_send claim"
proof (rule acquire_cases [OF assms(1)])
  fix current
  assume claimed: "claimed_latch (rget ''scope'' r)
      (case read_json Q (device_latch_path (rget ''hostname'' r) (rget ''device'' r)) fs of
         Inr (Some x) \<Rightarrow> Some (normalize_device_record (rget ''hostname'' r) (rget ''device'' r) x) | _ \<Rightarrow> None)
      (case read_json Q (worker_latch_path (rget ''worker_id'' r)) fs of Inr x \<Rightarrow> x | _ \<Rightarrow> None) = Some current"
    and unsent: "map_of current ''page_user_state'' \<noteq> Some ''sent''"
  from claimed assms(2) obtain x
    where "read_json Q (device_latch_path (rget ''hostname'' r) (rget ''device'' r)) fs = Inr (Some x)"
      and current: "current = normalize_device_record (rget ''hostname'' r) (rget ''device'' r) x"
    by (auto simp: claimed_latch_def split: sum.splits option.splits)
  with same_path [OF refl assms(3)] sent_device [of x] unsent show ?thesis
    by (auto simp: sent_latch_def)
qed auto

lemma write_latches_all: "\<forall>path. q_writable Q path \<Longrightarrow> fst (write_latches Q ps fs)"
  by (induction Q ps fs rule: write_latches.induct) auto

lemma first_page_sent:
  assumes page: "send_gpu_quarantine_page Q P r fs = (Some result, pg # pgs, fs1)" and "po_success result"
    and latched: "\<not> unlatched_best_effort r" and writable: "\<forall>path. q_writable Q path"
  shows "sent_at (rget ''hostname'' r) (rget ''device'' r) fs1"
proof -
  let ?h = "rget ''hostname'' r" and ?d = "rget ''device'' r"
  have scope: "map_of r ''scope'' = Some ''physical_gpu''"
    using page by (auto simp: send_gpu_quarantine_page_def send_claimed_gpu_notification_def split: if_splits)
  obtain res fs0 where acq: "acquire_page_claim Q r fs = (res, fs0)" by (cases "acquire_page_claim Q r fs")
  obtain claim where res: "res = Inr claim" and should: "pc_should_send claim"
    using page scope latched
    by (auto simp: send_gpu_quarantine_page_def send_claimed_gpu_notification_def acq Let_def
        split: sum.splits if_splits)
  obtain out where fin: "finish_page_claim Q claim ''sent'' [] fs0 = (out, fs1)"
    using page scope latched res should assms(2)
    by (auto simp: send_gpu_quarantine_page_def send_claimed_gpu_notification_def acq Let_def outcome_state_def
        case_prod_beta prod_eq_iff)
  have named: "?h \<noteq> [] \<and> ?d \<noteq> []"
    using acq res unfolding acquire_page_claim_def Let_def by (auto split: if_splits)
  have pc: "pc_held claim \<and> latched (pc_record claim) \<and> physical (pc_record claim) \<and>
      map_of (pc_record claim) ''hostname'' = Some ?h \<and> map_of (pc_record claim) ''device'' = Some ?d"
  proof (rule acquire_cases [OF acq])
    fix current
    assume l: "latched current"
      and claimed: "claimed_latch (rget ''scope'' r)
        (case read_json Q (device_latch_path ?h ?d) fs of
           Inr (Some x) \<Rightarrow> Some (normalize_device_record ?h ?d x) | _ \<Rightarrow> None)
        (case read_json Q (worker_latch_path (rget ''worker_id'' r)) fs of Inr x \<Rightarrow> x | _ \<Rightarrow> None) = Some current"
      and out: "res = (if fst (write_latches Q (durable_paths (note_sending Q current) (rget ''worker_id'' r)) fs)
        then Inr \<lparr>pc_held = True, pc_record = note_sending Q current, pc_worker = rget ''worker_id'' r,
               pc_should_send = True, pc_superseded = False\<rparr> else Inl StorageError)"
    from claimed scope obtain x where current: "current = normalize_device_record ?h ?d x"
      by (auto simp: claimed_latch_def rget_def split: sum.splits option.splits)
    have "\<not> starts_with ''page_user_'' ''scope''" "\<not> starts_with ''page_user_'' ''hostname''"
      "\<not> starts_with ''page_user_'' ''device''" by (simp_all add: starts_with_def)
    then show ?thesis
      using out res l current latched_sending [OF l, of Q]
      by (auto simp: note_keeps_fields physical_def normalize_device_record_def latch_fields split: if_splits)
  qed (use res should in auto)
  from finish_files [OF fin] pc obtain x
    where same: "\<forall>f. \<not> starts_with ''page_user_'' f \<longrightarrow> map_of x f = map_of (pc_record claim) f"
      and sent: "map_of x ''page_user_state'' = Some ''sent''"
      and fs1: "fs1 = snd (write_latches Q (durable_paths x (pc_worker claim)) fs0)" by auto
  have fields: "\<not> starts_with ''page_user_'' ''scope''" "\<not> starts_with ''page_user_'' ''hostname''"
    "\<not> starts_with ''page_user_'' ''device''" by (simp_all add: starts_with_def)
  have x: "latched x" "physical x" "rget ''hostname'' x = ?h" "rget ''device'' x = ?d"
    using same fields pc by (simp_all add: latched_def physical_def rget_def)
  then have "located x" using named by (simp add: located_def)
  moreover have "write_latches Q (durable_paths x (pc_worker claim)) fs0 = (True, fs1)"
    using write_latches_all [OF writable] fs1 by (metis prod.collapse)
  ultimately show ?thesis
    using write_paths_device x sent by (fastforce simp: sent_at_def sent_latch_def)
qed


end
