(* ===== verification/QuarantineClear.thy ===== *)
theory QuarantineClear
  imports QuarantineContracts MemRedis
begin

section \<open>What the operator's clear removes\<close>

subsection \<open>The files\<close>

lemma map_of_without: "map_of (filter (\<lambda>(p, _). p \<notin> S) fs) path = (if path \<in> S then None else map_of fs path)"
  by (induction fs) auto

definition removed_files :: "'s qenv \<Rightarrow> str \<Rightarrow> str \<Rightarrow> str \<Rightarrow> latch_files \<Rightarrow> latch_path \<Rightarrow> bool" where
  "removed_files Q w d h fs path \<longleftrightarrow>
     path = worker_latch_path w \<or>
     h \<noteq> [] \<and> d \<noteq> [] \<and> (path = device_latch_path h d \<or> map_of fs path \<noteq> None \<and> physical_alias Q h d fs path)"

lemma in_files: "path \<in> fst ` set fs \<longleftrightarrow> map_of fs path \<noteq> None"
  by (metis domIff dom_map_of_conv_image_fst)

lemma clear_durable_gone:
  obtains gone aliases where "\<And>path. path \<in> set gone \<and> map_of fs path \<noteq> None \<longleftrightarrow>
      removed_files Q w d h fs path \<and> map_of fs path \<noteq> None"
    and "clear_durable_latches Q w d h fs =
      (list_ex (\<lambda>path. map_of fs path \<noteq> None) gone, aliases, filter (\<lambda>(path, _). path \<notin> set gone) fs)"
proof -
  let ?stale = "if h \<noteq> [] \<and> d \<noteq> [] then filter (physical_alias Q h d fs) (map fst fs) else []"
  let ?gone = "?stale @ (if h \<noteq> [] \<and> d \<noteq> [] then [device_latch_path h d] else []) @ [worker_latch_path w]"
  have "path \<in> set ?gone \<and> map_of fs path \<noteq> None \<longleftrightarrow> removed_files Q w d h fs path \<and> map_of fs path \<noteq> None" for path
    by (simp add: removed_files_def in_files) blast
  then show thesis
    by (rule that [of ?gone]) (simp only: clear_durable_latches_def Let_def)
qed

lemma clear_durable_files:
  "map_of (snd (snd (clear_durable_latches Q w d h fs))) path =
    (if removed_files Q w d h fs path then None else map_of fs path)"
proof (rule clear_durable_gone [of fs Q w d h])
  fix gone aliases
  assume "\<And>path. path \<in> set gone \<and> map_of fs path \<noteq> None \<longleftrightarrow> removed_files Q w d h fs path \<and> map_of fs path \<noteq> None"
    and eq: "clear_durable_latches Q w d h fs =
      (list_ex (\<lambda>path. map_of fs path \<noteq> None) gone, aliases, filter (\<lambda>(path, _). path \<notin> set gone) fs)"
  from this(1) [of path] show ?thesis unfolding eq snd_conv map_of_without by (cases "map_of fs path") (simp_all split: if_split)
qed

lemma clear_durable_removed:
  "fst (clear_durable_latches Q w d h fs) \<longleftrightarrow> (\<exists>path. removed_files Q w d h fs path \<and> map_of fs path \<noteq> None)"
  by (rule clear_durable_gone [of fs Q w d h]) (simp only: fst_conv list_ex_iff Bex_def)

subsection \<open>The hashes\<close>

definition scanned_alias :: "'s redis \<Rightarrow> 's qenv \<Rightarrow> str \<Rightarrow> str \<Rightarrow> 's \<Rightarrow> str \<Rightarrow> bool" where
  \<comment> \<open>the worker hash that a clear of this GPU recognises\<close>
  "scanned_alias R Q h d s w \<longleftrightarrow>
     gpu_quarantine_key (q_prefix Q) w \<in> set (q_scan Q (gpu_quarantine_key (q_prefix Q) []) s) \<and>
     map_of (r_hgetall R (gpu_quarantine_key (q_prefix Q) w) s) ''scope'' \<in> {Some [], Some ''physical_gpu''} \<and>
     at_device h d (r_hgetall R (gpu_quarantine_key (q_prefix Q) w) s)"

lemma scanned_alias_found: "scanned_alias R Q h d s w \<Longrightarrow> w \<in> set (redis_physical_aliases R Q h d s)"
proof -
  let ?key = "gpu_quarantine_key (q_prefix Q) w" and ?prefix = "gpu_quarantine_key (q_prefix Q) []"
  assume found: "scanned_alias R Q h d s w"
  have "starts_with ?prefix ?key" and w: "drop (length ?prefix) ?key = w"
    by (simp_all add: gpu_quarantine_key_def starts_with_def)
  then have "?key \<in> set (filter (\<lambda>k. starts_with ?prefix k \<and>
      (let hash = r_hgetall R k s in
       map_of hash ''scope'' \<in> {Some [], Some ''physical_gpu''} \<and> at_device h d hash)) (q_scan Q ?prefix s))"
    using found unfolding scanned_alias_def Let_def set_filter by blast
  then show ?thesis
    unfolding redis_physical_aliases_def Let_def set_map by (rule image_eqI [where f = "drop (length ?prefix)", OF w [symmetric]])
qed

context redis_store
begin

lemma hashes_del_many: "hashes (view (del_many R ks s)) k = (if k \<in> List.set ks then Map.empty else hashes (view s) k)"
  by (induction ks arbitrary: s) (auto simp: del_many_def del ks_del_def)

lemma hgetall_del_many: "r_hgetall R k (del_many R ks s) = [] \<longleftrightarrow> k \<in> List.set ks \<or> r_hgetall R k s = []"
proof -
  have "r_hgetall R k s' = [] \<longleftrightarrow> hashes (view s') k = Map.empty" for s'
    by (metis hgetall map_of_eq_empty)
  then show ?thesis by (simp add: hashes_del_many)
qed

end

subsection \<open>A cleared GPU reads as not quarantined\<close>

definition cleared_file :: "'s qenv \<Rightarrow> str \<Rightarrow> str \<Rightarrow> latch_files \<Rightarrow> str \<Rightarrow> bool" where
  \<comment> \<open>this worker has no file of its own but, at most, an alias of the GPU's latch\<close>
  "cleared_file Q h d fs w \<longleftrightarrow>
     map_of fs (worker_latch_path w) = None \<or> physical_alias Q h d fs (worker_latch_path w)"

lemma read_merged_nothing:
  assumes "map_of fs (worker_latch_path w) = None" "map_of fs (device_latch_path h d) = None"
    and "r_hgetall R (gpu_quarantine_key (q_prefix Q) w) s = []"
    and "r_hgetall R (gpu_device_quarantine_key (q_prefix Q) h d) s = []"
    and "q_redis Q" "q_readable Q (worker_latch_path w)" "q_readable Q (device_latch_path h d)"
  shows "read_merged R Q w h d (fs, s) = Inr None"
proof -
  have durable: "read_durable Q w h d fs = Inr (None, None)"
    using assms by (simp add: read_durable_def read_json_def)
  have hashes: "read_redis_records R Q w h d s = Some (None, None)"
    using assms by (simp add: read_redis_records_def hash_record_def)
  have "strongest_record Q h d None None None None = None"
    by (simp add: strongest_record_def)
  then show ?thesis by (simp add: read_merged_def durable hashes)
qed

context redis_store
begin

lemma cleared_reads_none:
  assumes clear: "clear_gpu_quarantine R Q w d h st = (Inr removed, (fs1, s1))"
    and named: "h \<noteq> []" "d \<noteq> []"
    and worker: "w' = w \<or> cleared_file Q h d (fst (q_others Q st)) w' \<and>
      (r_hgetall R (gpu_quarantine_key (q_prefix Q) w') (snd (q_others Q st)) = [] \<or>
       scanned_alias R Q h d (snd (q_others Q st)) w')"
    and reader: "q_prefix Q' = q_prefix Q" "q_redis Q'" "q_readable Q' (worker_latch_path w')"
      "q_readable Q' (device_latch_path h d)"
  shows "fst (read_gpu_quarantine R Q' w' d h read_only (fs1, s1)) = Inr None"
proof -
  obtain fs s where others: "q_others Q st = (fs, s)" by (cases "q_others Q st")
  obtain file_removed aliases fs' where durable: "clear_durable_latches Q w d h fs = (file_removed, aliases, fs')"
    by (cases "clear_durable_latches Q w d h fs") auto
  let ?workers = "w # (redis_physical_aliases R Q h d (snd st) @ redis_physical_aliases R Q h d s) @ aliases"
  have up: "q_redis Q" "q_lock Q"
    using clear named by (auto simp: clear_gpu_quarantine_def Let_def split: if_splits)
  have eq: "fs1 = fs'" "s1 = del_many R (map (gpu_quarantine_key (q_prefix Q)) ?workers @
      [gpu_device_quarantine_key (q_prefix Q) h d]) s"
    using clear named up by (simp_all add: clear_gpu_quarantine_def Let_def others durable)
  have files: "map_of fs1 path = (if removed_files Q w d h fs path then None else map_of fs path)" for path
    using clear_durable_files [of Q w d h fs path] by (simp add: eq durable)
  have "map_of fs1 (device_latch_path h d) = None" "map_of fs1 (worker_latch_path w') = None"
    using worker named by (auto simp: files removed_files_def cleared_file_def others)
  moreover have "r_hgetall R (gpu_device_quarantine_key (q_prefix Q) h d) s1 = []"
    "r_hgetall R (gpu_quarantine_key (q_prefix Q) w') s1 = []"
    using worker scanned_alias_found [of R Q h d s w'] by (auto simp: eq hgetall_del_many others)
  ultimately have "read_merged R Q' w' h d (fs1, s1) = Inr None"
    using reader by (intro read_merged_nothing) simp_all
  then show ?thesis by (simp add: read_gpu_quarantine_def)
qed

end

text \<open>
  C20: an operator's clear reopens the GPU. After a clear of a named GPU that did not fail, a read
  for that GPU with Redis and the latch directory available reports no quarantine: by the worker
  named in the clear, and by every worker whose latches were copies of the GPU's -- a file that
  holds a physical latch of this GPU, and a Redis hash that says so and was scanned.
\<close>

theorem clear_reopens:
  assumes "redis_store R view"
    and "clear_gpu_quarantine R Q w d h st = (Inr removed, (fs1, s1))"
    and "h \<noteq> []" and "d \<noteq> []"
    and "w' = w \<or> cleared_file Q h d (fst (q_others Q st)) w' \<and>
      (r_hgetall R (gpu_quarantine_key (q_prefix Q) w') (snd (q_others Q st)) = [] \<or>
       scanned_alias R Q h d (snd (q_others Q st)) w')"
    and "q_prefix Q' = q_prefix Q" and "q_redis Q'" and "q_readable Q' (worker_latch_path w')"
    and "q_readable Q' (device_latch_path h d)"
  shows "fst (read_gpu_quarantine R Q' w' d h read_only (fs1, s1)) = Inr None"
  by (rule redis_store.cleared_reads_none [OF assms])

subsection \<open>A copy without a scope\<close>

text \<open>A reader takes a worker hash without a scope for a physical latch of its GPU; the clear of that
  GPU looks for hashes whose scope is present, so it leaves this one, and the worker that owns it
  is quarantined again by its next read -- which writes the latch file of the GPU anew.\<close>

definition clear_env :: "mem qenv" where
  "clear_env = \<lparr>q_prefix = ''k'', q_lock = True, q_readable = (\<lambda>_. True), q_writable = (\<lambda>_. True),
     q_redis = True, q_event = ''e'', q_now = ''n'', q_pid = ''1'', q_digest = (\<lambda>r. concat (map snd r)),
     q_scan = (\<lambda>_ _. [''k:quarantine:worker:a'', ''k:quarantine:worker:b'']), q_others = id\<rparr>"

definition scopeless_store :: mem where
  "scopeless_store = mem_of [(''k:quarantine:worker:b'',
     [(''state'', ''quarantined''), (''hostname'', ''h''), (''device'', ''cuda:0'')])] [] [] 0"

definition after_clear :: "(q_error + bool) \<times> mem qstate" where
  "after_clear = clear_gpu_quarantine mem_redis clear_env ''a'' ''cuda:0'' ''h''
     ([(DeviceLatch ''h'' ''cuda_0'', Latch [(''state'', ''quarantined''), (''scope'', ''physical_gpu'')])], scopeless_store)"

lemma clear_done: "fst after_clear = Inr True \<and> fst (snd after_clear) = []"
  by code_simp

lemma scopeless_copy_survives:
  "case read_gpu_quarantine mem_redis clear_env ''b'' ''cuda:0'' ''h'' False (snd after_clear) of
     (Inr (Some r), fs, _) \<Rightarrow> physical r \<and> map_of fs (device_latch_path ''h'' ''cuda:0'') = Some (Latch r)
   | _ \<Rightarrow> False"
  by code_simp

end
