(* ===== verification/QuarantineSamples.thy ===== *)
theory QuarantineSamples
  imports PageOnce QuarantineClear Samples
begin

section \<open>The quarantine properties on concrete latches\<close>

text \<open>The environment is \<open>clear_env\<close> of \<open>QuarantineClear\<close>, where everything works and nothing else runs,
  or the same with Redis down, so that the latch is in the files only.\<close>

definition down_env :: "mem qenv" where
  "down_env = clear_env\<lparr>q_redis := False\<rparr>"

definition sample_request :: quarantine_request where
  "sample_request = \<lparr>rq_worker = ''a'', rq_device = ''cuda:0'', rq_reason = ''x'', rq_fault_class = ''f'',
     rq_task_id = ''t'', rq_node_id = ''n'', rq_hostname = ''h'', rq_physical = True\<rparr>"

definition no_hashes :: mem where
  "no_hashes = mem_of [] [] [] 0"

definition quarantined :: "(q_error + latch) \<times> mem qstate" where
  "quarantined = write_gpu_quarantine mem_redis down_env sample_request ([], no_hashes)"

lemma quarantined_latch: "case fst quarantined of Inr r \<Rightarrow> map_of r ''event_id'' = Some ''e'' | Inl _ \<Rightarrow> False"
  by code_simp

lemma quarantined_run:
  obtains r fs s where "write_gpu_quarantine mem_redis down_env sample_request ([], no_hashes) = (Inr r, (fs, s))"
    and "map_of r ''event_id'' = Some ''e''"
  using quarantined_latch unfolding quarantined_def
  by (cases "write_gpu_quarantine mem_redis down_env sample_request ([], no_hashes)")
    (auto split: sum.splits)

lemma sample_request_named: "rq_physical sample_request" "rq_hostname sample_request = ''h''"
    "rq_device sample_request = ''cuda:0''"
  by (simp_all add: sample_request_def)

lemma clear_env_keeps: "keeps path clear_env" "keeps path down_env" "keeps_sent h d down_env"
  by (simp_all add: keeps_def keeps_sent_def clear_env_def down_env_def)

text \<open>A read that finds nothing.\<close>

lemma empty_read: "fst (read_gpu_quarantine mem_redis clear_env ''a'' ''cuda:0'' ''h'' False ([], no_hashes)) = Inr None"
  by code_simp

theorem quarantine_fail_closed_witness:
  "q_redis clear_env \<and> no_latch mem_redis clear_env ''a'' ''cuda:0'' ''h''
     (snd (read_gpu_quarantine mem_redis clear_env ''a'' ''cuda:0'' ''h'' False ([], no_hashes)))"
proof (rule quarantine_fail_closed)
  show "read_gpu_quarantine mem_redis clear_env ''a'' ''cuda:0'' ''h'' False ([], no_hashes) =
      (Inr None, snd (read_gpu_quarantine mem_redis clear_env ''a'' ''cuda:0'' ''h'' False ([], no_hashes)))"
    using empty_read by (simp add: prod_eq_iff)
qed

text \<open>The latch is read back by another worker.\<close>

theorem written_latch_read_back_witness:
  "\<exists>r fs s r'. write_gpu_quarantine mem_redis down_env sample_request ([], no_hashes) = (Inr r, (fs, s)) \<and>
     fst (read_gpu_quarantine mem_redis clear_env ''b'' ''cuda:0'' ''h'' True (fs, no_hashes)) = Inr (Some r') \<and>
     gpu_quarantine_generation down_env r' = gpu_quarantine_generation down_env r"
proof -
  obtain r fs s where w: "write_gpu_quarantine mem_redis down_env sample_request ([], no_hashes) = (Inr r, (fs, s))"
    by (rule quarantined_run)
  have "case read_gpu_quarantine mem_redis clear_env ''b'' ''cuda:0'' ''h'' True (fst (snd quarantined), no_hashes) of
      (Inr _, _) \<Rightarrow> True | _ \<Rightarrow> False" by code_simp
  then obtain res st' where read: "read_gpu_quarantine mem_redis clear_env ''b'' (rq_device sample_request)
      (rq_hostname sample_request) True (fs, no_hashes) = (Inr res, st')"
    by (auto simp: quarantined_def w sample_request_named split: sum.splits prod.splits)
  from written_latch_read_back [OF w _ _ _ read] w read show ?thesis
    by (auto simp: sample_request_named)
qed

text \<open>The latch after a read, a second quarantine, a recorded outcome and two pages.\<close>

definition sample_pager :: pager where
  "sample_pager = \<lparr>pr_hostname = ''h'', pr_send = (\<lambda>_. Some (not_needed ''1'')), pr_error_name = (\<lambda>_. ''E'')\<rparr>"

definition sample_record :: latch where
  "sample_record = (case fst quarantined of Inr r \<Rightarrow> r | Inl _ \<Rightarrow> [])"

definition sample_ops :: "(mem qenv \<times> pager \<times> q_op) list" where
  "sample_ops = map (\<lambda>op. (down_env, sample_pager, op))
     [Read ''b'' ''cuda:0'' ''h'' False, Write sample_request, PageDevice sample_record,
      Note ''a'' ''cuda:0'' ''h'' ''physical_gpu'' ''event:e'' ''failed'' ''no'', PageWorker sample_record]"

theorem quarantine_persists_witness:
  "\<exists>r st1. write_gpu_quarantine mem_redis down_env sample_request ([], no_hashes) = (Inr r, st1) \<and>
     fst (read_gpu_quarantine mem_redis clear_env ''c'' ''cuda:0'' ''h'' False
       (fst (q_run mem_redis sample_ops st1), no_hashes)) \<noteq> Inr None"
proof -
  obtain r fs s where w: "write_gpu_quarantine mem_redis down_env sample_request ([], no_hashes) = (Inr r, (fs, s))"
    by (rule quarantined_run)
  from quarantine_persists [OF w _ _ _ _ clear_env_keeps(1), of sample_ops mem_redis "''c''" False no_hashes] w
  show ?thesis by (auto simp: sample_request_named sample_ops_def clear_env_keeps)
qed

text \<open>A worker of the other GPU of the same host is selected.\<close>

definition other_gpu_worker :: mem where
  "other_gpu_worker = (mem_of (map (\<lambda>(w, d). (''k:worker:'' @ w, [(''device'', d), (''status'', ''online''),
     (''last_heartbeat'', ''2026''), (''hostname'', ''h''), (''online'', ''true''),
     (''health_state'', ''healthy''), (''accepting_tasks'', ''true'')])) [(''v'', ''cuda:1'')]) [] [] 0)
     \<lparr>mem_sets := (\<lambda>_. [])(''k:workers'' := [''v''])\<rparr>"

definition sample_latch :: latch where
  "sample_latch = set_default ''page_user_state'' ''pending'' (new_quarantine_record down_env sample_request)"

definition sample_files :: latch_files where
  "sample_files = [(DeviceLatch ''h'' ''cuda_0'', Latch sample_latch), (WorkerLatch ''a'', Latch sample_latch)]"

lemma sample_files_written: "fst (snd quarantined) = sample_files"
  by code_simp

definition watched_env :: "mem env" where
  "watched_env = (sample_env ''a'')\<lparr>e_quarantine := observe_quarantine mem_redis clear_env sample_files\<rparr>"

lemma watched_selection:
  "map_option sel_device (fst (select_idle_worker mem_redis sample_settings watched_env ''gpu''
     [] ''h'' 120 (new_manager ''k'' ''api'') other_gpu_worker)) = Some ''cuda:1''"
  by code_simp

theorem quarantined_never_selected_witness:
  "\<exists>w :: selection. sel_device w = ''cuda:1'' \<and> \<not> (sel_device w = ''cuda:0'' \<and> py_strip (sel_hostname w) = ''h'')"
proof -
  obtain r fs s where w: "write_gpu_quarantine mem_redis down_env sample_request ([], no_hashes) = (Inr r, (fs, s))"
    by (rule quarantined_run)
  obtain res s' where run: "select_idle_worker mem_redis sample_settings watched_env ''gpu''
      [] ''h'' 120 (new_manager ''k'' ''api'') other_gpu_worker = (res, s')"
    by (cases "select_idle_worker mem_redis sample_settings watched_env ''gpu''
      [] ''h'' 120 (new_manager ''k'' ''api'') other_gpu_worker")
  from run watched_selection obtain sel where sel: "res = Some sel" "sel_device sel = ''cuda:1''" by auto
  have "watched_env = (sample_env ''a'')\<lparr>e_quarantine :=
      observe_quarantine mem_redis clear_env (fst (q_run mem_redis [] (fs, s)))\<rparr>"
    using sample_files_written by (simp add: watched_env_def quarantined_def w q_run_def)
  from quarantined_never_selected [OF w _ _ _ _ clear_env_keeps(1) this disjI1 [OF run [unfolded sel(1)]]] sel
  show ?thesis
    by (auto simp: sample_request_named sample_ops_def clear_env_keeps)
qed

text \<open>A page is delivered, an attempt to record a failure follows, and the next attempt sends nothing.\<close>

definition later_ops :: "(mem qenv \<times> pager \<times> q_op) list" where
  "later_ops = map (\<lambda>op. (down_env, sample_pager, op))
     [Note ''a'' ''cuda:0'' ''h'' ''physical_gpu'' ''event:e'' ''failed'' ''no'', Write sample_request,
      Read ''b'' ''cuda:0'' ''h'' False, PageDevice sample_latch]"

lemma page_delivered:
  "case send_gpu_quarantine_page down_env sample_pager sample_latch sample_files of
     (Some r, pg # _, _) \<Rightarrow> po_success r \<and> pg_host pg = ''h'' | _ \<Rightarrow> False"
  by code_simp

lemma sample_latch_fields: "rget ''hostname'' sample_latch = ''h''" "rget ''device'' sample_latch = ''cuda:0''"
    "\<not> unlatched_best_effort sample_latch"
  by code_simp+


text \<open>The clear of \<open>QuarantineClear\<close>, read by the worker that it names.\<close>

theorem clear_reopens_witness:
  "fst after_clear = Inr True \<and>
   fst (read_gpu_quarantine mem_redis clear_env ''a'' ''cuda:0'' ''h'' False (snd after_clear)) = Inr None"
proof -
  obtain fs1 s1 where run: "clear_gpu_quarantine mem_redis clear_env ''a'' ''cuda:0'' ''h''
      ([(DeviceLatch ''h'' ''cuda_0'', Latch [(''state'', ''quarantined''), (''scope'', ''physical_gpu'')])], scopeless_store)
      = (Inr True, (fs1, s1))"
    using clear_done unfolding after_clear_def by (metis prod.collapse)
  have up: "q_redis clear_env" "q_readable clear_env path" for path by (simp_all add: clear_env_def)
  have "fst (read_gpu_quarantine mem_redis clear_env ''a'' ''cuda:0'' ''h'' False (fs1, s1)) = Inr None"
    by (rule clear_reopens [OF mem_redis.redis_store_axioms run _ _ disjI1 [OF refl] refl up(1) up(2) up(2)]) simp_all
  with run show ?thesis by (simp add: after_clear_def)
qed

subsection \<open>A tag that outlives the failure it reports\<close>

text \<open>When a durable write fails, the record in Redis is tagged so that its page may be sent without a
  claim. Nothing removes the tag: once the disk is back, the next read writes the latch files with
  it, and two notifiers that hold the now durable record both send.\<close>

definition tagged_store :: mem where
  "tagged_store = mem_of [(''k:quarantine:gpu:h:cuda:0'',
     [(''state'', ''quarantined''), (''scope'', ''physical_gpu''), (''event_id'', ''e''),
      (''notification_provenance'', ''unlatched_best_effort'')])] [] [] 0"

definition recovered :: "(q_error + latch option) \<times> mem qstate" where
  "recovered = read_gpu_quarantine mem_redis clear_env ''b'' ''cuda:0'' ''h'' False ([], tagged_store)"

lemma tag_outlives_recovery:
  "case recovered of
     (Inr (Some r), fs, _) \<Rightarrow> map_of fs (device_latch_path ''h'' ''cuda:0'') = Some (Latch r) \<and>
       length (fst (snd (send_gpu_quarantine_page clear_env sample_pager r fs))) = 1 \<and>
       length (fst (snd (send_gpu_quarantine_page clear_env sample_pager r
         (snd (snd (send_gpu_quarantine_page clear_env sample_pager r fs)))))) = 1
   | _ \<Rightarrow> False"
  by code_simp

end
