(* ===== verification/Scheduler.thy ===== *)
theory Scheduler
  imports Lifecycle Workers
begin

section \<open>The scheduler of a workflow controller\<close>

text \<open>
  \<open>TaskManagerScheduler\<close> of \<open>kernelgym/server/scheduler.py\<close>: what a workflow controller may do with
  the task manager. With a workflow attached, every operation first reconciles the parent; the
  children it submits carry the parent's generation, keys and deadline in their payload and have
  ids of that generation. The polling loops are bounded by a number of polls; what other processes
  do during a sleep is an argument.
\<close>

datatype sched_error = Raised tm_error | TimedOut

record workflow_ref = \<comment> \<open>the dictionary \<open>self._workflow\<close>\<close>
  wr_task_id :: str
  wr_generation :: str
  wr_deadline :: str

record task_spec =
  ts_kind :: str
  ts_payload :: json
  ts_resources :: json
  ts_metadata :: json

definition check_workflow ::
  "'s redis \<Rightarrow> codec \<Rightarrow> settings \<Rightarrow> 's env \<Rightarrow> workflow_ref option \<Rightarrow> tmgr \<Rightarrow> 's \<Rightarrow> (tm_error + unit) \<times> 's" where
  "check_workflow R C cfg E W m s = (case W of
     None \<Rightarrow> (Inr (), s)
   | Some w \<Rightarrow> (case wf_reconcile R C cfg E (wr_task_id w) m s of
       (Inl e, s1) \<Rightarrow> (Inl e, s1)
     | (Inr parent, s1) \<Rightarrow>
         if map_of parent ''workflow_generation'' \<noteq> Some (wr_generation w) \<or>
            rget ''status'' parent \<notin> {''pending'', ''processing''}
         then (Inl WorkflowStopped, s1) else (Inr (), s1)))"

subsection \<open>Submitting a child\<close>

definition source_id :: "workflow_ref \<Rightarrow> json \<Rightarrow> json" where
  "source_id w original =
    (if original = JStr (wr_task_id w) then JStr (wr_task_id w @ ''_kernel'') else original)"

definition child_payload :: "tmgr \<Rightarrow> workflow_ref \<Rightarrow> dict \<Rightarrow> dict" where
  "child_payload m w payload =
    (let p = key_prefix m; base = wr_task_id w; generation = wr_generation w;
         original = source_id w (dget ''task_id'' payload)
     in dupdate [(''task_id'', JStr (py_str original @ ''_'' @ generation)), (''base_task_id'', JStr base),
          (''force_refresh'', JBool False), (''workflow_generation'', JStr generation),
          (''workflow_source_task_id'', original), (''workflow_parent_key'', JStr (task_key p base)),
          (''workflow_lease_key'', JStr (workflow_key p base)), (''workflow_deadline'', JStr (wr_deadline w)),
          (''workflow_children_key'', JStr (children_key p base generation))] payload)"

definition with_resources :: "json \<Rightarrow> dict \<Rightarrow> dict" where
  "with_resources resources payload =
    (if resources \<noteq> JNull \<and> \<not> dhas ''resources'' payload then dset ''resources'' resources payload else payload)"

definition sched_submit ::
  "'s redis \<Rightarrow> codec \<Rightarrow> settings \<Rightarrow> 's env \<Rightarrow> str list \<Rightarrow> str list \<Rightarrow> workflow_ref option \<Rightarrow> task_spec \<Rightarrow>
   tmgr \<Rightarrow> 's \<Rightarrow> (tm_error + str) \<times> tmgr \<times> 's" where
  \<comment> \<open>both branches on \<open>task.kind\<close> end in \<open>submit_task\<close>\<close>
  "sched_submit R C cfg E toolkits backends W task m s =
    (case ts_payload task of
       JObj payload \<Rightarrow>
         if \<not> dhas ''task_id'' payload then (Inl ValueError, m, s)
         else (case check_workflow R C cfg E W m s of
           (Inl e, s1) \<Rightarrow> (Inl e, m, s1)
         | (Inr _, s1) \<Rightarrow>
             let payload1 = (case W of None \<Rightarrow> payload | Some w \<Rightarrow> child_payload m w payload)
             in submit_task R C cfg E toolkits backends (with_resources (ts_resources task) payload1) m s1)
     | _ \<Rightarrow> (Inl ValueError, m, s))"

subsection \<open>Waiting for a child\<close>

definition timed_out :: "'s env \<Rightarrow> int \<Rightarrow> rat option \<Rightarrow> 's \<Rightarrow> bool" where
  "timed_out E start timeout s = (case timeout of
     None \<Rightarrow> False | Some t \<Rightarrow> of_int (e_mono_ns E s - start) / 1000000000 \<ge> t)"

definition sched_poll ::
  "'s redis \<Rightarrow> codec \<Rightarrow> settings \<Rightarrow> 's env \<Rightarrow> workflow_ref option \<Rightarrow> str \<Rightarrow> str \<Rightarrow> int \<Rightarrow> rat option \<Rightarrow>
   tmgr \<Rightarrow> 's \<Rightarrow> (sched_error + dict option) option \<times> 's" where
  \<comment> \<open>one iteration of \<open>wait_unless_cancelled\<close>; of \<open>wait\<close> with an empty \<open>base_id\<close>\<close>
  "sched_poll R C cfg E W task_id base_id start timeout m s =
    (case check_workflow R C cfg E W m s of
       (Inl e, s1) \<Rightarrow> (Some (Inl (Raised e)), s1)
     | (Inr _, s1) \<Rightarrow> (case get_task_result R C m task_id None s1 of
         Inl e \<Rightarrow> (Some (Inl (Raised e)), s1)
       | Inr (Some (entry # rest)) \<Rightarrow> (Some (Inr (Some (entry # rest))), s1)
       | Inr _ \<Rightarrow>
           if base_id \<noteq> [] \<and> is_task_cancelled R m base_id s1
           then (Some (Inr None), snd (cancel_task R C cfg E task_id m s1))
           else if timed_out E start timeout s1 then (Some (Inl TimedOut), s1)
           else (None, s1)))"

fun sched_wait ::
  "'s redis \<Rightarrow> codec \<Rightarrow> settings \<Rightarrow> 's env \<Rightarrow> ('s \<Rightarrow> 's) \<Rightarrow> nat \<Rightarrow> workflow_ref option \<Rightarrow> str \<Rightarrow> str \<Rightarrow> int \<Rightarrow>
   rat option \<Rightarrow> tmgr \<Rightarrow> 's \<Rightarrow> (sched_error + dict option) option \<times> 's" where
  \<comment> \<open>None: still polling after the given number of polls\<close>
  "sched_wait R C cfg E others 0 W task_id base_id start timeout m s = (None, s)"
| "sched_wait R C cfg E others (Suc n) W task_id base_id start timeout m s =
    (case sched_poll R C cfg E W task_id base_id start timeout m s of
       (Some r, s1) \<Rightarrow> (Some r, s1)
     | (None, s1) \<Rightarrow> sched_wait R C cfg E others n W task_id base_id start timeout m (others s1))"

definition wait_unless_cancelled ::
  "'s redis \<Rightarrow> codec \<Rightarrow> settings \<Rightarrow> 's env \<Rightarrow> ('s \<Rightarrow> 's) \<Rightarrow> nat \<Rightarrow> workflow_ref option \<Rightarrow> str \<Rightarrow> str \<Rightarrow> rat option \<Rightarrow>
   tmgr \<Rightarrow> 's \<Rightarrow> (sched_error + dict option) option \<times> 's" where
  "wait_unless_cancelled R C cfg E others n W task_id base_id timeout m s =
     sched_wait R C cfg E others n W task_id base_id (e_mono_ns E s) timeout m s"

subsection \<open>Selecting a worker\<close>

fun sched_select_idle ::
  "'s redis \<Rightarrow> settings \<Rightarrow> 's env \<Rightarrow> ('s \<Rightarrow> 's) \<Rightarrow> nat \<Rightarrow> str \<Rightarrow> int \<Rightarrow> rat option \<Rightarrow> str \<Rightarrow> str \<Rightarrow> tmgr \<Rightarrow> 's \<Rightarrow>
   selection option option \<times> 's" where
  "sched_select_idle R cfg E others 0 resource start timeout tn th m s = (None, s)"
| "sched_select_idle R cfg E others (Suc n) resource start timeout tn th m s =
    (case select_idle_worker R cfg E resource tn th 30 m s of
       (Some w, s1) \<Rightarrow> (Some (Some w), s1)
     | (None, s1) \<Rightarrow>
         if timed_out E start timeout s1 then (Some None, s1)
         else sched_select_idle R cfg E others n resource start timeout tn th m (others s1))"

end
