(* ===== verification/WorkflowContracts.thy ===== *)
theory WorkflowContracts
  imports RefineLifecycle
begin

section \<open>What the workflow lifecycle guarantees\<close>

definition open_under :: "('s \<Rightarrow> keyspace) \<Rightarrow> str \<Rightarrow> str \<Rightarrow> str \<Rightarrow> 's \<Rightarrow> bool" where
  "open_under view p x g s \<longleftrightarrow>
     hashes (view s) (task_key p x) ''workflow_generation'' = Some g \<and>
     workflow_open (hashes (view s) (task_key p x) ''status'')"

definition closed_with :: "'s redis \<Rightarrow> ('s \<Rightarrow> keyspace) \<Rightarrow> str \<Rightarrow> str \<Rightarrow> str \<Rightarrow> 's \<Rightarrow> bool" where
  \<comment> \<open>a terminal record of the generation, and a failed result of it with a reason\<close>
  "closed_with R view p x g s \<longleftrightarrow>
     hashes (view s) (task_key p x) ''workflow_generation'' = Some g \<and>
     hashes (view s) (task_key p x) ''status'' \<in> Some ` {''failed'', ''timeout''} \<and>
     (\<exists>d msg. hashes (view s) (result_key p x) ''result'' = Some (cjson_encode R (JObj d)) \<and>
        dget ''task_id'' d = JStr x \<and> dget ''workflow_generation'' d = JStr g \<and>
        dget ''correctness'' d = JBool False \<and> dget ''error_message'' d = JStr msg \<and> msg \<noteq> [])"

lemma workflow_active_open:
  assumes "redis_store R view" and "key_prefix m = p" and "workflow_active (wf_read R m x s)"
  shows "open_under view p x (rget ''workflow_generation'' (wf_read R m x s)) s"
  using assms(3)
  by (auto simp: workflow_active_def wf_read_def assms(2) redis_store.rget_hgetall [OF assms(1)] open_under_def
      workflow_open_def split: option.splits)

context json_redis
begin

lemma finish_reason_kept:
  assumes "finish_reason R k lease g d reason s = (rs, rd)" and "reason \<noteq> []"
  shows "rs \<noteq> []"
  using assms by (auto simp: finish_reason_def Let_def split: if_splits)

lemma finish_failure_verdict:
  "finish_verdict R now k lease g reason ''failed'' v \<in> {''failed'', ''timeout''}"
  by (simp add: finish_verdict_def)

lemma wf_finish_closes:
  assumes "open_under view p x g s" and "key_prefix m = p" and "reason \<noteq> []"
    and "wf_finish R C cfg E x g (wf_failure x reason) reason m s = (b, s')"
  shows "b \<and> closed_with R view p x g s'"
proof -
  let ?json = "json_dumps C (JObj (wf_failure x reason))"
  obtain code where fin: "finish_workflow R (task_key p x) (result_key p x) (workflow_key p x) (cancel_key p x)
      (active_key p) (children_key p x g) g ?json (e_iso E s) (terminal_task_ttl_sec cfg)
      (terminal_result_ttl_sec cfg) x reason p s = (code, s')" and b: "b = (code \<noteq> 0)"
    using assms(2,4) by (auto simp: wf_finish_def Let_def split: prod.splits)
  obtain rs rd where fr: "finish_reason R (task_key p x) (workflow_key p x) g
      (json_object (cjson_decode R ?json)) reason s = (rs, rd)" by fastforce
  have failed: "dget ''status'' (json_object (cjson_decode R ?json)) = JStr ''failed''"
    by (simp add: cjson_dumps json_object_def)
  let ?v = "finish_verdict R (r_time R s) (task_key p x) (workflow_key p x) g reason ''failed'' (view s)"
  have v: "?v \<in> {''failed'', ''timeout''}" by (rule finish_failure_verdict)
  then have "?v \<in> set terminal_statuses" by auto
  note br = finish_branches [OF fin fr finish_reason_verdict(1) [OF fr failed] this]
  have one: "code = 1" using br(1) assms(1) by (simp add: open_under_def)
  have "rs \<noteq> []" by (rule finish_reason_kept [OF fr assms(3)])
  then show ?thesis
    using br(3) [OF one] v finish_result_content(1-3) finish_result_content(4,5) [OF \<open>rs \<noteq> []\<close>] one
    by (auto simp: b closed_with_def intro!: exI [of _ "finish_result R (task_key p x) g x rs rd s"] exI [of _ rs])
qed

lemma wf_reconcile_cases:
  assumes "wf_reconcile R C cfg E x m s = (Inr record, s')" and "key_prefix m = p"
  shows "s' = s \<and> record = wf_read R m x s \<and>
      (workflow_active record \<longrightarrow> reconcile_reason R C E p x record s = Inr []) \<or>
    (\<exists>g. g \<noteq> [] \<and> open_under view p x g s \<and> closed_with R view p x g s' \<and> record = wf_read R m x s' \<and>
      reconcile_reason R C E p x (wf_read R m x s) s \<noteq> Inr [])"
proof (cases "workflow_active (wf_read R m x s)")
  case False
  with assms(1) have "wf_read R m x s = record" "s' = s" by (auto simp: wf_reconcile_def Let_def)
  with False show ?thesis by simp
next
  case True
  let ?rec = "wf_read R m x s"
  let ?g = "rget ''workflow_generation'' ?rec"
  from True assms obtain reason where reason: "reconcile_reason R C E p x ?rec s = Inr reason"
    by (auto simp: wf_reconcile_def Let_def split: sum.splits)
  show ?thesis
  proof (cases "reason = []")
    case True
    with reason assms \<open>workflow_active (wf_read R m x s)\<close> have "record = wf_read R m x s" "s' = s"
      by (auto simp: wf_reconcile_def Let_def)
    with reason True show ?thesis by simp
  next
    case False
    obtain b s1 where fin: "wf_finish R C cfg E x ?g (wf_failure x reason) reason m s = (b, s1)"
      by (cases "wf_finish R C cfg E x ?g (wf_failure x reason) reason m s")
    have "s' = s1 \<and> record = wf_read R m x s1"
      using assms reason False True fin by (auto simp: wf_reconcile_def Let_def)
    moreover have op: "open_under view p x ?g s"
      by (rule workflow_active_open [OF redis_store_axioms assms(2) True])
    moreover have "?g \<noteq> []" using True by (simp add: workflow_active_def)
    ultimately show ?thesis
      using wf_finish_closes [OF op assms(2) False fin] reason False by auto
  qed
qed

lemma closed_not_active:
  assumes "closed_with R view p x g s" and "key_prefix m = p"
  shows "rget ''status'' (wf_read R m x s) \<in> {''failed'', ''timeout''}"
    and "map_of (wf_read R m x s) ''workflow_generation'' = Some g"
  using assms by (auto simp: closed_with_def wf_read_def rget_hgetall hgetall)

end

subsection \<open>Reports\<close>


text \<open>
  C33: a workflow that must stop is stopped by the next look at it. If reconciliation finds a reason
  to stop an active workflow -- deadline, lease, tombstone, a child that is cancelled, frozen or
  quarantined -- then it commits: the record it returns and the stored record are failed or timed
  out under the same generation, and the result record holds a result of that generation, never
  correct and with a non-empty error message.
\<close>

theorem stopped_when_due:
  assumes "json_redis R view C" and "p = key_prefix m" and "workflow_active (wf_read R m x s)"
    and "reconcile_reason R C E p x (wf_read R m x s) s = Inr reason" and "reason \<noteq> []"
  shows "\<exists>record s'. wf_reconcile R C cfg E x m s = (Inr record, s') \<and> record = wf_read R m x s' \<and>
    closed_with R view p x (rget ''workflow_generation'' (wf_read R m x s)) s'"
proof -
  have store: "redis_store R view" using assms(1) by (simp add: json_redis_def)
  let ?g = "rget ''workflow_generation'' (wf_read R m x s)"
  obtain b s1 where fin: "wf_finish R C cfg E x ?g (wf_failure x reason) reason m s = (b, s1)"
    by (cases "wf_finish R C cfg E x ?g (wf_failure x reason) reason m s")
  have "closed_with R view p x ?g s1"
    using json_redis.wf_finish_closes [OF assms(1) workflow_active_open [OF store assms(2) [symmetric] assms(3)]
      assms(2) [symmetric] assms(5) fin] by simp
  with fin show ?thesis using assms(2-5) by (simp add: wf_reconcile_def Let_def)
qed

subsection \<open>Waiting ends\<close>

definition due_by :: "('s \<Rightarrow> keyspace) \<Rightarrow> str \<Rightarrow> str \<Rightarrow> str \<Rightarrow> rat \<Rightarrow> 's \<Rightarrow> bool" where
  \<comment> \<open>while the record has this generation, its deadline is at most the given time\<close>
  "due_by view p x g D s \<longleftrightarrow>
     (hashes (view s) (task_key p x) ''workflow_generation'' = Some g \<longrightarrow>
      (\<exists>text deadline. hashes (view s) (task_key p x) ''workflow_deadline'' = Some text \<and>
         parse_float text = Some deadline \<and> deadline \<le> D))"

context json_redis
begin

lemma poll_unchanged:
  assumes "wf_poll R C cfg E x g m s = (None, s')"
  shows "s' = s \<and> workflow_active (wf_read R m x s) = (g \<noteq> []) \<and>
    hashes (view s) (task_key (key_prefix m) x) ''workflow_generation'' = Some g \<and>
    (g \<noteq> [] \<longrightarrow> reconcile_reason R C E (key_prefix m) x (wf_read R m x s) s = Inr [])"
proof -
  obtain answer where rec: "wf_reconcile R C cfg E x m s = (Inr answer, s')"
    and gen: "map_of answer ''workflow_generation'' = Some g"
    and st: "rget ''status'' answer \<in> {''pending'', ''processing''}"
    using assms by (auto simp: wf_poll_def split: prod.splits sum.splits option.splits list.splits if_splits)
  have closed: "\<not> closed_with R view (key_prefix m) x g' s'" if "answer = wf_read R m x s'" for g'
  proof
    assume "closed_with R view (key_prefix m) x g' s'"
    from closed_not_active(1) [OF this refl] that st show False by auto
  qed
  from wf_reconcile_cases [OF rec refl] closed
  have same: "s' = s" "answer = wf_read R m x s"
    and reason: "workflow_active answer \<longrightarrow> reconcile_reason R C E (key_prefix m) x answer s = Inr []"
    by auto
  have "workflow_active answer = (g \<noteq> [])"
    using gen st by (simp add: workflow_active_def rget_def)
  then show ?thesis using same gen reason by (simp add: wf_read_def hgetall)
qed

lemma poll_ends:
  assumes "g \<noteq> []" and "due_by view (key_prefix m) x g D s" and "D \<le> r_time R s"
  shows "fst (wf_poll R C cfg E x g m s) \<noteq> None"
proof
  assume "fst (wf_poll R C cfg E x g m s) = None"
  then obtain s' where "wf_poll R C cfg E x g m s = (None, s')" by (metis prod.collapse)
  from poll_unchanged [OF this] assms(1)
  have gen: "hashes (view s) (task_key (key_prefix m) x) ''workflow_generation'' = Some g"
    and reason: "reconcile_reason R C E (key_prefix m) x (wf_read R m x s) s = Inr []" by auto
  with assms(2) obtain t d where t: "hashes (view s) (task_key (key_prefix m) x) ''workflow_deadline'' = Some t"
    "parse_float t = Some d" "d \<le> D" by (auto simp: due_by_def)
  then have "reconcile_reason R C E (key_prefix m) x (wf_read R m x s) s =
      Inr ''Workflow end-to-end deadline exceeded''"
    using assms(3) by (simp add: reconcile_reason_def wf_read_def hgetall)
  with reason show False by simp
qed

lemma wait_result_generation:
  "fst (wf_wait R C cfg E others n x g m s) = Some (Inr d) \<Longrightarrow> dget ''workflow_generation'' d = JStr g"
proof (induction n arbitrary: s)
  case 0
  then show ?case by simp
next
  case (Suc n)
  obtain r s1 where poll: "wf_poll R C cfg E x g m s = (r, s1)" by (cases "wf_poll R C cfg E x g m s")
  show ?case
  proof (cases r)
    case None
    with poll Suc show ?thesis by simp
  next
    case (Some out)
    with poll Suc.prems have "out = Inr d" by simp
    with poll Some show ?thesis
      by (auto simp: wf_poll_def split: prod.splits sum.splits option.splits list.splits if_splits)
  qed
qed

end

text \<open>
  C15: waiting for a workflow ends. Let the deadline of generation g of workflow x be D at the
  latest, whatever other processes do between two polls, and let at least the 0.2 seconds of the
  sleep pass between them. Then a waiter that starts at time t has its answer after at most
  5 (D - t) + 1 polls, rounded up: the result of that very generation, or an error.
\<close>

theorem wait_ends:
  assumes "json_redis R view C" and "g \<noteq> []" and "due_by view (key_prefix m) x g D s"
    and "\<And>s. due_by view (key_prefix m) x g D s \<Longrightarrow> due_by view (key_prefix m) x g D (others s)"
    and "\<And>s. r_time R s + 1 / 5 \<le> r_time R (others s)" and "5 * (D - r_time R s) \<le> of_nat n"
  shows "\<exists>r. fst (wf_wait R C cfg E others (Suc n) x g m s) = Some r \<and>
    (\<forall>d. r = Inr d \<longrightarrow> dget ''workflow_generation'' d = JStr g)"
proof -
  note ends = json_redis.poll_ends [OF assms(1,2)]
  have "fst (wf_wait R C cfg E others (Suc n) x g m s) \<noteq> None"
    using assms(3,6)
  proof (induction n arbitrary: s)
    case 0
    then have "fst (wf_poll R C cfg E x g m s) \<noteq> None" by (intro ends) auto
    then show ?case by (auto split: prod.split option.split)
  next
    case (Suc n)
    show ?case
    proof (cases "wf_poll R C cfg E x g m s")
      case (Pair r s1)
      show ?thesis
      proof (cases r)
        case None
        with Pair json_redis.poll_unchanged [OF assms(1)] have same: "s1 = s" by blast
        have "fst (wf_wait R C cfg E others (Suc n) x g m (others s)) \<noteq> None"
          by (rule Suc.IH [OF assms(4) [OF Suc.prems(1)]]) (use Suc.prems(2) assms(5) [of s] in simp)
        then show ?thesis using Pair None same by (simp del: wf_wait.simps add: wf_wait.simps(2) [of _ _ _ _ _ "Suc n"])
      qed (use Pair in simp)
    qed
  qed
  then obtain r where r: "fst (wf_wait R C cfg E others (Suc n) x g m s) = Some r" by blast
  then show ?thesis using json_redis.wait_result_generation [OF assms(1)] by blast
qed

subsection \<open>Cancellation\<close>

lemma cancel_task_holds:
  assumes "json_redis R view C" and "prefixes_for_read m = [p]" and "cancel_task R C cfg E x m s = (r, s')"
  shows "r = Inr True \<and> tombstoned p x (view s') \<and> is_task_cancelled R m x s' \<and>
    (let s1 = mark_task_cancelled R cfg E x p s; parent = r_hgetall R (task_key p x) s1 in
     is_parent_record parent \<longrightarrow> rget ''status'' parent \<in> {''pending'', ''processing''} \<longrightarrow>
     closed_with R view p x (rget ''workflow_generation'' parent) s')"
proof -
  have store: "redis_store R view" using assms(1) by (simp add: json_redis_def)
  have p: "key_prefix m = p" using assms(2) by (simp add: prefixes_for_read_def)
  define s1 where "s1 = mark_task_cancelled R cfg E x p s"
  let ?parent = "r_hgetall R (task_key p x) s1"
  let ?g = "rget ''workflow_generation'' ?parent"
  have r: "r = Inr True" and s': "s' = (if is_parent_record ?parent
      then snd (wf_finish R C cfg E x ?g (wf_failure x ''Task cancelled'') ''Task cancelled'' m s1) else s1)"
    using assms(2,3) by (auto simp: cancel_task_def s1_def cancel_parent_def p Let_def split: if_splits)
  have "tombstoned p x (view s1)"
    unfolding s1_def mark_task_cancelled_def by (rule redis_store.cancel_tombstones [OF store])
  then have tomb: "tombstoned p x (view s')"
    unfolding s' wf_finish_def Let_def case_prod_beta p snd_conv
    using redis_store.tombstoned_lifecycle(4) [OF store] by auto
  then have "is_task_cancelled R m x s'"
    using tombstoned_exists [OF tomb] by (simp add: is_task_cancelled_def assms(2) redis_store.exists [OF store])
  moreover have "closed_with R view p x ?g s'"
    if "is_parent_record ?parent" "rget ''status'' ?parent \<in> {''pending'', ''processing''}"
  proof -
    have "workflow_active (wf_read R m x s1)"
      using that by (simp add: workflow_active_def wf_read_def p is_parent_record_def)
    from workflow_active_open [OF store p this] have op: "open_under view p x ?g s1" by (simp add: wf_read_def p)
    show ?thesis
      using json_redis.wf_finish_closes [OF assms(1) op p _ prod.collapse [symmetric]] that(1) s' by simp
  qed
  ultimately show ?thesis using r tomb unfolding Let_def s1_def [symmetric] by blast
qed


end
