(* ===== verification/SchedulerContracts.thy ===== *)
theory SchedulerContracts
  imports Scheduler WorkflowContracts
begin

section \<open>What the scheduler guarantees of a workflow's children\<close>

subsection \<open>Submitted children\<close>

definition wf_fields_of :: "tmgr \<Rightarrow> workflow_ref \<Rightarrow> (str \<times> str) list" where
  "wf_fields_of m w =
     [(''workflow_generation'', wr_generation w), (''workflow_parent_key'', task_key (key_prefix m) (wr_task_id w)),
      (''workflow_lease_key'', workflow_key (key_prefix m) (wr_task_id w)),
      (''workflow_deadline'', wr_deadline w),
      (''workflow_children_key'', children_key (key_prefix m) (wr_task_id w) (wr_generation w))]"

lemma child_payload_fields:
  assumes "d = with_resources res (child_payload m w payload)"
  shows "dget ''task_id'' d = JStr (py_str (source_id w (dget ''task_id'' payload)) @ ''_'' @ wr_generation w)"
    and "dget ''base_task_id'' d = JStr (wr_task_id w)" and "dget ''force_refresh'' d = JBool False"
    and "dhas ''task_id'' d"
    and "\<forall>(f, v) \<in> set (wf_fields_of m w). dhas f d \<and> dget f d = JStr v"
  using assms by (simp_all add: with_resources_def child_payload_def Let_def wf_fields_of_def)

lemma submit_task_inner:
  assumes sub: "submit_task R C cfg E tks bks d m s = (Inr x, m1, s1)"
    and "dget ''force_refresh'' d = JBool False" and "dget ''task_id'' d = JStr cid" "dhas ''task_id'' d"
  obtains pr sa aw wa d3 q created m0
  where "submit_if_absent_op R C m0 cid (submission_fields C m cid pr sa aw wa d3) q s = (Inr created, s1)"
    and "key_prefix m0 = key_prefix m" and "x = cid"
    and "\<And>f. f \<notin> {''toolkit'', ''backend_adapter'', ''backend'', ''required_resource'', ''assigned_worker''} \<Longrightarrow>
      dget f d3 = dget f d \<and> dhas f d3 = dhas f d"
proof -
  define d1 where "d1 = with_default ''backend'' (default_backend cfg)
    (with_default ''backend_adapter'' (default_backend_adapter cfg) (with_default ''toolkit'' (default_toolkit cfg) d))"
  define prio where "prio = (if dhas ''priority'' d1 then dget ''priority'' d1 else JStr ''normal'')"
  define d2 where "d2 = dset ''required_resource'' (JStr (resolve_required_resource d1)) d1"
  define aw where "aw = py_or (dget ''assigned_worker'' d2) (JStr [])"
  define d3 where "d3 = (if dhas ''assigned_worker'' d2 then dset ''assigned_worker'' aw d2 else d2)"
  define m0 where "m0 = (if truthy aw then remember_worker_queue (str_or_empty aw) m else m)"
  have map: "map_of (with_default k v e) f = map_of e f" if "f \<noteq> k" for f k v e
    using that by (simp add: with_default_def dset_def map_of_AList_update)
  have same: "map_of d3 f = map_of d f"
    if "f \<notin> {''toolkit'', ''backend_adapter'', ''backend'', ''required_resource'', ''assigned_worker''}" for f
    using that by (simp add: d3_def d2_def d1_def map dset_def map_of_AList_update)
  have "map_of d ''task_id'' = Some (JStr cid)"
    using assms(3,4) by (auto simp: dget_def dhas_def split: option.splits)
  then have id: "map_of d1 ''task_id'' = Some (JStr cid)" by (simp add: d1_def map)
  have fr: "dget ''force_refresh'' d3 = JBool False"
    using assms(2) same [of "''force_refresh''"] by (simp add: dget_def)
  let ?q = "if truthy aw then worker_queue (key_prefix m) (str_or_empty aw)
    else resource_queue (key_prefix m) (resolve_required_resource d1)"
  let ?fields = "submission_fields C m cid (py_str prio) (e_iso E s) aw (if truthy aw then e_iso E s else []) d3"
  obtain res s2 where op: "submit_if_absent_op R C m0 cid ?fields ?q s = (res, s2)"
    by (cases "submit_if_absent_op R C m0 cid ?fields ?q s")
  have "\<exists>created. res = Inr created \<and> s2 = s1 \<and> x = cid"
    using sub unfolding submit_task_def Let_def d1_def [symmetric] id option.case json.case prio_def [symmetric]
      d2_def [symmetric] aw_def [symmetric] d3_def [symmetric] m0_def [symmetric] fr op
    by (cases res) (auto split: if_splits)
  moreover have "key_prefix m0 = key_prefix m" by (simp add: m0_def remember_worker_queue_def)
  moreover have "dget f d3 = dget f d \<and> dhas f d3 = dhas f d"
    if "f \<notin> {''toolkit'', ''backend_adapter'', ''backend'', ''required_resource'', ''assigned_worker''}" for f
    using same [OF that] by (simp add: dget_def dhas_def)
  ultimately show thesis using op that by blast
qed

context json_redis
begin

lemma submit_child:
  assumes sub: "submit_task R C cfg E tks bks d m s = (Inr x, m1, s1)"
    and id: "dget ''task_id'' d = JStr cid" "dhas ''task_id'' d" and fresh: "dget ''force_refresh'' d = JBool False"
    and fields: "\<forall>(f, v) \<in> set (wf_fields_of m w). dhas f d \<and> dget f d = JStr v"
    and new: "\<not> ks_exists (task_key (key_prefix m) cid) (view s)"
  shows "x = cid \<and> cid \<in> sets (view s1) (children_key (key_prefix m) (wr_task_id w) (wr_generation w)) \<and>
    (\<forall>(f, v) \<in> set (wf_fields_of m w). hashes (view s1) (task_key (key_prefix m) cid) f = Some v) \<and>
    hashes (view s1) (task_key (key_prefix m) cid) ''cancellation_keys'' =
      Some (json_dumps C (JList (cancellation_tombstones m cid d)))"
proof -
  obtain pr sa aw wa d3 q created m0
    where op: "submit_if_absent_op R C m0 cid (submission_fields C m cid pr sa aw wa d3) q s = (Inr created, s1)"
      and p: "key_prefix m0 = key_prefix m" and x: "x = cid"
      and same: "\<And>f. f \<notin> {''toolkit'', ''backend_adapter'', ''backend'', ''required_resource'', ''assigned_worker''} \<Longrightarrow>
        dget f d3 = dget f d \<and> dhas f d3 = dhas f d"
    by (rule submit_task_inner [OF sub fresh id]) blast
  have d3: "\<forall>(f, v) \<in> set (wf_fields_of m w). dhas f d3 \<and> dget f d3 = JStr v"
    using fields same by (auto simp: wf_fields_of_def)
  have tombs: "cancellation_tombstones m cid d3 = cancellation_tombstones m cid d"
    by (simp add: cancellation_tombstones_def same)
  let ?fvs = "map (\<lambda>(k, v). (k, lua_arg R v)) (submission_fields C m cid pr sa aw wa d3)"
  have list: "?fvs = [(''data'', json_dumps C (JObj d3)), (''status'', ''pending''),
      (''priority'', pr), (''submitted_at'', sa), (''assigned_worker'', lua_arg R aw), (''assigned_at'', wa),
      (''cancellation_keys'', json_dumps C (JList (cancellation_tombstones m cid d)))] @ wf_fields_of m w"
    using d3 by (simp add: submission_fields_def workflow_fields_def wf_fields_of_def tombs arg_string)
  obtain code where code: "submit_task_if_absent R (task_key (key_prefix m) cid) q cid
      (json_dumps C (JObj (submission_fields C m cid pr sa aw wa d3))) s = (code, s1)" and ok: "code \<noteq> -5"
    using op by (auto simp: submit_if_absent_op_def p case_prod_beta prod_eq_iff split: if_splits)
  have fvs: "cjson_fields R (json_dumps C (JObj (submission_fields C m cid pr sa aw wa d3))) = ?fvs"
    by (rule cjson_fields_dumps)
  have ne: "?fvs \<noteq> []" by (simp add: submission_fields_def)
  from submit_branches [OF code fvs ne] ok new have one: "code = 1"
    and hash: "hashes (view s1) = (hashes (view s))(task_key (key_prefix m) cid := map_of (rev ?fvs))" by auto
  have children: "map_of (rev ?fvs) ''workflow_children_key'' = Some (children_key (key_prefix m) (wr_task_id w) (wr_generation w))"
    unfolding list by (simp add: wf_fields_of_def)
  have "cid \<in> sets (view s1) (children_key (key_prefix m) (wr_task_id w) (wr_generation w))"
    using code one children
    by (auto simp: submit_task_if_absent_def Let_def fvs store_simps split: if_splits)
  moreover have "\<forall>(f, v) \<in> set (wf_fields_of m w). hashes (view s1) (task_key (key_prefix m) cid) f = Some v"
    unfolding hash list by (simp add: wf_fields_of_def)
  moreover have "hashes (view s1) (task_key (key_prefix m) cid) ''cancellation_keys'' =
      Some (json_dumps C (JList (cancellation_tombstones m cid d)))"
    unfolding hash list by (simp add: wf_fields_of_def)
  ultimately show ?thesis using x by blast
qed

lemma check_workflow_open:
  assumes "check_workflow R C cfg E (Some w) m s = (Inr u, s1)" and "wr_generation w \<noteq> []"
  shows "s1 = s \<and> workflow_active (wf_read R m (wr_task_id w) s) \<and>
    hashes (view s) (task_key (key_prefix m) (wr_task_id w)) ''workflow_generation'' = Some (wr_generation w) \<and>
    reconcile_reason R C E (key_prefix m) (wr_task_id w) (wf_read R m (wr_task_id w) s) s = Inr []"
proof -
  let ?x = "wr_task_id w"
  obtain answer where rec: "wf_reconcile R C cfg E ?x m s = (Inr answer, s1)"
    and gen: "map_of answer ''workflow_generation'' = Some (wr_generation w)"
    and st: "rget ''status'' answer \<in> {''pending'', ''processing''}"
    using assms(1) by (auto simp: check_workflow_def split: prod.splits sum.splits if_splits)
  have closed: "\<not> closed_with R view (key_prefix m) ?x g' s1" if "answer = wf_read R m ?x s1" for g'
  proof
    assume "closed_with R view (key_prefix m) ?x g' s1"
    from closed_not_active(1) [OF this refl] that st show False by auto
  qed
  from wf_reconcile_cases [OF rec refl] closed
  have same: "s1 = s" "answer = wf_read R m ?x s"
    and reason: "workflow_active answer \<longrightarrow> reconcile_reason R C E (key_prefix m) ?x answer s = Inr []"
    by auto
  have "workflow_active answer" using gen st assms(2) by (simp add: workflow_active_def rget_def)
  then show ?thesis using same gen reason by (simp add: wf_read_def hgetall)
qed

lemma sched_submit_child:
  assumes sub: "sched_submit R C cfg E tks bks (Some w) task m s = (Inr cid, m1, s1)" and g: "wr_generation w \<noteq> []" "wr_task_id w \<noteq> []"
    and new: "\<not> ks_exists (task_key (key_prefix m) cid) (view s)"
  shows "workflow_active (wf_read R m (wr_task_id w) s) \<and>
    cid \<in> sets (view s1) (children_key (key_prefix m) (wr_task_id w) (wr_generation w)) \<and>
    (\<forall>(f, v) \<in> set (wf_fields_of m w). hashes (view s1) (task_key (key_prefix m) cid) f = Some v) \<and>
    (\<exists>keys. hashes (view s1) (task_key (key_prefix m) cid) ''cancellation_keys'' = Some (json_dumps C (JList (map JStr keys))) \<and>
       tombstone_key (key_prefix m) (wr_task_id w) \<in> List.set keys)"
proof -
  obtain payload where pl: "ts_payload task = JObj payload" "dhas ''task_id'' payload"
    using sub by (auto simp: sched_submit_def split: json.splits if_splits)
  obtain u s0 where chk: "check_workflow R C cfg E (Some w) m s = (Inr u, s0)"
    using sub pl by (auto simp: sched_submit_def split: prod.splits sum.splits)
  note opn = check_workflow_open [OF chk g(1)]
  define d where "d = with_resources (ts_resources task) (child_payload m w payload)"
  have run: "submit_task R C cfg E tks bks d m s = (Inr cid, m1, s1)"
    using sub pl chk opn by (simp add: sched_submit_def d_def)
  note fields = child_payload_fields [OF d_def]
  let ?cid = "py_str (source_id w (dget ''task_id'' payload)) @ ''_'' @ wr_generation w"
  obtain pr sa aw wa d3 q created m0 where
    "submit_if_absent_op R C m0 ?cid (submission_fields C m ?cid pr sa aw wa d3) q s = (Inr created, s1)"
    and cid: "cid = ?cid"
    by (rule submit_task_inner [OF run fields(3) fields(1) fields(4)]) blast
  have sc: "cid \<in> sets (view s1) (children_key (key_prefix m) (wr_task_id w) (wr_generation w)) \<and>
      (\<forall>(f, v) \<in> set (wf_fields_of m w). hashes (view s1) (task_key (key_prefix m) cid) f = Some v) \<and>
      hashes (view s1) (task_key (key_prefix m) cid) ''cancellation_keys'' =
        Some (json_dumps C (JList (cancellation_tombstones m cid d)))"
    using submit_child [OF run fields(1) fields(4) fields(3) fields(5)] new cid by blast
  let ?keys = "tombstone_key (key_prefix m) cid # map (\<lambda>k. tombstone_key (key_prefix m) (py_str (dget k d)))
    (filter (\<lambda>k. truthy (dget k d)) [''base_task_id'', ''workflow_source_task_id''])"
  have "cancellation_tombstones m cid d = map JStr ?keys" by (simp add: cancellation_tombstones_def)
  moreover have "tombstone_key (key_prefix m) (wr_task_id w) \<in> List.set ?keys"
    using g(2) fields(2) by simp
  ultimately have "\<exists>keys. cancellation_tombstones m cid d = map JStr keys \<and>
      tombstone_key (key_prefix m) (wr_task_id w) \<in> List.set keys" by blast
  then show ?thesis using sc opn by metis
qed

lemma child_guard_open:
  assumes fields: "\<forall>(f, v) \<in> set (wf_fields_of m w). f \<noteq> ''workflow_children_key'' \<longrightarrow>
      hashes (view s2) k f = Some v"
    and keys: "hashes (view s2) k ''cancellation_keys'' = Some (json_dumps C (JList (map JStr keys)))"
      "tombstone_key (key_prefix m) (wr_task_id w) \<in> List.set keys"
    and g: "wr_generation w \<noteq> []" and allowed: "workflow_task_allowed R k s2"
  shows "\<not> ks_exists (tombstone_key (key_prefix m) (wr_task_id w)) (view s2) \<and>
    hashes (view s2) (task_key (key_prefix m) (wr_task_id w)) ''workflow_generation'' = Some (wr_generation w) \<and>
    hashes (view s2) (task_key (key_prefix m) (wr_task_id w)) ''status'' \<in> {Some ''pending'', Some ''processing''} \<and>
    strs (view s2) (workflow_key (key_prefix m) (wr_task_id w)) = Some (wr_generation w) \<and>
    r_time R s2 < lua_number_or_0 R (Some (wr_deadline w))"
proof -
  have strings: "cjson_strings R (json_dumps C (JList (map JStr keys))) = keys"
    by (simp add: cjson_strings_dumps comp_def arg_string)
  show ?thesis
    using allowed fields keys g
    by (auto simp: workflow_task_allowed_def workflow_allowed_iff guard_open_def task_wf_mapping_def hget
        wf_fields_of_def strings)
qed

end

text \<open>
  C7: a child is registered with its workflow and fenced by it. When the scheduler of a workflow
  submits a child under a new id, the parent was active, and the child is in the set of children
  that reconciliation inspects. From then on, whatever else its record holds -- as long as the five
  fields that the fence reads are kept -- no store admits it unless the parent has no tombstone and
  is pending or processing under that very generation, with its lease, before the deadline.
\<close>

theorem child_fenced:
  assumes "json_redis R view C" and "wr_generation w \<noteq> []" and "wr_task_id w \<noteq> []"
    and "sched_submit R C cfg E tks bks (Some w) task m s = (Inr cid, m1, s1)"
    and "\<not> ks_exists (task_key (key_prefix m) cid) (view s)"
  shows "workflow_active (wf_read R m (wr_task_id w) s) \<and>
    cid \<in> sets (view s1) (children_key (key_prefix m) (wr_task_id w) (wr_generation w)) \<and>
    (\<forall>s2. (\<forall>f \<in> {''cancellation_keys'', ''workflow_generation'', ''workflow_parent_key'', ''workflow_lease_key'', ''workflow_deadline''}.
        hashes (view s2) (task_key (key_prefix m) cid) f = hashes (view s1) (task_key (key_prefix m) cid) f) \<longrightarrow>
      workflow_task_allowed R (task_key (key_prefix m) cid) s2 \<longrightarrow>
      \<not> ks_exists (tombstone_key (key_prefix m) (wr_task_id w)) (view s2) \<and>
      hashes (view s2) (task_key (key_prefix m) (wr_task_id w)) ''workflow_generation'' = Some (wr_generation w) \<and>
      hashes (view s2) (task_key (key_prefix m) (wr_task_id w)) ''status'' \<in> {Some ''pending'', Some ''processing''} \<and>
      strs (view s2) (workflow_key (key_prefix m) (wr_task_id w)) = Some (wr_generation w) \<and>
      r_time R s2 < lua_number_or_0 R (Some (wr_deadline w)))"
proof -
  from json_redis.sched_submit_child [OF assms(1,4,2,3,5)] obtain keys
    where active: "workflow_active (wf_read R m (wr_task_id w) s)"
      and child: "cid \<in> sets (view s1) (children_key (key_prefix m) (wr_task_id w) (wr_generation w))"
      and fields: "\<forall>(f, v) \<in> set (wf_fields_of m w). hashes (view s1) (task_key (key_prefix m) cid) f = Some v"
      and keys: "hashes (view s1) (task_key (key_prefix m) cid) ''cancellation_keys'' =
          Some (json_dumps C (JList (map JStr keys)))" "tombstone_key (key_prefix m) (wr_task_id w) \<in> set keys"
    by blast
  show ?thesis
  proof (intro conjI active child allI impI)
    fix s2
    assume same: "\<forall>f \<in> {''cancellation_keys'', ''workflow_generation'', ''workflow_parent_key'', ''workflow_lease_key'', ''workflow_deadline''}.
        hashes (view s2) (task_key (key_prefix m) cid) f = hashes (view s1) (task_key (key_prefix m) cid) f"
      and allowed: "workflow_task_allowed R (task_key (key_prefix m) cid) s2"
    have "\<forall>(f, v) \<in> set (wf_fields_of m w). f \<noteq> ''workflow_children_key'' \<longrightarrow>
        hashes (view s2) (task_key (key_prefix m) cid) f = Some v"
      using fields same by (simp add: wf_fields_of_def)
    from json_redis.child_guard_open [OF assms(1) this _ keys(2) assms(2) allowed] keys(1) same
    show "\<not> ks_exists (tombstone_key (key_prefix m) (wr_task_id w)) (view s2)"
      and "hashes (view s2) (task_key (key_prefix m) (wr_task_id w)) ''workflow_generation'' = Some (wr_generation w)"
      and "hashes (view s2) (task_key (key_prefix m) (wr_task_id w)) ''status'' \<in> {Some ''pending'', Some ''processing''}"
      and "strs (view s2) (workflow_key (key_prefix m) (wr_task_id w)) = Some (wr_generation w)"
      and "r_time R s2 < lua_number_or_0 R (Some (wr_deadline w))" by simp_all
  qed
qed

subsection \<open>Waiting for a child ends\<close>

context json_redis
begin

lemma check_fails_when_due:
  assumes "wr_generation w \<noteq> []" and "due_by view (key_prefix m) (wr_task_id w) (wr_generation w) D s"
    and "D \<le> r_time R s"
  shows "\<exists>e s1. check_workflow R C cfg E (Some w) m s = (Inl e, s1)"
proof (cases "check_workflow R C cfg E (Some w) m s")
  case (Pair r s1)
  show ?thesis
  proof (cases r)
    case (Inl e)
    then show ?thesis using Pair by blast
  next
    case (Inr u)
    let ?x = "wr_task_id w"
    note opn = check_workflow_open [OF Pair [unfolded Inr] assms(1)]
    then obtain t d where "hashes (view s) (task_key (key_prefix m) ?x) ''workflow_deadline'' = Some t"
      "parse_float t = Some d" "d \<le> D" using assms(2) by (auto simp: due_by_def)
    then have "reconcile_reason R C E (key_prefix m) ?x (wf_read R m ?x s) s =
        Inr ''Workflow end-to-end deadline exceeded''"
      using assms(3) by (simp add: reconcile_reason_def wf_read_def hgetall)
    with opn show ?thesis by simp
  qed
qed

lemma sched_poll_unchanged:
  assumes "sched_poll R C cfg E (Some w) c base start timeout m s = (None, s1)" and "wr_generation w \<noteq> []"
  shows "s1 = s \<and> (\<exists>u. check_workflow R C cfg E (Some w) m s = (Inr u, s))"
proof -
  obtain u s0 where chk: "check_workflow R C cfg E (Some w) m s = (Inr u, s0)"
    using assms(1) by (auto simp: sched_poll_def split: prod.splits sum.splits)
  with check_workflow_open [OF this assms(2)] assms(1) show ?thesis
    by (auto simp: sched_poll_def split: sum.splits option.splits list.splits if_splits)
qed

lemma sched_wait_some:
  assumes "fst (sched_poll R C cfg E W c base start timeout m s) = Some r"
  shows "sched_wait R C cfg E others (Suc n) W c base start timeout m s =
    sched_poll R C cfg E W c base start timeout m s"
  using assms by (cases "sched_poll R C cfg E W c base start timeout m s") simp

lemma sched_wait_ends:
  assumes g: "wr_generation w \<noteq> []" and due: "due_by view (key_prefix m) (wr_task_id w) (wr_generation w) D s"
    and keep: "\<And>s. due_by view (key_prefix m) (wr_task_id w) (wr_generation w) D s \<Longrightarrow>
      due_by view (key_prefix m) (wr_task_id w) (wr_generation w) D (others s)"
    and sleep: "\<And>s. r_time R s + 1 / 2 \<le> r_time R (others s)" and enough: "2 * (D - r_time R s) \<le> of_nat n"
  shows "fst (sched_wait R C cfg E others (Suc n) (Some w) c base start timeout m s) \<noteq> None"
  using due enough
proof (induction n arbitrary: s)
  case 0
  then have "D \<le> r_time R s" by simp
  from check_fails_when_due [OF g 0(1) this, of cfg E] obtain e s1
    where "check_workflow R C cfg E (Some w) m s = (Inl e, s1)" by blast
  then have "sched_poll R C cfg E (Some w) c base start timeout m s = (Some (Inl (Raised e)), s1)"
    by (simp add: sched_poll_def)
  then show ?case by simp
next
  case (Suc n)
  show ?case
  proof (cases "sched_poll R C cfg E (Some w) c base start timeout m s")
    case (Pair r s1)
    show ?thesis
    proof (cases r)
      case None
      with sched_poll_unchanged [OF _ g] Pair have same: "s1 = s" by blast
      have "fst (sched_wait R C cfg E others (Suc n) (Some w) c base start timeout m (others s)) \<noteq> None"
        by (rule Suc.IH [OF keep [OF Suc.prems(1)]]) (use Suc.prems(2) sleep [of s] in simp)
      then show ?thesis using Pair None same
        by (simp del: sched_wait.simps add: sched_wait.simps(2) [of _ _ _ _ _ "Suc n"])
    qed (use Pair in simp)
  qed
qed

lemma sched_wait_last:
  "sched_wait R C cfg E others n W c base start timeout m s = (Some r, s') \<Longrightarrow>
   \<exists>s0. sched_poll R C cfg E W c base start timeout m s0 = (Some r, s')"
  by (induction n arbitrary: s) (auto split: prod.splits option.splits)

lemma cancelled_wait_cancels:
  assumes "sched_poll R C cfg E W c base start timeout m s = (Some (Inr None), s')" and "prefixes_for_read m = [p]"
  shows "tombstoned p c (view s')"
proof -
  obtain s1 where "s' = snd (cancel_task R C cfg E c m s1)"
    using assms(1)
    by (auto simp: sched_poll_def split: prod.splits sum.splits option.splits list.splits if_splits)
  with cancel_task_holds [OF json_redis_axioms assms(2)] show ?thesis by (metis prod.collapse)
qed

end


end
