(* ===== verification/WorkflowSamples.thy ===== *)
theory WorkflowSamples
  imports WorkflowContracts Samples
begin

section \<open>A concrete workflow\<close>

text \<open>Workflow x of generation g with deadline 1, held by its lease; its status is processing.\<close>

definition workflow_store :: "rat \<Rightarrow> mem" where
  "workflow_store now = mem_of
     [(''k:task:x'', [(''status'', ''processing''), (''workflow_generation'', ''g''),
        (''workflow_deadline'', ''1'')])]
     [] [(''k:workflow:x'', ''g'')] now"

definition sample_manager :: tmgr where
  "sample_manager = new_manager ''k'' ''api''"

lemma sample_manager_prefix [simp]:
  "key_prefix sample_manager = ''k''" "prefixes_for_read sample_manager = [''k'']"
  by (simp_all add: sample_manager_def new_manager_def prefixes_for_read_def)

lemma workflow_record:
  "wf_read mem_redis sample_manager ''x'' (workflow_store now) =
     [(''status'', ''processing''), (''workflow_generation'', ''g''), (''workflow_deadline'', ''1'')]"
  by (simp add: wf_read_def workflow_store_def mem_of_def mem_redis_def task_key_def)

lemma parse_one: "parse_float ''1'' = Some 1"
  by code_simp

lemma workflow_now [simp]: "r_time mem_redis (workflow_store now) = now"
  by (simp add: mem_redis_def workflow_store_def mem_of_def)

lemma workflow_running:
  "workflow_active (wf_read mem_redis sample_manager ''x'' (workflow_store now))"
  by (simp add: workflow_active_def workflow_record rget_def)

lemma workflow_reason:
  "reconcile_reason mem_redis sample_codec (sample_env ''a'') ''k'' ''x''
     (wf_read mem_redis sample_manager ''x'' (workflow_store now)) (workflow_store now) =
   Inr (if 1 \<le> now then ''Workflow end-to-end deadline exceeded'' else [])"
proof -
  have "r_get mem_redis (workflow_key ''k'' ''x'') (workflow_store now) = Some ''g''"
    by (simp add: mem_redis_def workflow_store_def mem_of_def workflow_key_def)
  moreover have "\<not> r_exists mem_redis (tombstone_key ''k'' ''x'') (workflow_store now)"
    by (simp add: store_simps ks_exists_def workflow_store_def tombstone_key_def)
  moreover have "r_smembers mem_redis k (workflow_store now) = []" for k
    by (simp add: mem_redis_def workflow_store_def mem_of_def)
  ultimately show ?thesis
    by (simp add: reconcile_reason_def workflow_record parse_one rget_def workflow_children_def decoded_strings_def)
qed


theorem stopped_when_due_witness:
  "\<exists>(answer :: rhash) (s' :: mem). wf_reconcile mem_redis sample_codec sample_settings (sample_env ''a'') ''x''
     sample_manager (workflow_store 5) = (Inr answer, s') \<and> closed_with mem_redis mem_view ''k'' ''x'' ''g'' s'"
  using stopped_when_due [OF mem_redis.json_redis_axioms sample_manager_prefix(1) [symmetric] workflow_running
      workflow_reason, of 5 sample_settings]
  by (auto simp: workflow_record rget_def)

theorem wait_ends_witness:
  "\<exists>r. fst (wf_wait mem_redis sample_codec sample_settings (sample_env ''a'')
     (\<lambda>s. s\<lparr>mem_now := mem_now s + 1 / 5\<rparr>) 6 ''x'' ''g'' sample_manager (workflow_store 0)) = Some r"
proof -
  let ?sleep = "\<lambda>s. s\<lparr>mem_now := mem_now s + 1 / 5\<rparr>"
  have view: "mem_view (?sleep s) = mem_view s" for s by (simp add: mem_view_def)
  have later: "r_time mem_redis (?sleep s) = r_time mem_redis s + 1 / 5" for s by (simp add: mem_redis_def)
  have due: "due_by mem_view ''k'' ''x'' ''g'' 1 (workflow_store 0)"
    by (simp add: due_by_def workflow_store_def task_key_def parse_one)
  have "\<exists>r. fst (wf_wait mem_redis sample_codec sample_settings (sample_env ''a'') ?sleep (Suc 5) ''x'' ''g''
      sample_manager (workflow_store 0)) = Some r \<and> (\<forall>d. r = Inr d \<longrightarrow> dget ''workflow_generation'' d = JStr ''g'')"
    by (rule wait_ends [OF mem_redis.json_redis_axioms, where D = 1])
      (use due in \<open>simp_all add: due_by_def view later\<close>)
  then show ?thesis by (auto simp: eval_nat_numeral simp del: wf_wait.simps)
qed


end
