(* ===== verification/SchedulerSamples.thy ===== *)
theory SchedulerSamples
  imports SchedulerContracts WorkflowSamples
begin

section \<open>A child of the concrete workflow\<close>

definition sample_ref :: workflow_ref where
  "sample_ref = \<lparr>wr_task_id = ''x'', wr_generation = ''g'', wr_deadline = ''1''\<rparr>"

definition sample_task :: task_spec where
  "sample_task = \<lparr>ts_kind = ''kernelbench.kernel'', ts_payload = JObj [(''task_id'', JStr ''x_compile'')],
     ts_resources = JNull, ts_metadata = JObj []\<rparr>"

lemma sample_check:
  "check_workflow mem_redis sample_codec sample_settings (sample_env ''a'') (Some sample_ref) sample_manager
     (workflow_store 0) = (Inr (), workflow_store 0)"
proof -
  have "wf_reconcile mem_redis sample_codec sample_settings (sample_env ''a'') ''x'' sample_manager
      (workflow_store 0) = (Inr (wf_read mem_redis sample_manager ''x'' (workflow_store 0)), workflow_store 0)"
    using workflow_reason [of 0] workflow_running [of 0] by (simp add: wf_reconcile_def)
  then show ?thesis by (simp add: check_workflow_def sample_ref_def workflow_record rget_def)
qed

definition sample_child :: dict where
  "sample_child = child_payload sample_manager sample_ref [(''task_id'', JStr ''x_compile'')]"

lemma sample_child_fields:
  "sample_child = [(''task_id'', JStr ''x_compile_g''), (''base_task_id'', JStr ''x''), (''force_refresh'', JBool False),
     (''workflow_generation'', JStr ''g''), (''workflow_source_task_id'', JStr ''x_compile''),
     (''workflow_parent_key'', JStr ''k:task:x''), (''workflow_lease_key'', JStr ''k:workflow:x''),
     (''workflow_deadline'', JStr ''1''), (''workflow_children_key'', JStr ''k:workflow_children:x:g'')]"
  by code_simp

lemma mem_redis_number: "lua_tonumber mem_redis ''1'' = Some 1"
  by code_simp

lemma mem_redis_time: "r_time mem_redis (mem_of hs ls ss now) = now"
  by (simp add: mem_redis_def mem_of_def)

lemma sample_guard:
  "workflow_allowed mem_redis \<lparr>m_cancellation_keys = Some (json_dumps sample_codec (JList [JStr ''k:cancelled:x_compile_g'',
       JStr ''k:cancelled:x'', JStr ''k:cancelled:x_compile''])), m_generation = Some ''g'',
     m_parent = Some ''k:task:x'', m_lease = Some ''k:workflow:x'', m_deadline = Some ''1''\<rparr> (workflow_store 0)"
  by (simp add: workflow_allowed_def store_simps workflow_store_def ks_exists_def lua_number_or_0_def
      mem_redis_number mem_redis_time)

lemma sample_defaults: "default_toolkit sample_settings = ''kernelbench''"
    "default_backend_adapter sample_settings = ''kernelbench''" "default_backend sample_settings = ''triton''"
  by (simp_all add: sample_settings_def)

lemma sample_submit_step:
  "sched_submit mem_redis sample_codec sample_settings (sample_env ''a'') [''kernelbench''] [''kernelbench'']
     (Some sample_ref) sample_task sample_manager (workflow_store 0) =
   submit_task mem_redis sample_codec sample_settings (sample_env ''a'') [''kernelbench''] [''kernelbench'']
     sample_child sample_manager (workflow_store 0)"
  by (simp add: sched_submit_def sample_task_def sample_check with_resources_def dhas_def sample_child_def)

lemma sample_resource: "resolve_required_resource (sample_child @ xs) = ''gpu''" if "xs = [(''toolkit'', JStr ''kernelbench''),
    (''backend_adapter'', JStr ''kernelbench''), (''backend'', JStr ''triton'')]" for xs
  unfolding that sample_child_fields by code_simp

lemma sample_submitted:
  "fst (submit_task mem_redis sample_codec sample_settings (sample_env ''a'') [''kernelbench''] [''kernelbench'']
     sample_child sample_manager (workflow_store 0)) = Inr ''x_compile_g''"
  using sample_guard
  by (simp add: submit_task_def Let_def sample_defaults with_default_def dget_def dset_def dhas_def sample_child_fields
    sample_resource [OF refl, unfolded sample_child_fields] submit_if_absent_op_def submit_task_if_absent_def store_simps submission_fields_def workflow_fields_def
    fields_wf_mapping_def cancellation_tombstones_def tombstone_key_def)

theorem child_fenced_witness:
  "\<exists>m1 s1. sched_submit mem_redis sample_codec sample_settings (sample_env ''a'') [''kernelbench''] [''kernelbench'']
       (Some sample_ref) sample_task sample_manager (workflow_store 0) = (Inr ''x_compile_g'', m1, s1) \<and>
     ''x_compile_g'' \<in> sets (mem_view s1) (children_key ''k'' ''x'' ''g'')"
proof -
  obtain m1 s1 where run: "sched_submit mem_redis sample_codec sample_settings (sample_env ''a'')
      [''kernelbench''] [''kernelbench''] (Some sample_ref) sample_task sample_manager (workflow_store 0) =
      (Inr ''x_compile_g'', m1, s1)"
    using sample_submitted unfolding sample_submit_step [symmetric] by (metis prod.collapse)
  have new: "\<not> ks_exists (task_key (key_prefix sample_manager) ''x_compile_g'') (mem_view (workflow_store 0))"
    by (simp add: ks_exists_def workflow_store_def task_key_def)
  from child_fenced [OF mem_redis.json_redis_axioms _ _ run new] run show ?thesis
    by (auto simp: sample_ref_def)
qed


end
