(* ===== verification/TaskSchema.thy ===== *)
theory TaskSchema
  imports PyValue Decimal
begin

section \<open>Tasks of the KernelBench workflow\<close>

text \<open>
  The dataclasses of \<open>kernelgym/schema/task.py\<close>. An instance carries one value per declared field
  and Python does not check the values' types, so an instance is the dictionary of its fields in
  declaration order -- which is what \<open>asdict\<close> returns -- and a class is the table of its fields with
  their defaults. \<open>from_dict\<close> drops unknown keys; a missing field without default is the \<open>TypeError\<close>
  of the constructor.

  Exceptions of plain Python code are values of \<open>py_exn\<close>. Floats are carried by their \<open>repr\<close>; the
  IEEE operations on them, and their formatting, are arguments (\<open>pyfloat\<close>).
\<close>

datatype py_exn = Type_Error | Attribute_Error | Value_Error | Overflow_Error

record pyfloat =
  fl_of_int :: "int \<Rightarrow> str"
  fl_of_text :: "str \<Rightarrow> str option"   \<comment> \<open>None: \<open>ValueError\<close>\<close>
  fl_div :: "str \<Rightarrow> str \<Rightarrow> str"
  fl_ratio :: "int \<Rightarrow> int \<Rightarrow> str"   \<comment> \<open>true division of two ints\<close>
  fl_le :: "str \<Rightarrow> str \<Rightarrow> bool"
  fl_less :: "str \<Rightarrow> str \<Rightarrow> bool"
  fl_fixed :: "nat \<Rightarrow> str \<Rightarrow> str"   \<comment> \<open>\<open>f"{x:.nf}"\<close>\<close>
  fl_round :: "nat \<Rightarrow> str \<Rightarrow> str"

fun bind_result :: "'e + 'a \<Rightarrow> ('a \<Rightarrow> 'e + 'b) \<Rightarrow> 'e + 'b" where
  "bind_result (Inl e) f = Inl e"
| "bind_result (Inr v) f = f v"

lemma bind_result_Inr: "bind_result r f = Inr y \<longleftrightarrow> (\<exists>v. r = Inr v \<and> f v = Inr y)"
  by (cases r) auto

subsection \<open>Conversions\<close>

definition float_positive :: "str \<Rightarrow> bool" where
  \<comment> \<open>\<open>x > 0\<close>\<close>
  "float_positive r \<longleftrightarrow> \<not> float_zero r \<and> r \<noteq> ''nan'' \<and> \<not> prefix ''-'' r"

fun py_float :: "pyfloat \<Rightarrow> json \<Rightarrow> py_exn + str" where
  \<comment> \<open>\<open>float(v)\<close>\<close>
  "py_float F (JFloat r) = Inr r"
| "py_float F (JInt i) = Inr (fl_of_int F i)"
| "py_float F (JBool b) = Inr (if b then ''1.0'' else ''0.0'')"
| "py_float F (JStr s) = (case fl_of_text F s of Some r \<Rightarrow> Inr r | None \<Rightarrow> Inl Value_Error)"
| "py_float F _ = Inl Type_Error"

fun py_positive :: "json \<Rightarrow> py_exn + bool" where
  \<comment> \<open>\<open>v > 0\<close>\<close>
  "py_positive (JInt i) = Inr (i > 0)"
| "py_positive (JBool b) = Inr b"
| "py_positive (JFloat r) = Inr (float_positive r)"
| "py_positive _ = Inl Type_Error"

fun int_of_json :: "json \<Rightarrow> int option" where
  \<comment> \<open>\<open>isinstance(v, int)\<close>, with the value: a bool is an int\<close>
  "int_of_json (JInt i) = Some i"
| "int_of_json (JBool b) = Some (if b then 1 else 0)"
| "int_of_json _ = None"

fun or_dict :: "json \<Rightarrow> py_exn + dict" where
  \<comment> \<open>\<open>dict(v or {})\<close>, or \<open>v or {}\<close> about to be read with \<open>get\<close>: a JSON object or nothing\<close>
  "or_dict (JObj d) = Inr d"
| "or_dict v = (if truthy v then Inl Attribute_Error else Inr [])"

definition first_not_none :: "json list \<Rightarrow> json" where
  "first_not_none vs = (case find (\<lambda>v. v \<noteq> JNull) vs of Some v \<Rightarrow> v | None \<Rightarrow> JNull)"

subsection \<open>Dataclasses\<close>

type_synonym field = "str \<times> json option" \<comment> \<open>a field and its default\<close>

definition construct :: "field list \<Rightarrow> dict \<Rightarrow> py_exn + dict" where
  \<comment> \<open>\<open>cls(**kwargs)\<close>, the second argument holding no other keys\<close>
  "construct fs kwargs =
    (if \<exists>(f, dflt) \<in> set fs. dflt = None \<and> \<not> dhas f kwargs then Inl Type_Error
     else Inr (map (\<lambda>(f, dflt). (f, case map_of kwargs f of Some v \<Rightarrow> v
       | None \<Rightarrow> (case dflt of Some v \<Rightarrow> v | None \<Rightarrow> JNull))) fs))"

definition from_dict :: "field list \<Rightarrow> dict \<Rightarrow> py_exn + dict" where
  "from_dict fs data = construct fs (filter (\<lambda>(k, _). k \<in> fst ` set fs) data)"

definition copy_fields :: "str list \<Rightarrow> dict \<Rightarrow> dict" where
  \<comment> \<open>keyword arguments \<open>f=task.f\<close>\<close>
  "copy_fields names task = map (\<lambda>f. (f, dget f task)) names"

definition evaluation_task_fields :: "field list" where
  "evaluation_task_fields = [
    (''task_id'', None), (''reference_code'', None), (''kernel_code'', None),
    (''toolkit'', Some (JStr ''kernelbench'')), (''backend_adapter'', Some (JStr ''kernelbench'')),
    (''backend'', Some (JStr ''triton'')), (''precision'', Some (JStr ''fp32'')),
    (''num_correct_trials'', Some (JInt 5)), (''num_perf_trials'', Some (JInt 100)),
    (''num_warmup'', Some (JInt 3)), (''perf_trim_count'', Some (JInt 0)),
    (''adaptive_perf_trials'', Some JNull), (''perf_min_trials'', Some JNull),
    (''perf_cv_threshold'', Some JNull), (''correctness_timeout'', Some JNull),
    (''correctness_timeout_enabled'', Some JNull), (''refer_num_perf_trials'', Some JNull),
    (''memory_ratio_threshold'', Some (JFloat ''1.8'')), (''timeout'', Some (JInt 300)),
    (''device'', Some (JStr ''cuda:0'')), (''priority'', Some (JStr ''normal'')),
    (''entry_point'', Some (JStr ''Model'')), (''required_resource'', Some JNull),
    (''task_stage'', Some JNull), (''assigned_worker'', Some JNull), (''reference_backend'', Some JNull),
    (''device_preference'', Some JNull), (''target_node_id'', Some JNull),
    (''target_hostname'', Some JNull), (''force_refresh'', Some (JBool False)), (''uuid'', Some JNull),
    (''use_reference_cache'', Some (JBool False)), (''is_valid'', Some (JBool False)),
    (''enable_profiling'', Some JNull), (''enable_ncu'', Some JNull),
    (''enable_compute_sanitizer'', Some JNull), (''compute_sanitizer_mode'', Some JNull),
    (''enable_correctness_input_perturbations'', Some JNull), (''enable_triton_detection'', Some JNull),
    (''detect_decoy_kernel'', Some JNull), (''measure_performance'', Some JNull),
    (''run_correctness'', Some JNull), (''run_triton_detection'', Some JNull),
    (''run_performance'', Some JNull), (''compile_artifact'', Some JNull),
    (''split_compile_and_execute'', Some (JBool False)), (''pure_compile_task'', Some (JBool False)),
    (''enable_compile_artifact_cache'', Some (JBool False)), (''simplify_error'', Some (JBool True)),
    (''return_internal_compile_artifact'', Some (JBool False)), (''resources'', Some JNull),
    (''return_detail_correctness'', Some (JBool False))]"

definition reference_task_fields :: "field list" where
  "reference_task_fields = [
    (''task_id'', None), (''base_task_id'', None), (''reference_code'', None),
    (''toolkit'', Some (JStr ''kernelbench'')), (''backend_adapter'', Some (JStr ''kernelbench'')),
    (''backend'', Some (JStr ''triton'')), (''num_perf_trials'', Some (JInt 100)),
    (''num_warmup'', Some (JInt 3)), (''perf_trim_count'', Some (JInt 0)), (''timeout'', Some (JInt 300)),
    (''device'', Some (JStr ''cuda:0'')), (''priority'', Some (JStr ''normal'')),
    (''entry_point'', Some (JStr ''Model'')), (''required_resource'', Some JNull),
    (''task_stage'', Some JNull), (''assigned_worker'', Some JNull), (''reference_backend'', Some JNull),
    (''device_preference'', Some JNull), (''resources'', Some JNull)]"

definition kernel_task_fields :: "field list" where
  "kernel_task_fields = [
    (''task_id'', None), (''base_task_id'', None), (''reference_code'', None), (''kernel_code'', None),
    (''toolkit'', Some (JStr ''kernelbench'')), (''backend_adapter'', Some (JStr ''kernelbench'')),
    (''backend'', Some (JStr ''triton'')), (''precision'', Some (JStr ''fp32'')),
    (''num_correct_trials'', Some (JInt 5)), (''num_perf_trials'', Some (JInt 100)),
    (''num_warmup'', Some (JInt 3)), (''perf_trim_count'', Some (JInt 0)),
    (''adaptive_perf_trials'', Some JNull), (''perf_min_trials'', Some JNull),
    (''perf_cv_threshold'', Some JNull), (''correctness_timeout'', Some JNull),
    (''correctness_timeout_enabled'', Some JNull), (''timeout'', Some (JInt 300)),
    (''device'', Some (JStr ''cuda:0'')), (''priority'', Some (JStr ''normal'')),
    (''entry_point'', Some (JStr ''Model'')), (''required_resource'', Some JNull),
    (''task_stage'', Some JNull), (''assigned_worker'', Some JNull), (''device_preference'', Some JNull),
    (''force_refresh'', Some (JBool False)), (''enable_profiling'', Some JNull),
    (''enable_ncu'', Some JNull), (''enable_compute_sanitizer'', Some JNull),
    (''compute_sanitizer_mode'', Some JNull), (''enable_correctness_input_perturbations'', Some JNull),
    (''enable_triton_detection'', Some JNull), (''detect_decoy_kernel'', Some JNull),
    (''measure_performance'', Some JNull), (''run_correctness'', Some JNull),
    (''run_triton_detection'', Some JNull), (''run_performance'', Some JNull),
    (''compile_artifact'', Some JNull), (''split_compile_and_execute'', Some (JBool False)),
    (''pure_compile_task'', Some (JBool False)), (''enable_compile_artifact_cache'', Some (JBool False)),
    (''simplify_error'', Some (JBool True)), (''return_internal_compile_artifact'', Some (JBool False)),
    (''resources'', Some JNull), (''return_detail_correctness'', Some (JBool False))]"

subsection \<open>Reading an instance\<close>

lemma map_of_dpop: "map_of (dpop k d) = (map_of d)(k := None)"
  by (induction d) (auto simp: dpop_def fun_eq_iff)

lemma dhas_dpop [simp]: "dhas k (dpop k' d) \<longleftrightarrow> k \<noteq> k' \<and> dhas k d"
  by (simp add: dhas_def map_of_dpop)

lemma map_of_key_filter: "map_of (filter (\<lambda>(k, _). k \<in> A) d) f = (if f \<in> A then map_of d f else None)"
  by (induction d) auto

lemma map_of_fields:
  assumes "distinct (map fst fs)" and "(f, dflt) \<in> set fs"
  shows "map_of (map (\<lambda>(f, dflt). (f, g f dflt)) fs) f = Some (g f dflt)"
  using assms by (induction fs) force+

lemma construct_get:
  assumes "construct fs kwargs = Inr x" and "distinct (map fst fs)" and "(f, dflt) \<in> set fs"
  shows "map_of x f = Some (case map_of kwargs f of Some v \<Rightarrow> v | None \<Rightarrow> (case dflt of Some v \<Rightarrow> v | None \<Rightarrow> JNull))"
proof -
  have "x = map (\<lambda>(f, dflt). (f, case map_of kwargs f of Some v \<Rightarrow> v
      | None \<Rightarrow> (case dflt of Some v \<Rightarrow> v | None \<Rightarrow> JNull))) fs"
    using assms(1) by (simp add: construct_def split: if_splits)
  from map_of_fields [OF assms(2,3), where g = "\<lambda>f dflt. case map_of kwargs f of Some v \<Rightarrow> v
      | None \<Rightarrow> (case dflt of Some v \<Rightarrow> v | None \<Rightarrow> JNull)", folded this] show ?thesis .
qed

lemma from_dict_get:
  assumes "from_dict fs data = Inr x" and "distinct (map fst fs)" and "(f, dflt) \<in> set fs"
  shows "map_of x f = Some (case map_of data f of Some v \<Rightarrow> v | None \<Rightarrow> (case dflt of Some v \<Rightarrow> v | None \<Rightarrow> JNull))"
proof -
  have "f \<in> fst ` set fs" using assms(3) by force
  with construct_get [OF assms(1) [unfolded from_dict_def] assms(2,3)] show ?thesis
    by (simp add: map_of_key_filter)
qed

end
