(* ===== verification/ResultSchema.thy ===== *)
theory ResultSchema
  imports TaskSchema
begin

section \<open>Results of the KernelBench workflow\<close>

text \<open>
  \<open>kernelgym/schema/result.py\<close> and \<open>kernelgym/schema/serialization.py\<close>: the result dataclasses, the
  combination of a reference timing with a kernel evaluation, and the public form of a result. An
  error code is carried by its text, so \<open>coerce_error_code\<close> followed by \<open>serialize_error_code\<close> is
  the identity. The probing of the GPU behind \<open>with_device_info\<close> is an argument.
\<close>

definition reference_result_fields :: "field list" where
  "reference_result_fields = [(''task_id'', None), (''base_task_id'', None), (''reference_runtime'', None),
    (''metadata'', None), (''reference_memory'', Some JNull), (''status'', Some (JStr ''completed'')),
    (''error_message'', Some JNull), (''error_code'', Some JNull)]"

definition kernel_result_fields :: "field list" where
  "kernel_result_fields = [(''task_id'', None), (''base_task_id'', None), (''compiled'', None),
    (''correctness'', None), (''decoy_kernel'', None), (''kernel_runtime'', None), (''metadata'', None),
    (''kernel_memory'', Some JNull), (''runtime_sanitizer'', Some JNull), (''status'', Some (JStr ''completed'')),
    (''error_message'', Some JNull), (''error_code'', Some JNull)]"

definition evaluation_result_fields :: "field list" where
  "evaluation_result_fields = [(''task_id'', None), (''compiled'', None), (''correctness'', None),
    (''decoy_kernel'', None), (''reference_runtime'', None), (''kernel_runtime'', None), (''speedup'', None),
    (''metadata'', None), (''reference_memory'', Some JNull), (''kernel_memory'', Some JNull),
    (''memory_comparison'', Some JNull), (''runtime_sanitizer'', Some JNull),
    (''status'', Some (JStr ''completed'')), (''error_message'', Some JNull), (''error_code'', Some JNull)]"

subsection \<open>Public metadata\<close>

fun make_json_safe :: "nat \<Rightarrow> json \<Rightarrow> json" where
  \<comment> \<open>on JSON values, the first argument being \<open>max_depth - depth + 1\<close>\<close>
  "make_json_safe 0 v = JStr (py_str v)"
| "make_json_safe (Suc n) (JObj d) = JObj (map (\<lambda>(k, v). (k, make_json_safe n v)) d)"
| "make_json_safe (Suc n) (JList vs) = JList (map (make_json_safe n) vs)"
| "make_json_safe (Suc n) v = v"

definition with_device_info :: "(json \<Rightarrow> json) \<Rightarrow> json \<Rightarrow> py_exn + dict" where
  "with_device_info D metadata =
    bind_result (or_dict metadata) (\<lambda>d. Inr (dset ''device_info'' (D (dget ''device_info'' d)) d))"

definition prepare_public_metadata :: "(json \<Rightarrow> json) \<Rightarrow> json \<Rightarrow> py_exn + dict" where
  "prepare_public_metadata D value =
    bind_result (with_device_info D value) (\<lambda>d. Inr (fold dpop
      [''correctness_failed_trial_seed'', ''_error_work_dir'', ''_simplify_error_enabled'']
      (map (\<lambda>(k, v). (k, make_json_safe 10 v)) d)))"

subsection \<open>Public memory figures\<close>

definition memory_units :: "(str \<times> str) list" where
  \<comment> \<open>the units with \<open>1024.0 ** i\<close>\<close>
  "memory_units = [(''1.0'', ''B''), (''1024.0'', ''KB''), (''1048576.0'', ''MB''), (''1073741824.0'', ''GB''),
     (''1099511627776.0'', ''TB''), (''1125899906842624.0'', ''PB'')]"

fun memory_unit :: "pyfloat \<Rightarrow> str \<Rightarrow> (str \<times> str) list \<Rightarrow> str \<times> str" where
  "memory_unit F magnitude [] = (''1.0'', ''B'')"
| "memory_unit F magnitude [u] = u"
| "memory_unit F magnitude (u # v # rest) =
    (if fl_le F ''1024.0'' magnitude then memory_unit F (fl_div F magnitude ''1024.0'') (v # rest) else u)"

definition float_abs :: "str \<Rightarrow> str" where
  "float_abs r = (if prefix ''-'' r then tl r else r)"

definition format_memory_bytes :: "pyfloat \<Rightarrow> json \<Rightarrow> json" where
  "format_memory_bytes F value =
    (let text = (\<lambda>r. case memory_unit F (float_abs r) memory_units of (divisor, unit) \<Rightarrow>
           JStr (fl_fixed F 2 (fl_div F r divisor) @ '' '' @ unit))
     in case value of JInt i \<Rightarrow> text (fl_of_int F i) | JFloat r \<Rightarrow> text r | _ \<Rightarrow> value)"

definition public_memory_field_name :: "str \<Rightarrow> str" where
  "public_memory_field_name name = (if suffix ''_bytes'' name then take (length name - 6) name else name)"

fun serialize_memory_fields :: "pyfloat \<Rightarrow> json \<Rightarrow> json" where
  "serialize_memory_fields F (JObj d) = JObj (dupdate (map (\<lambda>(key, item).
     (public_memory_field_name key,
      if suffix ''_bytes'' key then format_memory_bytes F item else serialize_memory_fields F item)) d) [])"
| "serialize_memory_fields F (JList vs) = JList (map (serialize_memory_fields F) vs)"
| "serialize_memory_fields F v = v"

definition measurement_status :: "dict \<Rightarrow> json" where
  \<comment> \<open>\<open>_pop_measurement_status\<close>; the keys it removes are not read afterwards\<close>
  "measurement_status value =
    (if dget ''measurement_valid'' value = JNull \<and> dget ''measurement_complete'' value = JNull then JNull
     else if dget ''measurement_valid'' value \<noteq> JBool True then JStr ''invalid''
     else if dget ''measurement_complete'' value = JBool True then JStr ''complete'' else JStr ''partial'')"

definition public_memory_measurement :: "pyfloat \<Rightarrow> dict \<Rightarrow> json" where
  "public_memory_measurement F value =
    serialize_memory_fields F (JObj (map (\<lambda>(public, internal). (public, dget internal value))
      (filter (\<lambda>(public, internal). dhas internal value)
        [(''absolute_peak_allocated_bytes'', ''absolute_peak_allocated_bytes''),
         (''task_peak_allocated_delta_bytes'', ''total_task_peak_allocated_bytes''),
         (''forward_peak_allocated_delta_bytes'', ''forward_incremental_peak_allocated_bytes'')])))"

definition public_memory_comparison :: "pyfloat \<Rightarrow> dict \<Rightarrow> json" where
  "public_memory_comparison F comparison =
    (let ratio = dget ''primary_kernel_to_reference_ratio'' comparison;
         rounded = (case ratio of JInt i \<Rightarrow> JFloat (fl_round F 4 (fl_of_int F i))
           | JFloat r \<Rightarrow> JFloat (fl_round F 4 r) | _ \<Rightarrow> ratio);
         warnings = (case dget ''warnings'' comparison of
           JList (w # ws) \<Rightarrow> [(''warnings'', JList (w # ws))] | _ \<Rightarrow> []);
         warning = (case dget ''ratio_warning'' comparison of
           JStr (c # cs) \<Rightarrow> [(''warning'', JStr (c # cs))] | _ \<Rightarrow> [])
     in serialize_memory_fields F (JObj ([(''measurement_status'', measurement_status comparison),
          (''kernel_minus_reference_bytes'', dget ''primary_kernel_minus_reference_bytes'' comparison),
          (''kernel_to_reference_ratio'', rounded)] @ warnings @ warning)))"

definition public_allocator_check :: "json \<Rightarrow> json" where
  "public_allocator_check value = (case value of
     JObj d \<Rightarrow>
       let detected = (dget ''direct_cuda_allocation_detected'' d = JBool True); severity = dget ''severity'' d
       in if \<not> detected \<and> severity \<in> {JNull, JStr ''none''} then JNull
          else JObj [(''severity'', severity), (''measurement_impact'', dget ''measurement_impact'' d),
            (''detected_apis'', if dhas ''direct_cuda_allocation_apis'' d then dget ''direct_cuda_allocation_apis'' d else JList []),
            (''matches'', if dhas ''direct_cuda_allocation_matches'' d then dget ''direct_cuda_allocation_matches'' d else JList [])]
   | _ \<Rightarrow> JNull)"

subsection \<open>Public form of a result\<close>

definition public_memory :: "pyfloat \<Rightarrow> dict \<Rightarrow> dict \<Rightarrow> json" where
  \<comment> \<open>the \<open>memory\<close> entry, from the instance and its public metadata\<close>
  "public_memory F r meta =
    (let section = (\<lambda>(result_key, memory_key). case dget result_key r of
           JObj d \<Rightarrow> [(memory_key, public_memory_measurement F d)] | _ \<Rightarrow> []);
         comparison = (case dget ''memory_comparison'' r of
           JObj d \<Rightarrow> [(''comparison'', public_memory_comparison F d)] | _ \<Rightarrow> []);
         allocator = public_allocator_check (dget ''kernel_memory_allocator_check'' meta);
         problem = dget ''memory_measurement_error'' meta;
         memory = section (''reference_memory'', ''reference'') @ section (''kernel_memory'', ''kernel'') @ comparison @
           (if allocator \<noteq> JNull then [(''allocator_check'', allocator)] else []) @
           (if problem \<noteq> JNull then [(''measurement_error'', problem)] else [])
     in if memory = [] then JNull else JObj memory)"

definition shows_sanitizer :: "dict \<Rightarrow> bool" where
  "shows_sanitizer r = (case dget ''runtime_sanitizer'' r of
     JObj d \<Rightarrow> dget ''status'' d \<noteq> JStr ''skipped'' | _ \<Rightarrow> False)"

definition evaluation_result_to_dict :: "pyfloat \<Rightarrow> (json \<Rightarrow> json) \<Rightarrow> dict \<Rightarrow> py_exn + dict" where
  "evaluation_result_to_dict F D instance =
    (let r = (if shows_sanitizer instance then instance else dpop ''runtime_sanitizer'' instance)
     in bind_result (prepare_public_metadata D (dget ''metadata'' r)) (\<lambda>meta.
          let hidden = [''memory_environment_floor'', ''kg_reference_memory_step_s'', ''kg_kernel_memory_step_s'',
                ''reference_memory_allocator_check'', ''memory_measurement_error'', ''kernel_memory_allocator_check''];
              r1 = dset ''metadata'' (JObj (fold dpop hidden meta)) r;
              r2 = fold dpop [''reference_memory'', ''kernel_memory'', ''memory_comparison''] r1
          in Inr (dset ''memory'' (public_memory F r meta) r2)))"

subsection \<open>Comparing memory\<close>

definition memory_lower_bound_text :: str where
  "memory_lower_bound_text = ''Memory comparison is a lower bound because at least one implementation may allocate outside PyTorch'' @
     [CHR 0x27] @ ''s CUDA caching allocator.''"

definition memory_warnings :: "bool \<Rightarrow> bool \<Rightarrow> bool \<Rightarrow> json" where
  "memory_warnings trial_valid valid whole = JList (
    if valid \<and> \<not> whole then [JStr memory_lower_bound_text]
    else if \<not> trial_valid
    then [JStr ''Memory comparison is unavailable because one or both memory trials are missing or invalid.'']
    else if \<not> valid
    then [JStr ''Memory comparison is unavailable because total-task peak memory is missing or invalid.'']
    else [])"

definition ratio_warning :: "pyfloat \<Rightarrow> json \<Rightarrow> str option \<Rightarrow> py_exn + json" where
  "ratio_warning F memory_ratio_threshold ratio =
    (if memory_ratio_threshold = JNull then Inr JNull
     else bind_result (py_float F memory_ratio_threshold) (\<lambda>threshold. Inr (case ratio of
       Some q \<Rightarrow>
         if fl_less F ''1.0'' threshold \<and> fl_le F threshold q
         then JStr (''Kernel total-task peak allocated memory is '' @ fl_fixed F 3 q @
           ''x the reference, meeting or exceeding the configured '' @ fl_fixed F 2 threshold @
           ''x warning threshold. This Kernel may be impractical because it uses excessive GPU memory.'')
         else JNull
     | None \<Rightarrow> JNull)))"

definition build_memory_comparison :: "pyfloat \<Rightarrow> json \<Rightarrow> json \<Rightarrow> json \<Rightarrow> py_exn + dict" where
  "build_memory_comparison F reference_memory kernel_memory memory_ratio_threshold =
    bind_result (or_dict reference_memory) (\<lambda>ref. bind_result (or_dict kernel_memory) (\<lambda>ker.
      let forward = ''forward_incremental_peak_allocated_bytes''; total = ''total_task_peak_allocated_bytes'';
          trial_valid = (int_of_json (dget forward ref) \<noteq> None \<and> int_of_json (dget forward ker) \<noteq> None \<and>
            dget ''measurement_valid'' ref = JBool True \<and> dget ''measurement_valid'' ker = JBool True);
          peaks = (case (int_of_json (dget total ref), int_of_json (dget total ker)) of
            (Some r, Some k) \<Rightarrow> if trial_valid then Some (r, k) else None | _ \<Rightarrow> None);
          valid = (peaks \<noteq> None);
          whole = (valid \<and> dget ''measurement_complete'' ref = JBool True \<and>
            dget ''measurement_complete'' ker = JBool True);
          ratio = (case peaks of Some (r, k) \<Rightarrow> if r > 0 then Some (fl_ratio F k r) else None | None \<Rightarrow> None);
          ratio_json = (case ratio of Some q \<Rightarrow> JFloat q | None \<Rightarrow> JNull);
          minus = (case peaks of Some (r, k) \<Rightarrow> JInt (k - r) | None \<Rightarrow> JNull);
          savings = (case peaks of Some (r, k) \<Rightarrow> JInt (r - k) | None \<Rightarrow> JNull)
      in bind_result (ratio_warning F memory_ratio_threshold ratio) (\<lambda>warning. Inr
           [(''measurement_valid'', JBool valid), (''measurement_complete'', JBool whole),
            (''total_task_measurement_valid'', JBool valid), (''comparison_metric'', JStr total),
            (''primary_reference_bytes'', if valid then dget total ref else JNull),
            (''primary_kernel_bytes'', if valid then dget total ker else JNull),
            (''primary_kernel_minus_reference_bytes'', minus), (''primary_memory_savings_bytes'', savings),
            (''primary_kernel_to_reference_ratio'', ratio_json), (''ratio_warning'', warning),
            (''reference_forward_incremental_peak_allocated_bytes'', dget forward ref),
            (''kernel_forward_incremental_peak_allocated_bytes'', dget forward ker),
            (''reference_persistent_allocated_bytes'', dget ''persistent_allocated_bytes'' ref),
            (''kernel_persistent_allocated_bytes'', dget ''persistent_allocated_bytes'' ker),
            (''reference_total_task_peak_allocated_bytes'', dget total ref),
            (''kernel_total_task_peak_allocated_bytes'', dget total ker),
            (''total_task_kernel_minus_reference_bytes'', minus), (''total_task_memory_savings_bytes'', savings),
            (''total_task_kernel_to_reference_ratio'', ratio_json),
            (''warnings'', memory_warnings trial_valid valid whole)])))"

subsection \<open>Combining a reference timing with a kernel evaluation\<close>

definition paired_speedup :: "pyfloat \<Rightarrow> dict \<Rightarrow> dict \<Rightarrow> py_exn + json" where
  "paired_speedup F ref ker =
    (let kernel = dget ''kernel_runtime'' ker; reference = dget ''reference_runtime'' ref;
         divide = (\<lambda>x y. case (x, y) of
           (JInt a, JInt b) \<Rightarrow> JFloat (fl_ratio F a b)
         | _ \<Rightarrow> (case (py_float F x, py_float F y) of (Inr a, Inr b) \<Rightarrow> JFloat (fl_div F a b) | _ \<Rightarrow> JNull))
     in if truthy (dget ''correctness'' ker) then
          bind_result (py_positive kernel) (\<lambda>kpos. if kpos then
            bind_result (py_positive reference) (\<lambda>rpos.
              Inr (if rpos then divide reference kernel else JFloat ''0.0''))
          else Inr (JFloat ''0.0''))
        else Inr (JFloat ''0.0''))"

definition paired_status :: "dict \<Rightarrow> dict \<Rightarrow> dict" where
  "paired_status ref ker =
    (let failed = (\<lambda>text r. [(''status'', JStr ''failed''),
           (''error_message'', JStr (text @ py_str (dget ''error_message'' r))), (''error_code'', dget ''error_code'' r)])
     in if dget ''status'' ref \<noteq> JStr ''completed'' then failed ''Reference timing failed: '' ref
        else if dget ''status'' ker \<noteq> JStr ''completed'' then failed ''Kernel evaluation failed: '' ker
        else [(''status'', JStr ''completed''), (''error_message'', JNull), (''error_code'', JNull)])"

definition from_paired_results :: "pyfloat \<Rightarrow> json \<Rightarrow> dict \<Rightarrow> dict \<Rightarrow> json \<Rightarrow> py_exn + dict" where
  "from_paired_results F base_task_id ref ker memory_ratio_threshold =
    bind_result (paired_speedup F ref ker) (\<lambda>speedup.
    bind_result (or_dict (dget ''metadata'' ref)) (\<lambda>ref_meta.
    bind_result (or_dict (dget ''metadata'' ker)) (\<lambda>ker_meta.
    bind_result (build_memory_comparison F (dget ''reference_memory'' ref) (dget ''kernel_memory'' ker)
        memory_ratio_threshold) (\<lambda>comparison.
      let metadata = dset ''kernel_task_id'' (dget ''task_id'' ker)
            (dset ''reference_task_id'' (dget ''task_id'' ref) (dupdate ker_meta (dupdate ref_meta [])))
      in construct evaluation_result_fields
           ([(''task_id'', base_task_id), (''compiled'', dget ''compiled'' ker),
             (''correctness'', dget ''correctness'' ker), (''decoy_kernel'', dget ''decoy_kernel'' ker),
             (''reference_runtime'', dget ''reference_runtime'' ref), (''kernel_runtime'', dget ''kernel_runtime'' ker),
             (''speedup'', speedup), (''metadata'', JObj metadata), (''reference_memory'', dget ''reference_memory'' ref),
             (''kernel_memory'', dget ''kernel_memory'' ker), (''memory_comparison'', JObj comparison),
             (''runtime_sanitizer'', dget ''runtime_sanitizer'' ker)] @ paired_status ref ker)))))"

subsection \<open>What survives publication\<close>

lemma public_field:
  assumes "evaluation_result_to_dict F D r = Inr out"
    and "f \<notin> {''runtime_sanitizer'', ''metadata'', ''reference_memory'', ''kernel_memory'', ''memory_comparison'', ''memory''}"
  shows "dget f out = dget f r"
  using assms by (auto simp: evaluation_result_to_dict_def Let_def bind_result_Inr)

lemma evaluation_fields_distinct: "distinct (map fst evaluation_result_fields)"
  by (simp add: evaluation_result_fields_def)

lemma evaluation_field:
  assumes "construct evaluation_result_fields kwargs = Inr r" and "f \<in> fst ` set evaluation_result_fields"
    and "map_of kwargs f = Some v"
  shows "dget f r = v"
proof -
  obtain dflt where "(f, dflt) \<in> set evaluation_result_fields" using assms(2) by force
  from construct_get [OF assms(1) evaluation_fields_distinct this] assms(3) show ?thesis by (simp add: dget_def)
qed

text \<open>A combined result claims a speedup other than zero only for a correct kernel with a positive
  runtime, against a positive reference runtime.\<close>

lemma paired_speedup_backed:
  assumes "paired_speedup F ref ker = Inr v" and "v \<noteq> JFloat ''0.0''"
  shows "truthy (dget ''correctness'' ker)" and "py_positive (dget ''kernel_runtime'' ker) = Inr True"
    and "py_positive (dget ''reference_runtime'' ref) = Inr True"
  using assms by (auto simp: paired_speedup_def Let_def bind_result_Inr split: if_splits)

lemma paired_result:
  assumes "from_paired_results F base ref ker threshold = Inr r"
  shows "dget ''compiled'' r = dget ''compiled'' ker" and "dget ''correctness'' r = dget ''correctness'' ker"
    and "paired_speedup F ref ker = Inr (dget ''speedup'' r)" and "dget ''kernel_runtime'' r = dget ''kernel_runtime'' ker"
    and "dget ''reference_runtime'' r = dget ''reference_runtime'' ref" and "dget ''status'' r = dget ''status'' (paired_status ref ker)"
proof -
  obtain speedup metadata comparison where sp: "paired_speedup F ref ker = Inr speedup"
    and con: "construct evaluation_result_fields
      ([(''task_id'', base), (''compiled'', dget ''compiled'' ker),
        (''correctness'', dget ''correctness'' ker), (''decoy_kernel'', dget ''decoy_kernel'' ker),
        (''reference_runtime'', dget ''reference_runtime'' ref), (''kernel_runtime'', dget ''kernel_runtime'' ker),
        (''speedup'', speedup), (''metadata'', metadata), (''reference_memory'', dget ''reference_memory'' ref),
        (''kernel_memory'', dget ''kernel_memory'' ker), (''memory_comparison'', comparison),
        (''runtime_sanitizer'', dget ''runtime_sanitizer'' ker)] @ paired_status ref ker) = Inr r"
    using assms by (auto simp: from_paired_results_def bind_result_Inr Let_def)
  note field = evaluation_field [OF con]
  show "dget ''compiled'' r = dget ''compiled'' ker" "dget ''correctness'' r = dget ''correctness'' ker"
    "dget ''kernel_runtime'' r = dget ''kernel_runtime'' ker" "dget ''reference_runtime'' r = dget ''reference_runtime'' ref"
    by (rule field; simp add: evaluation_result_fields_def)+
  have "dget ''speedup'' r = speedup" by (rule field; simp add: evaluation_result_fields_def)
  with sp show "paired_speedup F ref ker = Inr (dget ''speedup'' r)" by simp
  show "dget ''status'' r = dget ''status'' (paired_status ref ker)"
    by (rule field; simp add: evaluation_result_fields_def paired_status_def Let_def dget_def)
qed

end
