(* ===== verification/BindingDetection.thy ===== *)
theory BindingDetection
  imports TaskSchema
begin

section \<open>The backend of a submission\<close>

text \<open>
  \<open>kernelgym/toolkit/kernelbench/binding_detection.py\<close>: a request may leave the backend to be found
  in the submitted code. The regular expressions are read off as recursive functions; a text is a
  list of characters with code points below 256.

  \<open>THINK_BLOCK_RE\<close> only matches where \<open>THINK_END_RE\<close> does, so once the latter has no match the
  former's substitution leaves the text as it is.
\<close>

definition is_word :: "char \<Rightarrow> bool" where
  "is_word c \<longleftrightarrow> (let n = of_char c :: nat in
     (48 \<le> n \<and> n \<le> 57) \<or> (65 \<le> n \<and> n \<le> 90) \<or> n = 95 \<or> (97 \<le> n \<and> n \<le> 122) \<or>
     n \<in> {170, 178, 179, 181, 185, 186, 188, 189, 190} \<or> (192 \<le> n \<and> n \<noteq> 215 \<and> n \<noteq> 247))"

definition is_blank :: "char \<Rightarrow> bool" where
  \<comment> \<open>the class \<open>\s\<close>\<close>
  "is_blank c \<longleftrightarrow> is_space c \<or> of_char c \<in> {133, 160 :: nat}"

fun strip_literal :: "str \<Rightarrow> str \<Rightarrow> str option" where
  \<comment> \<open>the rest after a lower-case literal, the text read without regard to case\<close>
  "strip_literal [] s = Some s"
| "strip_literal (l # ls) [] = None"
| "strip_literal (l # ls) (c # cs) = (if lower_char c = l then strip_literal ls cs else None)"

definition strip_blanks :: "str \<Rightarrow> str" where
  "strip_blanks = dropWhile is_blank"

definition think_end :: "str \<Rightarrow> str option" where
  \<comment> \<open>the rest after \<open></think\s*>\<close> matched here\<close>
  "think_end s = Option.bind (strip_literal ''</think'' s) (\<lambda>r. strip_literal ''>'' (strip_blanks r))"

fun after_last_think :: "str \<Rightarrow> str option" where
  \<comment> \<open>the text after the last match\<close>
  "after_last_think [] = None"
| "after_last_think (c # cs) = (case after_last_think cs of Some r \<Rightarrow> Some r | None \<Rightarrow> think_end (c # cs))"

definition strip_think_blocks :: "str \<Rightarrow> str" where
  "strip_think_blocks text = (case after_last_think text of Some r \<Rightarrow> r | None \<Rightarrow> text)"

definition word_ends :: "str \<Rightarrow> bool" where
  \<comment> \<open>\<open>\b\<close> after a word character\<close>
  "word_ends s \<longleftrightarrow> (case s of [] \<Rightarrow> True | c # _ \<Rightarrow> \<not> is_word c)"

definition marker_word :: "str \<Rightarrow> str \<Rightarrow> bool" where
  "marker_word w s \<longleftrightarrow> (case strip_literal w s of Some r \<Rightarrow> word_ends r | None \<Rightarrow> False)"

definition include_marker :: "str \<Rightarrow> bool" where
  "include_marker s \<longleftrightarrow>
    Option.bind (strip_literal ''#'' s) (\<lambda>r. Option.bind (strip_literal ''include'' (strip_blanks r))
      (\<lambda>r. strip_literal ''<tvm/ffi/'' (strip_blanks r))) \<noteq> None"

definition tvm_marker :: "bool \<Rightarrow> str \<Rightarrow> bool" where
  \<comment> \<open>a marker matched here, after a word character or not\<close>
  "tvm_marker after_word s \<longleftrightarrow> include_marker s \<or> \<not> after_word \<and>
    (\<exists>w \<in> {''tvm_ffi_extension'', ''tvm_ffi_dll_export_typed_func'', ''tvmffienvgetstream'', ''tvm::ffi::tensor''}.
       marker_word w s)"

fun search_marker :: "bool \<Rightarrow> str \<Rightarrow> bool" where
  "search_marker after_word [] = False"
| "search_marker after_word (c # cs) \<longleftrightarrow> tvm_marker after_word (c # cs) \<or> search_marker (is_word c) cs"

definition normalize_kernel_backend :: "str \<Rightarrow> json \<Rightarrow> str" where
  "normalize_kernel_backend dflt kernel_backend =
    map (\<lambda>c. if c = CHR ''-'' then CHR ''_'' else c) (py_lower (py_strip (py_str (py_or kernel_backend (JStr dflt)))))"

definition auto_kernel_backends :: "str list" where
  "auto_kernel_backends = [''auto'', ''mixed'', ''auto_cuda_tvm_ffi'', ''cuda_agent_or_tvm_ffi'']"

definition detect_kernel_backend :: "json \<Rightarrow> py_exn + str" where
  "detect_kernel_backend text = (case py_or text (JStr []) of
     JStr s \<Rightarrow> Inr (if search_marker False (strip_think_blocks s) then ''tvm_ffi'' else ''cuda_agent'')
   | _ \<Rightarrow> Inl Type_Error)"

definition resolve_kernel_backend :: "json \<Rightarrow> json \<Rightarrow> py_exn + str" where
  "resolve_kernel_backend text kernel_backend =
    (let normalized = normalize_kernel_backend ''triton'' kernel_backend
     in if normalized \<in> set auto_kernel_backends then detect_kernel_backend text else Inr normalized)"

lemma detected_backend: "detect_kernel_backend text = Inr b \<Longrightarrow> b = ''tvm_ffi'' \<or> b = ''cuda_agent''"
  by (auto simp: detect_kernel_backend_def split: json.splits if_splits)

text \<open>A resolved backend is concrete.\<close>

lemma resolved_not_auto: "resolve_kernel_backend text b = Inr r \<Longrightarrow> r \<notin> set auto_kernel_backends"
  by (auto simp: resolve_kernel_backend_def Let_def split: if_splits dest!: detected_backend)
    (simp_all add: auto_kernel_backends_def)

end
