(* ===== verification/KernelBench.thy ===== *)
theory KernelBench
  imports ResultSchema BindingDetection Scheduler
begin

section \<open>The KernelBench workflow controller\<close>

text \<open>
  \<open>kernelgym/workflow/kernelbench.py\<close> and \<open>kernelbench_helpers.py\<close>: what the server does between
  the acceptance of an evaluation request and its answer. The controller runs against a host: the
  scheduler and the registered reference cache, whose operations act on a state of the host's own.
  A scheduler may lack the two selectors and a cache \<open>get_memory\<close> and \<open>put\<close> (\<open>getattr\<close>).

  An operation may stop the controller: with an exception of the scheduler or of plain Python code,
  with the cancellation of the asyncio task, or because the polls the environment allows are used up.
  Writing the result to \<open>eval_results_path\<close> (\<open>_persist_result\<close>) is left out; every exception there
  is swallowed.
\<close>

datatype stop = Sched sched_error | Python py_exn | Cancelled_error | Polling

type_synonym ('st, 'a) act = "'st \<Rightarrow> (stop + 'a) \<times> 'st"

definition ret :: "'a \<Rightarrow> ('st, 'a) act" where
  "ret v st = (Inr v, st)"

definition attempt :: "py_exn + 'a \<Rightarrow> ('st, 'a) act" where
  "attempt r st = (case r of Inl e \<Rightarrow> (Inl (Python e), st) | Inr v \<Rightarrow> (Inr v, st))"

definition bind_act :: "('st, 'a) act \<Rightarrow> ('a \<Rightarrow> ('st, 'b) act) \<Rightarrow> ('st, 'b) act" where
  "bind_act f g st = (case f st of (Inl e, st1) \<Rightarrow> (Inl e, st1) | (Inr v, st1) \<Rightarrow> g v st1)"

record 'st cache_ops =
  co_get :: "json \<Rightarrow> json \<Rightarrow> json \<Rightarrow> ('st, json) act"
  co_get_memory :: "(json \<Rightarrow> json \<Rightarrow> json \<Rightarrow> ('st, json) act) option"
  co_put :: "(json \<Rightarrow> json \<Rightarrow> json \<Rightarrow> json \<Rightarrow> json \<Rightarrow> ('st, unit) act) option"

record 'st host =
  h_cancelled :: "str \<Rightarrow> ('st, bool) act"
  h_submit :: "task_spec \<Rightarrow> ('st, str) act"
  h_wait :: "str \<Rightarrow> str \<Rightarrow> ('st, dict option) act"
  h_idle :: "(json \<Rightarrow> json \<Rightarrow> ('st, dict option) act) option"
  h_by_task :: "(str \<Rightarrow> json \<Rightarrow> json \<Rightarrow> ('st, dict option) act) option"
  h_cache :: "'st cache_ops option"

record bench =
  b_float :: pyfloat
  b_device :: "json \<Rightarrow> json"          \<comment> \<open>the GPU probing of \<open>with_device_info\<close>\<close>
  b_enable_profiling :: bool          \<comment> \<open>the server's settings\<close>
  b_enable_ncu :: bool
  b_enable_compute_sanitizer :: bool
  b_enable_perturbations :: bool

subsection \<open>Helpers\<close>

definition text_of :: "json \<Rightarrow> str \<Rightarrow> json" where
  \<comment> \<open>\<open>f"{value}suffix"\<close>\<close>
  "text_of value tail = JStr (py_str value @ tail)"

definition get_or :: "str \<Rightarrow> json \<Rightarrow> dict \<Rightarrow> json" where
  "get_or k dflt d = (if dhas k d then dget k d else dflt)"

definition cached_runtime :: "'st host \<Rightarrow> dict \<Rightarrow> ('st, json) act" where
  "cached_runtime H task = (case h_cache H of
     None \<Rightarrow> ret JNull
   | Some c \<Rightarrow> co_get c (dget ''uuid'' task) (dget ''reference_code'' task) (dget ''is_valid'' task))"

definition cached_memory :: "'st host \<Rightarrow> dict \<Rightarrow> ('st, json) act" where
  "cached_memory H task = (case h_cache H of
     None \<Rightarrow> ret JNull
   | Some c \<Rightarrow> (case co_get_memory c of
       None \<Rightarrow> ret JNull
     | Some get \<Rightarrow> get (dget ''uuid'' task) (dget ''reference_code'' task) (dget ''is_valid'' task)))"

definition put_cached :: "'st host \<Rightarrow> dict \<Rightarrow> json \<Rightarrow> json \<Rightarrow> ('st, unit) act" where
  "put_cached H task runtime memory = (case h_cache H of
     None \<Rightarrow> ret ()
   | Some c \<Rightarrow> (case co_put c of
       None \<Rightarrow> ret ()
     | Some put \<Rightarrow>
         put (dget ''uuid'' task) (dget ''reference_code'' task) (dget ''is_valid'' task) runtime memory))"

definition validate_code :: "json \<Rightarrow> str \<Rightarrow> bool \<times> str" where
  "validate_code code entry_point =
    (let needle = ''class '' @ entry_point;
         missing = (False, ''Code must contain a '' @ [CHR 0x27] @ entry_point @ [CHR 0x27] @ '' class'');
         unreadable = (\<lambda>ty. (False, ''Code validation error: argument of type '' @ [CHR 0x27] @ ty @ [CHR 0x27] @
           '' is not iterable''))
     in if \<not> truthy code then (False, ''Code is required'')
        else (case code of
          JStr s \<Rightarrow> if py_in needle s then (True, []) else missing
        | JList vs \<Rightarrow> if JStr needle \<in> set vs then (True, []) else missing
        | JObj d \<Rightarrow> if dhas needle d then (True, []) else missing
        | JInt _ \<Rightarrow> unreadable ''int'' | JFloat _ \<Rightarrow> unreadable ''float'' | _ \<Rightarrow> unreadable ''bool''))"

definition reference_task_for :: "dict \<Rightarrow> dict" where
  \<comment> \<open>the keyword arguments of the paired reference task\<close>
  "reference_task_for task =
    [(''task_id'', text_of (dget ''task_id'' task) ''_ref''), (''base_task_id'', dget ''task_id'' task),
     (''num_perf_trials'', first_not_none [dget ''refer_num_perf_trials'' task, dget ''num_perf_trials'' task]),
     (''device'', py_or (dget ''device_preference'' task) (dget ''device'' task))] @
    copy_fields [''reference_code'', ''toolkit'', ''backend_adapter'', ''backend'', ''num_warmup'', ''perf_trim_count'',
      ''timeout'', ''priority'', ''entry_point'', ''required_resource'', ''task_stage'', ''assigned_worker'',
      ''reference_backend'', ''device_preference'', ''resources''] task"

definition late_reference_task_for :: "dict \<Rightarrow> dict" where
  \<comment> \<open>the one made after the kernel run, when a cached reference has gone\<close>
  "late_reference_task_for task =
    [(''task_id'', text_of (dget ''task_id'' task) ''_ref''), (''base_task_id'', dget ''task_id'' task)] @
    copy_fields [''reference_code'', ''toolkit'', ''backend_adapter'', ''backend'', ''num_perf_trials'', ''num_warmup'',
      ''perf_trim_count'', ''timeout'', ''device'', ''priority'', ''entry_point'', ''reference_backend'',
      ''device_preference'', ''resources''] task"

definition kernel_task_for :: "dict \<Rightarrow> dict" where
  "kernel_task_for task =
    [(''task_id'', text_of (dget ''task_id'' task) ''_kernel''), (''base_task_id'', dget ''task_id'' task)] @
    copy_fields [''reference_code'', ''kernel_code'', ''toolkit'', ''backend_adapter'', ''backend'', ''precision'',
      ''num_correct_trials'', ''num_perf_trials'', ''num_warmup'', ''perf_trim_count'', ''adaptive_perf_trials'',
      ''perf_min_trials'', ''perf_cv_threshold'', ''correctness_timeout'', ''correctness_timeout_enabled'', ''timeout'',
      ''device'', ''priority'', ''entry_point'', ''required_resource'', ''task_stage'', ''assigned_worker'',
      ''device_preference'', ''force_refresh'', ''enable_profiling'', ''enable_ncu'', ''enable_compute_sanitizer'',
      ''return_detail_correctness'', ''compute_sanitizer_mode'', ''enable_correctness_input_perturbations'',
      ''enable_triton_detection'', ''detect_decoy_kernel'', ''measure_performance'', ''run_correctness'',
      ''run_triton_detection'', ''run_performance'', ''compile_artifact'', ''split_compile_and_execute'',
      ''pure_compile_task'', ''enable_compile_artifact_cache'', ''simplify_error'',
      ''return_internal_compile_artifact'', ''resources''] task"

definition create_paired_tasks :: "'st host \<Rightarrow> dict \<Rightarrow> ('st, dict option \<times> dict) act" where
  "create_paired_tasks H task =
    (let reference = attempt (construct reference_task_fields (reference_task_for task));
         kernel = attempt (construct kernel_task_fields (kernel_task_for task))
     in bind_act
          (if truthy (dget ''use_reference_cache'' task) \<and> truthy (dget ''uuid'' task) then
             bind_act (cached_runtime H task) (\<lambda>runtime. bind_act (cached_memory H task) (\<lambda>memory.
               if runtime = JNull \<or> memory = JNull then bind_act reference (\<lambda>r. ret (Some r)) else ret None))
           else bind_act reference (\<lambda>r. ret (Some r)))
          (\<lambda>ref. bind_act kernel (\<lambda>ker. ret (ref, ker))))"

definition combine_results :: "bench \<Rightarrow> dict \<Rightarrow> dict \<Rightarrow> json \<Rightarrow> py_exn + dict" where
  "combine_results B ref ker memory_ratio_threshold =
    (if dget ''base_task_id'' ref \<noteq> dget ''base_task_id'' ker then Inl Value_Error
     else from_paired_results (b_float B) (dget ''base_task_id'' ref) ref ker memory_ratio_threshold)"

subsection \<open>Results made by the controller\<close>

definition publish :: "bench \<Rightarrow> dict \<Rightarrow> py_exn + dict" where
  "publish B kwargs = bind_result (construct evaluation_result_fields kwargs)
     (evaluation_result_to_dict (b_float B) (b_device B))"

definition failure_fields :: "json \<Rightarrow> json \<Rightarrow> json \<Rightarrow> json \<Rightarrow> dict" where
  "failure_fields task_id message status error_code =
    [(''task_id'', task_id), (''compiled'', JBool False), (''correctness'', JBool False),
     (''decoy_kernel'', JBool False), (''reference_runtime'', JFloat ''-1.0''), (''kernel_runtime'', JFloat ''-1.0''),
     (''speedup'', JFloat ''0.0''), (''metadata'', JObj [(''error'', message)]), (''status'', status),
     (''error_message'', message), (''error_code'', error_code)]"

definition failed_result :: "bench \<Rightarrow> json \<Rightarrow> json \<Rightarrow> json \<Rightarrow> py_exn + dict" where
  "failed_result B task_id message error_code =
    publish B (failure_fields task_id message (JStr (status_value (task_status_from_result_payload
      [(''status'', JStr ''failed''), (''error_code'', error_code)]))) error_code)"

definition validation_failed_result :: "bench \<Rightarrow> json \<Rightarrow> str \<Rightarrow> py_exn + dict" where
  "validation_failed_result B task_id message =
    publish B (failure_fields task_id (JStr message) (JStr ''failed'') (JStr ''VALIDATION_ERROR''))"

definition cancelled_result :: "bench \<Rightarrow> json \<Rightarrow> py_exn + dict" where
  "cancelled_result B task_id = failed_result B task_id (JStr ''Task cancelled'') (JStr ''SYSTEM_ERROR'')"

definition kernel_result_to_dict :: "bench \<Rightarrow> dict \<Rightarrow> py_exn + dict" where
  "kernel_result_to_dict B ker =
    bind_result (prepare_public_metadata (b_device B) (dget ''metadata'' ker))
      (\<lambda>metadata. Inr (dset ''metadata'' (JObj metadata) ker))"

definition kernel_only_result :: "bench \<Rightarrow> dict \<Rightarrow> dict \<Rightarrow> py_exn + dict" where
  "kernel_only_result B task ker =
    bind_result (or_dict (dget ''metadata'' ker)) (\<lambda>metadata. publish B
      ([(''task_id'', dget ''task_id'' task), (''reference_runtime'', JFloat ''-1.0''), (''speedup'', JFloat ''0.0''),
        (''metadata'', JObj (dset ''kernel_task_id'' (dget ''task_id'' ker) metadata))] @
       copy_fields [''compiled'', ''correctness'', ''decoy_kernel'', ''kernel_runtime'', ''kernel_memory'',
         ''runtime_sanitizer'', ''status'', ''error_message'', ''error_code''] ker))"

definition cached_reference_result :: "dict \<Rightarrow> json \<Rightarrow> json \<Rightarrow> py_exn + dict" where
  "cached_reference_result task runtime reference_memory = construct reference_result_fields
    [(''task_id'', text_of (dget ''task_id'' task) ''_ref''), (''base_task_id'', dget ''task_id'' task),
     (''reference_runtime'', runtime),
     (''metadata'', JObj [(''cached'', JBool True), (''uuid'', dget ''uuid'' task), (''device'', JStr ''cached''),
       (''backend'', dget ''backend'' task),
       (''cache_type'', JStr (if truthy (dget ''is_valid'' task) then ''validation'' else ''regular''))]),
     (''reference_memory'', reference_memory), (''status'', JStr ''completed'')]"

subsection \<open>Validation\<close>

fun int_value :: "json \<Rightarrow> py_exn + int" where
  \<comment> \<open>\<open>int(v)\<close>\<close>
  "int_value (JInt i) = Inr i"
| "int_value (JBool b) = Inr (if b then 1 else 0)"
| "int_value (JStr s) = (case parse_int s of Some i \<Rightarrow> Inr i | None \<Rightarrow> Inl Value_Error)"
| "int_value (JFloat r) = (case parse_float r of
     Some q \<Rightarrow> Inr (if q \<ge> 0 then \<lfloor>q\<rfloor> else \<lceil>q\<rceil>)
   | None \<Rightarrow> Inl (if r = ''nan'' then Value_Error else Overflow_Error))"
| "int_value _ = Inl Type_Error"

definition gpus_errors :: "json \<Rightarrow> py_exn + str list" where
  "gpus_errors gpus =
    (if gpus = JNull then Inr []
     else (case int_value gpus of
       Inr i \<Rightarrow> Inr (if i < 1 then [''resources.gpus must be >= 1''] else [])
     | Inl Overflow_Error \<Rightarrow> Inl Overflow_Error
     | Inl _ \<Rightarrow> Inr [''resources.gpus must be an integer'']))"

definition validate_inputs :: "dict \<Rightarrow> py_exn + dict" where
  "validate_inputs task =
    bind_result (or_dict (dget ''resources'' task)) (\<lambda>resources.
    bind_result (gpus_errors (dget ''gpus'' resources)) (\<lambda>gpus.
      let entry = py_str (dget ''entry_point'' task);
          uuid = (if truthy (dget ''use_reference_cache'' task) \<and> \<not> truthy (dget ''uuid'' task)
            then [''UUID is required when use_reference_cache is True''] else []);
          (ref_valid, ref_error) = validate_code (dget ''reference_code'' task) entry;
          (kernel_valid, kernel_error) = validate_code (dget ''kernel_code'' task) (entry @ ''New'');
          errors = gpus @ uuid @
            (if ref_valid then [] else [''Reference code validation failed: '' @ ref_error]) @
            (if kernel_valid then [] else [''Kernel code validation failed: '' @ kernel_error])
      in Inr [(''valid'', JBool (errors = [])), (''errors'', JList (map JStr errors)),
           (''reference'', JObj [(''valid'', JBool ref_valid), (''error'', JStr ref_error),
              (''entry_point'', dget ''entry_point'' task)]),
           (''kernel'', JObj [(''valid'', JBool kernel_valid), (''error'', JStr kernel_error),
              (''entry_point'', JStr (entry @ ''New''))]),
           (''cache'', JObj [(''use_reference_cache'', dget ''use_reference_cache'' task),
              (''uuid'', dget ''uuid'' task)]),
           (''resources'', JObj resources)]))"

definition parse_task :: "dict \<Rightarrow> py_exn + dict" where
  \<comment> \<open>\<open>EvaluationTask.from_dict\<close> and \<open>_resolve_auto_backend\<close>\<close>
  "parse_task input_data =
    bind_result (from_dict evaluation_task_fields input_data) (\<lambda>task.
    bind_result (resolve_kernel_backend (dget ''kernel_code'' task) (dget ''backend'' task)) (\<lambda>backend.
      Inr (dset ''backend'' (JStr backend) task)))"

definition validate_request :: "dict \<Rightarrow> py_exn + dict" where
  "validate_request input_data =
    bind_result (parse_task input_data) (\<lambda>task. bind_result (validate_inputs task) (\<lambda>validation.
      Inr (dset ''workflow'' (JStr ''kernelbench'') (dset ''task_id'' (dget ''task_id'' task) validation))))"

definition first_error :: "dict \<Rightarrow> str" where
  "first_error validation = (case dget ''errors'' validation of
     JList (JStr e # _) \<Rightarrow> e | _ \<Rightarrow> ''Validation failed'')"

subsection \<open>Execution options\<close>

definition is_compile_only :: "dict \<Rightarrow> bool" where
  "is_compile_only task \<longleftrightarrow>
    py_lower (str_or_empty (dget ''task_stage'' task)) = ''compile'' \<or> truthy (dget ''pure_compile_task'' task)"

definition kernel_execution_options :: "bench \<Rightarrow> dict \<Rightarrow> bool \<Rightarrow> dict" where
  "kernel_execution_options B task compile_only =
    (let opt = (\<lambda>name dflt. first_not_none [dget name task, dflt]);
         unless = (\<lambda>v. if compile_only then JBool False else v);
         detection = first_not_none [dget ''run_triton_detection'' task, dget ''enable_triton_detection'' task,
           JBool (dget ''backend'' task = JStr ''triton'')];
         performance = unless (first_not_none [dget ''run_performance'' task, dget ''measure_performance'' task, JBool True])
     in [(''run_correctness'', unless (opt ''run_correctness'' (JBool True))),
         (''run_triton_detection'', detection), (''run_performance'', performance),
         (''enable_triton_detection'', detection), (''measure_performance'', performance),
         (''enable_profiling'', unless (opt ''enable_profiling'' (JBool (b_enable_profiling B)))),
         (''enable_ncu'', unless (opt ''enable_ncu'' (JBool (b_enable_ncu B)))),
         (''enable_compute_sanitizer'',
            unless (JBool (truthy (opt ''enable_compute_sanitizer'' (JBool (b_enable_compute_sanitizer B)))))),
         (''return_detail_correctness'', unless (JBool (truthy (dget ''return_detail_correctness'' task)))),
         (''compute_sanitizer_mode'', dget ''compute_sanitizer_mode'' task),
         (''enable_correctness_input_perturbations'',
            unless (opt ''enable_correctness_input_perturbations'' (JBool (b_enable_perturbations B)))),
         (''simplify_error'', dget ''simplify_error'' task)])"

definition cached_reference_seconds :: "bench \<Rightarrow> 'st host \<Rightarrow> dict \<Rightarrow> ('st, json) act" where
  "cached_reference_seconds B H task =
    (if \<not> truthy (dget ''uuid'' task) then ret JNull
     else bind_act (cached_runtime H task) (\<lambda>cached_ms.
       if cached_ms = JNull then ret JNull
       else ret (case py_float (b_float B) cached_ms of
         Inr ms \<Rightarrow> let s = fl_div (b_float B) ms ''1000.0''
                   in JFloat (if float_positive s then s else ''0.0'')
       | Inl _ \<Rightarrow> JNull)))"

definition with_reference_runtime :: "bench \<Rightarrow> 'st host \<Rightarrow> dict \<Rightarrow> dict \<Rightarrow> ('st, dict) act" where
  "with_reference_runtime B H task payload =
    bind_act (cached_reference_seconds B H task) (\<lambda>s.
      ret (if s = JNull then payload else dset ''reference_runtime'' s payload))"

subsection \<open>The split kernel run\<close>

definition is_cancelled :: "'st host \<Rightarrow> json \<Rightarrow> ('st, bool) act" where
  "is_cancelled H base_id = (if truthy base_id then h_cancelled H (py_str base_id) else ret False)"

definition forgive :: "('st, 'a option) act \<Rightarrow> ('st, 'a option) act" where
  \<comment> \<open>\<open>except Exception: return None\<close>; \<open>CancelledError\<close> passes\<close>
  "forgive f st = (case f st of
     (Inl (Sched e), st1) \<Rightarrow> (Inr None, st1)
   | (Inl (Python e), st1) \<Rightarrow> (Inr None, st1)
   | r \<Rightarrow> r)"

definition select_split_target_gpu :: "'st host \<Rightarrow> dict \<Rightarrow> ('st, dict option) act" where
  "select_split_target_gpu H task =
    (let node = dget ''target_node_id'' task; host = dget ''target_hostname'' task;
         chosen = (\<lambda>strategy w. dset ''selection_strategy'' (JStr strategy) w)
     in case h_idle H of
       None \<Rightarrow> ret (if truthy node \<or> truthy host then None else Some [])
     | Some idle \<Rightarrow> forgive (bind_act (idle node host) (\<lambda>worker. case worker of
         Some (entry # rest) \<Rightarrow> ret (Some (chosen ''idle'' (entry # rest)))
       | _ \<Rightarrow> (case h_by_task H of
           None \<Rightarrow> ret None
         | Some by_task \<Rightarrow> bind_act (by_task (py_str (dget ''task_id'' task)) node host) (\<lambda>worker. case worker of
             Some (entry # rest) \<Rightarrow> ret (Some (chosen ''task_id_mod'' (entry # rest)))
           | _ \<Rightarrow> ret None)))))"

definition child_spec :: "dict \<Rightarrow> str \<Rightarrow> dict \<Rightarrow> dict \<Rightarrow> task_spec" where
  "child_spec task kind payload extra = \<lparr>ts_kind = kind, ts_payload = JObj payload,
     ts_resources = dget ''resources'' task,
     ts_metadata = JObj ((''base_task_id'', dget ''task_id'' task) # extra)\<rparr>"

definition run_child :: "'st host \<Rightarrow> dict \<Rightarrow> task_spec \<Rightarrow> ('st, str \<times> dict option) act" where
  \<comment> \<open>\<open>submit\<close>, then \<open>wait_unless_cancelled\<close>\<close>
  "run_child H task spec = bind_act (h_submit H spec) (\<lambda>child.
     bind_act (h_wait H child (str_or_empty (dget ''task_id'' task))) (\<lambda>result. ret (child, result)))"

definition worker_of :: "dict \<Rightarrow> dict" where
  "worker_of worker = [(''target_gpu_worker_id'', get_or ''worker_id'' (JStr []) worker),
     (''target_gpu_selection_strategy'', get_or ''selection_strategy'' (JStr []) worker)]"

definition compile_payload :: "bench \<Rightarrow> dict \<Rightarrow> dict \<Rightarrow> dict \<Rightarrow> str \<Rightarrow> str \<Rightarrow> dict" where
  "compile_payload B task kernel_task worker node host =
    dupdate (kernel_execution_options B task True)
     (dupdate ([(''task_id'', text_of (dget ''task_id'' task) ''_compile''), (''task_type'', JStr ''kernel_evaluation''),
        (''toolkit'', get_or ''toolkit'' (JStr ''kernelbench'') kernel_task),
        (''backend_adapter'', get_or ''backend_adapter'' (JStr ''kernelbench'') kernel_task),
        (''task_stage'', JStr ''compile''), (''required_resource'', JStr ''cpu''), (''pure_compile_task'', JBool True),
        (''return_internal_compile_artifact'', JBool True),
        (''enable_compile_artifact_cache'', dget ''enable_compile_artifact_cache'' task),
        (''node_affinity'', JStr ''required''), (''target_node_id'', JStr node), (''target_hostname'', JStr host)] @
        worker_of worker) kernel_task)"

definition execute_payload :: "bench \<Rightarrow> dict \<Rightarrow> dict \<Rightarrow> dict \<Rightarrow> dict \<Rightarrow> str \<Rightarrow> str \<Rightarrow> dict" where
  "execute_payload B task kernel_task worker artifact node host =
    dupdate (kernel_execution_options B task False)
     (dupdate ([(''task_id'', text_of (dget ''task_id'' task) ''_kernel''), (''task_type'', JStr ''kernel_evaluation''),
        (''toolkit'', get_or ''toolkit'' (JStr ''kernelbench'') kernel_task),
        (''backend_adapter'', get_or ''backend_adapter'' (JStr ''kernelbench'') kernel_task),
        (''task_stage'', JStr ''execute''), (''required_resource'', JStr ''gpu''),
        (''compile_artifact'', JObj (dupdate ([(''artifact_node_id'', JStr node), (''artifact_hostname'', JStr host)] @
           worker_of worker) artifact)),
        (''pure_compile_task'', JBool False),
        (''enable_compile_artifact_cache'', dget ''enable_compile_artifact_cache'' task),
        (''node_affinity'', JStr ''required''), (''target_node_id'', JStr node), (''target_hostname'', JStr host),
        (''artifact_node_id'', JStr node), (''artifact_hostname'', JStr host)] @ worker_of worker) kernel_task)"

definition mark_split :: "dict \<Rightarrow> dict \<Rightarrow> dict" where
  "mark_split metadata result = dset ''metadata''
     (JObj (dpop ''_internal_compile_artifact'' (dset ''split_compile_and_execute'' (JBool True) metadata))) result"

definition run_execute ::
  "bench \<Rightarrow> 'st host \<Rightarrow> dict \<Rightarrow> dict \<Rightarrow> dict \<Rightarrow> str \<Rightarrow> dict \<Rightarrow> str \<Rightarrow> str \<Rightarrow> ('st, dict) act" where
  \<comment> \<open>the execute stage, with the compiled artifact and the node and host that hold it\<close>
  "run_execute B H task kernel_task worker compile_task_id artifact node host =
    bind_act (with_reference_runtime B H task (execute_payload B task kernel_task worker artifact node host)) (\<lambda>payload.
    bind_act (is_cancelled H (dget ''task_id'' task)) (\<lambda>gone.
      if gone then attempt (cancelled_result B (dget ''task_id'' task))
      else bind_act (run_child H task (child_spec task ''kernelbench.kernel.execute'' payload
          [(''stage'', JStr ''execute''), (''compile_task_id'', JStr compile_task_id)])) (\<lambda>(child, answer).
        case answer of
          None \<Rightarrow> attempt (cancelled_result B (dget ''task_id'' task))
        | Some [] \<Rightarrow> ret []
        | Some result \<Rightarrow>
            bind_act (attempt (or_dict (dget ''metadata'' result))) (\<lambda>metadata. ret (mark_split metadata result)))))"

definition after_compile ::
  "bench \<Rightarrow> 'st host \<Rightarrow> dict \<Rightarrow> dict \<Rightarrow> dict \<Rightarrow> str \<Rightarrow> str \<Rightarrow> str \<Rightarrow> dict \<Rightarrow> ('st, dict) act" where
  "after_compile B H task kernel_task worker node host compile_task_id result =
    bind_act (attempt (or_dict (dget ''metadata'' result))) (\<lambda>metadata.
      if dget ''compiled'' result \<noteq> JBool True then ret (mark_split metadata result)
      else (case dget ''_internal_compile_artifact'' metadata of
        JObj artifact \<Rightarrow> run_execute B H task kernel_task worker compile_task_id artifact
          (py_str (py_or (dget ''compile_node_id'' metadata) (JStr node)))
          (py_str (py_or (dget ''compile_hostname'' metadata) (JStr host)))
      | _ \<Rightarrow> attempt (failed_result B (dget ''task_id'' task)
          (JStr ''compile stage did not return a reusable compile_artifact'') JNull)))"

definition run_split_kernel_task :: "bench \<Rightarrow> 'st host \<Rightarrow> dict \<Rightarrow> dict \<Rightarrow> ('st, dict) act" where
  "run_split_kernel_task B H task kernel_task =
    bind_act (select_split_target_gpu H task) (\<lambda>target. case target of
      None \<Rightarrow> attempt (failed_result B (dget ''task_id'' task)
        (JStr ''no fresh GPU worker available for split compile/execute'') JNull)
    | Some worker \<Rightarrow>
        let node = py_str (py_or (dget ''node_id'' worker) (py_or (dget ''hostname'' worker) (JStr [])));
            host = str_or_empty (dget ''hostname'' worker)
        in bind_act (run_child H task (child_spec task ''kernelbench.kernel.compile''
            (compile_payload B task kernel_task worker node host) [(''stage'', JStr ''compile'')])) (\<lambda>(child, answer).
          case answer of
            None \<Rightarrow> attempt (cancelled_result B (dget ''task_id'' task))
          | Some [] \<Rightarrow> attempt (failed_result B (dget ''task_id'' task) (JStr ''compile result missing'') JNull)
          | Some result \<Rightarrow> after_compile B H task kernel_task worker node host child result))"

subsection \<open>The request\<close>

definition single_payload :: "bench \<Rightarrow> dict \<Rightarrow> dict \<Rightarrow> dict" where
  "single_payload B task kernel_task =
    (let named = (if is_compile_only task
           then dset ''task_id'' (text_of (dget ''task_id'' task) ''_compile'') kernel_task else kernel_task)
     in dupdate (kernel_execution_options B task (is_compile_only task))
          (dset ''backend_adapter'' (get_or ''backend_adapter'' (JStr ''kernelbench'') kernel_task)
          (dset ''toolkit'' (get_or ''toolkit'' (JStr ''kernelbench'') kernel_task)
          (dset ''task_type'' (JStr ''kernel_evaluation'') named))))"

definition run_single :: "bench \<Rightarrow> 'st host \<Rightarrow> dict \<Rightarrow> dict \<Rightarrow> ('st, dict option) act" where
  "run_single B H task kernel_task =
    bind_act (if is_compile_only task then ret (single_payload B task kernel_task)
              else with_reference_runtime B H task (single_payload B task kernel_task)) (\<lambda>payload.
    bind_act (run_child H task (child_spec task ''kernelbench.kernel'' payload [])) (\<lambda>(child, result). ret result))"

definition run_kernel :: "bench \<Rightarrow> 'st host \<Rightarrow> dict \<Rightarrow> dict \<Rightarrow> ('st, dict option) act" where
  "run_kernel B H task kernel_task =
    (if truthy (dget ''split_compile_and_execute'' task) \<and> \<not> is_compile_only task
     then bind_act (run_split_kernel_task B H task kernel_task) (\<lambda>result. ret (Some result))
     else run_single B H task kernel_task)"

definition required_kernel_fields :: "str list" where \<comment> \<open>sorted\<close>
  "required_kernel_fields = [''base_task_id'', ''compiled'', ''correctness'', ''decoy_kernel'', ''kernel_runtime'',
     ''metadata'', ''task_id'']"

fun comma_list :: "str list \<Rightarrow> str" where
  "comma_list [] = []"
| "comma_list [x] = [CHR 0x27] @ x @ [CHR 0x27]"
| "comma_list (x # y # ys) = [CHR 0x27] @ x @ [CHR 0x27] @ '', '' @ comma_list (y # ys)"

definition judge_kernel :: "bench \<Rightarrow> dict \<Rightarrow> dict option \<Rightarrow> py_exn + (dict + dict)" where
  \<comment> \<open>a final answer on the left, a well-formed kernel result on the right\<close>
  "judge_kernel B task answer =
    (let failed = (\<lambda>message code. bind_result (failed_result B (dget ''task_id'' task) message code) (\<lambda>r. Inr (Inl r)))
     in case answer of
       None \<Rightarrow> failed (JStr ''kernel result missing'') JNull
     | Some result \<Rightarrow>
         if result = [] then failed (JStr ''kernel result missing'') JNull
         else if dhas ''error_message'' result \<and> \<not> dhas ''compiled'' result
         then failed (dget ''error_message'' result) (dget ''error_code'' result)
         else if \<exists>f \<in> set required_kernel_fields. \<not> dhas f result
         then failed (JStr (''kernel result missing required fields: ['' @
             comma_list (filter (\<lambda>f. \<not> dhas f result) required_kernel_fields) @ '']'')) JNull
         else bind_result (from_dict kernel_result_fields result) (\<lambda>ker.
              bind_result (kernel_result_to_dict B ker) (\<lambda>_. Inr (Inr ker))))"

definition reference_payload :: "dict \<Rightarrow> dict" where
  "reference_payload ref_task =
    dset ''backend_adapter'' (get_or ''backend_adapter'' (JStr ''kernelbench'') ref_task)
     (dset ''toolkit'' (get_or ''toolkit'' (JStr ''kernelbench'') ref_task)
     (dset ''task_type'' (JStr ''reference_timing'') ref_task))"

definition finish_request :: "bench \<Rightarrow> 'st host \<Rightarrow> dict \<Rightarrow> dict \<Rightarrow> dict \<Rightarrow> ('st, dict) act" where
  \<comment> \<open>with a reference result: fill the cache and combine\<close>
  "finish_request B H task ker ref =
    bind_act (if truthy (dget ''use_reference_cache'' task) \<and> truthy (dget ''uuid'' task)
              then put_cached H task (dget ''reference_runtime'' ref) (dget ''reference_memory'' ref) else ret ()) (\<lambda>_.
    attempt (bind_result (combine_results B ref ker (dget ''memory_ratio_threshold'' task))
      (evaluation_result_to_dict (b_float B) (b_device B))))"

definition time_reference :: "bench \<Rightarrow> 'st host \<Rightarrow> dict \<Rightarrow> dict \<Rightarrow> dict \<Rightarrow> ('st, dict) act" where
  \<comment> \<open>no cached reference: submit the reference task\<close>
  "time_reference B H task ker ref_task =
    bind_act (is_cancelled H (dget ''task_id'' task)) (\<lambda>gone.
      if gone then attempt (cancelled_result B (dget ''task_id'' task))
      else bind_act (run_child H task (child_spec task ''kernelbench.ref'' (reference_payload ref_task) []))
        (\<lambda>(child, answer).
        bind_act (is_cancelled H (dget ''task_id'' task)) (\<lambda>gone.
          if gone then attempt (cancelled_result B (dget ''task_id'' task))
          else (case answer of
            Some (entry # rest) \<Rightarrow>
              let result = entry # rest in
              if dhas ''error_message'' result \<and> \<not> dhas ''reference_runtime'' result
              then attempt (kernel_only_result B task ker)
              else bind_act (attempt (from_dict reference_result_fields result)) (finish_request B H task ker)
          | _ \<Rightarrow> attempt (kernel_only_result B task ker)))))"

definition reference_stage :: "bench \<Rightarrow> 'st host \<Rightarrow> dict \<Rightarrow> dict option \<Rightarrow> dict \<Rightarrow> ('st, dict) act" where
  "reference_stage B H task ref_task ker = (case ref_task of
     Some r \<Rightarrow> time_reference B H task ker r
   | None \<Rightarrow>
       bind_act (cached_runtime H task) (\<lambda>runtime. bind_act (cached_memory H task) (\<lambda>memory.
         if runtime \<noteq> JNull \<and> memory \<noteq> JNull
         then bind_act (attempt (cached_reference_result task runtime memory)) (finish_request B H task ker)
         else bind_act (attempt (construct reference_task_fields (late_reference_task_for task)))
           (time_reference B H task ker))))"

definition handle_request :: "bench \<Rightarrow> 'st host \<Rightarrow> dict \<Rightarrow> ('st, dict) act" where
  "handle_request B H input_data =
    bind_act (attempt (parse_task input_data)) (\<lambda>task.
    bind_act (attempt (validate_inputs task)) (\<lambda>validation.
    if dget ''valid'' validation \<noteq> JBool True
    then attempt (validation_failed_result B (dget ''task_id'' task) (first_error validation))
    else bind_act (is_cancelled H (dget ''task_id'' task)) (\<lambda>gone.
      if gone then attempt (cancelled_result B (dget ''task_id'' task))
      else bind_act (create_paired_tasks H task) (\<lambda>(ref_task, kernel_task).
        bind_act (run_kernel B H task kernel_task) (\<lambda>answer.
        bind_act (is_cancelled H (dget ''task_id'' task)) (\<lambda>gone.
          if gone then attempt (cancelled_result B (dget ''task_id'' task))
          else bind_act (attempt (judge_kernel B task answer)) (\<lambda>verdict. case verdict of
            Inl result \<Rightarrow> ret result
          | Inr ker \<Rightarrow>
              if is_compile_only task \<or> \<not> (truthy (dget ''compiled'' ker) \<and> truthy (dget ''correctness'' ker))
              then attempt (kernel_only_result B task ker)
              else reference_stage B H task ref_task ker)))))))"

end
