(* ===== verification/KernelBenchTrace.thy ===== *)
theory KernelBenchTrace
  imports KernelBench
begin

section \<open>What a controller does to its scheduler\<close>

text \<open>
  A host that records the calls made to its scheduler, each with the answer, and rules that carry
  assertions about that record through the controller.
\<close>

datatype event =
    Asked str "stop + bool"                  \<comment> \<open>\<open>is_cancelled\<close>\<close>
  | Sent task_spec "stop + str"              \<comment> \<open>\<open>submit\<close>\<close>
  | Heard str str "stop + dict option"       \<comment> \<open>\<open>wait_unless_cancelled\<close>\<close>

definition recording :: "('st, 'a) act \<Rightarrow> (stop + 'a \<Rightarrow> event list) \<Rightarrow> ('st \<times> event list, 'a) act" where
  "recording f ev = (\<lambda>(st, log). case f st of (r, st1) \<Rightarrow> (r, (st1, log @ ev r)))"

definition traced_cache :: "'st cache_ops \<Rightarrow> ('st \<times> event list) cache_ops" where
  "traced_cache c = \<lparr>co_get = (\<lambda>u code v. recording (co_get c u code v) (\<lambda>_. [])),
     co_get_memory = map_option (\<lambda>get u code v. recording (get u code v) (\<lambda>_. [])) (co_get_memory c),
     co_put = map_option (\<lambda>put u code v r mem. recording (put u code v r mem) (\<lambda>_. [])) (co_put c)\<rparr>"

definition traced :: "'st host \<Rightarrow> ('st \<times> event list) host" where
  "traced H = \<lparr>h_cancelled = (\<lambda>x. recording (h_cancelled H x) (\<lambda>r. [Asked x r])),
     h_submit = (\<lambda>spec. recording (h_submit H spec) (\<lambda>r. [Sent spec r])),
     h_wait = (\<lambda>x base. recording (h_wait H x base) (\<lambda>r. [Heard x base r])),
     h_idle = map_option (\<lambda>f node host. recording (f node host) (\<lambda>_. [])) (h_idle H),
     h_by_task = map_option (\<lambda>f x node host. recording (f x node host) (\<lambda>_. [])) (h_by_task H),
     h_cache = map_option traced_cache (h_cache H)\<rparr>"

subsection \<open>Assertions\<close>

definition ensures ::
  "(event list \<Rightarrow> bool) \<Rightarrow> ('st \<times> event list, 'a) act \<Rightarrow> (stop + 'a \<Rightarrow> event list \<Rightarrow> bool) \<Rightarrow> bool" where
  "ensures P f Q \<longleftrightarrow> (\<forall>st log r st1 log1. P log \<longrightarrow> f (st, log) = (r, (st1, log1)) \<longrightarrow> Q r log1)"

lemma ensuresD: "ensures P f Q \<Longrightarrow> P tr \<Longrightarrow> f (st, tr) = (r, (st1, tr1)) \<Longrightarrow> Q r tr1"
  unfolding ensures_def by blast

lemma ensures_consequence:
  "ensures P' f Q' \<Longrightarrow> (\<And>log. P log \<Longrightarrow> P' log) \<Longrightarrow> (\<And>r log. Q' r log \<Longrightarrow> Q r log) \<Longrightarrow> ensures P f Q"
  unfolding ensures_def by blast

lemma ensures_false: "(\<And>log. P log \<Longrightarrow> False) \<Longrightarrow> ensures P f Q"
  unfolding ensures_def by blast

lemma ensures_fact: "(b \<Longrightarrow> ensures P f Q) \<Longrightarrow> ensures (\<lambda>log. P log \<and> b) f Q"
  unfolding ensures_def by blast

lemma ensures_ret: "(\<And>log. P log \<Longrightarrow> Q (Inr v) log) \<Longrightarrow> ensures P (ret v) Q"
  by (simp add: ensures_def ret_def)

lemma ensures_attempt:
  assumes "\<And>e log. P log \<Longrightarrow> Q (Inl (Python e)) log" and "\<And>v log. r = Inr v \<Longrightarrow> P log \<Longrightarrow> Q (Inr v) log"
  shows "ensures P (attempt r) Q"
  using assms by (auto simp: ensures_def attempt_def split: sum.splits)

lemma ensures_bind:
  assumes "ensures P f R" and "\<And>e log. R (Inl e) log \<Longrightarrow> Q (Inl e) log" and "\<And>v. ensures (R (Inr v)) (g v) Q"
  shows "ensures P (bind_act f g) Q"
proof (unfold ensures_def, intro allI impI)
  fix st log r st1 log1
  assume p: "P log" and run: "bind_act f g (st, log) = (r, (st1, log1))"
  obtain a st2 log2 where one: "f (st, log) = (a, (st2, log2))" by (cases "f (st, log)") auto
  with assms(1) p have mid: "R a log2" unfolding ensures_def by blast
  show "Q r log1"
  proof (cases a)
    case (Inl e)
    with run one mid assms(2) show ?thesis by (auto simp: bind_act_def)
  next
    case (Inr v)
    then have "g v (st2, log2) = (r, (st1, log1))" using run one by (simp add: bind_act_def)
    then show ?thesis using assms(3) mid Inr unfolding ensures_def by blast
  qed
qed

lemma ensures_attempt_bind:
  \<comment> \<open>a pure step that may raise keeps the assertion\<close>
  assumes "\<And>e log. P log \<Longrightarrow> Q (Inl (Python e)) log" and "\<And>v. r = Inr v \<Longrightarrow> ensures P (g v) Q"
  shows "ensures P (bind_act (attempt r) g) Q"
proof (cases r)
  case (Inl e)
  then show ?thesis using assms(1) by (simp add: ensures_def bind_act_def attempt_def)
next
  case (Inr v)
  then show ?thesis using assms(2) by (simp add: ensures_def bind_act_def attempt_def)
qed

lemma ensures_recording:
  "(\<And>r log. P log \<Longrightarrow> Q r (log @ ev r)) \<Longrightarrow> ensures P (recording f ev) Q"
  by (auto simp: ensures_def recording_def split: prod.splits)

subsection \<open>Steps without a record\<close>

definition silent :: "('st \<times> event list, 'a) act \<Rightarrow> bool" where
  "silent f \<longleftrightarrow> (\<forall>st log r st1 log1. f (st, log) = (r, (st1, log1)) \<longrightarrow> log1 = log)"

lemma ensures_silent: "silent f \<Longrightarrow> (\<And>r log. P log \<Longrightarrow> Q r log) \<Longrightarrow> ensures P f Q"
  unfolding ensures_def silent_def by blast

lemma ensures_silent_bind:
  assumes "silent f" and "\<And>e log. P log \<Longrightarrow> Q (Inl e) log" and "\<And>v. ensures P (g v) Q"
  shows "ensures P (bind_act f g) Q"
  by (rule ensures_bind [where R = "\<lambda>_. P"]) (use assms in \<open>auto intro: ensures_silent\<close>)

lemma silent_recording [simp]: "silent (recording f (\<lambda>_. []))"
  by (auto simp: silent_def recording_def split: prod.splits)

lemma silent_ret [simp]: "silent (ret v)"
  by (simp add: silent_def ret_def)

lemma silent_attempt [simp]: "silent (attempt r)"
  by (simp add: silent_def attempt_def split: sum.split)

lemma silent_bind [simp]:
  assumes "silent f" and "\<And>v. silent (g v)"
  shows "silent (bind_act f g)"
  unfolding silent_def
proof (intro allI impI)
  fix st log r st1 log1
  assume run: "bind_act f g (st, log) = (r, (st1, log1))"
  obtain a st2 log2 where one: "f (st, log) = (a, (st2, log2))" by (cases "f (st, log)") auto
  then have "log2 = log" using assms(1) unfolding silent_def by blast
  then show "log1 = log"
    using run one assms(2) unfolding silent_def bind_act_def by (cases a) auto
qed

lemma silent_cached_runtime [simp]: "silent (cached_runtime (traced H) task)"
  by (simp add: cached_runtime_def traced_def traced_cache_def split: option.split)

lemma silent_cached_memory [simp]: "silent (cached_memory (traced H) task)"
  by (simp add: cached_memory_def traced_def traced_cache_def split: option.split)

lemma silent_put_cached [simp]: "silent (put_cached (traced H) task runtime memory)"
  by (simp add: put_cached_def traced_def traced_cache_def split: option.split)

lemma silent_create [simp]: "silent (create_paired_tasks (traced H) task)"
  by (simp add: create_paired_tasks_def Let_def)

lemma silent_seconds [simp]: "silent (cached_reference_seconds B (traced H) task)"
  by (simp add: cached_reference_seconds_def)

lemma silent_with_runtime [simp]: "silent (with_reference_runtime B (traced H) task payload)"
  by (simp add: with_reference_runtime_def)

lemma silent_finish [simp]: "silent (finish_request B (traced H) task ker ref)"
  by (simp add: finish_request_def)

lemma silent_forgive:
  assumes "silent f"
  shows "silent (forgive f)"
  unfolding silent_def
proof (intro allI impI)
  fix st log r st1 log1
  assume run: "forgive f (st, log) = (r, (st1, log1))"
  obtain a st2 log2 where one: "f (st, log) = (a, (st2, log2))" by (cases "f (st, log)") auto
  then have "log2 = log" using assms unfolding silent_def by blast
  then show "log1 = log"
    using run one unfolding forgive_def by (auto split: sum.splits stop.splits)
qed

lemma silent_select [simp]: "silent (select_split_target_gpu (traced H) task)"
  by (auto simp: select_split_target_gpu_def traced_def Let_def intro!: silent_forgive split: option.split list.split)

subsection \<open>The three calls\<close>

lemma ensures_asked:
  assumes "\<And>r log. P log \<Longrightarrow> truthy base \<Longrightarrow> Q r (log @ [Asked (py_str base) r])"
    and "\<And>log. P log \<Longrightarrow> \<not> truthy base \<Longrightarrow> Q (Inr False) log"
  shows "ensures P (is_cancelled (traced H) base) Q"
  using assms
  by (auto simp: is_cancelled_def traced_def intro!: ensures_recording ensures_ret)

lemma ensures_run_child:
  assumes "\<And>e log. P log \<Longrightarrow> Q (Inl e) (log @ [Sent spec (Inl e)])"
    and "\<And>child e log. P log \<Longrightarrow> Q (Inl e) (log @ [Sent spec (Inr child), Heard child (str_or_empty (dget ''task_id'' task)) (Inl e)])"
    and "\<And>child a log. P log \<Longrightarrow>
      Q (Inr (child, a)) (log @ [Sent spec (Inr child), Heard child (str_or_empty (dget ''task_id'' task)) (Inr a)])"
  shows "ensures P (run_child (traced H) task spec) Q"
  unfolding run_child_def
proof (rule ensures_bind [where R = "\<lambda>r log. \<exists>log0. P log0 \<and> log = log0 @ [Sent spec r]"], goal_cases)
  case 1
  show ?case unfolding traced_def by (auto intro!: ensures_recording)
next
  case (2 e log)
  then show ?case using assms(1) by auto
next
  case (3 child)
  show ?case
  proof (rule ensures_bind [where R = "\<lambda>r log. \<exists>log0. P log0 \<and>
      log = log0 @ [Sent spec (Inr child), Heard child (str_or_empty (dget ''task_id'' task)) r]"], goal_cases)
    case 1
    show ?case unfolding traced_def by (auto intro!: ensures_recording)
  next
    case (2 e log)
    then show ?case using assms(2) by auto
  next
    case (3 a)
    show ?case using assms(3) by (auto intro!: ensures_ret)
  qed
qed

text \<open>Assertions that later calls cannot undo.\<close>

definition stable :: "(event list \<Rightarrow> bool) \<Rightarrow> bool" where
  "stable P \<longleftrightarrow> (\<forall>tr ev. P tr \<longrightarrow> P (tr @ ev))"

lemma stable_rules [simp, intro]:
  "stable (\<lambda>tr. True)" "stable (\<lambda>tr. e \<in> set tr)"
  "stable P \<Longrightarrow> stable Q \<Longrightarrow> stable (\<lambda>tr. P tr \<and> Q tr)"
  by (auto simp: stable_def)

lemma ensures_asked_bind:
  assumes "stable P" and "\<And>e tr. Q (Inl e) tr" and "\<And>v. ensures P (g v) Q"
  shows "ensures P (bind_act (is_cancelled (traced H) base) g) Q"
  by (rule ensures_bind [where R = "\<lambda>_. P"]) (use assms in \<open>auto simp: stable_def intro!: ensures_asked\<close>)

lemma ensures_child_bind:
  assumes "stable P" and "\<And>e tr. Q (Inl e) tr"
    and "\<And>child answer. ensures (\<lambda>tr. P tr \<and> Sent spec (Inr child) \<in> set tr \<and>
      Heard child (str_or_empty (dget ''task_id'' task)) (Inr answer) \<in> set tr) (g (child, answer)) Q"
  shows "ensures P (bind_act (run_child (traced H) task spec) g) Q"
proof (rule ensures_bind [where R = "\<lambda>r tr. \<forall>child answer. r = Inr (child, answer) \<longrightarrow>
    P tr \<and> Sent spec (Inr child) \<in> set tr \<and> Heard child (str_or_empty (dget ''task_id'' task)) (Inr answer) \<in> set tr"],
    goal_cases)
  case 1
  show ?case using assms(1) by (auto simp: stable_def intro!: ensures_run_child)
next
  case (2 e tr)
  then show ?case using assms(2) by blast
next
  case (3 v)
  then show ?case using assms(3) by (cases v) auto
qed

lemma ensures_if: "(b \<Longrightarrow> ensures P f Q) \<Longrightarrow> (\<not> b \<Longrightarrow> ensures P g Q) \<Longrightarrow> ensures P (if b then f else g) Q"
  by simp

lemma ensures_option:
  "(v = None \<Longrightarrow> ensures P f Q) \<Longrightarrow> (\<And>x. v = Some x \<Longrightarrow> ensures P (g x) Q) \<Longrightarrow>
   ensures P (case v of None \<Rightarrow> f | Some x \<Rightarrow> g x) Q"
  by (cases v) auto

lemma ensures_pre: "ensures P' f Q \<Longrightarrow> (\<And>tr. P tr \<Longrightarrow> P' tr) \<Longrightarrow> ensures P f Q"
  unfolding ensures_def by blast

subsection \<open>Recording changes nothing\<close>

definition shadows :: "('st \<times> event list, 'a) act \<Rightarrow> ('st, 'a) act \<Rightarrow> bool" where
  "shadows f' f \<longleftrightarrow> (\<forall>st tr. fst (f' (st, tr)) = fst (f st) \<and> fst (snd (f' (st, tr))) = snd (f st))"

lemma shadows_pure: "shadows (ret v) (ret v)" "shadows (attempt r) (attempt r)"
  by (simp_all add: shadows_def ret_def attempt_def split: sum.split)

lemma shadows_recording: "shadows (recording f ev) f"
  by (simp add: shadows_def recording_def split: prod.split)

lemma shadows_bind:
  assumes "shadows f' f" and "\<And>v. shadows (g' v) (g v)"
  shows "shadows (bind_act f' g') (bind_act f g)"
  unfolding shadows_def
proof (intro allI)
  fix st tr
  obtain a st1 tr1 where one: "f' (st, tr) = (a, (st1, tr1))" by (cases "f' (st, tr)") auto
  then have two: "f st = (a, st1)" using assms(1) unfolding shadows_def by (metis fst_conv snd_conv prod.collapse)
  show "fst (bind_act f' g' (st, tr)) = fst (bind_act f g st) \<and>
      fst (snd (bind_act f' g' (st, tr))) = snd (bind_act f g st)"
    using one two assms(2) unfolding bind_act_def shadows_def by (cases a) auto
qed

lemma shadows_forgive:
  assumes "shadows f' f"
  shows "shadows (forgive f') (forgive f)"
  unfolding shadows_def
proof (intro allI)
  fix st tr
  obtain a st1 tr1 where one: "f' (st, tr) = (a, (st1, tr1))" by (cases "f' (st, tr)") auto
  then have two: "f st = (a, st1)" using assms unfolding shadows_def by (metis fst_conv snd_conv prod.collapse)
  show "fst (forgive f' (st, tr)) = fst (forgive f st) \<and> fst (snd (forgive f' (st, tr))) = snd (forgive f st)"
    using one two by (auto simp: forgive_def split: sum.split stop.split)
qed

lemma shadows_calls:
  "shadows (is_cancelled (traced H) x) (is_cancelled H x)"
  "shadows (run_child (traced H) task spec) (run_child H task spec)"
  by (auto simp: is_cancelled_def run_child_def traced_def intro!: shadows_pure shadows_recording shadows_bind)

lemma shadows_cache:
  "shadows (cached_runtime (traced H) task) (cached_runtime H task)"
  "shadows (cached_memory (traced H) task) (cached_memory H task)"
  "shadows (put_cached (traced H) task r mem) (put_cached H task r mem)"
  by (auto simp: cached_runtime_def cached_memory_def put_cached_def traced_def traced_cache_def
      intro!: shadows_pure shadows_recording split: option.split)

lemmas shadows_rules = shadows_pure shadows_bind shadows_calls shadows_cache

lemma shadows_select: "shadows (select_split_target_gpu (traced H) task) (select_split_target_gpu H task)"
  by (auto simp: select_split_target_gpu_def traced_def Let_def split: option.split list.split
      intro!: shadows_rules shadows_forgive shadows_recording)

lemma shadows_runtime: "shadows (with_reference_runtime B (traced H) task p) (with_reference_runtime B H task p)"
  by (auto simp: with_reference_runtime_def cached_reference_seconds_def intro!: shadows_rules)

lemma shadows_kernel: "shadows (run_kernel B (traced H) task kernel_task) (run_kernel B H task kernel_task)"
  by (auto simp: run_kernel_def run_single_def run_split_kernel_task_def after_compile_def run_execute_def Let_def
      intro!: shadows_rules shadows_select shadows_runtime split: option.split list.split json.split)

lemma shadows_reference:
  "shadows (reference_stage B (traced H) task ref_task ker) (reference_stage B H task ref_task ker)"
  by (auto simp: reference_stage_def time_reference_def finish_request_def Let_def intro!: shadows_rules
      split: option.split list.split)

text \<open>So what holds of every recorded run holds of the controller itself.\<close>

lemma recorded_run:
  assumes "handle_request B H input_data st = (out, st1)"
  obtains tr where "handle_request B (traced H) input_data (st, []) = (out, (st1, tr))"
proof -
  have "shadows (handle_request B (traced H) input_data) (handle_request B H input_data)"
    by (auto simp: handle_request_def create_paired_tasks_def Let_def intro!: shadows_rules shadows_kernel
        shadows_reference split: sum.split)
  with assms that show thesis unfolding shadows_def by (metis fst_conv snd_conv prod.collapse)
qed

end
