(* ===== verification/KernelBenchContracts.thy ===== *)
theory KernelBenchContracts
  imports KernelBenchTrace
begin

section \<open>What the KernelBench controller guarantees\<close>

subsection \<open>The children of a request\<close>

fun sent_kind :: "event \<Rightarrow> str list" where
  "sent_kind (Sent spec r) = [ts_kind spec]"
| "sent_kind _ = []"

definition sent_kinds :: "event list \<Rightarrow> str list" where
  "sent_kinds tr = concat (map sent_kind tr)"

lemma sent_kinds_simps [simp]:
  "sent_kinds [] = []" "sent_kinds (tr @ tr') = sent_kinds tr @ sent_kinds tr'"
  "sent_kinds (e # tr) = sent_kind e @ sent_kinds tr"
  by (simp_all add: sent_kinds_def)

definition plan :: "dict \<Rightarrow> str list" where
  "plan task =
    (if is_compile_only task then [''kernelbench.kernel'']
     else if truthy (dget ''split_compile_and_execute'' task)
     then [''kernelbench.kernel.compile'', ''kernelbench.kernel.execute'', ''kernelbench.ref'']
     else [''kernelbench.kernel'', ''kernelbench.ref''])"

definition emits :: "str list \<Rightarrow> ('st \<times> event list, 'a) act \<Rightarrow> bool" where
  "emits ks f \<longleftrightarrow> (\<forall>k0. ensures (\<lambda>tr. subseq (sent_kinds tr) k0) f (\<lambda>_ tr. subseq (sent_kinds tr) (k0 @ ks)))"

lemma emits_silent: "silent f \<Longrightarrow> emits ks f"
  by (auto simp: emits_def intro!: ensures_silent)

lemma emits_leaf: "emits ks (ret v)" "emits ks (attempt r)" "emits ks (finish_request B (traced H) task ker ref)"
  by (simp_all add: emits_silent)

lemma emits_bind:
  assumes "emits ks f" and "\<And>v. emits ks' (g v)"
  shows "emits (ks @ ks') (bind_act f g)"
  unfolding emits_def
proof
  fix k0
  show "ensures (\<lambda>tr. subseq (sent_kinds tr) k0) (bind_act f g) (\<lambda>_ tr. subseq (sent_kinds tr) (k0 @ ks @ ks'))"
    by (rule ensures_bind [where R = "\<lambda>_ tr. subseq (sent_kinds tr) (k0 @ ks)"])
      (use assms in \<open>auto simp: emits_def append_assoc [symmetric] simp del: append_assoc\<close>)
qed

lemma emits_silent_bind: "silent f \<Longrightarrow> (\<And>v. emits ks (g v)) \<Longrightarrow> emits ks (bind_act f g)"
  using emits_bind [OF emits_silent, of f ks g "[]"] by simp

lemma emits_attempt_bind: "(\<And>v. r = Inr v \<Longrightarrow> emits ks (g v)) \<Longrightarrow> emits ks (bind_act (attempt r) g)"
  unfolding emits_def by (auto intro!: ensures_attempt_bind)

lemma emits_run_child: "emits [ts_kind spec] (run_child (traced H) task spec)"
  by (auto simp: emits_def intro!: ensures_run_child list_emb_append_mono)

lemma emits_asked: "emits ks (is_cancelled (traced H) base)"
  by (auto simp: emits_def intro!: ensures_asked)

lemma emits_asked_bind: "(\<And>v. emits ks (g v)) \<Longrightarrow> emits ks (bind_act (is_cancelled (traced H) base) g)"
  using emits_bind [OF emits_asked, of ks g "[]"] by simp

lemma emits_run_child_bind:
  "(\<And>child answer. emits ks (g (child, answer))) \<Longrightarrow> emits (ts_kind spec # ks) (bind_act (run_child (traced H) task spec) g)"
  using emits_bind [OF emits_run_child, where g = g and ks' = ks] by (metis append_Cons append_Nil prod.collapse)

lemma child_kind [simp]: "ts_kind (child_spec task kind payload extra) = kind"
  by (simp add: child_spec_def)

lemma emits_child_bind:
  "(\<And>child answer. emits ks (g (child, answer))) \<Longrightarrow>
   emits (kind # ks) (bind_act (run_child (traced H) task (child_spec task kind payload extra)) g)"
  using emits_run_child_bind [of ks g "child_spec task kind payload extra"] by simp

lemma emits_time_reference: "emits [''kernelbench.ref''] (time_reference B (traced H) task ker r)"
  unfolding time_reference_def
  by (auto intro!: emits_asked_bind emits_child_bind emits_attempt_bind emits_leaf simp: Let_def split: option.split list.split)

lemma emits_reference_stage: "emits [''kernelbench.ref''] (reference_stage B (traced H) task ref_task ker)"
  unfolding reference_stage_def
  by (auto intro!: emits_silent_bind emits_time_reference emits_leaf split: option.split)

lemma emits_execute: "emits [''kernelbench.kernel.execute'']
    (run_execute B (traced H) task kernel_task worker cid artifact node host)"
  unfolding run_execute_def
  by (auto intro!: emits_silent_bind emits_asked_bind emits_child_bind emits_leaf split: option.split list.split)

lemma emits_split: "emits [''kernelbench.kernel.compile'', ''kernelbench.kernel.execute'']
    (run_split_kernel_task B (traced H) task kernel_task)"
  unfolding run_split_kernel_task_def after_compile_def
  by (auto intro!: emits_silent_bind emits_child_bind emits_execute emits_leaf simp: Let_def
      split: option.split list.split json.split)

lemma emits_single: "emits [''kernelbench.kernel''] (run_single B (traced H) task kernel_task)"
  unfolding run_single_def by (auto intro!: emits_silent_bind emits_child_bind emits_leaf)

definition kernel_plan :: "dict \<Rightarrow> str list" where
  "kernel_plan task = (if truthy (dget ''split_compile_and_execute'' task) \<and> \<not> is_compile_only task
     then [''kernelbench.kernel.compile'', ''kernelbench.kernel.execute''] else [''kernelbench.kernel''])"

lemma emits_kernel: "emits (kernel_plan task) (run_kernel B (traced H) task kernel_task)"
  using emits_bind [OF emits_split emits_leaf(1), of "[]"]
  by (auto simp: run_kernel_def kernel_plan_def intro: emits_single)

lemma plan_kernel: "plan task = kernel_plan task @ (if is_compile_only task then [] else [''kernelbench.ref''])"
  by (simp add: plan_def kernel_plan_def)

lemma emits_kernel_bind:
  "(\<And>v. emits (if is_compile_only task then [] else [''kernelbench.ref'']) (g v)) \<Longrightarrow>
   emits (plan task) (bind_act (run_kernel B (traced H) task kernel_task) g)"
  unfolding plan_kernel by (rule emits_bind [OF emits_kernel])

lemma emits_handle:
  assumes "parse_task input_data = Inr task"
  shows "emits (plan task) (handle_request B (traced H) input_data)"
  unfolding handle_request_def
  by (auto simp: assms intro!: emits_attempt_bind emits_asked_bind emits_silent_bind emits_kernel_bind
      emits_reference_stage emits_leaf split: sum.split)

lemma subseq_length_distinct: "subseq xs ys \<Longrightarrow> distinct ys \<Longrightarrow> length xs \<le> length ys \<and> distinct xs"
  by (induction rule: list_emb.induct) (auto dest: list_emb_set)

text \<open>
  C24: a request has a bounded plan. Whatever the scheduler and the cache answer, the children that a
  request submits are some of its plan, in the plan's order: the kernel alone when only compiling, the
  compile stage, the execute stage and the reference timing in a split run, and the kernel and the
  reference timing otherwise. So each kind is submitted at most once and there are at most three.
\<close>

theorem children_bounded:
  assumes "parse_task input_data = Inr task"
    and "handle_request B (traced H) input_data (st, []) = (out, (st1, tr))"
  shows "subseq (sent_kinds tr) (plan task) \<and> distinct (sent_kinds tr) \<and>
    length (sent_kinds tr) \<le> (if is_compile_only task then 1
      else if truthy (dget ''split_compile_and_execute'' task) then 3 else 2)"
proof -
  have sub: "subseq (sent_kinds tr) (plan task)"
    using ensuresD [OF emits_handle [OF assms(1), unfolded emits_def, rule_format, of "[]"] _ assms(2)] by simp
  have "distinct (plan task)" and "length (plan task) = (if is_compile_only task then 1
      else if truthy (dget ''split_compile_and_execute'' task) then 3 else 2)"
    by (simp_all add: plan_def)
  with subseq_length_distinct [OF sub] sub show ?thesis by simp
qed

subsection \<open>Fields of the results\<close>

definition hidden_fields :: "str list" where
  "hidden_fields = [''runtime_sanitizer'', ''metadata'', ''reference_memory'', ''kernel_memory'',
     ''memory_comparison'', ''memory'']"

lemma public_dget:
  "evaluation_result_to_dict F D r = Inr out \<Longrightarrow> f \<notin> List.set hidden_fields \<Longrightarrow> dget f out = dget f r"
  using public_field [of F D r out f] by (simp add: hidden_fields_def)

lemma public_dhas:
  "evaluation_result_to_dict F D r = Inr out \<Longrightarrow> f \<notin> List.set hidden_fields \<Longrightarrow> dhas f out = dhas f r"
  by (auto simp: evaluation_result_to_dict_def Let_def bind_result_Inr hidden_fields_def split: if_splits)

lemma publish_dget:
  assumes "publish B kwargs = Inr out" and "map_of kwargs f = Some v"
    and "f \<in> fst ` List.set evaluation_result_fields" and "f \<notin> List.set hidden_fields"
  shows "dget f out = v"
proof -
  obtain r where con: "construct evaluation_result_fields kwargs = Inr r"
    and pub: "evaluation_result_to_dict (b_float B) (b_device B) r = Inr out"
    using assms(1) by (auto simp: publish_def bind_result_Inr)
  show ?thesis using evaluation_field [OF con assms(3,2)] public_dget [OF pub assms(4)] by simp
qed

lemma construct_dhas: "construct fs kwargs = Inr r \<Longrightarrow> dhas f r \<longleftrightarrow> f \<in> fst ` List.set fs"
  by (force simp: construct_def dhas_def map_of_eq_None_iff split: if_splits)

lemma publish_dhas:
  assumes "publish B kwargs = Inr out" and "f \<notin> List.set hidden_fields"
  shows "dhas f out \<longleftrightarrow> f \<in> fst ` List.set evaluation_result_fields"
proof -
  obtain r where con: "construct evaluation_result_fields kwargs = Inr r"
    and pub: "evaluation_result_to_dict (b_float B) (b_device B) r = Inr out"
    using assms(1) by (auto simp: publish_def bind_result_Inr)
  show ?thesis using public_dhas [OF pub assms(2)] construct_dhas [OF con] by simp
qed

lemma failure_published:
  assumes "publish B (failure_fields task_id message status code) = Inr r"
  shows "dget ''compiled'' r = JBool False" and "dget ''correctness'' r = JBool False"
    and "dget ''speedup'' r = JFloat ''0.0''" and "dget ''error_message'' r = message"
    and "dhas ''compiled'' r" and "dhas ''error_message'' r" and "\<not> dhas ''base_task_id'' r"
proof -
  note get = publish_dget [OF assms]
  show "dget ''compiled'' r = JBool False" "dget ''correctness'' r = JBool False" "dget ''speedup'' r = JFloat ''0.0''"
    "dget ''error_message'' r = message"
    by (rule get; simp add: failure_fields_def evaluation_result_fields_def hidden_fields_def)+
  show "dhas ''compiled'' r" "dhas ''error_message'' r" "\<not> dhas ''base_task_id'' r"
    using publish_dhas [OF assms] by (simp_all add: evaluation_result_fields_def hidden_fields_def)
qed

lemmas failed_fields = failure_published [where B = B and task_id = task_id and message = message and code = code
  and status = "JStr (status_value (task_status_from_result_payload
    [(''status'', JStr ''failed''), (''error_code'', code)]))" for B task_id message code, folded failed_result_def]

lemma kernel_only_fields:
  assumes "kernel_only_result B task ker = Inr r"
  shows "dget ''compiled'' r = dget ''compiled'' ker" and "dget ''correctness'' r = dget ''correctness'' ker"
    and "dget ''kernel_runtime'' r = dget ''kernel_runtime'' ker" and "dget ''speedup'' r = JFloat ''0.0''"
proof -
  obtain metadata where pub: "publish B
      ([(''task_id'', dget ''task_id'' task), (''reference_runtime'', JFloat ''-1.0''), (''speedup'', JFloat ''0.0''),
        (''metadata'', metadata)] @
       copy_fields [''compiled'', ''correctness'', ''decoy_kernel'', ''kernel_runtime'', ''kernel_memory'',
         ''runtime_sanitizer'', ''status'', ''error_message'', ''error_code''] ker) = Inr r"
    using assms by (auto simp: kernel_only_result_def bind_result_Inr)
  note get = publish_dget [OF this]
  show "dget ''compiled'' r = dget ''compiled'' ker" "dget ''correctness'' r = dget ''correctness'' ker"
    "dget ''kernel_runtime'' r = dget ''kernel_runtime'' ker" "dget ''speedup'' r = JFloat ''0.0''"
    by (rule get; simp add: copy_fields_def evaluation_result_fields_def hidden_fields_def)+
qed

lemma kernel_field:
  assumes "from_dict kernel_result_fields result = Inr ker" and "dhas f result" and "f \<in> fst ` List.set kernel_result_fields"
  shows "dget f ker = dget f result"
proof -
  obtain dflt where "(f, dflt) \<in> List.set kernel_result_fields" using assms(3) by force
  from from_dict_get [OF assms(1) _ this] assms(2) show ?thesis
    by (auto simp: kernel_result_fields_def dget_def dhas_def)
qed

lemma judged_kernel:
  assumes "judge_kernel B task answer = Inr (Inr ker)"
  obtains result where "answer = Some result" and "dhas ''base_task_id'' result"
    and "\<And>f. f \<in> List.set required_kernel_fields \<Longrightarrow> dget f ker = dget f result"
proof -
  obtain result where ans: "answer = Some result" and has: "\<forall>f \<in> List.set required_kernel_fields. dhas f result"
    and read: "from_dict kernel_result_fields result = Inr ker"
    using assms by (auto simp: judge_kernel_def Let_def bind_result_Inr split: option.splits if_splits)
  have "f \<in> List.set required_kernel_fields \<Longrightarrow> f \<in> fst ` List.set kernel_result_fields" for f
    by (auto simp: required_kernel_fields_def kernel_result_fields_def)
  then show thesis
    using that [OF ans] has kernel_field [OF read] by (auto simp: required_kernel_fields_def)
qed

lemma judged_final:
  assumes "judge_kernel B task answer = Inr (Inl r)"
  shows "\<exists>message code. failed_result B (dget ''task_id'' task) message code = Inr r"
  using assms by (auto simp: judge_kernel_def Let_def bind_result_Inr split: option.splits if_splits)

text \<open>A failure the split path reports in place of a kernel result has no \<open>base_task_id\<close>, so the check of the
  required fields replaces its reason.\<close>

lemma publish_metadata:
  assumes "publish B kwargs = Inr out"
  shows "dhas ''metadata'' out"
  using assms by (auto simp: publish_def evaluation_result_to_dict_def Let_def bind_result_Inr)

lemma split_failure_masked:
  assumes "failed_result B task_id message code = Inr d"
  shows "judge_kernel B task (Some d) = bind_result (failed_result B (dget ''task_id'' task)
    (JStr (''kernel result missing required fields: ['' @ comma_list [''base_task_id''] @ '']'')) JNull) (\<lambda>r. Inr (Inl r))"
proof -
  note pub = assms [unfolded failed_result_def]
  have has: "dhas ''compiled'' d" "dhas ''correctness'' d" "dhas ''decoy_kernel'' d" "dhas ''kernel_runtime'' d"
      "dhas ''task_id'' d" "\<not> dhas ''base_task_id'' d"
    by (simp_all add: publish_dhas [OF pub] evaluation_result_fields_def hidden_fields_def)
  have "filter (\<lambda>f. \<not> dhas f d) required_kernel_fields = [''base_task_id'']"
    by (simp add: required_kernel_fields_def has publish_metadata [OF pub])
  moreover have "d \<noteq> []" using has(1) by (auto simp: dhas_def)
  moreover have "''base_task_id'' \<in> List.set required_kernel_fields" by (simp add: required_kernel_fields_def)
  then have "\<exists>f \<in> List.set required_kernel_fields. \<not> dhas f d" using has(6) by blast
  ultimately show ?thesis using has(1) by (simp only: judge_kernel_def Let_def option.case) simp
qed

lemma mark_split_get [simp]: "f \<noteq> ''metadata'' \<Longrightarrow> dget f (mark_split metadata result) = dget f result"
  by (simp add: mark_split_def)

end
