(* ===== verification/KernelBenchSafety.thy ===== *)
theory KernelBenchSafety
  imports KernelBenchContracts
begin

section \<open>Verdicts rest on evidence\<close>

text \<open>A verdict is evidenced when a kernel child reported it: the controller submitted the child and
  heard a result with the same \<open>compiled\<close>, \<open>correctness\<close> and runtime.\<close>

definition reported :: "event list \<Rightarrow> dict \<Rightarrow> bool" where
  "reported tr r \<longleftrightarrow> (\<exists>spec child who result.
     Sent spec (Inr child) \<in> List.set tr \<and> ts_kind spec \<noteq> ''kernelbench.ref'' \<and>
     Heard child who (Inr (Some result)) \<in> List.set tr \<and>
     (\<forall>f \<in> {''compiled'', ''correctness'', ''kernel_runtime''}. dget f r = dget f result))"

definition positive_verdict :: "dict \<Rightarrow> bool" where
  "positive_verdict r \<longleftrightarrow> truthy (dget ''compiled'' r) \<or> truthy (dget ''correctness'' r)"

definition evidenced :: "event list \<Rightarrow> dict \<Rightarrow> bool" where
  "evidenced tr r \<longleftrightarrow> (positive_verdict r \<longrightarrow> reported tr r)"

definition speedup_earned :: "dict \<Rightarrow> bool" where
  "speedup_earned r \<longleftrightarrow> (dget ''speedup'' r \<noteq> JFloat ''0.0'' \<longrightarrow>
     truthy (dget ''compiled'' r) \<and> truthy (dget ''correctness'' r) \<and>
     py_positive (dget ''kernel_runtime'' r) = Inr True \<and> py_positive (dget ''reference_runtime'' r) = Inr True)"

definition sound_answer :: "stop + dict \<Rightarrow> event list \<Rightarrow> bool" where
  "sound_answer r tr \<longleftrightarrow> (\<forall>res. r = Inr res \<longrightarrow> evidenced tr res \<and> speedup_earned res)"

lemma sound_stop [simp]: "sound_answer (Inl e) tr"
  by (simp add: sound_answer_def)

lemma evidenced_append: "evidenced tr r \<Longrightarrow> evidenced (tr @ tr') r"
  unfolding evidenced_def reported_def by fastforce

lemma evidenced_stable [simp]: "stable (\<lambda>tr. evidenced tr r)"
  by (simp add: stable_def evidenced_append)

lemma evidenced_same:
  assumes "evidenced tr r" and "\<And>f. f \<in> {''compiled'', ''correctness'', ''kernel_runtime''} \<Longrightarrow> dget f r' = dget f r"
  shows "evidenced tr r'"
  using assms unfolding evidenced_def reported_def positive_verdict_def by simp

lemma sound_failure:
  assumes "publish B (failure_fields task_id message status code) = Inr r"
  shows "sound_answer (Inr r) tr"
  using failure_published(1-3) [OF assms] by (simp add: sound_answer_def evidenced_def positive_verdict_def speedup_earned_def)

lemma sound_failed:
  "failed_result B task_id message code = Inr r \<Longrightarrow> sound_answer (Inr r) tr"
  "cancelled_result B task_id = Inr r \<Longrightarrow> sound_answer (Inr r) tr"
  "validation_failed_result B task_id text = Inr r \<Longrightarrow> sound_answer (Inr r) tr"
  by (simp_all add: failed_result_def cancelled_result_def validation_failed_result_def sound_failure)

lemma sound_kernel_only:
  assumes "kernel_only_result B task ker = Inr r" and "evidenced tr ker"
  shows "sound_answer (Inr r) tr"
proof -
  note k = kernel_only_fields [OF assms(1)]
  have "evidenced tr r" by (rule evidenced_same [OF assms(2)]) (use k in auto)
  then show ?thesis using k(4) by (simp add: sound_answer_def speedup_earned_def)
qed

lemma sound_combined:
  assumes "bind_result (combine_results B ref ker threshold) (evaluation_result_to_dict (b_float B) (b_device B)) = Inr r"
    and "evidenced tr ker" and "truthy (dget ''compiled'' ker)"
  shows "sound_answer (Inr r) tr"
proof -
  obtain c where com: "from_paired_results (b_float B) (dget ''base_task_id'' ref) ref ker threshold = Inr c"
    and pub: "evaluation_result_to_dict (b_float B) (b_device B) c = Inr r"
    using assms(1) by (auto simp: bind_result_Inr combine_results_def split: if_splits)
  have get: "dget f r = dget f c" if "f \<notin> List.set hidden_fields" for f using public_dget [OF pub that] .
  note c = paired_result [OF com]
  have "speedup_earned r"
    using c(1,2,4,5) assms(3) paired_speedup_backed [OF c(3)]
    by (simp add: speedup_earned_def get hidden_fields_def)
  moreover have "evidenced tr r"
    by (rule evidenced_same [OF assms(2)]) (use c in \<open>auto simp: get hidden_fields_def\<close>)
  ultimately show ?thesis by (simp add: sound_answer_def)
qed

subsection \<open>Through the controller\<close>

lemma ensures_sound_attempt:
  "(\<And>v tr. r = Inr v \<Longrightarrow> P tr \<Longrightarrow> sound_answer (Inr v) tr) \<Longrightarrow> ensures P (attempt r) sound_answer"
  by (rule ensures_attempt) simp

lemma sound_finish:
  assumes "truthy (dget ''compiled'' ker)"
  shows "ensures (\<lambda>tr. evidenced tr ker) (finish_request B (traced H) task ker ref) sound_answer"
  unfolding finish_request_def
  by (rule ensures_silent_bind) (auto intro!: ensures_sound_attempt sound_combined assms)

lemma sound_reference:
  assumes "truthy (dget ''compiled'' ker)"
  shows "ensures (\<lambda>tr. evidenced tr ker) (time_reference B (traced H) task ker ref_task) sound_answer"
proof -
  let ?ev = "\<lambda>tr. evidenced tr ker"
  have last: "ensures ?ev (case answer of
      Some (entry # rest) \<Rightarrow>
        let result = entry # rest in
        if dhas ''error_message'' result \<and> \<not> dhas ''reference_runtime'' result
        then attempt (kernel_only_result B task ker)
        else bind_act (attempt (from_dict reference_result_fields result)) (finish_request B (traced H) task ker)
    | _ \<Rightarrow> attempt (kernel_only_result B task ker)) sound_answer" for answer
    by (auto simp: Let_def split: option.split list.split intro!: ensures_sound_attempt ensures_attempt_bind
        sound_kernel_only sound_finish [OF assms])
  show ?thesis
    unfolding time_reference_def
    by (rule ensures_asked_bind ensures_if ensures_child_bind stable_rules evidenced_stable sound_stop
        ensures_sound_attempt sound_failed(2) | assumption | simp only: prod.case
        | rule ensures_pre [OF last], (elim conjE)?, assumption)+
qed

lemma sound_reference_stage:
  assumes "truthy (dget ''compiled'' ker)"
  shows "ensures (\<lambda>tr. evidenced tr ker) (reference_stage B (traced H) task ref_task ker) sound_answer"
  unfolding reference_stage_def
  by (auto split: option.split intro!: sound_reference [OF assms] sound_finish [OF assms] ensures_silent_bind
      ensures_attempt_bind)

definition told :: "stop + dict \<Rightarrow> event list \<Rightarrow> bool" where
  "told r tr \<longleftrightarrow> (\<forall>res. r = Inr res \<longrightarrow> evidenced tr res)"

lemma told_stop [simp]: "told (Inl e) tr"
  by (simp add: told_def)

lemma told_failed:
  "failed_result B task_id message code = Inr r \<Longrightarrow> told (Inr r) tr"
  "cancelled_result B task_id = Inr r \<Longrightarrow> told (Inr r) tr"
  using sound_failed(1,2) by (auto simp: told_def sound_answer_def)

lemma heard_evidence:
  assumes "Sent spec (Inr child) \<in> List.set tr" and "ts_kind spec \<noteq> ''kernelbench.ref''"
    and "Heard child who (Inr (Some result)) \<in> List.set tr"
    and "\<And>f. f \<in> {''compiled'', ''correctness'', ''kernel_runtime''} \<Longrightarrow> dget f r = dget f result"
  shows "evidenced tr r"
  using assms unfolding evidenced_def reported_def by blast

lemma heard_split:
  assumes "Sent (child_spec task kind payload extra) (Inr child) \<in> List.set tr" and "kind \<noteq> ''kernelbench.ref''"
    and "Heard child who (Inr (Some result)) \<in> List.set tr"
  shows "told (Inr (mark_split metadata result)) tr"
  unfolding told_def using assms by (auto intro!: heard_evidence [OF assms(1) _ assms(3)])

lemma ensures_told:
  "ensures P (attempt (failed_result B task_id message code)) told"
  "ensures P (attempt (cancelled_result B task_id)) told"
  "ensures P (ret []) told"
  by (auto intro!: ensures_attempt ensures_ret dest: told_failed)
    (simp add: told_def evidenced_def positive_verdict_def dget_def)

lemma told_execute:
  "ensures (\<lambda>_. True) (run_execute B (traced H) task kernel_task worker cid artifact node host) told"
proof -
  have last: "ensures (\<lambda>tr. True \<and> Sent (child_spec task ''kernelbench.kernel.execute'' payload extra) (Inr child) \<in> List.set tr \<and>
      Heard child who (Inr answer) \<in> List.set tr)
    (case answer of
       None \<Rightarrow> attempt (cancelled_result B x)
     | Some [] \<Rightarrow> ret []
     | Some (r # rs) \<Rightarrow>
         bind_act (attempt (or_dict (dget ''metadata'' (r # rs)))) (\<lambda>metadata. ret (mark_split metadata (r # rs)))) told"
    for payload extra child who answer x
    by (auto split: option.split list.split intro!: ensures_told ensures_attempt_bind ensures_ret heard_split)
  show ?thesis
    unfolding run_execute_def
    by (rule ensures_silent_bind silent_with_runtime ensures_asked_bind ensures_if ensures_child_bind stable_rules told_stop
        ensures_told | assumption | simp only: prod.case | rule last)+
qed

lemma told_split: "ensures (\<lambda>_. True) (run_split_kernel_task B (traced H) task kernel_task) told"
proof -
  have after: "ensures (\<lambda>tr. True \<and> Sent (child_spec task ''kernelbench.kernel.compile'' payload extra) (Inr child) \<in> List.set tr \<and>
      Heard child who (Inr (Some result)) \<in> List.set tr)
    (after_compile B (traced H) task kernel_task worker node host child result) told"
    for payload extra child who result worker node host
    unfolding after_compile_def
    by (auto split: json.split intro!: ensures_attempt_bind ensures_ret heard_split ensures_told ensures_pre [OF told_execute])
  have last: "ensures (\<lambda>tr. True \<and> Sent (child_spec task ''kernelbench.kernel.compile'' payload extra) (Inr child) \<in> List.set tr \<and>
      Heard child who (Inr answer) \<in> List.set tr)
    (case answer of
       None \<Rightarrow> attempt (cancelled_result B x)
     | Some [] \<Rightarrow> attempt (failed_result B x message JNull)
     | Some (r # rs) \<Rightarrow> after_compile B (traced H) task kernel_task worker node host child (r # rs)) told"
    for payload extra child who answer x message worker node host
    using after by (auto split: option.split list.split intro!: ensures_told)
  show ?thesis
    unfolding run_split_kernel_task_def Let_def
    by (rule last ensures_silent_bind silent_select told_stop ensures_told ensures_child_bind stable_rules ensures_option
        | assumption | simp only: prod.case)+
qed

lemma told_kernel:
  "ensures (\<lambda>_. True) (run_kernel B (traced H) task kernel_task)
    (\<lambda>r tr. \<forall>res. r = Inr (Some res) \<longrightarrow> evidenced tr res)"
proof -
  have "ensures (\<lambda>_. True) (bind_act (run_split_kernel_task B (traced H) task kernel_task) (\<lambda>result. ret (Some result)))
      (\<lambda>r tr. \<forall>res. r = Inr (Some res) \<longrightarrow> evidenced tr res)"
    by (rule ensures_bind [OF told_split]) (auto simp: told_def intro!: ensures_ret)
  moreover have "ensures (\<lambda>_. True) (run_single B (traced H) task kernel_task)
      (\<lambda>r tr. \<forall>res. r = Inr (Some res) \<longrightarrow> evidenced tr res)"
    unfolding run_single_def
    by (rule ensures_silent_bind ensures_child_bind stable_rules | simp | simp only: prod.case |
        (rule ensures_ret, auto intro: heard_evidence))+
  ultimately show ?thesis by (simp add: run_kernel_def)
qed

lemma ensures_sound:
  "ensures P (attempt (failed_result B task_id message code)) sound_answer"
  "ensures P (attempt (cancelled_result B task_id)) sound_answer"
  "ensures P (attempt (validation_failed_result B task_id text)) sound_answer"
  by (auto intro!: ensures_attempt dest: sound_failed)

lemma sound_judged:
  "ensures (\<lambda>tr. \<forall>res. answer = Some res \<longrightarrow> evidenced tr res)
    (bind_act (attempt (judge_kernel B task answer)) (\<lambda>verdict. case verdict of
       Inl result \<Rightarrow> ret result
     | Inr ker \<Rightarrow>
         if is_compile_only task \<or> \<not> (truthy (dget ''compiled'' ker) \<and> truthy (dget ''correctness'' ker))
         then attempt (kernel_only_result B task ker) else reference_stage B (traced H) task ref_task ker)) sound_answer"
proof (rule ensures_attempt_bind)
  fix verdict
  assume judged: "judge_kernel B task answer = Inr verdict"
  show "ensures (\<lambda>tr. \<forall>res. answer = Some res \<longrightarrow> evidenced tr res) (case verdict of
       Inl result \<Rightarrow> ret result
     | Inr ker \<Rightarrow>
         if is_compile_only task \<or> \<not> (truthy (dget ''compiled'' ker) \<and> truthy (dget ''correctness'' ker))
         then attempt (kernel_only_result B task ker) else reference_stage B (traced H) task ref_task ker) sound_answer"
  proof (cases verdict)
    case (Inl r)
    then show ?thesis using judged judged_final sound_failed(1) by (fastforce intro!: ensures_ret)
  next
    case (Inr ker)
    with judged obtain result where res: "answer = Some result"
      and same: "\<And>f. f \<in> List.set required_kernel_fields \<Longrightarrow> dget f ker = dget f result"
      by (auto elim: judged_kernel)
    have known: "evidenced tr ker" if "evidenced tr result" for tr
      by (rule evidenced_same [OF that]) (auto simp: same required_kernel_fields_def)
    have lift: "ensures (\<lambda>tr. \<forall>res. answer = Some res \<longrightarrow> evidenced tr res) f sound_answer"
      if "ensures (\<lambda>tr. evidenced tr ker) f sound_answer" for f
      by (rule ensures_pre [OF that]) (use res known in blast)
    show ?thesis unfolding Inr sum.case
      by (rule lift, rule ensures_if, rule ensures_sound_attempt, erule sound_kernel_only, assumption,
          rule sound_reference_stage, blast)
  qed
qed simp

lemma sound_handle: "ensures (\<lambda>_. True) (handle_request B (traced H) input_data) sound_answer"
proof -
  have stable: "stable (\<lambda>tr. \<forall>res. answer = Some res \<longrightarrow> evidenced tr res)" for answer
    by (auto simp: stable_def evidenced_append)
  have kernel: "ensures (\<lambda>_. True) (bind_act (run_kernel B (traced H) task kernel_task) (\<lambda>answer.
      bind_act (is_cancelled (traced H) x) (\<lambda>gone. if gone then attempt (cancelled_result B y)
        else bind_act (attempt (judge_kernel B task answer)) (\<lambda>verdict. case verdict of
            Inl result \<Rightarrow> ret result
          | Inr ker \<Rightarrow>
              if is_compile_only task \<or> \<not> (truthy (dget ''compiled'' ker) \<and> truthy (dget ''correctness'' ker))
              then attempt (kernel_only_result B task ker)
              else reference_stage B (traced H) task ref_task ker)))) sound_answer"
    for task kernel_task ref_task x y
    by (rule ensures_bind [OF told_kernel])
      (simp, rule ensures_pre [OF ensures_asked_bind [OF stable sound_stop ensures_if [OF ensures_sound(2) sound_judged]]], blast)
  show ?thesis
    unfolding handle_request_def
    by (rule ensures_attempt_bind ensures_sound ensures_if ensures_asked_bind ensures_silent_bind silent_create
        stable_rules sound_stop kernel | simp only: prod.case split: prod.split | intro allI impI)+
qed

text \<open>
  C10: a verdict rests on evidence. Whatever the scheduler and the cache answer, when the controller
  returns a result that calls the kernel compiled or correct, a kernel child that it submitted
  reported exactly this verdict and runtime; and it grants a speedup other than zero only to a
  kernel that is compiled, correct and of positive runtime, against a positive reference runtime.
\<close>

theorem verdict_evidenced:
  assumes "handle_request B (traced H) input_data (st, []) = (Inr r, (st1, tr))"
  shows "(truthy (dget ''compiled'' r) \<or> truthy (dget ''correctness'' r) \<longrightarrow> reported tr r) \<and>
    (dget ''speedup'' r \<noteq> JFloat ''0.0'' \<longrightarrow>
      truthy (dget ''compiled'' r) \<and> truthy (dget ''correctness'' r) \<and>
      py_positive (dget ''kernel_runtime'' r) = Inr True \<and> py_positive (dget ''reference_runtime'' r) = Inr True)"
proof -
  have "sound_answer (Inr r) tr" using ensuresD [OF sound_handle _ assms] by simp
  then show ?thesis by (auto simp: sound_answer_def evidenced_def positive_verdict_def speedup_earned_def)
qed

end
