(* ===== verification/KernelBenchOrder.thy ===== *)
theory KernelBenchOrder
  imports KernelBenchContracts
begin

section \<open>The order of a request's children\<close>

text \<open>No child is submitted once a cancellation has been observed, and the execute stage of a split
  run only follows a successful compile stage whose artifact it carries, pinned to the node that holds
  the artifact.\<close>

definition calm :: "event list \<Rightarrow> bool" where
  \<comment> \<open>no cancellation observed: no asking answered with yes, no wait ended by it\<close>
  "calm tr \<longleftrightarrow> (\<forall>who. Asked who (Inr True) \<notin> List.set tr) \<and> (\<forall>child who. Heard child who (Inr None) \<notin> List.set tr)"

definition artifact_ready :: "event list \<Rightarrow> task_spec \<Rightarrow> bool" where
  "artifact_ready pre spec \<longleftrightarrow> (\<exists>cspec child who result metadata artifact payload carried node.
     Sent cspec (Inr child) \<in> List.set pre \<and> ts_kind cspec = ''kernelbench.kernel.compile'' \<and>
     Heard child who (Inr (Some result)) \<in> List.set pre \<and> dget ''compiled'' result = JBool True \<and>
     dget ''metadata'' result = JObj metadata \<and> dget ''_internal_compile_artifact'' metadata = JObj artifact \<and>
     ts_payload spec = JObj payload \<and> dget ''compile_artifact'' payload = JObj carried \<and>
     (\<forall>f. f \<notin> {''artifact_node_id'', ''artifact_hostname'', ''target_gpu_worker_id'', ''target_gpu_selection_strategy''} \<longrightarrow>
        dget f carried = dget f artifact) \<and>
     dget ''artifact_node_id'' carried = JStr node \<and> dget ''target_node_id'' payload = JStr node \<and>
     dget ''node_affinity'' payload = JStr ''required'' \<and> dget ''required_resource'' payload = JStr ''gpu'' \<and>
     (truthy (dget ''compile_node_id'' metadata) \<longrightarrow> node = py_str (dget ''compile_node_id'' metadata)))"

definition sendable :: "event list \<Rightarrow> task_spec \<Rightarrow> bool" where
  "sendable pre spec \<longleftrightarrow> calm pre \<and> (ts_kind spec = ''kernelbench.kernel.execute'' \<longrightarrow> artifact_ready pre spec)"

definition well_ordered :: "event list \<Rightarrow> bool" where
  "well_ordered tr \<longleftrightarrow> (\<forall>pre spec r post. tr = pre @ Sent spec r # post \<longrightarrow> sendable pre spec)"

lemma well_ordered_Nil [simp]: "well_ordered []"
  by (simp add: well_ordered_def)

lemma well_ordered_snoc:
  "well_ordered (tr @ [ev]) \<longleftrightarrow> well_ordered tr \<and> (\<forall>spec r. ev = Sent spec r \<longrightarrow> sendable tr spec)"
proof
  assume all: "well_ordered (tr @ [ev])"
  have "sendable pre spec" if "tr = pre @ Sent spec r # post" for pre spec r post
    using all that unfolding well_ordered_def by (metis append.assoc append_Cons)
  moreover have "sendable tr spec" if "ev = Sent spec r" for spec r
    using all that unfolding well_ordered_def by blast
  ultimately show "well_ordered tr \<and> (\<forall>spec r. ev = Sent spec r \<longrightarrow> sendable tr spec)"
    unfolding well_ordered_def by blast
next
  assume parts: "well_ordered tr \<and> (\<forall>spec r. ev = Sent spec r \<longrightarrow> sendable tr spec)"
  show "well_ordered (tr @ [ev])" unfolding well_ordered_def
  proof (intro allI impI)
    fix pre spec r post
    assume eq: "tr @ [ev] = pre @ Sent spec r # post"
    show "sendable pre spec"
    proof (cases post rule: rev_cases)
      case Nil
      then show ?thesis using eq parts by simp
    next
      case (snoc post' last)
      then have "tr = pre @ Sent spec r # post'" using eq by simp
      then show ?thesis using parts unfolding well_ordered_def by blast
    qed
  qed
qed

lemma calm_snoc:
  "calm (tr @ [ev]) \<longleftrightarrow> calm tr \<and> (\<forall>who. ev \<noteq> Asked who (Inr True)) \<and> (\<forall>child who. ev \<noteq> Heard child who (Inr None))"
  by (auto simp: calm_def)

subsection \<open>Steps that keep the order\<close>

definition orderly :: "(event list \<Rightarrow> bool) \<Rightarrow> event list \<Rightarrow> bool" where
  "orderly K tr \<longleftrightarrow> well_ordered tr \<and> calm tr \<and> K tr"

definition ordered_only :: "stop + 'a \<Rightarrow> event list \<Rightarrow> bool" where
  "ordered_only r tr \<longleftrightarrow> well_ordered tr"

lemma order_asked_bind:
  assumes "stable K" and "\<And>e tr. well_ordered tr \<Longrightarrow> Q (Inl e) tr"
    and "\<And>v. ensures (\<lambda>tr. well_ordered tr \<and> (v \<or> C tr) \<and> K tr) (g v) Q"
    and "\<And>tr x r. C tr \<Longrightarrow> r = Inr True \<or> C (tr @ [Asked x r])"
  shows "ensures (\<lambda>tr. well_ordered tr \<and> C tr \<and> K tr) (bind_act (is_cancelled (traced H) base) g) Q"
proof (rule ensures_bind [where R = "\<lambda>r tr. well_ordered tr \<and> (r = Inr True \<or> C tr) \<and> K tr"], goal_cases)
  case 1
  show ?case
    using assms(1,4) by (auto simp: stable_def well_ordered_snoc intro!: ensures_asked) blast
next
  case (2 e tr)
  then show ?case using assms(2) by blast
next
  case (3 v)
  show ?case by (rule ensures_pre [OF assms(3)]) (cases v; auto)
qed

lemma order_child_bind:
  assumes "stable K" and "\<And>e tr. well_ordered tr \<Longrightarrow> Q (Inl e) tr"
    and "\<And>tr. orderly K tr \<Longrightarrow> ts_kind spec = ''kernelbench.kernel.execute'' \<Longrightarrow> artifact_ready tr spec"
    and "\<And>child answer. ensures (\<lambda>tr. well_ordered tr \<and> (answer = None \<or> calm tr) \<and> K tr \<and> Sent spec (Inr child) \<in> List.set tr \<and>
      Heard child (str_or_empty (dget ''task_id'' task)) (Inr answer) \<in> List.set tr) (g (child, answer)) Q"
  shows "ensures (orderly K) (bind_act (run_child (traced H) task spec) g) Q"
proof (rule ensures_bind [where R = "\<lambda>r tr. well_ordered tr \<and> (\<forall>child answer. r = Inr (child, answer) \<longrightarrow>
    (answer = None \<or> calm tr) \<and> K tr \<and> Sent spec (Inr child) \<in> List.set tr \<and>
    Heard child (str_or_empty (dget ''task_id'' task)) (Inr answer) \<in> List.set tr)"], goal_cases)
  case 1
  have send: "well_ordered (tr @ [Sent spec r])" if "orderly K tr" for tr r
    using that assms(3) by (auto simp: well_ordered_snoc orderly_def sendable_def)
  have both: "well_ordered (tr @ [Sent spec r, Heard c w a])" if "orderly K tr" for tr r c w a
    using well_ordered_snoc [of "tr @ [Sent spec r]" "Heard c w a"] send [OF that] by simp
  have calm: "a = Inr None \<or> calm (tr @ [Sent spec r, Heard c w a])" if "orderly K tr" for tr r c w a
    using that calm_snoc [of "tr @ [Sent spec r]" "Heard c w a"] calm_snoc [of tr] by (auto simp: orderly_def)
  show ?case
    using assms(1) send both calm [where a = "Inr x" for x] by (auto simp: stable_def orderly_def intro!: ensures_run_child) blast
next
  case (2 e tr)
  then show ?case using assms(2) by blast
next
  case (3 v)
  obtain child answer where v: "v = (child, answer)" by (cases v)
  show ?case unfolding v by (rule ensures_pre [OF assms(4)]) auto
qed

lemma ordered_stop [simp]: "well_ordered tr \<Longrightarrow> ordered_only r tr"
  by (simp add: ordered_only_def)

lemma order_asked_if:
  assumes "stable K" and "\<And>e tr. well_ordered tr \<Longrightarrow> Q (Inl e) tr"
    and "ensures well_ordered f Q" and "ensures (orderly K) g Q"
  shows "ensures (orderly K) (bind_act (is_cancelled (traced H) base) (\<lambda>gone. if gone then f else g)) Q"
proof -
  have "ensures (\<lambda>tr. well_ordered tr \<and> (v \<or> calm tr) \<and> K tr) (if v then f else g) Q" for v
    by (cases v; simp; rule ensures_pre [OF assms(3)] ensures_pre [OF assms(4)]; simp add: orderly_def)
  then have "ensures (\<lambda>tr. well_ordered tr \<and> calm tr \<and> K tr)
      (bind_act (is_cancelled (traced H) base) (\<lambda>gone. if gone then f else g)) Q"
    by (intro order_asked_bind [where C = calm] assms(1,2)) (auto simp: calm_snoc)
  then show ?thesis by (rule ensures_pre) (simp add: orderly_def)
qed

lemma settled:
  "ensures well_ordered (attempt r) ordered_only" "ensures well_ordered (ret v) ordered_only"
  "ensures well_ordered (finish_request B (traced H) task ker ref) ordered_only"
  by (auto intro: ensures_silent)

lemma settled_attempt_bind:
  "(\<And>v. ensures well_ordered (g v) ordered_only) \<Longrightarrow> ensures well_ordered (bind_act (attempt r) g) ordered_only"
  by (rule ensures_attempt_bind) simp_all

lemma settled_asked_bind:
  assumes "\<And>v. ensures well_ordered (g v) ordered_only"
  shows "ensures well_ordered (bind_act (is_cancelled (traced H) base) g) ordered_only"
  by (rule ensures_bind [where R = "\<lambda>_. well_ordered"])
    (use assms in \<open>auto simp: well_ordered_snoc intro!: ensures_asked\<close>)

lemma orderly_settled: "ensures well_ordered f Q \<Longrightarrow> ensures (orderly K) f Q"
  by (erule ensures_pre) (simp add: orderly_def)

lemma ordered_reference: "ensures (orderly (\<lambda>_. True)) (time_reference B (traced H) task ker ref_task) ordered_only"
proof -
  have last: "ensures well_ordered (bind_act (is_cancelled (traced H) x) (\<lambda>gone.
      if gone then attempt (cancelled_result B y)
      else (case answer of
        Some (entry # rest) \<Rightarrow>
          let result = entry # rest in
          if dhas ''error_message'' result \<and> \<not> dhas ''reference_runtime'' result
          then attempt (kernel_only_result B task ker)
          else bind_act (attempt (from_dict reference_result_fields result)) (finish_request B (traced H) task ker)
      | _ \<Rightarrow> attempt (kernel_only_result B task ker)))) ordered_only" for x y answer
    by (auto intro!: settled_asked_bind settled settled_attempt_bind simp: Let_def split: option.split list.split)
  show ?thesis
    unfolding time_reference_def
  proof (intro order_asked_if order_child_bind settled stable_rules, goal_cases)
    case (4 child answer)
    show ?case unfolding prod.case by (rule ensures_pre [OF last]) blast
  qed simp_all
qed

lemma ordered_reference_stage:
  "ensures (orderly (\<lambda>_. True)) (reference_stage B (traced H) task ref_task ker) ordered_only"
  unfolding reference_stage_def
  by (auto split: option.split intro!: ordered_reference orderly_settled [OF settled(3)] ensures_silent_bind
      ensures_attempt_bind simp: orderly_def)

subsection \<open>The split run\<close>

text \<open>An answer that ends the request: a wait that was cancelled, or a result of the controller's own,
  which carries no \<open>base_task_id\<close>.\<close>

definition final_answer :: "dict option \<Rightarrow> bool" where
  "final_answer answer \<longleftrightarrow> (case answer of None \<Rightarrow> True | Some d \<Rightarrow> \<not> dhas ''base_task_id'' d)"

definition kernel_ordered :: "stop + dict option \<Rightarrow> event list \<Rightarrow> bool" where
  "kernel_ordered r tr \<longleftrightarrow> well_ordered tr \<and> (\<forall>answer. r = Inr answer \<longrightarrow> calm tr \<or> final_answer answer)"

definition split_ordered :: "stop + dict \<Rightarrow> event list \<Rightarrow> bool" where
  "split_ordered r tr \<longleftrightarrow> well_ordered tr \<and> (\<forall>d. r = Inr d \<longrightarrow> calm tr \<or> \<not> dhas ''base_task_id'' d)"

lemma split_stop [simp]: "well_ordered tr \<Longrightarrow> split_ordered (Inl e) tr"
  by (simp add: split_ordered_def)

lemma final_judged: "final_answer answer \<Longrightarrow> judge_kernel B task answer \<noteq> Inr (Inr ker)"
  by (auto simp: final_answer_def elim!: judged_kernel)

lemma split_failed:
  "ensures well_ordered (attempt (failed_result B x message code)) split_ordered"
  "ensures well_ordered (attempt (cancelled_result B x)) split_ordered"
  by (auto intro!: ensures_attempt simp: split_ordered_def cancelled_result_def dest: failed_fields(7))

lemma split_calm_ret: "ensures (orderly K) (ret d) split_ordered"
  by (rule ensures_ret) (simp add: orderly_def split_ordered_def)

lemma runtime_added:
  "(if s = JNull then d else dset ''reference_runtime'' s d) = p \<Longrightarrow> f \<noteq> ''reference_runtime'' \<Longrightarrow> dget f p = dget f d"
  by (cases "s = JNull") (simp_all, metis dget_dset)

lemma ensures_with_runtime:
  assumes "\<And>p. \<forall>f. f \<noteq> ''reference_runtime'' \<longrightarrow> dget f p = dget f payload \<Longrightarrow> ensures P (g p) Q"
    and "\<And>e tr. P tr \<Longrightarrow> Q (Inl e) tr"
  shows "ensures P (bind_act (with_reference_runtime B (traced H) task payload) g) Q"
proof (rule ensures_bind [where R = "\<lambda>r tr. P tr \<and>
    (\<forall>p. r = Inr p \<longrightarrow> (\<forall>f. f \<noteq> ''reference_runtime'' \<longrightarrow> dget f p = dget f payload))"], goal_cases)
  case 1
  show ?case
    unfolding with_reference_runtime_def
  proof (rule ensures_silent_bind [OF silent_seconds], goal_cases)
    case (1 e tr)
    then show ?case by simp
  next
    case (2 s)
    have "\<forall>p. Inr (if s = JNull then payload else dset ''reference_runtime'' s payload) = Inr p \<longrightarrow>
        (\<forall>f. f \<noteq> ''reference_runtime'' \<longrightarrow> dget f p = dget f payload)"
      by simp
    then show ?case by (intro ensures_ret conjI)
  qed
next
  case (2 e tr)
  then show ?case using assms(2) by blast
next
  case (3 p)
  show ?case
  proof (cases "\<forall>f. f \<noteq> ''reference_runtime'' \<longrightarrow> dget f p = dget f payload")
    case True
    show ?thesis by (rule ensures_pre [OF assms(1) [OF True]]) blast
  next
    case False
    then show ?thesis by (intro ensures_false) blast
  qed
qed

lemma execute_payload_fields:
  fixes B task kernel_task worker artifact node host
  defines "p \<equiv> execute_payload B task kernel_task worker artifact node host"
  shows "dget ''target_node_id'' p = JStr node" and "dget ''node_affinity'' p = JStr ''required''"
    and "dget ''required_resource'' p = JStr ''gpu''"
    and "dget ''compile_artifact'' p = JObj (dupdate ([(''artifact_node_id'', JStr node), (''artifact_hostname'', JStr host)] @
           worker_of worker) artifact)"
  by (simp_all add: p_def execute_payload_def kernel_execution_options_def worker_of_def Let_def)

lemma artifact_readyI:
  assumes "Sent cspec (Inr child) \<in> List.set tr" and "ts_kind cspec = ''kernelbench.kernel.compile''"
    and "Heard child who (Inr (Some result)) \<in> List.set tr" and "dget ''compiled'' result = JBool True"
    and "or_dict (dget ''metadata'' result) = Inr metadata" and "dget ''_internal_compile_artifact'' metadata = JObj artifact"
    and "\<forall>f. f \<noteq> ''reference_runtime'' \<longrightarrow> dget f p = dget f (execute_payload B task kernel_task worker artifact
      (py_str (py_or (dget ''compile_node_id'' metadata) (JStr node))) host)"
  shows "artifact_ready tr (child_spec task kind p extra)"
proof -
  let ?node = "py_str (py_or (dget ''compile_node_id'' metadata) (JStr node))"
  let ?carried = "dupdate ([(''artifact_node_id'', JStr ?node), (''artifact_hostname'', JStr host)] @ worker_of worker) artifact"
  have "metadata \<noteq> []" using assms(6) by (auto simp: dget_def)
  then have meta: "dget ''metadata'' result = JObj metadata"
    using assms(5) by (cases "dget ''metadata'' result") (auto split: if_splits)
  have p: "dget ''compile_artifact'' p = JObj ?carried" "dget ''target_node_id'' p = JStr ?node"
    "dget ''node_affinity'' p = JStr ''required''" "dget ''required_resource'' p = JStr ''gpu''"
    using assms(7) execute_payload_fields by simp_all
  have "\<forall>f. f \<notin> {''artifact_node_id'', ''artifact_hostname'', ''target_gpu_worker_id'', ''target_gpu_selection_strategy''} \<longrightarrow>
      dget f ?carried = dget f artifact" and "dget ''artifact_node_id'' ?carried = JStr ?node"
    by (simp_all add: worker_of_def)
  moreover have "truthy (dget ''compile_node_id'' metadata) \<longrightarrow> ?node = py_str (dget ''compile_node_id'' metadata)"
    by (simp add: py_or_def)
  moreover have "ts_payload (child_spec task kind p extra) = JObj p" by (simp add: child_spec_def)
  ultimately show ?thesis
    using assms(1-4,6) meta p unfolding artifact_ready_def by blast
qed

lemma ordered_execute:
  assumes "ts_kind cspec = ''kernelbench.kernel.compile''" and "dget ''compiled'' result = JBool True"
    and "or_dict (dget ''metadata'' result) = Inr metadata" and "dget ''_internal_compile_artifact'' metadata = JObj artifact"
  shows "ensures (orderly (\<lambda>tr. Sent cspec (Inr cid) \<in> List.set tr \<and> Heard cid who (Inr (Some result)) \<in> List.set tr))
    (run_execute B (traced H) task kernel_task worker cid artifact
       (py_str (py_or (dget ''compile_node_id'' metadata) (JStr node))) host) split_ordered"
    (is "ensures (orderly ?K) _ _")
proof -
  have last: "ensures (\<lambda>tr. well_ordered tr \<and> (answer = None \<or> calm tr) \<and> K tr)
    (case answer of
       None \<Rightarrow> attempt (cancelled_result B x)
     | Some [] \<Rightarrow> ret []
     | Some (r # rs) \<Rightarrow>
         bind_act (attempt (or_dict (dget ''metadata'' (r # rs)))) (\<lambda>metadata. ret (mark_split metadata (r # rs)))) split_ordered"
    for answer x K
    by (auto split: option.split list.split intro!: ensures_pre [OF split_failed(2)] ensures_ret ensures_attempt_bind
        simp: split_ordered_def)
  show ?thesis
    unfolding run_execute_def
  proof (rule ensures_with_runtime, goal_cases)
    case (1 p)
    show ?case
    proof (intro order_asked_if order_child_bind split_failed stable_rules, goal_cases)
      case (3 tr)
      then show ?case using assms by (auto simp: orderly_def intro!: artifact_readyI [OF _ _ _ _ _ _ 1])
    next
      case (4 child answer)
      show ?case unfolding prod.case by (rule last)
    qed (use stable_rules in auto)
  next
    case (2 e tr)
    then show ?case by (simp add: orderly_def)
  qed
qed

lemma ordered_split: "ensures (orderly (\<lambda>_. True)) (run_split_kernel_task B (traced H) task kernel_task) split_ordered"
proof -
  have after: "ensures (\<lambda>tr. well_ordered tr \<and> calm tr \<and> True \<and> Sent cspec (Inr cid) \<in> List.set tr \<and>
      Heard cid who (Inr (Some result)) \<in> List.set tr)
    (after_compile B (traced H) task kernel_task worker node host cid result) split_ordered"
    if "ts_kind cspec = ''kernelbench.kernel.compile''" for cspec cid who result worker node host
  proof -
    have "ensures (orderly (\<lambda>tr. Sent cspec (Inr cid) \<in> List.set tr \<and> Heard cid who (Inr (Some result)) \<in> List.set tr))
        (after_compile B (traced H) task kernel_task worker node host cid result) split_ordered"
      unfolding after_compile_def
      by (rule ensures_attempt_bind, simp add: orderly_def)
        (auto split: json.split intro!: split_calm_ret orderly_settled [OF split_failed(1)] ordered_execute [OF that])
    then show ?thesis by (rule ensures_pre) (simp add: orderly_def)
  qed
  have last: "ensures (\<lambda>tr. well_ordered tr \<and> (answer = None \<or> calm tr) \<and> True \<and> Sent cspec (Inr cid) \<in> List.set tr \<and>
      Heard cid who (Inr answer) \<in> List.set tr)
    (case answer of
       None \<Rightarrow> attempt (cancelled_result B x)
     | Some [] \<Rightarrow> attempt (failed_result B x message JNull)
     | Some (r # rs) \<Rightarrow> after_compile B (traced H) task kernel_task worker node host cid (r # rs)) split_ordered"
    if "ts_kind cspec = ''kernelbench.kernel.compile''" for cspec cid who answer x message worker node host
    using after [OF that]
    by (auto split: option.split list.split intro!: ensures_pre [OF split_failed(1)] ensures_pre [OF split_failed(2)])
  show ?thesis
    unfolding run_split_kernel_task_def Let_def
  proof (rule ensures_silent_bind [OF silent_select], simp add: orderly_def, rule ensures_option, goal_cases)
    case (2 v worker)
    show ?case
    proof (intro order_child_bind stable_rules, goal_cases)
      case (3 child answer)
      show ?case unfolding prod.case by (rule last) simp
    qed simp_all
  qed (intro orderly_settled split_failed)
qed

subsection \<open>The whole request\<close>

lemma ordered_kernel: "ensures (orderly (\<lambda>_. True)) (run_kernel B (traced H) task kernel_task) kernel_ordered"
proof -
  have split: "ensures (orderly (\<lambda>_. True)) (bind_act (run_split_kernel_task B (traced H) task kernel_task)
      (\<lambda>result. ret (Some result))) kernel_ordered"
    by (rule ensures_bind [OF ordered_split])
      (auto simp: split_ordered_def kernel_ordered_def final_answer_def intro!: ensures_ret)
  have single: "ensures (orderly (\<lambda>_. True)) (bind_act (run_child (traced H) task (child_spec task ''kernelbench.kernel'' payload []))
      (\<lambda>(child, result). ret result)) kernel_ordered" for payload
  proof (intro order_child_bind stable_rules, goal_cases)
    case (3 child answer)
    show ?case by (auto simp: kernel_ordered_def final_answer_def intro!: ensures_ret)
  qed (simp_all add: kernel_ordered_def)
  have "ensures (orderly (\<lambda>_. True)) (run_single B (traced H) task kernel_task) kernel_ordered"
    unfolding run_single_def
    by (rule ensures_silent_bind, simp, simp add: kernel_ordered_def orderly_def, rule single)
  with split show ?thesis by (simp add: run_kernel_def)
qed

lemma ordered_judged:
  "ensures (\<lambda>tr. well_ordered tr \<and> (calm tr \<or> final_answer answer))
    (bind_act (attempt (judge_kernel B task answer)) (\<lambda>verdict. case verdict of
       Inl result \<Rightarrow> ret result
     | Inr ker \<Rightarrow>
         if is_compile_only task \<or> \<not> (truthy (dget ''compiled'' ker) \<and> truthy (dget ''correctness'' ker))
         then attempt (kernel_only_result B task ker) else reference_stage B (traced H) task ref_task ker)) ordered_only"
proof (rule ensures_attempt_bind)
  fix verdict
  assume judged: "judge_kernel B task answer = Inr verdict"
  have keep: "ensures P f ordered_only" if "ensures well_ordered f ordered_only" "\<And>tr. P tr \<Longrightarrow> well_ordered tr"
    for P f using that by (rule ensures_pre)
  show "ensures (\<lambda>tr. well_ordered tr \<and> (calm tr \<or> final_answer answer)) (case verdict of
       Inl result \<Rightarrow> ret result
     | Inr ker \<Rightarrow>
         if is_compile_only task \<or> \<not> (truthy (dget ''compiled'' ker) \<and> truthy (dget ''correctness'' ker))
         then attempt (kernel_only_result B task ker) else reference_stage B (traced H) task ref_task ker) ordered_only"
  proof (cases verdict)
    case (Inl r)
    show ?thesis unfolding Inl sum.case by (rule keep [OF settled(2)]) blast
  next
    case (Inr ker)
    then have "\<not> final_answer answer" using judged final_judged by blast
    then have "ensures (\<lambda>tr. well_ordered tr \<and> (calm tr \<or> final_answer answer))
        (reference_stage B (traced H) task ref_task ker) ordered_only"
      by (intro ensures_pre [OF ordered_reference_stage]) (simp add: orderly_def)
    then show ?thesis unfolding Inr sum.case by (intro ensures_if keep [OF settled(1)]) blast+
  qed
qed simp

lemma ordered_after_kernel:
  "ensures (orderly (\<lambda>_. True)) (bind_act (run_kernel B (traced H) task kernel_task) (\<lambda>answer.
     bind_act (is_cancelled (traced H) x) (\<lambda>gone. if gone then attempt (cancelled_result B y)
       else bind_act (attempt (judge_kernel B task answer)) (\<lambda>verdict. case verdict of
           Inl result \<Rightarrow> ret result
         | Inr ker \<Rightarrow>
             if is_compile_only task \<or> \<not> (truthy (dget ''compiled'' ker) \<and> truthy (dget ''correctness'' ker))
             then attempt (kernel_only_result B task ker)
             else reference_stage B (traced H) task ref_task ker)))) ordered_only"
proof (rule ensures_bind [OF ordered_kernel], simp add: kernel_ordered_def, goal_cases)
  case (1 answer)
  let ?rest = "bind_act (attempt (judge_kernel B task answer)) (\<lambda>verdict. case verdict of
       Inl result \<Rightarrow> ret result
     | Inr ker \<Rightarrow>
         if is_compile_only task \<or> \<not> (truthy (dget ''compiled'' ker) \<and> truthy (dget ''correctness'' ker))
         then attempt (kernel_only_result B task ker) else reference_stage B (traced H) task ref_task ker)"
  have branch: "ensures (\<lambda>tr. well_ordered tr \<and> (gone \<or> (calm tr \<or> final_answer answer)) \<and> True)
      (if gone then attempt (cancelled_result B y) else ?rest) ordered_only" for gone
    by (rule ensures_if, rule ensures_pre [OF settled(1)], blast, rule ensures_pre [OF ordered_judged], blast)
  have "ensures (\<lambda>tr. well_ordered tr \<and> (calm tr \<or> final_answer answer) \<and> True)
      (bind_act (is_cancelled (traced H) x) (\<lambda>gone. if gone then attempt (cancelled_result B y) else ?rest)) ordered_only"
    by (rule order_asked_bind [OF _ _ branch]) (auto simp: calm_snoc)
  then show ?case by (rule ensures_pre) (simp add: kernel_ordered_def)
qed

lemma ordered_handle: "ensures (orderly (\<lambda>_. True)) (handle_request B (traced H) input_data) ordered_only"
  unfolding handle_request_def
  by (rule ensures_attempt_bind ensures_if order_asked_if orderly_settled [OF settled(1)] settled(1) stable_rules
      ordered_stop ensures_silent_bind silent_create | assumption | simp add: orderly_def; fail
      | (simp only: split_beta, rule ordered_after_kernel))+

text \<open>
  C11: the controller respects cancellation and the order of the stages. Whenever it submits a child,
  none of its earlier questions was answered with a cancellation and none of its waits ended with
  one. When the child is the execute stage of a split run, the compile stage was submitted and heard
  before, with \<open>compiled is True\<close> and a reusable artifact; the child carries that artifact and is
  pinned to the node that compiled it.
\<close>

theorem stages_in_order:
  assumes "handle_request B (traced H) input_data (st, []) = (out, (st1, pre @ Sent spec r # post))"
  shows "(\<forall>who. Asked who (Inr True) \<notin> List.set pre) \<and> (\<forall>child who. Heard child who (Inr None) \<notin> List.set pre) \<and>
    (ts_kind spec = ''kernelbench.kernel.execute'' \<longrightarrow> artifact_ready pre spec)"
proof -
  have "orderly (\<lambda>_. True) []" by (simp add: orderly_def calm_def)
  from ensuresD [OF ordered_handle this assms] have "well_ordered (pre @ Sent spec r # post)"
    by (simp add: ordered_only_def)
  then have "sendable pre spec" unfolding well_ordered_def by blast
  then show ?thesis by (simp add: sendable_def calm_def)
qed

end
