(* ===== verification/RefCache.thy ===== *)
theory RefCache
  imports TaskSchema Codec
begin

section \<open>The reference runtime cache\<close>

text \<open>
  \<open>kernelgym/workflow/reference_cache.py\<close>: a dictionary of measured reference runtimes in front of
  an optional Redis. An entry is keyed by the data split, the version of the execution policy and
  the problem's uuid, and carries the hash of the code it was measured for. The digest is an
  argument. A dataset file is the list of its decoded records; \<open>None\<close> in it stands for the place
  where reading the file raises.
\<close>

definition execution_policy_version :: str where
  "execution_policy_version = ''eval_no_grad_tf32_decoy_v3''"

datatype link =
    No_link            \<comment> \<open>\<open>self._redis\<close> is None\<close>
  | Broken_link        \<comment> \<open>every command raises\<close>
  | Link "str \<Rightarrow> str option"

record rcache =
  rc_memory :: "str \<Rightarrow> json option"
  rc_prefix :: str
  rc_preloaded :: nat
  rc_link :: link

definition new_rcache :: "str \<Rightarrow> link \<Rightarrow> rcache" where
  "new_rcache pfx link = \<lparr>rc_memory = Map.empty, rc_prefix = pfx, rc_preloaded = 0, rc_link = link\<rparr>"

definition code_hash :: "(str \<Rightarrow> str) \<Rightarrow> json \<Rightarrow> py_exn + json" where
  "code_hash sha reference_code =
    (if \<not> truthy reference_code then Inr JNull
     else (case reference_code of JStr s \<Rightarrow> Inr (JStr (sha s)) | _ \<Rightarrow> Inl Attribute_Error))"

fun nested_get :: "json \<Rightarrow> str list \<Rightarrow> json" where
  "nested_get current [] = current"
| "nested_get current (part # path) = (case current of
     JObj d \<Rightarrow> if dhas part d then nested_get (dget part d) path else JNull
   | _ \<Rightarrow> JNull)"

definition extract_first :: "json \<Rightarrow> str list list \<Rightarrow> json" where
  "extract_first payload paths =
    (case find (\<lambda>v. v \<noteq> JNull \<and> v \<noteq> JStr []) (map (nested_get payload) paths) of Some v \<Rightarrow> v | None \<Rightarrow> JNull)"

definition entry_key :: "str \<Rightarrow> json \<Rightarrow> str" where
  "entry_key uuid is_valid =
    (if truthy is_valid then ''val'' else ''train'') @ '':'' @ execution_policy_version @ '':'' @ uuid"

definition redis_entry_key :: "rcache \<Rightarrow> str \<Rightarrow> json \<Rightarrow> str" where
  "redis_entry_key c uuid is_valid = rc_prefix c @ '':'' @ entry_key uuid is_valid"

definition is_compatible :: "(str \<Rightarrow> str) \<Rightarrow> json \<Rightarrow> json \<Rightarrow> py_exn + bool" where
  "is_compatible sha entry reference_code =
    bind_result (code_hash sha reference_code) (\<lambda>expected. case entry of
      JObj d \<Rightarrow> Inr (dget ''execution_policy'' d = JStr execution_policy_version \<and>
        \<not> (truthy expected \<and> truthy (dget ''code_hash'' d) \<and> expected \<noteq> dget ''code_hash'' d))
    | _ \<Rightarrow> Inl Attribute_Error)"

definition load_entry :: "codec \<Rightarrow> str \<Rightarrow> json \<Rightarrow> rcache \<Rightarrow> json option \<times> rcache" where
  \<comment> \<open>the entry in memory, or else the one in Redis, which is kept\<close>
  "load_entry C uuid is_valid c =
    (case rc_memory c (entry_key uuid is_valid) of
       Some entry \<Rightarrow> (Some entry, c)
     | None \<Rightarrow> (case rc_link c of
         Link get \<Rightarrow> (case get (redis_entry_key c uuid is_valid) of
           Some (ch # payload) \<Rightarrow> (case json_loads C (ch # payload) of
             Some entry \<Rightarrow> if entry = JNull then (None, c)
               else (Some entry, c\<lparr>rc_memory := (rc_memory c)(entry_key uuid is_valid \<mapsto> entry)\<rparr>)
           | None \<Rightarrow> (None, c))
         | _ \<Rightarrow> (None, c))
       | _ \<Rightarrow> (None, c)))"

definition entry_runtime :: "pyfloat \<Rightarrow> json \<Rightarrow> json" where
  "entry_runtime F entry = (case entry of
     JObj d \<Rightarrow> (case py_float F (dget ''reference_runtime'' d) of
       Inr r \<Rightarrow> if float_positive r then JFloat r else JNull
     | Inl _ \<Rightarrow> JNull)
   | _ \<Rightarrow> JNull)"

definition cache_get ::
  "pyfloat \<Rightarrow> codec \<Rightarrow> (str \<Rightarrow> str) \<Rightarrow> json \<Rightarrow> json \<Rightarrow> json \<Rightarrow> rcache \<Rightarrow> (py_exn + json) \<times> rcache" where
  "cache_get F C sha uuid reference_code is_valid c =
    (if \<not> truthy uuid then (Inr JNull, c)
     else (case load_entry C (py_str uuid) is_valid c of
       (None, c1) \<Rightarrow> (Inr JNull, c1)
     | (Some entry, c1) \<Rightarrow>
         if \<not> truthy entry then (Inr JNull, c1)
         else (bind_result (is_compatible sha entry reference_code)
                 (\<lambda>ok. Inr (if ok then entry_runtime F entry else JNull)), c1)))"

definition usable_memory :: "json \<Rightarrow> bool" where
  "usable_memory memory = (case memory of
     JObj d \<Rightarrow> int_of_json (dget ''forward_incremental_peak_allocated_bytes'' d) \<noteq> None \<and>
       int_of_json (dget ''total_task_peak_allocated_bytes'' d) \<noteq> None \<and>
       dget ''measurement_valid'' d = JBool True \<and>
       (case dget ''measurement_complete'' d of JBool _ \<Rightarrow> True | _ \<Rightarrow> False)
   | _ \<Rightarrow> False)"

definition cache_get_memory ::
  "pyfloat \<Rightarrow> codec \<Rightarrow> (str \<Rightarrow> str) \<Rightarrow> json \<Rightarrow> json \<Rightarrow> json \<Rightarrow> rcache \<Rightarrow> (py_exn + json) \<times> rcache" where
  "cache_get_memory F C sha uuid reference_code is_valid c =
    (case cache_get F C sha uuid reference_code is_valid c of
       (Inl e, c1) \<Rightarrow> (Inl e, c1)
     | (Inr runtime, c1) \<Rightarrow>
         if runtime = JNull \<or> \<not> truthy uuid then (Inr JNull, c1)
         else (case rc_memory c1 (entry_key (py_str uuid) is_valid) of
           Some (JObj d) \<Rightarrow>
             (Inr (if usable_memory (dget ''reference_memory'' d) then dget ''reference_memory'' d else JNull), c1)
         | _ \<Rightarrow> (Inr JNull, c1)))"

definition cache_put ::
  "pyfloat \<Rightarrow> codec \<Rightarrow> (str \<Rightarrow> str) \<Rightarrow> json \<Rightarrow> json \<Rightarrow> json \<Rightarrow> json \<Rightarrow> json \<Rightarrow> rcache \<Rightarrow> (py_exn + unit) \<times> rcache" where
  "cache_put F C sha uuid reference_code is_valid runtime reference_memory c =
    (if \<not> truthy uuid \<or> runtime = JNull then (Inr (), c)
     else (case py_float F runtime of
       Inl _ \<Rightarrow> (Inr (), c)
     | Inr r \<Rightarrow>
         if float_zero r \<or> prefix ''-'' r then (Inr (), c)
         else (case code_hash sha reference_code of
           Inl e \<Rightarrow> (Inl e, c)
         | Inr h \<Rightarrow>
             let entry = JObj ([(''reference_runtime'', JFloat r), (''code_hash'', h),
                   (''execution_policy'', JStr execution_policy_version)] @
                   (case reference_memory of JObj d \<Rightarrow> [(''reference_memory'', JObj d)] | _ \<Rightarrow> []));
                 c1 = c\<lparr>rc_memory := (rc_memory c)(entry_key (py_str uuid) is_valid \<mapsto> entry)\<rparr>
             in (Inr (), case rc_link c of
                  Link store \<Rightarrow>
                    c1\<lparr>rc_link := Link (store(redis_entry_key c (py_str uuid) is_valid \<mapsto> json_dumps C entry))\<rparr>
                | _ \<Rightarrow> c1))))"

subsection \<open>Preloading a dataset\<close>

definition uuid_paths :: "str list list" where
  "uuid_paths = [[''uuid''], [''problem_id''], [''metadata'', ''uuid''], [''metadata'', ''problem_id''],
     [''extra_info'', ''uuid''], [''extra_info'', ''problem_id''], [''result'', ''uuid''], [''result'', ''problem_id''],
     [''result'', ''metadata'', ''uuid''], [''result'', ''metadata'', ''problem_id'']]"

definition runtime_paths :: "str list list" where
  "runtime_paths = [[''reference_runtime''], [''runtime''], [''result'', ''reference_runtime''], [''result'', ''runtime'']]"

definition reference_memory_paths :: "str list list" where
  "reference_memory_paths = [[''reference_memory''], [''result'', ''reference_memory'']]"

definition reference_code_paths :: "str list list" where
  "reference_code_paths = [[''reference_code''], [''ground_truth''], [''reward_model'', ''ground_truth''],
     [''result'', ''reference_code'']]"

definition execution_policy_paths :: "str list list" where
  "execution_policy_paths = [[''execution_policy''], [''metadata'', ''execution_policy''],
     [''result'', ''execution_policy''], [''result'', ''metadata'', ''execution_policy'']]"

definition preload_record ::
  "pyfloat \<Rightarrow> codec \<Rightarrow> (str \<Rightarrow> str) \<Rightarrow> json \<Rightarrow> json \<Rightarrow> rcache \<Rightarrow> (py_exn + bool) \<times> rcache" where
  \<comment> \<open>whether the record made a runtime available\<close>
  "preload_record F C sha is_valid record c =
    (let uuid = extract_first record uuid_paths;
         uuid_text = (if uuid = JNull then JNull else JStr (py_str uuid));
         reference_code = py_or (extract_first record reference_code_paths) (JStr [])
     in if \<not> (case record of JObj _ \<Rightarrow> True | _ \<Rightarrow> False) \<or>
           extract_first record execution_policy_paths \<noteq> JStr execution_policy_version then (Inr False, c)
        else (case cache_get F C sha uuid_text reference_code is_valid c of
          (Inl e, c1) \<Rightarrow> (Inl e, c1)
        | (Inr before, c1) \<Rightarrow>
            (case cache_put F C sha uuid_text reference_code is_valid (extract_first record runtime_paths)
               (extract_first record reference_memory_paths) c1 of
               (Inl e, c2) \<Rightarrow> (Inl e, c2)
             | (Inr _, c2) \<Rightarrow> (case cache_get F C sha uuid_text reference_code is_valid c2 of
                 (Inl e, c3) \<Rightarrow> (Inl e, c3)
               | (Inr after, c3) \<Rightarrow> (Inr (before = JNull \<and> after \<noteq> JNull), c3)))))"

fun preload_records ::
  "pyfloat \<Rightarrow> codec \<Rightarrow> (str \<Rightarrow> str) \<Rightarrow> json \<Rightarrow> json option list \<Rightarrow> nat \<Rightarrow> rcache \<Rightarrow> nat option \<times> rcache" where
  \<comment> \<open>the loop, with \<open>loaded\<close>; None: an exception ended it\<close>
  "preload_records F C sha is_valid [] loaded c = (Some loaded, c)"
| "preload_records F C sha is_valid (None # records) loaded c = (None, c)"
| "preload_records F C sha is_valid (Some record # records) loaded c =
    (case preload_record F C sha is_valid record c of
       (Inl e, c1) \<Rightarrow> (None, c1)
     | (Inr gained, c1) \<Rightarrow> preload_records F C sha is_valid records (if gained then Suc loaded else loaded) c1)"

definition preload ::
  "pyfloat \<Rightarrow> codec \<Rightarrow> (str \<Rightarrow> str) \<Rightarrow> json option list option \<Rightarrow> json \<Rightarrow> rcache \<Rightarrow> nat \<times> rcache" where
  \<comment> \<open>the dataset is None when no path is given or it does not exist\<close>
  "preload F C sha dataset is_valid c = (case dataset of
     None \<Rightarrow> (0, c)
   | Some records \<Rightarrow> (case preload_records F C sha is_valid records 0 c of
       (None, c1) \<Rightarrow> (0, c1)
     | (Some loaded, c1) \<Rightarrow> (loaded, c1\<lparr>rc_preloaded := rc_preloaded c1 + loaded\<rparr>)))"

definition build_reference_runtime_cache ::
  "pyfloat \<Rightarrow> codec \<Rightarrow> (str \<Rightarrow> str) \<Rightarrow> link \<Rightarrow> str \<Rightarrow> json option list option \<Rightarrow> json option list option \<Rightarrow> rcache" where
  "build_reference_runtime_cache F C sha link redis_key_prefix train val =
    (let c = new_rcache (redis_key_prefix @ '':reference_runtime_cache'') link;
         c1 = snd (preload F C sha train (JBool False) c)
     in snd (preload F C sha val (JBool True) c1))"

end
