(* ===== verification/RefCacheContracts.thy ===== *)
theory RefCacheContracts
  imports RefCache
begin

section \<open>What the reference cache serves\<close>

text \<open>
  The cache against a map from (split, uuid) to the last accepted measurement, a runtime with the
  hash of its code. The contract holds of a cache that starts empty, over any sequence of its
  operations.
\<close>

datatype cache_op =
    Put json json json json json
  | Get json json json
  | Get_memory json json json

fun cache_do :: "pyfloat \<Rightarrow> codec \<Rightarrow> (str \<Rightarrow> str) \<Rightarrow> cache_op \<Rightarrow> rcache \<Rightarrow> rcache" where
  "cache_do F C sha (Put uuid code is_valid runtime memory) c = snd (cache_put F C sha uuid code is_valid runtime memory c)"
| "cache_do F C sha (Get uuid code is_valid) c = snd (cache_get F C sha uuid code is_valid c)"
| "cache_do F C sha (Get_memory uuid code is_valid) c = snd (cache_get_memory F C sha uuid code is_valid c)"

definition cache_run :: "pyfloat \<Rightarrow> codec \<Rightarrow> (str \<Rightarrow> str) \<Rightarrow> cache_op list \<Rightarrow> rcache \<Rightarrow> rcache" where
  "cache_run F C sha ops c = fold (cache_do F C sha) ops c"

subsection \<open>The abstract cache\<close>

type_synonym measured = "bool \<times> str \<Rightarrow> (str \<times> json) option"

definition accepted_runtime :: "pyfloat \<Rightarrow> json \<Rightarrow> str option" where
  "accepted_runtime F runtime = (case py_float F runtime of
     Inr r \<Rightarrow> if float_zero r \<or> prefix ''-'' r then None else Some r
   | Inl _ \<Rightarrow> None)"

fun note_measured :: "pyfloat \<Rightarrow> (str \<Rightarrow> str) \<Rightarrow> cache_op \<Rightarrow> measured \<Rightarrow> measured" where
  "note_measured F sha (Put uuid code is_valid runtime memory) m =
    (case (accepted_runtime F runtime, code_hash sha code) of
       (Some r, Inr h) \<Rightarrow> if truthy uuid then m((truthy is_valid, py_str uuid) \<mapsto> (r, h)) else m
     | _ \<Rightarrow> m)"
| "note_measured F sha _ m = m"

definition last_measured :: "pyfloat \<Rightarrow> (str \<Rightarrow> str) \<Rightarrow> cache_op list \<Rightarrow> measured" where
  "last_measured F sha ops = fold (note_measured F sha) ops Map.empty"

definition served :: "(str \<Rightarrow> str) \<Rightarrow> str \<Rightarrow> (str \<times> json) option \<Rightarrow> json" where
  \<comment> \<open>what a caller holding the code may be given\<close>
  "served sha code entry = (case entry of
     None \<Rightarrow> JNull
   | Some (r, h) \<Rightarrow> if r = ''nan'' \<or> code \<noteq> [] \<and> h \<noteq> JNull \<and> h \<noteq> JStr (sha code) then JNull else JFloat r)"

subsection \<open>The simulation\<close>

definition new_link :: "link \<Rightarrow> bool" where
  "new_link link \<longleftrightarrow> link \<in> {No_link, Broken_link, Link Map.empty}"

definition entry_of :: "str \<Rightarrow> json \<Rightarrow> dict \<Rightarrow> json" where
  "entry_of r h memory = JObj ([(''reference_runtime'', JFloat r), (''code_hash'', h),
     (''execution_policy'', JStr execution_policy_version)] @ memory)"

definition holds_entry :: "(str \<Rightarrow> str) \<Rightarrow> json option \<Rightarrow> (str \<times> json) option \<Rightarrow> bool" where
  "holds_entry sha stored entry = (case entry of
     None \<Rightarrow> stored = None
   | Some (r, h) \<Rightarrow> \<not> float_zero r \<and> \<not> prefix ''-'' r \<and> (h = JNull \<or> (\<exists>text. h = JStr (sha text))) \<and>
       (\<exists>memory. stored = Some (entry_of r h memory)))"

definition implements :: "(str \<Rightarrow> str) \<Rightarrow> measured \<Rightarrow> rcache \<Rightarrow> bool" where
  "implements sha m c \<longleftrightarrow>
    (\<forall>split uuid. holds_entry sha (rc_memory c (entry_key uuid (JBool split))) (m (split, uuid))) \<and>
    (\<forall>store split uuid. rc_link c = Link store \<longrightarrow> rc_memory c (entry_key uuid (JBool split)) = None \<longrightarrow>
         store (redis_entry_key c uuid (JBool split)) = None)"

lemma entry_key_split: "entry_key uuid is_valid = entry_key uuid (JBool (truthy is_valid))"
  by (simp add: entry_key_def)

lemma entry_key_eq: "entry_key u (JBool a) = entry_key v (JBool b) \<longleftrightarrow> u = v \<and> a = b"
  by (simp add: entry_key_def)

lemma redis_key_eq: "redis_entry_key c u v = rc_prefix c @ '':'' @ entry_key u v"
  by (simp add: redis_entry_key_def)

lemma implements_new: "new_link link \<Longrightarrow> implements sha Map.empty (new_rcache p link)"
  by (auto simp: implements_def holds_entry_def new_rcache_def new_link_def)

lemma load_implements:
  assumes "implements sha m c"
  shows "load_entry C uuid is_valid c = (rc_memory c (entry_key uuid is_valid), c)"
proof (cases "rc_memory c (entry_key uuid is_valid)")
  case None
  then have "rc_memory c (entry_key uuid (JBool (truthy is_valid))) = None" by (simp add: entry_key_split [symmetric])
  with assms have "\<And>store. rc_link c = Link store \<Longrightarrow> store (redis_entry_key c uuid (JBool (truthy is_valid))) = None"
    by (auto simp: implements_def)
  moreover have "redis_entry_key c uuid (JBool (truthy is_valid)) = redis_entry_key c uuid is_valid"
    by (simp add: redis_key_eq entry_key_split [symmetric])
  ultimately show ?thesis using None by (auto simp: load_entry_def split: link.split)
qed (simp add: load_entry_def)

lemma get_keeps: "implements sha m c \<Longrightarrow> snd (cache_get F C sha uuid code is_valid c) = c"
  by (simp add: cache_get_def load_implements split: option.split)

lemma get_memory_keeps: "implements sha m c \<Longrightarrow> snd (cache_get_memory F C sha uuid code is_valid c) = c"
  using get_keeps [of sha m c F C uuid code is_valid]
  by (auto simp: cache_get_memory_def split: prod.split sum.split option.split json.split)

lemma put_refused:
  assumes "\<not> truthy uuid \<or> accepted_runtime F runtime = None \<or> (\<exists>e. code_hash sha code = Inl e)"
  shows "snd (cache_put F C sha uuid code is_valid runtime memory c) = c"
  using assms by (auto simp: cache_put_def accepted_runtime_def split: sum.splits if_splits)

lemma put_accepted:
  assumes "truthy uuid" and "accepted_runtime F runtime = Some r" and "code_hash sha code = Inr h"
  obtains mem payload where "snd (cache_put F C sha uuid code is_valid runtime memory c) =
      c\<lparr>rc_memory := (rc_memory c)(entry_key (py_str uuid) (JBool (truthy is_valid)) \<mapsto> entry_of r h mem),
        rc_link := (case rc_link c of
          Link store \<Rightarrow> Link (store(redis_entry_key c (py_str uuid) (JBool (truthy is_valid)) \<mapsto> payload)) | l \<Rightarrow> l)\<rparr>"
proof -
  have run: "runtime \<noteq> JNull" "py_float F runtime = Inr r" "\<not> float_zero r" "\<not> prefix ''-'' r"
    using assms(2) by (auto simp: accepted_runtime_def split: sum.splits if_splits)
  let ?mem = "case memory of JObj d \<Rightarrow> [(''reference_memory'', JObj d)] | _ \<Rightarrow> []"
  have key: "redis_entry_key c (py_str uuid) is_valid = redis_entry_key c (py_str uuid) (JBool (truthy is_valid))"
    unfolding redis_key_eq using entry_key_split by metis
  show thesis
    by (rule that [of "json_dumps C (entry_of r h ?mem)" ?mem])
      (use assms run in \<open>simp add: cache_put_def Let_def entry_of_def key entry_key_split [of _ is_valid] split: link.split\<close>)
qed

lemma do_implements:
  assumes "implements sha m c"
  shows "implements sha (note_measured F sha op m) (cache_do F C sha op c)"
proof (cases op)
  case (Put uuid code is_valid runtime memory)
  show ?thesis
  proof (cases "truthy uuid \<and> (\<exists>r. accepted_runtime F runtime = Some r) \<and> (\<exists>h. code_hash sha code = Inr h)")
    case False
    then have refused: "\<not> truthy uuid \<or> accepted_runtime F runtime = None \<or> (\<exists>e. code_hash sha code = Inl e)"
      by (cases "code_hash sha code") auto
    then have "note_measured F sha op m = m" using Put by (auto split: option.split sum.split)
    then show ?thesis using put_refused [OF refused] assms Put by simp
  next
    case True
    then obtain r h where ok: "truthy uuid" "accepted_runtime F runtime = Some r" "code_hash sha code = Inr h" by blast
    obtain mem payload where put: "cache_do F C sha op c =
      c\<lparr>rc_memory := (rc_memory c)(entry_key (py_str uuid) (JBool (truthy is_valid)) \<mapsto> entry_of r h mem),
        rc_link := (case rc_link c of
          Link store \<Rightarrow> Link (store(redis_entry_key c (py_str uuid) (JBool (truthy is_valid)) \<mapsto> payload)) | l \<Rightarrow> l)\<rparr>"
      by (rule put_accepted [OF ok, where C = C and is_valid = is_valid and memory = memory and c = c]) (simp add: Put)
    have note_: "note_measured F sha op m = m((truthy is_valid, py_str uuid) \<mapsto> (r, h))" using ok Put by simp
    have pos: "\<not> float_zero r \<and> \<not> prefix ''-'' r \<and> (h = JNull \<or> (\<exists>text. h = JStr (sha text)))"
      using ok(2,3) by (auto simp: accepted_runtime_def code_hash_def split: sum.splits if_splits json.splits)
    have new: "holds_entry sha (Some (entry_of r h mem)) (Some (r, h))"
      using pos unfolding holds_entry_def option.case prod.case by blast
    have old: "holds_entry sha (rc_memory c (entry_key u (JBool a))) (m (a, u))" for a u
      using assms by (simp add: implements_def)
    have link: "rc_link c = Link store \<Longrightarrow> rc_memory c (entry_key u (JBool a)) = None \<Longrightarrow>
        store (redis_entry_key c u (JBool a)) = None" for store a u
      using assms by (simp add: implements_def)
    show ?thesis
      unfolding put note_ implements_def
      using new old link by (auto simp: entry_key_eq redis_key_eq split: link.splits)
  qed
qed (use assms get_keeps get_memory_keeps in auto)

lemma run_implements: "new_link link \<Longrightarrow> implements sha (last_measured F sha ops) (cache_run F C sha ops (new_rcache p link))"
proof -
  have "implements sha m c \<Longrightarrow> implements sha (fold (note_measured F sha) ops m) (fold (cache_do F C sha) ops c)" for m c
    by (induction ops arbitrary: m c) (auto intro: do_implements)
  then show "new_link link \<Longrightarrow> ?thesis" by (simp add: last_measured_def cache_run_def implements_new)
qed

lemma get_implements:
  assumes "implements sha m c" and "truthy uuid" and digest: "\<And>text. sha text \<noteq> []"
  shows "cache_get F C sha uuid (JStr code) is_valid c = (Inr (served sha code (m (truthy is_valid, py_str uuid))), c)"
proof -
  have mem: "holds_entry sha (rc_memory c (entry_key (py_str uuid) is_valid)) (m (truthy is_valid, py_str uuid))"
    using assms(1) unfolding implements_def entry_key_split [of _ is_valid] by blast
  have hash: "code_hash sha (JStr code) = Inr (if code = [] then JNull else JStr (sha code))"
    by (simp add: code_hash_def)
  show ?thesis
  proof (cases "m (truthy is_valid, py_str uuid)")
    case None
    with mem assms(2) show ?thesis by (simp add: cache_get_def load_implements [OF assms(1)] served_def holds_entry_def)
  next
    case (Some e)
    obtain r h memory where e: "e = (r, h)" "\<not> float_zero r" "\<not> prefix ''-'' r"
      and h: "h = JNull \<or> (\<exists>text. h = JStr (sha text))"
      and entry: "rc_memory c (entry_key (py_str uuid) is_valid) = Some (entry_of r h memory)"
      using mem Some by (cases e) (auto simp: holds_entry_def)
    have "truthy h \<longleftrightarrow> h \<noteq> JNull" using h digest by auto
    then have compat: "is_compatible sha (entry_of r h memory) (JStr code) =
        Inr (\<not> (code \<noteq> [] \<and> h \<noteq> JNull \<and> h \<noteq> JStr (sha code)))"
      using digest unfolding is_compatible_def hash entry_of_def by (auto simp: dget_def)
    have "entry_runtime F (entry_of r h memory) = (if r = ''nan'' then JNull else JFloat r)"
      using e by (simp add: entry_runtime_def entry_of_def dget_def float_positive_def)
    moreover have "truthy (entry_of r h memory)" by (simp add: entry_of_def)
    ultimately show ?thesis
      using e(1) assms(2) Some entry compat
      by (auto simp: cache_get_def load_implements [OF assms(1)] served_def)
  qed
qed


subsection \<open>A concrete cache\<close>

definition sample_float :: pyfloat where
  "sample_float = \<lparr>fl_of_int = (\<lambda>i. int_text i @ ''.0''), fl_of_text = (\<lambda>s. if parse_float s = None then None else Some s),
     fl_div = (\<lambda>a b. ''0.5''), fl_ratio = (\<lambda>a b. ''0.5''), fl_le = (\<lambda>a b. a = b), fl_less = (\<lambda>a b. False),
     fl_fixed = (\<lambda>n r. r), fl_round = (\<lambda>n r. r)\<rparr>"

definition sample_ops :: "cache_op list" where
  "sample_ops = [Put (JStr ''p1'') (JStr ''old'') JNull (JFloat ''3.5'') JNull,
     Put (JStr ''p1'') (JStr ''new'') (JBool False) (JInt 4) JNull, Get (JStr ''p1'') (JStr ''old'') JNull,
     Put (JStr ''p1'') (JStr ''new'') (JBool True) (JFloat ''9.0'') JNull,
     Put (JStr ''p1'') (JStr ''new'') JNull (JFloat ''-1.0'') JNull]"


end
