(* ===== verification/ControllerHost.thy ===== *)
theory ControllerHost
  imports KernelBench RefCache SchedulerContracts Service
begin

section \<open>The controller on the task manager\<close>

text \<open>
  The interface a controller is written against, as a contract: every operation of the host moves
  its state along one relation, and \<open>wait\<close> may rely on the id being one that \<open>submit\<close> returned.
  The task manager's scheduler and the reference cache provide it; the relation is then the
  refinement of \<open>Refinement\<close>, so a whole request is a run of the fenced transactions.
\<close>

definition moves :: "('st \<Rightarrow> 'st \<Rightarrow> bool) \<Rightarrow> ('st, 'a) act \<Rightarrow> bool" where
  "moves rel f \<longleftrightarrow> (\<forall>st. rel st (snd (f st)))"

locale controlled =
  fixes H :: "'st host" and rel :: "'st \<Rightarrow> 'st \<Rightarrow> bool" and own :: "str \<Rightarrow> bool"
  assumes rel_refl: "rel st st"
    and rel_trans: "rel st st1 \<Longrightarrow> rel st1 st2 \<Longrightarrow> rel st st2"
    and cancelled_rel: "rel st (snd (h_cancelled H x st))"
    and submit_rel: "rel st (snd (h_submit H spec st))"
    and submit_own: "fst (h_submit H spec st) = Inr c \<Longrightarrow> own c"
    and wait_rel: "own c \<Longrightarrow> rel st (snd (h_wait H c base st))"
    and idle_rel: "h_idle H = Some f \<Longrightarrow> rel st (snd (f node host st))"
    and by_task_rel: "h_by_task H = Some g \<Longrightarrow> rel st (snd (g x node host st))"
    and get_rel: "h_cache H = Some ops \<Longrightarrow> rel st (snd (co_get ops u code v st))"
    and get_memory_rel: "h_cache H = Some ops \<Longrightarrow> co_get_memory ops = Some h \<Longrightarrow> rel st (snd (h u code v st))"
    and put_rel: "h_cache H = Some ops \<Longrightarrow> co_put ops = Some k \<Longrightarrow> rel st (snd (k u code v r mem st))"
begin

lemma moves_pure: "moves rel (ret v)" "moves rel (attempt r)"
  by (auto simp: moves_def ret_def attempt_def rel_refl split: sum.split)

lemma moves_bind:
  assumes "moves rel f" and "\<And>v. moves rel (g v)"
  shows "moves rel (bind_act f g)"
  unfolding moves_def
proof
  fix st
  have one: "rel st (snd (f st))" using assms(1) by (simp add: moves_def)
  show "rel st (snd (bind_act f g st))"
    using one assms(2) rel_trans unfolding bind_act_def moves_def by (auto split: prod.split sum.split)
qed

lemma moves_forgive: "moves rel f \<Longrightarrow> moves rel (forgive f)"
  unfolding moves_def forgive_def by (auto split: prod.split sum.split stop.split) (metis snd_conv)+

lemma moves_asked: "moves rel (is_cancelled H x)"
  by (auto simp: is_cancelled_def moves_pure) (simp add: moves_def cancelled_rel)

lemma moves_child: "moves rel (run_child H task spec)"
proof -
  have "rel st (snd (run_child H task spec st))" for st
  proof (cases "fst (h_submit H spec st)")
    case (Inl e)
    then show ?thesis
      using submit_rel [of st spec] by (cases "h_submit H spec st") (auto simp: run_child_def bind_act_def)
  next
    case (Inr c)
    obtain st1 where st1: "h_submit H spec st = (Inr c, st1)" using Inr by (metis prod.collapse)
    have "rel st st1" using submit_rel [of st spec] st1 by simp
    moreover have "rel st1 (snd (h_wait H c (str_or_empty (dget ''task_id'' task)) st1))"
      by (rule wait_rel [OF submit_own [OF Inr]])
    ultimately show ?thesis
      using st1 rel_trans by (auto simp: run_child_def bind_act_def ret_def split: prod.split sum.split)
  qed
  then show ?thesis by (simp add: moves_def)
qed

lemma moves_cache:
  "moves rel (cached_runtime H task)" "moves rel (cached_memory H task)" "moves rel (put_cached H task r mem)"
  by (auto simp: cached_runtime_def cached_memory_def put_cached_def moves_pure split: option.split)
    (auto simp: moves_def get_rel get_memory_rel put_rel)

lemmas moves_rules = moves_pure moves_bind moves_asked moves_child moves_cache

lemma moves_select: "moves rel (select_split_target_gpu H task)"
proof -
  have "moves rel (f node host)" if "h_idle H = Some f" for f node host
    using that idle_rel by (simp add: moves_def)
  moreover have "moves rel (g x node host)" if "h_by_task H = Some g" for g x node host
    using that by_task_rel by (simp add: moves_def)
  ultimately show ?thesis
    by (auto simp: select_split_target_gpu_def Let_def intro!: moves_rules moves_forgive split: option.split list.split)
qed

lemma moves_runtime: "moves rel (with_reference_runtime B H task payload)"
  by (auto simp: with_reference_runtime_def cached_reference_seconds_def intro!: moves_rules)

lemma moves_kernel: "moves rel (run_kernel B H task kernel_task)"
  by (auto simp: run_kernel_def run_single_def run_split_kernel_task_def after_compile_def run_execute_def Let_def
      intro!: moves_rules moves_select moves_runtime split: option.split list.split json.split)

lemma moves_finish: "moves rel (finish_request B H task ker ref)"
  by (auto simp: finish_request_def intro!: moves_rules)

lemma moves_reference: "moves rel (reference_stage B H task ref_task ker)"
  by (auto simp: reference_stage_def time_reference_def Let_def intro!: moves_rules moves_finish
      split: option.split list.split)

lemma moves_create: "moves rel (create_paired_tasks H task)"
  by (auto simp: create_paired_tasks_def Let_def intro!: moves_rules)

lemma request_moves: "rel st (snd (handle_request B H input_data st))"
proof -
  have "moves rel (handle_request B H input_data)"
    by (auto simp: handle_request_def intro!: moves_rules moves_create moves_kernel moves_reference split: sum.split)
  then show ?thesis by (simp add: moves_def)
qed

end

subsection \<open>The host of a workflow\<close>

definition selection_dict :: "selection \<Rightarrow> dict" where
  "selection_dict w = [(''worker_id'', JStr (sel_worker_id w)), (''device'', JStr (sel_device w)),
     (''node_id'', JStr (sel_node_id w)), (''hostname'', JStr (sel_hostname w))]"

definition cache_act :: "(rcache \<Rightarrow> (py_exn + 'a) \<times> rcache) \<Rightarrow> ('s \<times> tmgr \<times> rcache, 'a) act" where
  "cache_act f = (\<lambda>(s, m, c). case f c of
     (Inl e, c1) \<Rightarrow> (Inl (Python e), (s, m, c1)) | (Inr v, c1) \<Rightarrow> (Inr v, (s, m, c1)))"

definition task_manager_host ::
  "'s redis \<Rightarrow> codec \<Rightarrow> settings \<Rightarrow> 's env \<Rightarrow> str list \<Rightarrow> str list \<Rightarrow> ('s \<Rightarrow> 's) \<Rightarrow> nat \<Rightarrow> pyfloat \<Rightarrow> (str \<Rightarrow> str) \<Rightarrow>
   workflow_ref \<Rightarrow> ('s \<times> tmgr \<times> rcache) host" where
  \<comment> \<open>the scheduler \<open>wf_run\<close> builds for its controller, with the polls allowed and what others do
     while it sleeps\<close>
  "task_manager_host R C cfg E tks bks others n F sha w = \<lparr>
     h_cancelled = (\<lambda>x (s, m, c). (Inr (is_task_cancelled R m x s), (s, m, c))),
     h_submit = (\<lambda>spec (s, m, c). case sched_submit R C cfg E tks bks (Some w) spec m s of
       (Inl e, m1, s1) \<Rightarrow> (Inl (Sched (Raised e)), (s1, m1, c)) | (Inr x, m1, s1) \<Rightarrow> (Inr x, (s1, m1, c))),
     h_wait = (\<lambda>x base (s, m, c). case wait_unless_cancelled R C cfg E others n (Some w) x base None m s of
       (None, s1) \<Rightarrow> (Inl Polling, (s1, m, c))
     | (Some (Inl e), s1) \<Rightarrow> (Inl (Sched e), (s1, m, c))
     | (Some (Inr r), s1) \<Rightarrow> (Inr r, (s1, m, c))),
     h_idle = Some (\<lambda>node host (s, m, c).
       case sched_select_idle R cfg E others n ''gpu'' (e_mono_ns E s) (Some 0) (str_or_empty node) (str_or_empty host) m s of
         (None, s1) \<Rightarrow> (Inl Polling, (s1, m, c))
       | (Some r, s1) \<Rightarrow> (Inr (map_option selection_dict r), (s1, m, c))),
     h_by_task = Some (\<lambda>x node host (s, m, c).
       case select_worker_by_task_id R cfg E ''gpu'' x (str_or_empty node) (str_or_empty host) 30 m s of
         (r, s1) \<Rightarrow> (Inr (map_option selection_dict r), (s1, m, c))),
     h_cache = Some \<lparr>co_get = (\<lambda>u code v. cache_act (cache_get F C sha u code v)),
       co_get_memory = Some (\<lambda>u code v. cache_act (cache_get_memory F C sha u code v)),
       co_put = Some (\<lambda>u code v r mem. cache_act (cache_put F C sha u code v r mem))\<rparr>\<rparr>"

subsection \<open>Its operations are runs of fenced transactions\<close>

context json_redis
begin

lemma step_fold:
  assumes "\<And>x acc s. x \<in> List.set xs \<Longrightarrow> step R view p A m s m (snd (f x (acc, s)))"
  shows "step R view p A m s m (snd (fold f xs (acc, s)))"
  using assms
proof (induction xs arbitrary: acc s)
  case (Cons x xs)
  obtain acc1 s1 where one: "f x (acc, s) = (acc1, s1)" by (cases "f x (acc, s)")
  have "step R view p A m s m s1" using Cons.prems [where x = x and acc = acc and s = s] one by simp
  moreover have "step R view p A m s1 m (snd (fold f xs (acc1, s1)))"
    by (rule Cons.IH) (use Cons.prems in auto)
  ultimately show ?case using step_trans one by fastforce
qed simp

lemma workers_status_step: "step R view p A m s m (snd (get_workers_status R E m s))"
proof (rule step_sound)
  assume s: "sound view p A m s"
  then have p: "prefixes_for_read m = [p]" using prefixes_ok by (auto simp: sound_def)
  have merge: "step R view p A m s m (snd (merge_worker R p x (ws, s)))" for x ws s
    by (auto simp: merge_worker_def Let_def intro: step_anonymous [OF transaction.worker_unindex])
  have add: "step R view p A m s m (fold (r_sadd R (worker_index_key p)) xs s)" for xs s
  proof (induction xs arbitrary: s)
    case (Cons x xs)
    show ?case using step_trans [OF step_anonymous [OF transaction.worker_index] Cons.IH] by simp
  qed simp
  obtain ids s1 where ids: "indexed_workers R E p s = (ids, s1)" by (cases "indexed_workers R E p s")
  then have "step R view p A m s m s1" using add by (auto simp: indexed_workers_def Let_def split: if_splits)
  moreover have "step R view p A m s1 m (snd (fold (merge_worker R p) ids (worker_registry m, s1)))"
    by (rule step_fold) (rule merge)
  ultimately show "step R view p A m s m (snd (get_workers_status R E m s))"
    using step_trans ids by (simp add: get_workers_status_def p)
qed

lemma candidates_step: "step R view p A m s m (snd (resource_worker_candidates R cfg E resource idle tn th age m s))"
  using workers_status_step [of p A m s E] by (cases "get_workers_status R E m s") (simp add: resource_worker_candidates_def)

lemma select_idle_step: "step R view p A m s m (snd (select_idle_worker R cfg E resource tn th age m s))"
proof (rule step_sound)
  assume s: "sound view p A m s"
  have p: "key_prefix m = p" using s by (simp add: sound_def manager_ok_def)
  obtain cs s1 where cs: "resource_worker_candidates R cfg E resource True tn th age m s = (cs, s1)"
    by (cases "resource_worker_candidates R cfg E resource True tn th age m s")
  have one: "step R view p A m s m s1" using candidates_step [of p A m s cfg E resource True tn th age] cs by simp
  have "step R view p A m s1 m (snd (r_incr R (worker_select_key p resource) s1))"
    by (auto simp: r_incr_def intro: step_anonymous [OF transaction.worker_select] split: option.split)
  with one show "step R view p A m s m (snd (select_idle_worker R cfg E resource tn th age m s))"
    using step_trans cs by (auto simp: select_idle_worker_def p Let_def split: prod.split)
qed

lemma select_by_task_step: "step R view p A m s m (snd (select_worker_by_task_id R cfg E resource x tn th age m s))"
  using candidates_step [of p A m s cfg E resource False tn th age]
  by (cases "resource_worker_candidates R cfg E resource False tn th age m s") (simp add: select_worker_by_task_id_def)

lemma check_workflow_step:
  assumes "\<And>w. W = Some w \<Longrightarrow> Parent (wr_task_id w) \<notin> A"
  shows "step R view p A m s m (snd (check_workflow R C cfg E W m s))"
proof (cases W)
  case (Some w)
  then show ?thesis
    using wf_reconcile_step [OF assms [OF Some], where s = s and m = m]
    by (auto simp: check_workflow_def split: prod.split sum.split) (metis snd_conv)+
qed (simp add: check_workflow_def)

lemma sched_submit_step:
  assumes "\<And>w. W = Some w \<Longrightarrow> Parent (wr_task_id w) \<notin> A"
  shows "leads R view p A m s (sched_submit R C cfg E tks bks W task m s)"
proof -
  obtain r s1 where chk: "check_workflow R C cfg E W m s = (r, s1)" by (cases "check_workflow R C cfg E W m s")
  then have one: "step R view p A m s m s1" using check_workflow_step [OF assms, of W p m s cfg E] by simp
  have "leads R view p A m s (submit_task R C cfg E tks bks d m s1)" for d
    unfolding leads_def by (rule step_trans [OF one submit_task_step [unfolded leads_def]])
  then show ?thesis using one chk
    by (auto simp: sched_submit_def Let_def split: json.split sum.split)
qed

lemma sched_wait_step:
  assumes "\<And>w. W = Some w \<Longrightarrow> Parent (wr_task_id w) \<notin> A" and "Parent x \<notin> A"
    and "\<And>s. step R view p A m s m (others s)"
  shows "step R view p A m s m (snd (sched_wait R C cfg E others n W x base start timeout m s))"
proof (induction n arbitrary: s)
  case (Suc n)
  have poll: "step R view p A m s m (snd (sched_poll R C cfg E W x base start timeout m s))" for s
    using check_workflow_step [OF assms(1), of W p m s cfg E] cancel_task_step [OF assms(2), of p m _ cfg E]
    by (auto simp: sched_poll_def split: prod.split sum.split option.split list.split intro: step_trans)
  obtain r s1 where one: "sched_poll R C cfg E W x base start timeout m s = (r, s1)"
    by (cases "sched_poll R C cfg E W x base start timeout m s")
  have "step R view p A m s m s1" using poll [of s] one by simp
  then show ?case using one step_trans [OF step_trans [OF _ assms(3)] Suc.IH] by (auto split: option.split)
qed simp

lemma sched_select_step:
  assumes "\<And>s. step R view p A m s m (others s)"
  shows "step R view p A m s m (snd (sched_select_idle R cfg E others n resource start timeout tn th m s))"
proof (induction n arbitrary: s)
  case (Suc n)
  obtain r s1 where one: "select_idle_worker R cfg E resource tn th 30 m s = (r, s1)"
    by (cases "select_idle_worker R cfg E resource tn th 30 m s")
  have "step R view p A m s m s1" using select_idle_step [of p A m s cfg E resource tn th 30] one by simp
  then show ?case using one step_trans [OF step_trans [OF _ assms] Suc.IH] by (auto split: option.split)
qed simp

end

lemma submitted_own:
  assumes "sched_submit R C cfg E tks bks (Some w) task m s = (Inr x, m1, s1)"
  shows "suffix (''_'' @ wr_generation w) x"
proof -
  obtain payload u s0 where "ts_payload task = JObj payload" and "check_workflow R C cfg E (Some w) m s = (Inr u, s0)"
    and sub: "submit_task R C cfg E tks bks (with_resources (ts_resources task) (child_payload m w payload)) m s0 = (Inr x, m1, s1)"
    using assms by (auto simp: sched_submit_def split: json.splits if_splits prod.splits sum.splits)
  note fs = child_payload_fields [OF refl, where m = m and w = w and payload = payload and res = "ts_resources task"]
  from submit_task_inner [OF sub fs(3) fs(1) fs(4)]
  have "x = py_str (source_id w (dget ''task_id'' payload)) @ ''_'' @ wr_generation w" by metis
  then show ?thesis by (auto simp: suffix_def)
qed

subsection \<open>The contract holds\<close>

text \<open>What a host of workflow \<open>w\<close> needs of its surroundings: a store, other processes that keep to
  the transactions outside \<open>A\<close>, and that \<open>A\<close> concerns neither the workflow nor its children.\<close>

definition surroundings ::
  "'s redis \<Rightarrow> ('s \<Rightarrow> keyspace) \<Rightarrow> codec \<Rightarrow> str \<Rightarrow> label set \<Rightarrow> ('s \<Rightarrow> 's) \<Rightarrow> workflow_ref \<Rightarrow> bool" where
  "surroundings R view C p A others w \<longleftrightarrow> json_redis R view C \<and> (\<forall>m s. step R view p A m s m (others s)) \<and>
     Parent (wr_task_id w) \<notin> A \<and> (\<forall>x. suffix (''_'' @ wr_generation w) x \<longrightarrow> Parent x \<notin> A)"

definition host_step ::
  "'s redis \<Rightarrow> ('s \<Rightarrow> keyspace) \<Rightarrow> codec \<Rightarrow> str \<Rightarrow> label set \<Rightarrow> ('s \<Rightarrow> 's) \<Rightarrow> workflow_ref \<Rightarrow>
   's \<times> tmgr \<times> rcache \<Rightarrow> 's \<times> tmgr \<times> rcache \<Rightarrow> bool" where
  "host_step R view C p A others w = (\<lambda>(s, m, c) (s', m', c').
     surroundings R view C p A others w \<longrightarrow> step R view p A m s m' s')"

lemma cache_act_step: "host_step R view C p A others w st (snd (cache_act f st))"
  by (auto simp: host_step_def cache_act_def split: prod.split sum.split)

interpretation task_manager: controlled "task_manager_host R C cfg E tks bks others n F sha w"
  "host_step R view C p A others w" "suffix (''_'' @ wr_generation w)"
  for R :: "'s redis" and C cfg E tks bks others n F sha w view p A
proof (unfold_locales, goal_cases)
  case (1 st)
  show ?case by (simp add: host_step_def split: prod.split)
next
  case (2 st st1 st2)
  then show ?case by (auto simp: host_step_def intro: step_trans)
next
  case (3 st x)
  show ?case by (simp add: task_manager_host_def host_step_def split: prod.split)
next
  case (4 st spec)
  obtain s m c where st: "st = (s, m, c)" by (cases st)
  show ?case
    using json_redis.sched_submit_step [of R view C "Some w" A p m s cfg E tks bks spec]
    by (auto simp: st task_manager_host_def host_step_def surroundings_def leads_def split: prod.split sum.split)
next
  case (5 spec st c)
  then show ?case
    using submitted_own [of R C cfg E tks bks w spec]
    by (auto simp: task_manager_host_def split: prod.splits sum.splits)
next
  case (6 x st base)
  obtain s m c where st: "st = (s, m, c)" by (cases st)
  show ?case
    using json_redis.sched_wait_step [of R view C "Some w" A x p m others s cfg E n base "e_mono_ns E s" None] 6
    by (auto simp: st task_manager_host_def host_step_def surroundings_def wait_unless_cancelled_def
        split: prod.split sum.split option.split)
next
  case (7 f st node host)
  obtain s m c where st: "st = (s, m, c)" by (cases st)
  obtain r s1 where run: "sched_select_idle R cfg E others n ''gpu'' (e_mono_ns E s) (Some 0) (str_or_empty node)
      (str_or_empty host) m s = (r, s1)"
    by (cases "sched_select_idle R cfg E others n ''gpu'' (e_mono_ns E s) (Some 0) (str_or_empty node) (str_or_empty host) m s")
  have "surroundings R view C p A others w \<Longrightarrow> step R view p A m s m s1"
    using json_redis.sched_select_step [where R = R and view = view and C = C and p = p and A = A and m = m
      and others = others and s = s] run unfolding surroundings_def by (metis snd_conv)
  moreover have "snd (f node host st) = (s1, m, c)"
    using 7 run by (auto simp: st task_manager_host_def split: option.split)
  ultimately show ?case by (simp add: st host_step_def)
next
  case (8 g st x node host)
  obtain s m c where st: "st = (s, m, c)" by (cases st)
  obtain r s1 where run: "select_worker_by_task_id R cfg E ''gpu'' x (str_or_empty node) (str_or_empty host) 30 m s = (r, s1)"
    by (cases "select_worker_by_task_id R cfg E ''gpu'' x (str_or_empty node) (str_or_empty host) 30 m s")
  have "surroundings R view C p A others w \<Longrightarrow> step R view p A m s m s1"
    using json_redis.select_by_task_step [where R = R and view = view and C = C and p = p and A = A and m = m
      and s = s] run unfolding surroundings_def by (metis snd_conv)
  moreover have "snd (g x node host st) = (s1, m, c)"
    using 8 run by (auto simp: st task_manager_host_def)
  ultimately show ?case by (simp add: st host_step_def)
qed (auto simp: task_manager_host_def cache_act_step)


end
