(* ===== verification/KernelBenchSamples.thy ===== *)
theory KernelBenchSamples
  imports KernelBenchSafety KernelBenchOrder RefCacheContracts ControllerHost
begin

section \<open>A concrete request\<close>

text \<open>A host that answers waits from a script, with one idle worker and no cache, and a request in
  split mode.\<close>

definition scripted_host :: "dict option list host" where
  "scripted_host = \<lparr>h_cancelled = (\<lambda>x st. (Inr False, st)),
     h_submit = (\<lambda>spec st. (Inr (ts_kind spec @ ''_g''), st)),
     h_wait = (\<lambda>x base st. case st of [] \<Rightarrow> (Inl Polling, st) | a # rest \<Rightarrow> (Inr a, rest)),
     h_idle = Some (\<lambda>node host st. (Inr (Some [(''worker_id'', JStr ''w''), (''node_id'', JStr ''n0''),
       (''hostname'', JStr ''h0'')]), st)),
     h_by_task = None, h_cache = None\<rparr>"

definition sample_bench :: bench where
  "sample_bench = \<lparr>b_float = sample_float, b_device = (\<lambda>_. JObj []), b_enable_profiling = False, b_enable_ncu = False,
     b_enable_compute_sanitizer = False, b_enable_perturbations = False\<rparr>"

definition split_request :: dict where
  "split_request = [(''task_id'', JStr ''x''), (''reference_code'', JStr ''class Model:''),
     (''kernel_code'', JStr ''class ModelNew:''), (''split_compile_and_execute'', JBool True)]"

definition sample_eval_task :: dict where
  "sample_eval_task = [
    (''task_id'', JStr ''x''), (''reference_code'', JStr ''class Model:''),
    (''kernel_code'', JStr ''class ModelNew:''), (''toolkit'', JStr ''kernelbench''),
    (''backend_adapter'', JStr ''kernelbench''), (''backend'', JStr ''triton''),
    (''precision'', JStr ''fp32''), (''num_correct_trials'', JInt 5), (''num_perf_trials'', JInt 100),
    (''num_warmup'', JInt 3), (''perf_trim_count'', JInt 0), (''adaptive_perf_trials'', JNull),
    (''perf_min_trials'', JNull), (''perf_cv_threshold'', JNull), (''correctness_timeout'', JNull),
    (''correctness_timeout_enabled'', JNull), (''refer_num_perf_trials'', JNull),
    (''memory_ratio_threshold'', JFloat ''1.8''), (''timeout'', JInt 300), (''device'', JStr ''cuda:0''),
    (''priority'', JStr ''normal''), (''entry_point'', JStr ''Model''), (''required_resource'', JNull),
    (''task_stage'', JNull), (''assigned_worker'', JNull), (''reference_backend'', JNull),
    (''device_preference'', JNull), (''target_node_id'', JNull), (''target_hostname'', JNull),
    (''force_refresh'', JBool False), (''uuid'', JNull), (''use_reference_cache'', JBool False),
    (''is_valid'', JBool False), (''enable_profiling'', JNull), (''enable_ncu'', JNull),
    (''enable_compute_sanitizer'', JNull), (''compute_sanitizer_mode'', JNull),
    (''enable_correctness_input_perturbations'', JNull), (''enable_triton_detection'', JNull),
    (''detect_decoy_kernel'', JNull), (''measure_performance'', JNull), (''run_correctness'', JNull),
    (''run_triton_detection'', JNull), (''run_performance'', JNull), (''compile_artifact'', JNull),
    (''split_compile_and_execute'', JBool True), (''pure_compile_task'', JBool False),
    (''enable_compile_artifact_cache'', JBool False), (''simplify_error'', JBool True),
    (''return_internal_compile_artifact'', JBool False), (''resources'', JNull),
    (''return_detail_correctness'', JBool False)]"

definition sample_kernel_task :: dict where
  "sample_kernel_task = [
    (''task_id'', JStr ''x_kernel''), (''base_task_id'', JStr ''x''),
    (''reference_code'', JStr ''class Model:''), (''kernel_code'', JStr ''class ModelNew:''),
    (''toolkit'', JStr ''kernelbench''), (''backend_adapter'', JStr ''kernelbench''),
    (''backend'', JStr ''triton''), (''precision'', JStr ''fp32''), (''num_correct_trials'', JInt 5),
    (''num_perf_trials'', JInt 100), (''num_warmup'', JInt 3), (''perf_trim_count'', JInt 0),
    (''adaptive_perf_trials'', JNull), (''perf_min_trials'', JNull), (''perf_cv_threshold'', JNull),
    (''correctness_timeout'', JNull), (''correctness_timeout_enabled'', JNull), (''timeout'', JInt 300),
    (''device'', JStr ''cuda:0''), (''priority'', JStr ''normal''), (''entry_point'', JStr ''Model''),
    (''required_resource'', JNull), (''task_stage'', JNull), (''assigned_worker'', JNull),
    (''device_preference'', JNull), (''force_refresh'', JBool False), (''enable_profiling'', JNull),
    (''enable_ncu'', JNull), (''enable_compute_sanitizer'', JNull), (''compute_sanitizer_mode'', JNull),
    (''enable_correctness_input_perturbations'', JNull), (''enable_triton_detection'', JNull),
    (''detect_decoy_kernel'', JNull), (''measure_performance'', JNull), (''run_correctness'', JNull),
    (''run_triton_detection'', JNull), (''run_performance'', JNull), (''compile_artifact'', JNull),
    (''split_compile_and_execute'', JBool True), (''pure_compile_task'', JBool False),
    (''enable_compile_artifact_cache'', JBool False), (''simplify_error'', JBool True),
    (''return_internal_compile_artifact'', JBool False), (''resources'', JNull),
    (''return_detail_correctness'', JBool False)]"

definition sample_reference_task :: dict where
  "sample_reference_task = [
    (''task_id'', JStr ''x_ref''), (''base_task_id'', JStr ''x''), (''reference_code'', JStr ''class Model:''),
    (''toolkit'', JStr ''kernelbench''), (''backend_adapter'', JStr ''kernelbench''),
    (''backend'', JStr ''triton''), (''num_perf_trials'', JInt 100), (''num_warmup'', JInt 3),
    (''perf_trim_count'', JInt 0), (''timeout'', JInt 300), (''device'', JStr ''cuda:0''),
    (''priority'', JStr ''normal''), (''entry_point'', JStr ''Model''), (''required_resource'', JNull),
    (''task_stage'', JNull), (''assigned_worker'', JNull), (''reference_backend'', JNull),
    (''device_preference'', JNull), (''resources'', JNull)]"

lemma sample_parsed: "parse_task split_request = Inr sample_eval_task"
  by code_simp

lemma sample_valid: "bind_result (validate_inputs sample_eval_task) (\<lambda>v. Inr (dget ''valid'' v)) = Inr (JBool True)"
  by code_simp

lemma sample_pair:
  "construct reference_task_fields (reference_task_for sample_eval_task) = Inr sample_reference_task"
  "construct kernel_task_fields (kernel_task_for sample_eval_task) = Inr sample_kernel_task"
  by code_simp+

lemma sample_fields:
  "dget ''task_id'' sample_eval_task = JStr ''x''" "dget ''uuid'' sample_eval_task = JNull"
  "dget ''target_node_id'' sample_eval_task = JNull" "dget ''target_hostname'' sample_eval_task = JNull"
  "dget ''use_reference_cache'' sample_eval_task = JBool False" "\<not> is_compile_only sample_eval_task"
  "dget ''split_compile_and_execute'' sample_eval_task = JBool True"
  "dget ''memory_ratio_threshold'' sample_eval_task = JFloat ''1.8''"
  by code_simp+

definition sample_worker :: dict where
  "sample_worker = [(''worker_id'', JStr ''w''), (''node_id'', JStr ''n0''), (''hostname'', JStr ''h0''),
     (''selection_strategy'', JStr ''idle'')]"

definition compile_spec :: task_spec where
  "compile_spec = child_spec sample_eval_task ''kernelbench.kernel.compile''
     (compile_payload sample_bench sample_eval_task sample_kernel_task sample_worker ''n0'' ''h0'') [(''stage'', JStr ''compile'')]"

definition execute_spec :: task_spec where
  "execute_spec = child_spec sample_eval_task ''kernelbench.kernel.execute''
     (execute_payload sample_bench sample_eval_task sample_kernel_task sample_worker [(''so'', JStr ''a'')] ''n1'' ''h0'')
     [(''stage'', JStr ''execute''), (''compile_task_id'', JStr ''kernelbench.kernel.compile_g'')]"

definition compiled_answer :: dict where
  "compiled_answer = [(''compiled'', JBool True), (''metadata'', JObj [(''_internal_compile_artifact'', JObj [(''so'', JStr ''a'')]),
     (''compile_node_id'', JStr ''n1'')])]"

definition executed_answer :: dict where
  "executed_answer = [(''task_id'', JStr ''x_kernel''), (''base_task_id'', JStr ''x''), (''compiled'', JBool True),
     (''correctness'', JBool True), (''decoy_kernel'', JBool False), (''kernel_runtime'', JFloat ''2.0''),
     (''metadata'', JObj [])]"

definition timed_answer :: dict where
  "timed_answer = [(''task_id'', JStr ''x_ref''), (''base_task_id'', JStr ''x''), (''reference_runtime'', JFloat ''1.0''),
     (''metadata'', JObj [])]"

definition judged_answer :: dict where
  "judged_answer = mark_split [] executed_answer"

definition kernel_events :: "event list" where
  "kernel_events = [Sent compile_spec (Inr ''kernelbench.kernel.compile_g''),
     Heard ''kernelbench.kernel.compile_g'' ''x'' (Inr (Some compiled_answer)), Asked ''x'' (Inr False),
     Sent execute_spec (Inr ''kernelbench.kernel.execute_g''),
     Heard ''kernelbench.kernel.execute_g'' ''x'' (Inr (Some executed_answer))]"

lemma scripted_calls:
  "h_cancelled (traced scripted_host) x (st, tr) = (Inr False, (st, tr @ [Asked x (Inr False)]))"
  "h_submit (traced scripted_host) spec (st, tr) = (Inr (ts_kind spec @ ''_g''), (st, tr @ [Sent spec (Inr (ts_kind spec @ ''_g''))]))"
  "h_wait (traced scripted_host) x base (a # rest, tr) = (Inr a, (rest, tr @ [Heard x base (Inr a)]))"
  "h_cache (traced scripted_host) = None"
  by (simp_all add: traced_def recording_def scripted_host_def)

lemma act_steps:
  "bind_act (ret v) g st = g v st" "bind_act (attempt (Inr v)) g st = g v st"
  "bind_act (bind_act f g) h st = bind_act f (\<lambda>v. bind_act (g v) h) st"
  "ret v st = (Inr v, st)" "attempt (Inr v) st = (Inr v, st)"
  by (simp_all add: bind_act_def ret_def attempt_def split: prod.split sum.split)

lemma scripted_asked:
  "bind_act (is_cancelled (traced scripted_host) (JStr (ch # x))) g (st, tr) =
   g False (st, tr @ [Asked (ch # x) (Inr False)])"
  by (simp add: is_cancelled_def bind_act_def scripted_calls)

lemma scripted_child:
  "bind_act (run_child (traced scripted_host) sample_eval_task (child_spec task kind payload extra)) g (a # rest, tr) =
   g (kind @ ''_g'', a) (rest, tr @ [Sent (child_spec task kind payload extra) (Inr (kind @ ''_g'')),
     Heard (kind @ ''_g'') ''x'' (Inr a)])"
  by (simp add: run_child_def bind_act_def scripted_calls ret_def sample_fields)

lemma scripted_runtime:
  "bind_act (with_reference_runtime B (traced scripted_host) sample_eval_task payload) g st = g payload st"
  by (simp add: with_reference_runtime_def cached_reference_seconds_def sample_fields act_steps)

lemma scripted_select:
  "bind_act (select_split_target_gpu (traced scripted_host) sample_eval_task) g (st, tr) = g (Some sample_worker) (st, tr)"
  by (simp add: select_split_target_gpu_def Let_def bind_act_def ret_def recording_def traced_def scripted_host_def
      forgive_def sample_worker_def dset_def)

lemma sample_worker_fields:
  "py_str (py_or (dget ''node_id'' sample_worker) (py_or (dget ''hostname'' sample_worker) (JStr []))) = ''n0''"
  "str_or_empty (dget ''hostname'' sample_worker) = ''h0''"
  by code_simp+

lemma answer_fields:
  "or_dict (dget ''metadata'' compiled_answer) = Inr [(''_internal_compile_artifact'', JObj [(''so'', JStr ''a'')]),
     (''compile_node_id'', JStr ''n1'')]" "dget ''compiled'' compiled_answer = JBool True"
  "or_dict (dget ''metadata'' executed_answer) = Inr []"
  "dget ''_internal_compile_artifact'' [(''_internal_compile_artifact'', v), e] = v"
  by (simp_all add: compiled_answer_def executed_answer_def dget_def)

lemma artifact_place:
  "py_str (py_or (dget ''compile_node_id'' [(''_internal_compile_artifact'', v), (''compile_node_id'', JStr ''n1'')]) w) = ''n1''"
  "py_str (py_or (dget ''compile_hostname'' [(''_internal_compile_artifact'', v), (''compile_node_id'', JStr ''n1'')]) (JStr ''h0'')) = ''h0''"
  by (simp_all add: dget_def py_or_def)

lemma sample_split:
  "bind_act (run_split_kernel_task sample_bench (traced scripted_host) sample_eval_task sample_kernel_task) g
     ([Some compiled_answer, Some executed_answer, Some timed_answer], tr) =
   g judged_answer ([Some timed_answer], tr @ kernel_events)"
proof -
  have ne: "compiled_answer \<noteq> []" "executed_answer \<noteq> []" by (simp_all add: compiled_answer_def executed_answer_def)
  obtain c cs e es where cons: "compiled_answer = c # cs" "executed_answer = e # es" using ne by (meson list.exhaust)
  show ?thesis
    using answer_fields(1-3) unfolding kernel_events_def compile_spec_def execute_spec_def judged_answer_def cons
    by (simp add: run_split_kernel_task_def after_compile_def run_execute_def act_steps scripted_asked scripted_child
        scripted_runtime scripted_select sample_worker_fields sample_fields Let_def answer_fields(4) artifact_place)
qed

definition judged_kernel_result :: dict where
  "judged_kernel_result = [(''task_id'', JStr ''x_kernel''), (''base_task_id'', JStr ''x''), (''compiled'', JBool True),
     (''correctness'', JBool True), (''decoy_kernel'', JBool False), (''kernel_runtime'', JFloat ''2.0''),
     (''metadata'', JObj [(''split_compile_and_execute'', JBool True)]), (''kernel_memory'', JNull),
     (''runtime_sanitizer'', JNull), (''status'', JStr ''completed''), (''error_message'', JNull), (''error_code'', JNull)]"

definition timed_reference :: dict where
  "timed_reference = [(''task_id'', JStr ''x_ref''), (''base_task_id'', JStr ''x''), (''reference_runtime'', JFloat ''1.0''),
     (''metadata'', JObj []), (''reference_memory'', JNull), (''status'', JStr ''completed''), (''error_message'', JNull),
     (''error_code'', JNull)]"

lemma sample_judged: "judge_kernel sample_bench sample_eval_task (Some judged_answer) = Inr (Inr judged_kernel_result)"
  "from_dict reference_result_fields timed_answer = Inr timed_reference"
  by code_simp+

definition sample_final :: "py_exn + dict" where
  "sample_final = bind_result (combine_results sample_bench timed_reference judged_kernel_result (JFloat ''1.8''))
     (evaluation_result_to_dict (b_float sample_bench) (b_device sample_bench))"

lemma sample_final_fields:
  "bind_result sample_final (\<lambda>r. Inr (dget ''compiled'' r, dget ''correctness'' r, dget ''speedup'' r)) =
   Inr (JBool True, JBool True, JFloat ''0.5'')"
  by code_simp

definition reference_spec :: task_spec where
  "reference_spec = child_spec sample_eval_task ''kernelbench.ref'' (reference_payload sample_reference_task) []"

definition all_events :: "event list" where
  "all_events = [Asked ''x'' (Inr False)] @ kernel_events @ [Asked ''x'' (Inr False), Asked ''x'' (Inr False),
     Sent reference_spec (Inr ''kernelbench.ref_g''), Heard ''kernelbench.ref_g'' ''x'' (Inr (Some timed_answer)),
     Asked ''x'' (Inr False)]"

lemma sample_reference:
  "reference_stage sample_bench (traced scripted_host) sample_eval_task (Some sample_reference_task) judged_kernel_result
     ([Some timed_answer], tr) =
   attempt sample_final ([], tr @ [Asked ''x'' (Inr False), Sent reference_spec (Inr ''kernelbench.ref_g''),
     Heard ''kernelbench.ref_g'' ''x'' (Inr (Some timed_answer)), Asked ''x'' (Inr False)])"
proof -
  have ne: "timed_answer \<noteq> []" "\<not> dhas ''error_message'' timed_answer" by (simp_all add: timed_answer_def dhas_def)
  obtain e es where cons: "timed_answer = e # es" using ne(1) by (meson list.exhaust)
  show ?thesis
    using ne(2) sample_judged(2) unfolding reference_spec_def sample_final_def cons
    by (simp add: reference_stage_def time_reference_def finish_request_def act_steps scripted_asked scripted_child
        sample_fields Let_def)
qed

lemma sample_request:
  "handle_request sample_bench (traced scripted_host) split_request
     ([Some compiled_answer, Some executed_answer, Some timed_answer], []) = attempt sample_final ([], all_events)"
proof -
  obtain v where v: "validate_inputs sample_eval_task = Inr v" "dget ''valid'' v = JBool True"
    using sample_valid by (auto simp: bind_result_Inr)
  have verdict: "truthy (dget ''compiled'' judged_kernel_result)" "truthy (dget ''correctness'' judged_kernel_result)"
    by (simp_all add: judged_kernel_result_def dget_def)
  show ?thesis
    by (simp add: handle_request_def create_paired_tasks_def run_kernel_def Let_def act_steps scripted_asked sample_parsed
        v sample_pair sample_split sample_fields sample_judged verdict sample_reference all_events_def)
qed

theorem verdict_evidenced_witness:
  "\<exists>r. handle_request sample_bench (traced scripted_host) split_request
       ([Some compiled_answer, Some executed_answer, Some timed_answer], []) = (Inr r, ([], all_events)) \<and>
     dget ''speedup'' r = JFloat ''0.5'' \<and> reported all_events r \<and> py_positive (dget ''kernel_runtime'' r) = Inr True"
proof -
  obtain r where r: "sample_final = Inr r" "dget ''compiled'' r = JBool True" "dget ''speedup'' r = JFloat ''0.5''"
    using sample_final_fields by (auto simp: bind_result_Inr)
  have run: "handle_request sample_bench (traced scripted_host) split_request
       ([Some compiled_answer, Some executed_answer, Some timed_answer], []) = (Inr r, ([], all_events))"
    by (simp add: sample_request r act_steps)
  from verdict_evidenced [OF run] r run show ?thesis by simp
qed

theorem stages_in_order_witness: "artifact_ready (take 4 all_events) execute_spec"
proof -
  obtain r where r: "sample_final = Inr r" using sample_final_fields by (auto simp: bind_result_Inr)
  have "all_events = take 4 all_events @ Sent execute_spec (Inr ''kernelbench.kernel.execute_g'') # drop 5 all_events"
    by (simp add: all_events_def kernel_events_def)
  then have run: "handle_request sample_bench (traced scripted_host) split_request
       ([Some compiled_answer, Some executed_answer, Some timed_answer], []) =
      (Inr r, ([], take 4 all_events @ Sent execute_spec (Inr ''kernelbench.kernel.execute_g'') # drop 5 all_events))"
    using sample_request r act_steps(5) by metis
  have "ts_kind execute_spec = ''kernelbench.kernel.execute''" by (simp add: execute_spec_def)
  with stages_in_order [OF run] show ?thesis by blast
qed

theorem children_bounded_witness:
  "sent_kinds all_events = plan sample_eval_task \<and> length (sent_kinds all_events) \<le> 3"
proof -
  obtain r where r: "sample_final = Inr r" using sample_final_fields by (auto simp: bind_result_Inr)
  have run: "handle_request sample_bench (traced scripted_host) split_request
       ([Some compiled_answer, Some executed_answer, Some timed_answer], []) = (Inr r, ([], all_events))"
    by (simp add: sample_request r act_steps)
  have "sent_kinds all_events = plan sample_eval_task"
    by (simp add: all_events_def kernel_events_def compile_spec_def execute_spec_def reference_spec_def plan_def sample_fields)
  with children_bounded [OF sample_parsed run] show ?thesis by (simp add: sample_fields)
qed

subsection \<open>A request on the task manager\<close>

definition hosted_request :: "str \<Rightarrow> dict" where
  "hosted_request x = [(''task_id'', JStr x), (''reference_code'', JStr ''class Model:''),
     (''kernel_code'', JStr ''class ModelNew:'')]"

definition hosted_run :: "(stop + dict) \<times> mem \<times> tmgr \<times> rcache" where
  "hosted_run = handle_request sample_bench
     (task_manager_host mem_redis sample_codec sample_settings (sample_env ''a'') [''kernelbench''] [''kernelbench'']
        (\<lambda>s. s) 3 sample_float (\<lambda>t. CHR ''h'' # t) \<lparr>wr_task_id = ''parent'', wr_generation = ''g'', wr_deadline = ''9''\<rparr>)
     (hosted_request ''parent'') (started, new_manager ''k'' ''api'', new_rcache ''k'' No_link)"


end
