(* ===== verification/Requests.thy ===== *)
theory Requests
  imports KernelBenchContracts ControllerHost
begin

section \<open>Requests at the door\<close>

subsection \<open>The request hash\<close>

text \<open>\<open>kernelgym/server/request_hash.py\<close>: the hash under which a result is kept is taken of the payload
  without the keys that do not affect the evaluation, with all keys sorted. The JSON text and its
  digest are one argument.\<close>

definition request_hash_ignored_keys :: "str list" where
  "request_hash_ignored_keys = [''assigned_device'', ''completed_at'', ''estimated_completion'', ''force_refresh'',
     ''line_index'', ''metadata'', ''model_id'', ''output_index'', ''progress'', ''queue_position'', ''run_id'', ''status'',
     ''submitted_at'', ''task_id'', ''turn_id'']"

fun canonicalize_for_request_hash :: "json \<Rightarrow> json" where
  "canonicalize_for_request_hash (JObj d) =
     JObj (sort_key fst (filter (\<lambda>(k, _). k \<notin> set request_hash_ignored_keys)
       (map (\<lambda>(k, v). (k, canonicalize_for_request_hash v)) d)))"
| "canonicalize_for_request_hash (JList vs) = JList (map canonicalize_for_request_hash vs)"
| "canonicalize_for_request_hash v = v"

definition request_hash :: "(json \<Rightarrow> str) \<Rightarrow> str \<Rightarrow> dict \<Rightarrow> str" where
  "request_hash digest workflow_name payload =
    (let workflow = (if workflow_name = [] then ''kernelbench'' else workflow_name)
     in digest (JObj ([(''workflow'', JStr workflow), (''payload'', canonicalize_for_request_hash (JObj payload))] @
          (if workflow = ''kernelbench'' then [(''execution_policy'', JStr execution_policy_version)] else []))))"

lemma canonicalize_idem: "canonicalize_for_request_hash (canonicalize_for_request_hash v) = canonicalize_for_request_hash v"
proof (induction v rule: canonicalize_for_request_hash.induct)
  case (1 d)
  let ?keep = "\<lambda>(k, _). k \<notin> set request_hash_ignored_keys" and ?c = "\<lambda>(k, v). (k, canonicalize_for_request_hash v)"
  let ?d = "sort_key fst (filter ?keep (map ?c d))"
  have "map ?c ?d = ?d" using "1.IH" by (intro map_idI) auto
  moreover have "filter ?keep ?d = ?d" by (auto simp: filter_id_conv)
  ultimately have "sort_key fst (filter ?keep (map ?c ?d)) = ?d" by (simp add: sort_key_id_if_sorted sorted_sort_key)
  then show ?case by simp
qed simp_all

lemma filter_dset_ignored:
  assumes "\<And>v. \<not> P (c (k, v))"
  shows "filter P (map c (AList.update k v d)) = filter P (map c d)"
  using assms by (induction d) auto

lemma filter_dpop_ignored:
  assumes "\<And>v. \<not> P (c (k, v))"
  shows "filter P (map c (dpop k d)) = filter P (map c d)"
  using assms by (induction d) (auto simp: dpop_def)

text \<open>A key that is ignored may be added or removed.\<close>

lemma canonicalize_ignores:
  assumes "k \<in> set request_hash_ignored_keys"
  shows "canonicalize_for_request_hash (JObj (dset k v d)) = canonicalize_for_request_hash (JObj (dpop k d))"
  using assms by (simp add: filter_dset_ignored filter_dpop_ignored dset_def)

text \<open>The order in which a client wrote the keys does not matter.\<close>

lemma canonicalize_order:
  assumes "set d = set d'" and "distinct (map fst d)" and "distinct (map fst d')"
  shows "canonicalize_for_request_hash (JObj d) = canonicalize_for_request_hash (JObj d')"
proof -
  define f where "f = (\<lambda>xs. filter (\<lambda>(k, _). k \<notin> set request_hash_ignored_keys)
      (map (\<lambda>(k, v). (k, canonicalize_for_request_hash v)) xs))"
  have dist: "distinct (map fst (f xs))" if "distinct (map fst xs)" for xs
    using that unfolding f_def by (induction xs) (auto simp: rev_image_eqI)
  have keys: "distinct (map fst (sort_key fst (f xs)))" if "distinct (map fst xs)" for xs
    using dist [OF that] by (simp add: distinct_map)
  have same: "set (sort_key fst (f d)) = set (sort_key fst (f d'))"
    using assms(1) by (simp add: f_def)
  have "sort_key fst (f d) = sort_key fst (f d')"
  proof (rule map_sorted_distinct_set_unique [where f = fst])
    show "inj_on fst (set (sort_key fst (f d)) \<union> set (sort_key fst (f d')))"
      using keys [OF assms(2)] same by (simp add: distinct_map)
  qed (simp_all only: same sorted_sort_key keys [OF assms(2)] keys [OF assms(3)])
  then show ?thesis by (simp add: f_def)
qed

subsection \<open>Deployment defaults\<close>

text \<open>\<open>kernelgym/server/request_defaults.py\<close>.\<close>

definition default_flag :: "str \<Rightarrow> bool option \<Rightarrow> dict \<Rightarrow> dict" where
  "default_flag k setting d = (case setting of
     Some b \<Rightarrow> if dget k d = JNull then dset k (JBool b) d else d | None \<Rightarrow> d)"

definition with_version :: "str \<Rightarrow> str \<Rightarrow> str \<Rightarrow> dict \<Rightarrow> dict" where
  "with_version flag k version d = (if truthy (dget flag d) \<and> version \<noteq> [] then dset k (JStr version) d else d)"

definition apply_runtime_defaults ::
  "str \<Rightarrow> bool \<Rightarrow> bool option \<Rightarrow> str \<Rightarrow> bool option \<Rightarrow> str \<Rightarrow> bool option \<Rightarrow> dict \<Rightarrow> dict" where
  "apply_runtime_defaults workflow_name split enable_ncu ncu_version enable_sanitizer sanitizer_version
     enable_perturbations payload =
    (let d = (if dget ''resources'' payload = JNull then dset ''resources'' JNull payload else payload)
     in if workflow_name \<noteq> [] \<and> workflow_name \<noteq> ''kernelbench'' then d
        else let d1 = default_flag ''enable_correctness_input_perturbations'' enable_perturbations
                   (with_version ''enable_compute_sanitizer'' ''_compute_sanitizer_profile_version'' sanitizer_version
                   (default_flag ''enable_compute_sanitizer'' enable_sanitizer
                   (with_version ''enable_ncu'' ''_ncu_profile_version'' ncu_version
                   (default_flag ''enable_ncu'' enable_ncu d))))
             in if split \<and> \<not> truthy (dget ''pure_compile_task'' d1) \<and> \<not> truthy (dget ''task_stage'' d1)
                then dset ''split_compile_and_execute'' (JBool True) d1 else d1)"

lemma default_flag_other [simp]: "k \<noteq> k' \<Longrightarrow> dget k (default_flag k' setting d) = dget k d"
  by (simp add: default_flag_def split: option.split)

lemma default_flag_set [simp]: "dget k d \<noteq> JNull \<Longrightarrow> dget k (default_flag k setting d) = dget k d"
  by (simp add: default_flag_def split: option.split)

lemma with_version_other [simp]: "k \<noteq> k' \<Longrightarrow> dget k (with_version flag k' version d) = dget k d"
  by (simp add: with_version_def)

text \<open>A flag the client set is kept.\<close>

lemma client_flag_kept:
  assumes "dget k payload \<noteq> JNull"
    and "k \<in> {''enable_ncu'', ''enable_compute_sanitizer'', ''enable_correctness_input_perturbations'', ''resources''}"
  shows "dget k (apply_runtime_defaults workflow_name split ncu nv sanitizer sv perturbations payload) = dget k payload"
proof -
  have "dget k payload \<noteq> JNull \<Longrightarrow> k \<noteq> ''split_compile_and_execute'' \<Longrightarrow> k \<noteq> ''_compute_sanitizer_profile_version'' \<Longrightarrow>
      k \<noteq> ''_ncu_profile_version'' \<Longrightarrow> dget k (apply_runtime_defaults workflow_name split ncu nv sanitizer sv perturbations payload) =
      dget k payload"
    by (cases "k = ''enable_ncu''"; cases "k = ''enable_compute_sanitizer''";
        cases "k = ''enable_correctness_input_perturbations''"; cases "k = ''resources''")
      (simp_all add: apply_runtime_defaults_def Let_def)
  then show ?thesis using assms by auto
qed

subsection \<open>The kernel-only workflow\<close>

text \<open>\<open>kernelgym/workflow/kernel_simple.py\<close> with \<open>kernelgym/schema/simple_task.py\<close>: one child, whose
  result is the answer. \<open>wait\<close> is \<open>wait_unless_cancelled\<close> without a parent to ask about.\<close>

definition simple_task_fields :: "field list" where
  "simple_task_fields = [(''task_id'', None), (''kernel_code'', None), (''toolkit'', Some (JStr ''kernel_simple'')),
    (''backend_adapter'', Some (JStr ''kernelbench'')), (''backend'', Some (JStr ''triton'')),
    (''entry_point'', Some (JStr ''ModelNew'')), (''num_perf_trials'', Some (JInt 100)), (''num_warmup'', Some (JInt 3)),
    (''perf_trim_count'', Some (JInt 0)), (''timeout'', Some (JInt 300)), (''device'', Some (JStr ''cuda:0'')),
    (''priority'', Some (JStr ''normal'')), (''run_correctness'', Some JNull), (''run_performance'', Some JNull),
    (''enable_profiling'', Some JNull), (''cases_code'', Some JNull), (''cases'', Some JNull), (''resources'', Some JNull)]"

definition simple_entry_point :: "json \<Rightarrow> json \<Rightarrow> py_exn + json" where
  "simple_entry_point kernel_code entry_point =
    (if truthy entry_point \<and> entry_point \<noteq> JStr ''Model'' then Inr entry_point
     else (case kernel_code of
       JStr s \<Rightarrow> Inr (if py_in ''class ModelNew'' s then JStr ''ModelNew'' else py_or entry_point (JStr ''ModelNew''))
     | JList vs \<Rightarrow> Inr (if JStr ''class ModelNew'' \<in> set vs then JStr ''ModelNew'' else py_or entry_point (JStr ''ModelNew''))
     | JObj d \<Rightarrow> Inr (if dhas ''class ModelNew'' d then JStr ''ModelNew'' else py_or entry_point (JStr ''ModelNew''))
     | _ \<Rightarrow> Inl Type_Error))"

definition simple_failed :: "bench \<Rightarrow> json \<Rightarrow> json \<Rightarrow> str \<Rightarrow> py_exn + dict" where
  "simple_failed B task_id message error_code =
    bind_result (construct kernel_result_fields
      [(''task_id'', task_id), (''base_task_id'', task_id), (''compiled'', JBool False), (''correctness'', JBool False),
       (''decoy_kernel'', JBool False), (''kernel_runtime'', JFloat ''-1.0''), (''metadata'', JObj [(''error'', message)]),
       (''status'', JStr ''failed''), (''error_message'', message), (''error_code'', JStr error_code)])
      (kernel_result_to_dict B)"

definition simple_required :: "str list" where \<comment> \<open>sorted\<close>
  "simple_required = [''compiled'', ''decoy_kernel'', ''kernel_runtime'', ''metadata'', ''task_id'']"

definition simple_answer :: "bench \<Rightarrow> json \<Rightarrow> dict option \<Rightarrow> py_exn + dict" where
  "simple_answer B task_id answer = (case answer of
     Some (entry # rest) \<Rightarrow>
       let result = entry # rest in
       if dhas ''error_message'' result \<and> \<not> dhas ''compiled'' result
       then simple_failed B task_id (dget ''error_message'' result) ''RUNTIME_ERROR''
       else if \<exists>f \<in> set simple_required. \<not> dhas f result
       then simple_failed B task_id (JStr (''kernel simple result missing required fields: ['' @
           comma_list (filter (\<lambda>f. \<not> dhas f result) simple_required) @ '']'')) ''RUNTIME_ERROR''
       else Inr result
   | _ \<Rightarrow> simple_failed B task_id (JStr ''kernel simple result missing'') ''RUNTIME_ERROR'')"

definition simple_payload :: "dict \<Rightarrow> dict" where
  "simple_payload task =
    dset ''backend_adapter'' (py_or (dget ''backend_adapter'' task) (JStr ''kernelbench''))
     (dset ''toolkit'' (py_or (dget ''toolkit'' task) (JStr ''kernel_simple''))
     (dset ''task_type'' (JStr ''kernel_simple'') task))"

definition handle_simple :: "bench \<Rightarrow> 'st host \<Rightarrow> dict \<Rightarrow> ('st, dict) act" where
  \<comment> \<open>\<open>validate_request\<close> resolves the entry point again\<close>
  "handle_simple B H input_data =
    bind_act (attempt (from_dict simple_task_fields input_data)) (\<lambda>raw.
    bind_act (attempt (simple_entry_point (dget ''kernel_code'' raw) (dget ''entry_point'' raw))) (\<lambda>entry.
    bind_act (attempt (simple_entry_point (dget ''kernel_code'' raw) entry)) (\<lambda>checked.
      let task = dset ''entry_point'' entry raw;
          (valid, error) = validate_code (dget ''kernel_code'' task) (py_str checked)
      in if \<not> valid
         then attempt (simple_failed B (dget ''task_id'' task)
           (JStr (''Kernel code validation failed: '' @ error)) ''VALIDATION_ERROR'')
         else bind_act (h_submit H \<lparr>ts_kind = ''kernel_simple'', ts_payload = JObj (simple_payload task),
             ts_resources = dget ''resources'' task, ts_metadata = JObj [(''base_task_id'', dget ''task_id'' task)]\<rparr>) (\<lambda>child.
           bind_act (h_wait H child []) (\<lambda>answer. attempt (simple_answer B (dget ''task_id'' task) answer))))))"

text \<open>It submits at most one child, and keeps to the contract of \<open>controlled\<close>.\<close>

lemma emits_submit: "emits [ts_kind spec] (h_submit (traced H) spec)"
  by (auto simp: emits_def traced_def intro!: ensures_recording list_emb_append_mono)

lemma emits_wait: "emits [] (h_wait (traced H) x base)"
  by (auto simp: emits_def traced_def intro!: ensures_recording)

lemma simple_one_child: "emits [''kernel_simple''] (handle_simple B (traced H) input_data)"
proof -
  have child: "emits [''kernel_simple''] (bind_act (h_submit (traced H) \<lparr>ts_kind = ''kernel_simple'', ts_payload = p,
      ts_resources = r, ts_metadata = q\<rparr>) (\<lambda>child. bind_act (h_wait (traced H) child []) (\<lambda>answer. attempt (g answer))))"
    for p r q and g :: "dict option \<Rightarrow> py_exn + dict"
    using emits_bind [OF emits_submit emits_bind [OF emits_wait emits_leaf(2) [where ks = "[]"]],
        of "\<lparr>ts_kind = ''kernel_simple'', ts_payload = p, ts_resources = r, ts_metadata = q\<rparr>"] by simp
  show ?thesis
    unfolding handle_simple_def Let_def
    by (intro emits_attempt_bind) (simp add: prod.case_eq_if child emits_leaf)
qed

end
