(* ===== verification/Spec2Isabelle.thy ===== *)
theory Spec2Isabelle
  imports CompletionContracts MonitorContracts QuarantineSamples SchedulerSamples KernelBenchSamples Requests
begin

text \<open>
  A verification library of KernelGym (sources under \<open>src/kernelgym\<close>): a service that accepts GPU
  kernels over HTTP, compiles and runs them on a pool of workers and answers with a verdict on
  compilation, correctness and speed. All processes share one Redis: API servers accept
  parent workflows and run their controllers, controllers submit child tasks to queues, workers
  claim and execute them, monitors move and reap. What makes the program hard is that any of these
  may be late, duplicated or dead; every state change is therefore one Lua script with its own guard.

  \<^bold>\<open>Foundations.\<close> \<open>Prelude\<close>: Python's text operations, facts on lists and folds. \<open>Decimal\<close>: the
  decimal literals that \<open>float\<close> accepts. \<open>PyValue\<close>: JSON values, dictionaries in insertion order,
  truth and \<open>str\<close> of a value. \<open>Codec\<close>: \<open>json.dumps\<close> and \<open>json.loads\<close> as the interface
  \<open>json_codec\<close>. \<open>Redis\<close>: the commands the sources use as the record \<open>redis\<close>, their documented
  behaviour as the interface \<open>redis_store\<close> over keyspaces. \<open>MemRedis\<close>: an executable store and codec
  that meet both; they carry the witnesses.

  \<^bold>\<open>Transactions.\<close> \<open>Keys\<close>: the key formats of \<open>TaskManager.__init__\<close> and \<open>WorkflowLifecycle\<close>.
  \<open>Guard\<close>, \<open>ClaimScripts\<close>, \<open>LifecycleScripts\<close>: every Lua script of \<open>server/task_manager.py\<close> and
  \<open>server/workflow_lifecycle.py\<close>, one definition per script, named after its constant.
  \<open>ClaimContracts\<close>, \<open>MoveContracts\<close>, \<open>LifecycleContracts\<close> give each script's result on every branch,
  refusals included. \<open>Fencing\<close> puts the scripts, the single commands, the expiry of keys and the
  passage of time into one step relation \<open>transaction\<close>, labelled with the claim the caller presents;
  \<open>Invariant\<close>, \<open>Exclusion\<close>, \<open>SafeExecution\<close> and \<open>Cancellation\<close> prove by rule induction what every
  interleaving keeps: a live token has its inflight entry, a started attempt excludes every other
  one, a cancellation is permanent.

  \<^bold>\<open>Task manager.\<close> \<open>TaskInput\<close>, \<open>Manager\<close>, \<open>Dispatch\<close>, \<open>Publish\<close>, \<open>Workers\<close>, \<open>Monitor\<close>: the
  methods of \<open>TaskManager\<close> in the order of the file, a process being a \<open>tmgr\<close> record and an exception
  a left value. \<open>ManagerContracts\<close>, \<open>DispatchContracts\<close>, \<open>CompletionContracts\<close>, \<open>MonitorContracts\<close>
  and \<open>Balancer\<close> (the class \<open>WorkerLoadBalancer\<close>) state what a caller sees. \<open>Refinement\<close>,
  \<open>RefineDispatch\<close>, \<open>RefinePublish\<close> and \<open>RefineLifecycle\<close> show that every operation is a run of
  \<open>transaction\<close>, \<open>Service\<close> composes them: any processes, any sequence of calls. So the invariants of
  the transaction system hold of the program.

  \<^bold>\<open>Workflows.\<close> \<open>Lifecycle\<close>: the class \<open>WorkflowLifecycle\<close>, reconciliation and cancellation;
  \<open>WorkflowContracts\<close>: waiting ends, what is reported active is live. \<open>Scheduler\<close>:
  \<open>server/scheduler.py\<close>; \<open>SchedulerContracts\<close>: its children are registered and fenced.
  \<open>TaskSchema\<close>, \<open>ResultSchema\<close>, \<open>BindingDetection\<close>, \<open>RefCache\<close>, \<open>Requests\<close>: the dataclasses, the
  public form of results, the detection of the backend, the cache of reference runtimes, the request
  hash and the defaults. \<open>KernelBench\<close>: the controller of an evaluation request
  (\<open>workflow/kernelbench.py\<close> and its helpers), over a host with the two interfaces of a scheduler and
  a cache. \<open>KernelBenchTrace\<close> records its calls; \<open>KernelBenchSafety\<close>, \<open>KernelBenchOrder\<close> and
  \<open>KernelBenchContracts\<close> show that a verdict was reported by a child, that stages come in order and
  that a request has at most three children. \<open>ControllerHost\<close> instantiates the host by the modelled
  scheduler and cache: a whole request is a run of \<open>transaction\<close>.

  \<^bold>\<open>GPU quarantine.\<close> \<open>Quarantine\<close>, \<open>QuarantineOps\<close>, \<open>Pager\<close>: \<open>utils/gpu_quarantine.py\<close> and
  \<open>utils/page_user_notifier.py\<close>, over durable files and Redis together. \<open>QuarantineContracts\<close>,
  \<open>QuarantineSafety\<close>, \<open>PageOnce\<close> and \<open>QuarantineClear\<close>: reads fail closed, a latch persists until an
  operator clears it, it is paged at most once, a clear reopens the GPU.

  \<^bold>\<open>Samples.\<close> \<open>Samples\<close> and the theories named \<open>...Samples\<close> hold the concrete configurations and runs
  in which the hypotheses of the theorems are met.

  \<^bold>\<open>Bounds.\<close> The polling loops of \<open>Lifecycle\<close>, \<open>Scheduler\<close> and \<open>KernelBench\<close> take a number of polls. For
  \<open>wait\<close> of a workflow and of a child it is proved that polls proportional to the time left until the
  deadline are enough, whatever other processes do during a sleep, provided the clock advances by
  the sleep. The controller's own wait for an idle worker has no deadline of its own in the source;
  its bound is an argument, and running out of it is the outcome \<open>Polling\<close>, which no theorem excludes
  from its conclusion. Scans of Redis are lists, so all other recursion is structural. Python's integers
  are \<open>int\<close>; no arithmetic of the modelled code wraps.

  \<^bold>\<open>Not modelled.\<close> Floats are carried by their text, IEEE operations on them are arguments. Time,
  digests, fresh ids and what other processes do during a wait are arguments. Log lines, metrics and
  the five-second limits around single Redis calls are left out, and so is the persistence of results
  to \<open>eval_results_path\<close>, whose exceptions are swallowed. The compilation and execution of kernels
  (\<open>toolkit\<close>, \<open>backend\<close>), the worker processes (\<open>worker\<close>), the HTTP routes and the command line act
  through torch, CUDA, compilers, the operating system and web frameworks, whose behaviour the sources do not
  define; of these the library holds the operations of the task manager that they call.
\<close>

end
